(* ===== verification/Prelude.thy ===== *)
theory Prelude
  imports Main "HOL-Library.AList"
begin

text \<open>
  Shared vocabulary of the development.

  \<^item> Python's insertion-ordered \<open>dict\<close> is an association list with distinct keys; the
    operations are those of the library's \<open>AList\<close> (an assignment to a present key keeps its
    position, a new key goes to the end, \<open>pop\<close> removes it).
  \<^item> Python strings are \<open>string\<close>s whose characters are the code points 0 to 255;
    \<open>lower\<close> and the character classes are those of CPython's \<open>str\<close> on that range.
  \<^item> A method that reads and writes an object's state and may raise is an action
    \<open>'s \<Rightarrow> ('e + 'a) \<times> 's\<close>: an exception (\<open>Inl\<close>) keeps the effects that came before it.
  \<^item> \<open>keeps I m\<close> says that an action keeps a state invariant on the normal and on every
    exceptional exit; its rules are collected in \<open>keeps_intros\<close>. \<open>spec P m Q X\<close> is the
    general triple with separate postconditions for a value and for an exception, with the
    rules \<open>spec_intros\<close>.
\<close>

named_theorems act_simps \<open>unfolding of the action combinators\<close>
named_theorems keeps_intros \<open>rules for invariants of actions\<close>
named_theorems spec_intros \<open>rules for specifications of actions\<close>


section \<open>Dictionaries\<close>

type_synonym ('k, 'v) dict = "('k \<times> 'v) list"

abbreviation dict_ok :: "('k, 'v) dict \<Rightarrow> bool" where
  "dict_ok d \<equiv> distinct (map fst d)"

abbreviation dict_get :: "('k, 'v) dict \<Rightarrow> 'k \<Rightarrow> 'v option" where
  "dict_get d k \<equiv> map_of d k"

abbreviation dict_set :: "'k \<Rightarrow> 'v \<Rightarrow> ('k, 'v) dict \<Rightarrow> ('k, 'v) dict" where
  "dict_set k v d \<equiv> AList.update k v d"

abbreviation dict_pop :: "'k \<Rightarrow> ('k, 'v) dict \<Rightarrow> ('k, 'v) dict" where
  "dict_pop k d \<equiv> AList.delete k d"

abbreviation dict_keys :: "('k, 'v) dict \<Rightarrow> 'k list" where
  "dict_keys d \<equiv> map fst d"

abbreviation dict_values :: "('k, 'v) dict \<Rightarrow> 'v list" where
  "dict_values d \<equiv> map snd d"

text \<open>Python's \<open>d.get(k, default)\<close>.\<close>

definition dict_get_default :: "('k, 'v) dict \<Rightarrow> 'k \<Rightarrow> 'v \<Rightarrow> 'v" where
  "dict_get_default d k v = (case dict_get d k of None \<Rightarrow> v | Some w \<Rightarrow> w)"

lemma dict_get_set [simp]: "dict_get (dict_set k v d) k' = (if k' = k then Some v else dict_get d k')"
  by (simp add: update_conv')

lemma dict_get_pop [simp]: "dict_get (dict_pop k d) k' = (if k' = k then None else dict_get d k')"
  by (simp add: delete_conv')

lemma dict_ok_set [simp]: "dict_ok d \<Longrightarrow> dict_ok (dict_set k v d)"
  by (rule distinct_update)

lemma dict_ok_pop [simp]: "dict_ok d \<Longrightarrow> dict_ok (dict_pop k d)"
  by (rule distinct_delete)

lemma dict_set_new: "k \<notin> set (dict_keys d) \<Longrightarrow> dict_set k v d = d @ [(k, v)]"
  by (induction d) auto

lemma dict_get_None_iff: "dict_get d k = None \<longleftrightarrow> k \<notin> set (dict_keys d)"
  by (simp add: map_of_eq_None_iff)

lemma dict_get_default_None [simp]: "dict_get d k = None \<Longrightarrow> dict_get_default d k v = v"
  by (simp add: dict_get_default_def)

lemma dict_get_default_Some [simp]: "dict_get d k = Some w \<Longrightarrow> dict_get_default d k v = w"
  by (simp add: dict_get_default_def)

lemma length_dict_pop:
  "dict_ok d \<Longrightarrow> length (dict_pop k d) = (if k \<in> set (dict_keys d) then length d - 1 else length d)"
proof (induction d)
  case (Cons p d)
  obtain a b where p: "p = (a, b)" by (cases p)
  show ?case
  proof (cases "a = k")
    case True
    with Cons.prems p show ?thesis by (simp add: delete_idem)
  next
    case False
    with Cons p show ?thesis by (cases d) auto
  qed
qed simp

lemma length_dict_set:
  "length (dict_set k v d) = (if k \<in> set (dict_keys d) then length d else Suc (length d))"
  by (induction d) auto

lemma dict_keys_set:
  "dict_keys (dict_set k v d) = (if k \<in> set (dict_keys d) then dict_keys d else dict_keys d @ [k])"
  by (induction d) auto

lemma set_dict_pop: "dict_ok d \<Longrightarrow> set (dict_pop k d) = {p \<in> set d. fst p \<noteq> k}"
  by (auto simp: AList.delete_eq)

lemma set_dict_set:
  "dict_ok d \<Longrightarrow> set (dict_set k v d) = insert (k, v) {p \<in> set d. fst p \<noteq> k}"
  by (induction d) (auto simp: image_iff)


section \<open>Strings\<close>

text \<open>\<open>str.lower\<close> on the code points 0 to 255: A-Z and the Latin-1 capitals (192-222 without
  the multiplication sign 215) move up by 32, everything else stays.\<close>

definition lower_char :: "char \<Rightarrow> char" where
  "lower_char c = (let n = of_char c :: nat in
     if (65 \<le> n \<and> n \<le> 90) \<or> (192 \<le> n \<and> n \<le> 222 \<and> n \<noteq> 215) then char_of (n + 32) else c)"

definition lower :: "string \<Rightarrow> string" where
  "lower s = map lower_char s"

lemma of_char_lt_256: "(of_char c :: nat) < 256"
  by (rule nat_of_char_less_256)

lemma lower_char_idem [simp]: "lower_char (lower_char c) = lower_char c"
proof -
  have "(of_char c :: nat) \<le> 222 \<Longrightarrow> (of_char c + 32) mod 256 = (of_char c :: nat) + 32"
    by simp
  then show ?thesis
    by (auto simp: lower_char_def Let_def of_char_of)
qed

lemma lower_idem [simp]: "lower (lower s) = lower s"
  by (simp add: lower_def)

text \<open>\<open>str.strip()\<close> and \<open>str.strip(c)\<close>; the characters that are spaces.\<close>

definition strip_chars :: "(char \<Rightarrow> bool) \<Rightarrow> string \<Rightarrow> string" where
  "strip_chars P s = rev (dropWhile P (rev (dropWhile P s)))"

definition py_space :: "char \<Rightarrow> bool" where
  "py_space c \<longleftrightarrow> (let n = of_char c :: nat in (9 \<le> n \<and> n \<le> 13) \<or> (28 \<le> n \<and> n \<le> 32) \<or> n = 133 \<or> n = 160)"

text \<open>\<open>s.split(sep)\<close> for a one-character separator.\<close>

fun split_on :: "'a \<Rightarrow> 'a list \<Rightarrow> 'a list list" where
  "split_on c [] = [[]]"
| "split_on c (x # xs) =
     (if x = c then [] # split_on c xs
      else case split_on c xs of [] \<Rightarrow> [[x]] | w # ws \<Rightarrow> (x # w) # ws)"

lemma split_on_nonempty [simp]: "split_on c s \<noteq> []"
  by (cases s) (auto split: list.splits)

lemma split_on_none: "c \<notin> set s \<Longrightarrow> split_on c s = [s]"
  by (induction s) auto

lemma split_on_append: "c \<notin> set s \<Longrightarrow> split_on c (s @ c # t) = s # split_on c t"
  by (induction s) auto

lemma split_on_join: "split_on c s = w # ws \<Longrightarrow> s = w @ concat (map ((#) c) ws)"
proof (induction s arbitrary: w ws)
  case (Cons x s)
  obtain v vs where v: "split_on c s = v # vs" by (cases "split_on c s") simp_all
  have "s = v @ concat (map ((#) c) vs)" by (rule Cons.IH [OF v])
  with Cons.prems v show ?case by (cases "x = c") auto
qed simp

lemma split_on_parts_free: "w \<in> set (split_on c s) \<Longrightarrow> c \<notin> set w"
  by (induction s arbitrary: w) (auto split: list.splits if_splits)


section \<open>Results of stateless code\<close>

text \<open>Code that reads no state and may raise returns \<open>'e + 'a\<close>; a later statement runs on the
  value of an earlier one.\<close>

definition bind_sum :: "'e + 'a \<Rightarrow> ('a \<Rightarrow> 'e + 'b) \<Rightarrow> 'e + 'b" where
  "bind_sum m f = (case m of Inl e \<Rightarrow> Inl e | Inr x \<Rightarrow> f x)"

lemma bind_sum_Inr [simp]: "bind_sum (Inr x) f = f x"
  by (simp add: bind_sum_def)

lemma bind_sum_Inl [simp]: "bind_sum (Inl e) f = Inl e"
  by (simp add: bind_sum_def)

lemma bind_sum_eq_Inr [simp]: "bind_sum m f = Inr y \<longleftrightarrow> (\<exists>x. m = Inr x \<and> f x = Inr y)"
  by (cases m) simp_all

lemma bind_sum_eq_Inl [simp]:
  "bind_sum m f = Inl e \<longleftrightarrow> m = Inl e \<or> (\<exists>x. m = Inr x \<and> f x = Inl e)"
  by (cases m) simp_all

lemma bind_sum_cong [fundef_cong]:
  "m = m' \<Longrightarrow> (\<And>x. m' = Inr x \<Longrightarrow> f x = f' x) \<Longrightarrow> bind_sum m f = bind_sum m' f'"
  by (cases m') simp_all


section \<open>Actions with state and exceptions\<close>

type_synonym ('s, 'e, 'a) act = "'s \<Rightarrow> ('e + 'a) \<times> 's"

definition ret :: "'a \<Rightarrow> ('s, 'e, 'a) act" where
  "ret x s = (Inr x, s)"

definition throw :: "'e \<Rightarrow> ('s, 'e, 'a) act" where
  "throw e s = (Inl e, s)"

definition bind_act :: "('s, 'e, 'a) act \<Rightarrow> ('a \<Rightarrow> ('s, 'e, 'b) act) \<Rightarrow> ('s, 'e, 'b) act" where
  "bind_act m f s = (case m s of (Inl e, s') \<Rightarrow> (Inl e, s') | (Inr x, s') \<Rightarrow> f x s')"

definition catch_act :: "('s, 'e, 'a) act \<Rightarrow> ('e \<Rightarrow> ('s, 'e, 'a) act) \<Rightarrow> ('s, 'e, 'a) act" where
  "catch_act m h s = (case m s of (Inl e, s') \<Rightarrow> h e s' | (Inr x, s') \<Rightarrow> (Inr x, s'))"

definition gets :: "('s \<Rightarrow> 'a) \<Rightarrow> ('s, 'e, 'a) act" where
  "gets f s = (Inr (f s), s)"

definition modify_act :: "('s \<Rightarrow> 's) \<Rightarrow> ('s, 'e, unit) act" where
  "modify_act f s = (Inr (), f s)"

text \<open>Stateless code inside an action.\<close>

definition of_sum :: "'e + 'a \<Rightarrow> ('s, 'e, 'a) act" where
  "of_sum r s = (r, s)"

text \<open>An action of a component, run on the part of a larger state that component owns.\<close>

definition within :: "('s \<Rightarrow> 't) \<Rightarrow> ('t \<Rightarrow> 's \<Rightarrow> 's) \<Rightarrow> ('t, 'e, 'a) act \<Rightarrow> ('s, 'e, 'a) act" where
  "within get put m s = (case m (get s) of (r, t) \<Rightarrow> (r, put t s))"

text \<open>A \<open>for\<close> loop over a list, stopped by the first exception.\<close>

fun for_each :: "('x \<Rightarrow> ('s, 'e, unit) act) \<Rightarrow> 'x list \<Rightarrow> ('s, 'e, unit) act" where
  "for_each f [] = ret ()"
| "for_each f (x # xs) = bind_act (f x) (\<lambda>_. for_each f xs)"

lemma ret_app [act_simps]: "ret x s = (Inr x, s)"
  by (simp add: ret_def)

lemma throw_app [act_simps]: "throw e s = (Inl e, s)"
  by (simp add: throw_def)

lemma gets_app [act_simps]: "gets f s = (Inr (f s), s)"
  by (simp add: gets_def)

lemma modify_app [act_simps]: "modify_act f s = (Inr (), f s)"
  by (simp add: modify_act_def)

declare of_sum_def [act_simps] bind_act_def [act_simps] catch_act_def [act_simps] within_def [act_simps]

lemma bind_act_cong [fundef_cong]:
  assumes "m s = m' s'" and "\<And>x t. m' s' = (Inr x, t) \<Longrightarrow> f x t = f' x t"
  shows "bind_act m f s = bind_act m' f' s'"
  using assms by (auto simp: bind_act_def split: prod.splits sum.splits)

lemma bind_act_assoc: "bind_act (bind_act m f) g = bind_act m (\<lambda>x. bind_act (f x) g)"
  by (rule ext) (simp add: bind_act_def split: prod.splits sum.splits)

lemma bind_act_eqI: "m s = (Inr x, s') \<Longrightarrow> bind_act m f s = f x s'"
  by (simp add: bind_act_def)

lemma bind_act_err: "m s = (Inl e, s') \<Longrightarrow> bind_act m f s = (Inl e, s')"
  by (simp add: bind_act_def)

lemma bind_act_InrE:
  assumes "bind_act m f s = (Inr y, t)"
  obtains x s' where "m s = (Inr x, s')" and "f x s' = (Inr y, t)"
  using assms by (auto simp: bind_act_def split: prod.splits sum.splits)

lemma for_each_append: "for_each f (xs @ ys) = bind_act (for_each f xs) (\<lambda>_. for_each f ys)"
proof (induction xs)
  case Nil
  show ?case by (rule ext) (simp add: act_simps)
next
  case (Cons x xs)
  then show ?case by (simp add: bind_act_assoc)
qed


section \<open>Invariants of actions\<close>

definition keeps :: "('s \<Rightarrow> bool) \<Rightarrow> ('s, 'e, 'a) act \<Rightarrow> bool" where
  "keeps I m \<longleftrightarrow> (\<forall>s. I s \<longrightarrow> I (snd (m s)))"

lemma keepsD: "keeps I m \<Longrightarrow> I s \<Longrightarrow> I (snd (m s))"
  by (simp add: keeps_def)

lemma keeps_ret [keeps_intros]: "keeps I (ret x)"
  by (simp add: keeps_def act_simps)

lemma keeps_throw [keeps_intros]: "keeps I (throw e)"
  by (simp add: keeps_def act_simps)

lemma keeps_of_sum [keeps_intros]: "keeps I (of_sum r)"
  by (simp add: keeps_def act_simps)

lemma keeps_gets [keeps_intros]: "keeps I (gets f)"
  by (simp add: keeps_def act_simps)

lemma keeps_modify: "(\<And>s. I s \<Longrightarrow> I (f s)) \<Longrightarrow> keeps I (modify_act f)"
  by (simp add: keeps_def act_simps)

lemma keeps_bind [keeps_intros]:
  assumes m: "keeps I m" and f: "\<And>x. keeps I (f x)"
  shows "keeps I (bind_act m f)"
  unfolding keeps_def
proof (intro allI impI)
  fix s assume "I s"
  obtain r t where mt: "m s = (r, t)" by (cases "m s")
  from keepsD [OF m \<open>I s\<close>] mt have "I t" by simp
  then show "I (snd (bind_act m f s))"
    using mt f by (cases r) (auto simp: bind_act_def dest: keepsD)
qed

lemma keeps_catch [keeps_intros]:
  assumes m: "keeps I m" and h: "\<And>e. keeps I (h e)"
  shows "keeps I (catch_act m h)"
  unfolding keeps_def
proof (intro allI impI)
  fix s assume "I s"
  obtain r t where mt: "m s = (r, t)" by (cases "m s")
  from keepsD [OF m \<open>I s\<close>] mt have "I t" by simp
  then show "I (snd (catch_act m h s))"
    using mt h by (cases r) (auto simp: catch_act_def dest: keepsD)
qed

lemma keeps_if [keeps_intros]: "keeps I m \<Longrightarrow> keeps I m' \<Longrightarrow> keeps I (if b then m else m')"
  by simp

lemma keeps_option [keeps_intros]:
  "keeps I m \<Longrightarrow> (\<And>x. keeps I (f x)) \<Longrightarrow> keeps I (case z of None \<Rightarrow> m | Some x \<Rightarrow> f x)"
  by (cases z) auto

lemma keeps_for_each [keeps_intros]: "(\<And>x. keeps I (f x)) \<Longrightarrow> keeps I (for_each f xs)"
  by (induction xs) (auto intro: keeps_intros)



section \<open>Specifications of actions\<close>

definition spec :: "('s \<Rightarrow> bool) \<Rightarrow> ('s, 'e, 'a) act \<Rightarrow> ('a \<Rightarrow> 's \<Rightarrow> bool) \<Rightarrow> ('e \<Rightarrow> 's \<Rightarrow> bool) \<Rightarrow> bool" where
  "spec P m Q X \<longleftrightarrow> (\<forall>s. P s \<longrightarrow> (case m s of (Inr x, t) \<Rightarrow> Q x t | (Inl e, t) \<Rightarrow> X e t))"

lemma specI: "(\<And>s r t. P s \<Longrightarrow> m s = (r, t) \<Longrightarrow> (case r of Inr x \<Rightarrow> Q x t | Inl e \<Rightarrow> X e t)) \<Longrightarrow> spec P m Q X"
  unfolding spec_def by (auto split: prod.splits sum.splits)

lemma specD: "spec P m Q X \<Longrightarrow> P s \<Longrightarrow> m s = (r, t) \<Longrightarrow> (case r of Inr x \<Rightarrow> Q x t | Inl e \<Rightarrow> X e t)"
  unfolding spec_def by (auto split: sum.splits)

lemma specD_value: "spec P m Q X \<Longrightarrow> P s \<Longrightarrow> m s = (Inr x, t) \<Longrightarrow> Q x t"
  using specD [of P m Q X s "Inr x" t] by simp

text \<open>The same condition on every exit.\<close>

lemma specD_any: "spec P m (\<lambda>_. R) (\<lambda>_. R) \<Longrightarrow> P s \<Longrightarrow> R (snd (m s))"
  unfolding spec_def by (cases "m s"; cases "fst (m s)") fastforce+

lemma spec_conseq:
  "spec P m Q X \<Longrightarrow> (\<And>x s. Q x s \<Longrightarrow> Q' x s) \<Longrightarrow> (\<And>e s. X e s \<Longrightarrow> X' e s) \<Longrightarrow> spec P m Q' X'"
  unfolding spec_def by (auto split: prod.splits sum.splits)

lemma spec_ret [spec_intros]: "(\<And>s. P s \<Longrightarrow> Q x s) \<Longrightarrow> spec P (ret x) Q X"
  by (simp add: spec_def act_simps)

lemma spec_throw [spec_intros]: "(\<And>s. P s \<Longrightarrow> X e s) \<Longrightarrow> spec P (throw e) Q X"
  by (simp add: spec_def act_simps)

lemma spec_of_sum:
  "(\<And>x s. r = Inr x \<Longrightarrow> P s \<Longrightarrow> Q x s) \<Longrightarrow> (\<And>e s. r = Inl e \<Longrightarrow> P s \<Longrightarrow> X e s) \<Longrightarrow> spec P (of_sum r) Q X"
  by (cases r) (simp_all add: spec_def act_simps)

lemma spec_if [spec_intros]:
  "(b \<Longrightarrow> spec P m Q X) \<Longrightarrow> (\<not> b \<Longrightarrow> spec P m' Q X) \<Longrightarrow> spec P (if b then m else m') Q X"
  by simp

lemma spec_option [spec_intros]:
  "(z = None \<Longrightarrow> spec P m Q X) \<Longrightarrow> (\<And>x. z = Some x \<Longrightarrow> spec P (f x) Q X)
     \<Longrightarrow> spec P (case z of None \<Rightarrow> m | Some x \<Rightarrow> f x) Q X"
  by (cases z) auto

lemma spec_bind:
  assumes m: "spec P m R X" and f: "\<And>x. spec (R x) (f x) Q X"
  shows "spec P (bind_act m f) Q X"
proof (rule specI)
  fix s r t assume s: "P s" and run: "bind_act m f s = (r, t)"
  obtain y s' where ms: "m s = (y, s')" by (cases "m s")
  show "case r of Inr x \<Rightarrow> Q x t | Inl e \<Rightarrow> X e t"
  proof (cases y)
    case (Inl e)
    with ms run specD [OF m s ms] show ?thesis by (auto simp: bind_act_def)
  next
    case (Inr x)
    with ms run specD [OF m s ms] specD [OF f, of x s' r t] show ?thesis by (simp add: bind_act_def)
  qed
qed

text \<open>A first part that only reads: it keeps the condition and establishes a fact on its value.\<close>

lemma spec_read:
  assumes "spec P m (\<lambda>x s. P s \<and> F x) X" and "\<And>x. F x \<Longrightarrow> spec P (f x) Q X"
  shows "spec P (bind_act m f) Q X"
proof (rule spec_bind [OF assms(1)])
  fix x show "spec (\<lambda>s. P s \<and> F x) (f x) Q X"
    using assms(2) [of x] by (auto simp: spec_def)
qed

lemma spec_bind_sum:
  assumes "\<And>x. r = Inr x \<Longrightarrow> spec P (f x) Q X" and "\<And>e s. r = Inl e \<Longrightarrow> P s \<Longrightarrow> X e s"
  shows "spec P (bind_act (of_sum r) f) Q X"
  by (rule spec_read [of _ _ "\<lambda>x. r = Inr x"]) (auto intro: spec_of_sum assms)

lemma spec_gets_bind: "(\<And>x. spec (\<lambda>s. P s \<and> f s = x) (g x) Q X) \<Longrightarrow> spec P (bind_act (gets f) g) Q X"
  by (simp add: spec_def bind_act_def gets_app)

lemma spec_modify: "(\<And>s. P s \<Longrightarrow> Q () (f s)) \<Longrightarrow> spec P (modify_act f) Q X"
  by (simp add: spec_def modify_app)

lemma spec_catch:
  assumes m: "spec P m Q Y" and h: "\<And>e. spec (Y e) (h e) Q X"
  shows "spec P (catch_act m h) Q X"
proof (rule specI)
  fix s r t assume s: "P s" and run: "catch_act m h s = (r, t)"
  obtain y s' where ms: "m s = (y, s')" by (cases "m s")
  show "case r of Inr x \<Rightarrow> Q x t | Inl e \<Rightarrow> X e t"
  proof (cases y)
    case (Inl e)
    with ms run specD [OF m s ms] specD [OF h, of e s' r t] show ?thesis by (simp add: catch_act_def)
  next
    case (Inr x)
    with ms run specD [OF m s ms] show ?thesis by (auto simp: catch_act_def)
  qed
qed

lemma spec_for_each:
  "(\<And>x. spec P (f x) (\<lambda>_. P) X) \<Longrightarrow> spec P (for_each f xs) (\<lambda>_. P) X"
proof (induction xs)
  case Nil
  show ?case by (simp add: spec_ret)
next
  case (Cons x xs)
  have "spec P (bind_act (f x) (\<lambda>_. for_each f xs)) (\<lambda>_. P) X"
    by (rule spec_bind [OF Cons.prems Cons.IH]) (rule Cons.prems)
  then show ?case by simp
qed

lemma spec_pre: "spec P m Q X \<Longrightarrow> (\<And>s. P' s \<Longrightarrow> P s) \<Longrightarrow> spec P' m Q X"
  by (simp add: spec_def)

text \<open>Deleting the entry of the head of a list without repeated keys keeps the entries of its tail.\<close>

lemma tail_entries_kept:
  assumes "distinct (map key (x # xs))" and "\<forall>y \<in> set (x # xs). m (key y) = Some y"
    and "m' = m(key x := None)"
  shows "\<forall>y \<in> set xs. m' (key y) = Some y"
  using assms by (auto simp: image_iff)

end
