(* ===== verification/Errors.thy ===== *)
theory Errors
  imports Prelude
begin

text \<open>
  The exceptions of the program: the class hierarchy and the constructors of
  \<^verbatim>\<open>csm/common/errors.py\<close>, and the Python and third-party exceptions the modelled code raises
  or catches. \<open>BaseError\<close> belongs to the package \<^verbatim>\<open>cortx.utils\<close>; what is modelled of it is
  that it keeps the four arguments it is given.
\<close>

section \<open>Error codes\<close>

definition CSM_OPERATION_SUCESSFUL :: int where "CSM_OPERATION_SUCESSFUL = 0x0000"
definition CSM_ERR_INVALID_VALUE :: int where "CSM_ERR_INVALID_VALUE = 0x1001"
definition CSM_ERR_INTERRUPTED :: int where "CSM_ERR_INTERRUPTED = 0x1002"
definition CSM_INVALID_REQUEST :: int where "CSM_INVALID_REQUEST = 0x1003"
definition CSM_PROVIDER_NOT_AVAILABLE :: int where "CSM_PROVIDER_NOT_AVAILABLE = 0x1004"
definition CSM_INTERNAL_ERROR :: int where "CSM_INTERNAL_ERROR = 0x1005"
definition CSM_SETUP_ERROR :: int where "CSM_SETUP_ERROR = 0x1006"
definition CSM_RESOURCE_EXIST :: int where "CSM_RESOURCE_EXIST = 0x1007"
definition CSM_OPERATION_NOT_PERMITTED :: int where "CSM_OPERATION_NOT_PERMITTED = 0x1008"
definition CSM_FAILURE :: int where "CSM_FAILURE = 0x1009"
definition CSM_SERVICE_NOT_AVAILABLE :: int where "CSM_SERVICE_NOT_AVAILABLE = 0x100A"
definition CSM_REQUEST_CANCELLED :: int where "CSM_REQUEST_CANCELLED = 0x100B"
definition CSM_NOT_IMPLEMENTED :: int where "CSM_NOT_IMPLEMENTED = 0x100C"
definition CSM_SERVICE_CONFLICT :: int where "CSM_SERVICE_CONFLICT = 0x100D"
definition CSM_GATEWAY_TIMEOUT :: int where "CSM_GATEWAY_TIMEOUT = 0x100E"
definition CSM_UNAUTHORIZED_ERROR :: int where "CSM_UNAUTHORIZED_ERROR = 0x100F"
definition CSM_UNKNOWN_ERROR :: int where "CSM_UNKNOWN_ERROR = 0x1010"
definition CSM_HTTP_ERROR :: int where "CSM_HTTP_ERROR = 0x1011"
definition S3_SERVICE_ERROR :: int where "S3_SERVICE_ERROR = 0x3000"

lemmas error_codes =
  CSM_OPERATION_SUCESSFUL_def CSM_ERR_INVALID_VALUE_def CSM_ERR_INTERRUPTED_def
  CSM_INVALID_REQUEST_def CSM_PROVIDER_NOT_AVAILABLE_def CSM_INTERNAL_ERROR_def
  CSM_SETUP_ERROR_def CSM_RESOURCE_EXIST_def CSM_OPERATION_NOT_PERMITTED_def CSM_FAILURE_def
  CSM_SERVICE_NOT_AVAILABLE_def CSM_REQUEST_CANCELLED_def CSM_NOT_IMPLEMENTED_def
  CSM_SERVICE_CONFLICT_def CSM_GATEWAY_TIMEOUT_def CSM_UNAUTHORIZED_ERROR_def
  CSM_UNKNOWN_ERROR_def CSM_HTTP_ERROR_def S3_SERVICE_ERROR_def


section \<open>The class hierarchy\<close>

datatype csm_class =
    CsmError | CsmSetupError | InvalidRequest | ResourceExist | CsmInternalError
  | CsmNotFoundError | CsmPermissionDenied | CsmResourceNotAvailable | CsmTypeError
  | CsmNotImplemented | CsmServiceConflict | CsmGatewayTimeout | CsmUnauthorizedError
  | CsmServiceNotAvailable | CsmRequestCancelled

text \<open>The base class named in each class statement; the base of \<open>CsmError\<close> is outside.\<close>

fun base_class :: "csm_class \<Rightarrow> csm_class option" where
  "base_class CsmError = None"
| "base_class CsmResourceNotAvailable = Some CsmInternalError"
| "base_class CsmTypeError = Some CsmInternalError"
| "base_class _ = Some CsmError"

text \<open>\<open>isinstance\<close>: the class itself or one of its bases. The hierarchy is three deep.\<close>

definition is_subclass_of :: "csm_class \<Rightarrow> csm_class \<Rightarrow> bool" where
  "is_subclass_of c d \<longleftrightarrow> c = d \<or> base_class c = Some d
     \<or> (case base_class c of None \<Rightarrow> False | Some b \<Rightarrow> base_class b = Some d)"

record csm_error =
  err_class :: csm_class
  err_rc :: int
  err_desc :: "string option"
  err_message_id :: "string option"
  err_message_args :: "string option"

text \<open>The exceptions: those of \<^verbatim>\<open>errors.py\<close>, the Python built-ins the code can raise, and those
  of the packages the code catches by name.\<close>

datatype exn =
    Csm csm_error
  | KeyError | AttributeError | RuntimeError | ValueError string | UnboundLocalError | TypeError
  | DataAccessError string | ClientConnectorError string
  | ServerDisconnectedError | ClientOSError | TimeoutError
  | CancelledError | JSONDecodeError
  | S3ClientException string | VError string | CipherInvalidToken string
  | HTTPException int string
  | S3ServiceError int string string "string option"
  | CsmHttpException int int string string "string option"
  | OtherException string


section \<open>Constructors\<close>

text \<open>The \<open>__init__\<close> methods: each class hands its code, the description it was given and its
  default message id to \<open>CsmError\<close>. \<open>CsmInternalError\<close> prefixes the description (and so do
  its subclasses, which call its \<open>__init__\<close>).\<close>

definition mk_csm :: "csm_class \<Rightarrow> int \<Rightarrow> string option \<Rightarrow> string option \<Rightarrow> string option \<Rightarrow> exn" where
  "mk_csm c rc desc mid args =
     Csm \<lparr>err_class = c, err_rc = rc, err_desc = desc, err_message_id = mid,
          err_message_args = args\<rparr>"

definition mk_CsmError :: "int \<Rightarrow> string option \<Rightarrow> exn" where
  "mk_CsmError rc desc = mk_csm CsmError rc desc None None"

definition mk_CsmSetupError :: "string option \<Rightarrow> exn" where
  "mk_CsmSetupError desc = mk_csm CsmSetupError CSM_SETUP_ERROR desc (Some ''SetupError'') None"

definition mk_InvalidRequest :: "string option \<Rightarrow> string \<Rightarrow> exn" where
  "mk_InvalidRequest desc mid = mk_csm InvalidRequest CSM_INVALID_REQUEST desc (Some mid) None"

text \<open>\<open>InvalidRequest(msg)\<close> with the default message id.\<close>

definition invalid_request :: "string \<Rightarrow> exn" where
  "invalid_request msg = mk_InvalidRequest (Some msg) ''MalformedRequest''"

definition mk_ResourceExist :: "string option \<Rightarrow> string \<Rightarrow> exn" where
  "mk_ResourceExist desc mid = mk_csm ResourceExist CSM_RESOURCE_EXIST desc (Some mid) None"

definition py_percent_s :: "string option \<Rightarrow> string" where
  "py_percent_s d = (case d of None \<Rightarrow> ''None'' | Some s \<Rightarrow> s)"

definition internal_desc :: "string option \<Rightarrow> string option" where
  "internal_desc desc = Some (''Internal error: '' @ py_percent_s desc)"

definition mk_CsmInternalError :: "string option \<Rightarrow> exn" where
  "mk_CsmInternalError desc =
     mk_csm CsmInternalError CSM_INTERNAL_ERROR (internal_desc desc) (Some ''InternalError'') None"

definition mk_CsmNotFoundError :: "string option \<Rightarrow> string \<Rightarrow> exn" where
  "mk_CsmNotFoundError desc mid = mk_csm CsmNotFoundError CSM_INTERNAL_ERROR desc (Some mid) None"

definition mk_CsmPermissionDenied :: "string option \<Rightarrow> string \<Rightarrow> string option \<Rightarrow> exn" where
  "mk_CsmPermissionDenied desc mid args =
     mk_csm CsmPermissionDenied CSM_OPERATION_NOT_PERMITTED desc (Some mid) args"

definition mk_CsmResourceNotAvailable :: "string option \<Rightarrow> exn" where
  "mk_CsmResourceNotAvailable desc =
     mk_csm CsmResourceNotAvailable CSM_INTERNAL_ERROR (internal_desc desc)
       (Some ''ResourceNotAvailable'') None"

definition mk_CsmTypeError :: "string option \<Rightarrow> exn" where
  "mk_CsmTypeError desc =
     mk_csm CsmTypeError CSM_INTERNAL_ERROR (internal_desc desc) (Some ''TypeError'') None"

definition mk_CsmNotImplemented :: "string option \<Rightarrow> exn" where
  "mk_CsmNotImplemented desc =
     mk_csm CsmNotImplemented CSM_NOT_IMPLEMENTED desc (Some ''NotImplemented'') None"

definition mk_CsmServiceConflict :: "string option \<Rightarrow> exn" where
  "mk_CsmServiceConflict desc =
     mk_csm CsmServiceConflict CSM_SERVICE_CONFLICT desc (Some ''ServiceConflict'') None"

definition mk_CsmGatewayTimeout :: "string option \<Rightarrow> exn" where
  "mk_CsmGatewayTimeout desc =
     mk_csm CsmGatewayTimeout CSM_GATEWAY_TIMEOUT desc (Some ''GatewayTimeout'') None"

definition mk_CsmUnauthorizedError :: "string option \<Rightarrow> exn" where
  "mk_CsmUnauthorizedError desc =
     mk_csm CsmUnauthorizedError CSM_UNAUTHORIZED_ERROR desc (Some ''UnauthorizedError'') None"

definition mk_CsmServiceNotAvailable :: "string option \<Rightarrow> exn" where
  "mk_CsmServiceNotAvailable desc =
     mk_csm CsmServiceNotAvailable CSM_SERVICE_NOT_AVAILABLE desc (Some ''ServiceNotAvailable'') None"

definition mk_CsmRequestCancelled :: "string option \<Rightarrow> exn" where
  "mk_CsmRequestCancelled desc =
     mk_csm CsmRequestCancelled CSM_REQUEST_CANCELLED desc (Some ''RequestCancelled'') None"

lemmas mk_error_defs =
  mk_csm_def mk_CsmError_def mk_CsmSetupError_def mk_InvalidRequest_def mk_ResourceExist_def
  mk_CsmInternalError_def mk_CsmNotFoundError_def mk_CsmPermissionDenied_def
  mk_CsmResourceNotAvailable_def mk_CsmTypeError_def mk_CsmNotImplemented_def
  mk_CsmServiceConflict_def mk_CsmGatewayTimeout_def mk_CsmUnauthorizedError_def
  mk_CsmServiceNotAvailable_def mk_CsmRequestCancelled_def

text \<open>\<open>except C\<close> for a class of \<^verbatim>\<open>errors.py\<close>.\<close>

definition is_csm :: "csm_class \<Rightarrow> exn \<Rightarrow> bool" where
  "is_csm d e \<longleftrightarrow> (case e of Csm r \<Rightarrow> is_subclass_of (err_class r) d | _ \<Rightarrow> False)"

lemma is_csm_Csm [simp]: "is_csm d (Csm r) = is_subclass_of (err_class r) d"
  by (simp add: is_csm_def)

lemma is_subclass_of_CsmError [simp]: "is_subclass_of c CsmError"
  by (cases c) (simp_all add: is_subclass_of_def)

text \<open>Three levels are enough: the relation is the reflexive transitive closure of the bases.\<close>

lemma is_subclass_of_trans:
  "is_subclass_of a b \<Longrightarrow> is_subclass_of b c \<Longrightarrow> is_subclass_of a c"
  by (cases a; cases b) (auto simp: is_subclass_of_def)


section \<open>Errors of the S3 service\<close>

text \<open>\<open>RgwError\<close> of \<^verbatim>\<open>csm/core/data/models/rgw.py\<close>, reduced to the three attributes
  \<open>ServiceError.create\<close> reads, and what else that helper may be handed.\<close>

record rgw_error =
  http_status :: int
  error_code :: string
  error_message :: string

datatype 'a service_result = RgwErr rgw_error | Payload 'a

definition service_error_create :: "'a service_result \<Rightarrow> string option \<Rightarrow> exn + unit" where
  "service_error_create error args =
     (case error of
        RgwErr e \<Rightarrow> Inl (S3ServiceError (http_status e) (error_code e) (error_message e) args)
      | Payload _ \<Rightarrow> Inr ())"

text \<open>The \<open>with ServiceError.guard_service()\<close> block: an S3 error of the body becomes the HTTP
  exception with the same status, every other outcome is left alone.\<close>

definition guard_service :: "('s, exn, 'a) act \<Rightarrow> ('s, exn, 'a) act" where
  "guard_service body = catch_act body (\<lambda>e.
     case e of
       S3ServiceError status code message args \<Rightarrow>
         throw (CsmHttpException status S3_SERVICE_ERROR code message args)
     | _ \<Rightarrow> throw e)"

lemma keeps_guard_service [keeps_intros]: "keeps I m \<Longrightarrow> keeps I (guard_service m)"
  unfolding guard_service_def by (intro keeps_catch) (auto intro: keeps_intros split: exn.split)

end
