(* ===== verification/Retry.thy ===== *)
theory Retry
  imports Errors
begin

text \<open>
  The retry loop around every call of the database, written out seven times in
  \<^verbatim>\<open>csm/core/services/users.py\<close> and \<^verbatim>\<open>csm/core/services/session/session_factory.py\<close>:

  \<^verbatim>\<open>
  for retry in range(0, MAX_RETRY_COUNT):
      try: response = await op(); break
      except (DataAccessError, ClientConnectorError) as e:
          if retry == MAX_RETRY_COUNT-1: raise e
          time.sleep(RETRY_SLEEP_DURATION)
  return response
  \<close>

  The state of the action is the database together with its environment, so a later attempt may
  succeed where an earlier one failed. The loop is structural recursion on the attempts left.
\<close>

definition caught :: "exn \<Rightarrow> bool" where
  "caught e \<longleftrightarrow> (case e of DataAccessError _ \<Rightarrow> True | ClientConnectorError _ \<Rightarrow> True | _ \<Rightarrow> False)"

fun retry_go :: "('s, exn, 'a) act \<Rightarrow> nat \<Rightarrow> ('s, exn, 'a option) act" where
  "retry_go op 0 s = (Inr None, s)"
| "retry_go op (Suc k) s =
     (case op s of
        (Inr x, s') \<Rightarrow> (Inr (Some x), s')
      | (Inl e, s') \<Rightarrow>
          if caught e then (if k = 0 then (Inl e, s') else retry_go op k s')
          else (Inl e, s'))"

definition retry_loop :: "('s, exn, 'a) act \<Rightarrow> int \<Rightarrow> ('s, exn, 'a option) act" where
  "retry_loop op max_retry_count = retry_go op (nat max_retry_count)"

text \<open>After the loop: a method that returns the loop's local variable raises when the loop body
  never ran; a method that ignores it returns.\<close>

definition retry_value :: "('s, exn, 'a) act \<Rightarrow> int \<Rightarrow> ('s, exn, 'a) act" where
  "retry_value op n = bind_act (retry_loop op n)
     (\<lambda>r. case r of None \<Rightarrow> throw UnboundLocalError | Some x \<Rightarrow> ret x)"

definition retry_unit :: "('s, exn, unit) act \<Rightarrow> int \<Rightarrow> ('s, exn, unit) act" where
  "retry_unit op n = bind_act (retry_loop op n) (\<lambda>_. ret ())"


section \<open>Behaviour\<close>

text \<open>\<open>failed op j s\<close> is the state after \<open>j\<close> attempts that all ended in a caught error.\<close>

fun failed :: "('s, exn, 'a) act \<Rightarrow> nat \<Rightarrow> 's \<Rightarrow> 's option" where
  "failed op 0 s = Some s"
| "failed op (Suc j) s =
     (case op s of
        (Inl e, s') \<Rightarrow> if caught e then failed op j s' else None
      | (Inr _, _) \<Rightarrow> None)"

lemma keeps_retry_go: "keeps I op \<Longrightarrow> keeps I (retry_go op n)"
proof (induction n)
  case 0
  show ?case by (simp add: keeps_def)
next
  case (Suc n)
  show ?case
    unfolding keeps_def
  proof (intro allI impI)
    fix s assume "I s"
    obtain r t where op: "op s = (r, t)" by (cases "op s")
    from keepsD [OF Suc.prems \<open>I s\<close>] op have "I t" by simp
    then show "I (snd (retry_go op (Suc n) s))"
      using op keepsD [OF Suc.IH [OF Suc.prems]] by (cases r) auto
  qed
qed

lemma keeps_retry [keeps_intros]:
  "keeps I op \<Longrightarrow> keeps I (retry_value op n)"
  "keeps I op' \<Longrightarrow> keeps I (retry_unit op' n)"
  unfolding retry_value_def retry_unit_def retry_loop_def
  by (auto intro!: keeps_intros keeps_retry_go)

lemma retry_go_success:
  "failed op j s = Some t \<Longrightarrow> op t = (Inr x, u) \<Longrightarrow> j < n \<Longrightarrow> retry_go op n s = (Inr (Some x), u)"
proof (induction j arbitrary: s n)
  case 0
  then show ?case by (cases n) auto
next
  case (Suc j)
  then obtain e s' where op: "op s = (Inl e, s')" and c: "caught e" and f: "failed op j s' = Some t"
    by (auto split: prod.splits sum.splits if_splits)
  from Suc.prems obtain m where n: "n = Suc m" and "j < m" by (cases n) auto
  with Suc.IH [OF f Suc.prems(2)] have "retry_go op m s' = (Inr (Some x), u)" by blast
  with op c n \<open>j < m\<close> show ?case by simp
qed

lemma retry_go_error:
  "failed op j s = Some t \<Longrightarrow> op t = (Inl e, u) \<Longrightarrow> (if caught e then n = Suc j else j < n)
     \<Longrightarrow> retry_go op n s = (Inl e, u)"
proof (induction j arbitrary: s n)
  case 0
  then show ?case by (cases n) (auto split: if_splits)
next
  case (Suc j)
  then obtain e' s' where op: "op s = (Inl e', s')" and c: "caught e'" and f: "failed op j s' = Some t"
    by (auto split: prod.splits sum.splits if_splits)
  from Suc.prems obtain m where n: "n = Suc m" and m: "if caught e then m = Suc j else j < m"
    by (cases n) (auto split: if_splits)
  from Suc.IH [OF f Suc.prems(2) m] have "retry_go op m s' = (Inl e, u)" .
  moreover from m have "m \<noteq> 0" by (auto split: if_splits)
  ultimately show ?case using op c n by simp
qed

text \<open>A pre/post rule: an invariant of every attempt, and what a successful attempt establishes.\<close>

lemma retry_go_post:
  assumes op: "\<And>s r t. I s \<Longrightarrow> op s = (r, t) \<Longrightarrow> I t \<and> (\<forall>x. r = Inr x \<longrightarrow> Q x t)"
  shows "I s \<Longrightarrow> retry_go op n s = (r, t) \<Longrightarrow>
           I t \<and> (\<forall>x. r = Inr (Some x) \<longrightarrow> Q x t) \<and> (r = Inr None \<longrightarrow> n = 0)"
proof (induction n arbitrary: s)
  case 0
  then show ?case by auto
next
  case (Suc n)
  obtain r' t' where r': "op s = (r', t')" by (cases "op s")
  with op [OF Suc.prems(1)] have I: "I t'" and Q: "\<forall>x. r' = Inr x \<longrightarrow> Q x t'" by auto
  show ?case
  proof (cases r')
    case (Inr x)
    with Suc.prems r' I Q show ?thesis by auto
  next
    case (Inl e)
    show ?thesis
    proof (cases "caught e \<and> n \<noteq> 0")
      case True
      with Suc.prems(2) r' Inl have "retry_go op n t' = (r, t)" by simp
      from Suc.IH [OF I this] True show ?thesis by auto
    next
      case False
      with Suc.prems r' Inl I show ?thesis by (auto split: if_splits)
    qed
  qed
qed

lemma retry_unit_post:
  assumes "\<And>s r t. I s \<Longrightarrow> op s = (r, t) \<Longrightarrow> I t \<and> (r = Inr () \<longrightarrow> Q t)"
    and "I s" and "0 < n" and run: "retry_unit op n s = (r, t)"
  shows "I t \<and> (r = Inr () \<longrightarrow> Q t)"
proof -
  obtain r' where go: "retry_go op (nat n) s = (r', t)"
    and r: "case r' of Inl e \<Rightarrow> r = Inl e | Inr _ \<Rightarrow> r = Inr ()"
    using run by (auto simp: retry_unit_def retry_loop_def act_simps split: prod.splits sum.splits)
  have op: "\<And>s r t. I s \<Longrightarrow> op s = (r, t) \<Longrightarrow> I t \<and> (\<forall>x. r = Inr x \<longrightarrow> Q t)"
    using assms(1) by simp
  have post: "I t \<and> (\<forall>x. r' = Inr (Some x) \<longrightarrow> Q t) \<and> (r' = Inr None \<longrightarrow> nat n = 0)"
    by (rule retry_go_post [of I op "\<lambda>_. Q", OF op assms(2) go])
  show ?thesis
  proof (cases r')
    case (Inl e)
    with r post show ?thesis by simp
  next
    case (Inr y)
    with post \<open>0 < n\<close> show ?thesis by (cases y) auto
  qed
qed

text \<open>As triples: the condition holds again after every failed attempt.\<close>

lemma spec_retry_value:
  assumes op: "spec P op Q (\<lambda>_. P)" and n: "0 < n"
  shows "spec P (retry_value op n) Q (\<lambda>_. P)"
proof (rule specI)
  fix s r t assume s: "P s" and run: "retry_value op n s = (r, t)"
  have post: "\<And>k s r t. P s \<Longrightarrow> retry_go op (Suc k) s = (r, t) \<Longrightarrow>
      (case r of Inl e \<Rightarrow> P t | Inr None \<Rightarrow> False | Inr (Some x) \<Rightarrow> Q x t)"
  proof -
    fix k s r t assume "P s" "retry_go op (Suc k) s = (r, t)"
    then show "case r of Inl e \<Rightarrow> P t | Inr None \<Rightarrow> False | Inr (Some x) \<Rightarrow> Q x t"
    proof (induction k arbitrary: s)
      case 0
      obtain y u where "op s = (y, u)" by (cases "op s")
      with 0 specD [OF op, of s y u] show ?case by (cases y) (auto split: if_splits)
    next
      case (Suc k)
      obtain y u where ou: "op s = (y, u)" by (cases "op s")
      with Suc.prems specD [OF op, of s y u] have y: "case y of Inl e \<Rightarrow> P u | Inr x \<Rightarrow> Q x u"
        by (cases y) auto
      show ?case
      proof (cases "\<exists>e. y = Inl e \<and> caught e")
        case True
        with ou Suc.prems(2) have "retry_go op (Suc k) u = (r, t)" by auto
        with True y Suc.IH [of u] show ?thesis by auto
      next
        case False
        with ou Suc.prems(2) y show ?thesis by (cases y) auto
      qed
    qed
  qed
  obtain k where k: "nat n = Suc k" using n by (cases "nat n") auto
  obtain r' t' where go: "retry_go op (Suc k) s = (r', t')" by (cases "retry_go op (Suc k) s")
  with run k have "bind_act (\<lambda>_. (r', t')) (\<lambda>r. case r of None \<Rightarrow> throw UnboundLocalError | Some x \<Rightarrow> ret x) s = (r, t)"
    by (simp add: retry_value_def retry_loop_def bind_act_def)
  with post [OF s go] show "case r of Inr x \<Rightarrow> Q x t | Inl e \<Rightarrow> P t"
    by (cases r') (auto simp: act_simps split: option.splits)
qed

lemma retry_unit_value: "0 < n \<Longrightarrow> retry_unit op n = retry_value op n"
proof
  fix s assume "0 < n"
  then obtain k where k: "nat n = Suc k" by (cases "nat n") auto
  have "fst (retry_go op (Suc k) s) \<noteq> Inr None" for s
    by (induction k arbitrary: s) (auto split: prod.splits sum.splits)
  then have "fst (retry_go op (nat n) s) \<noteq> Inr None" unfolding k .
  then show "retry_unit op n s = retry_value op n s"
    unfolding retry_unit_def retry_value_def retry_loop_def act_simps
    by (cases "retry_go op (nat n) s"; cases "fst (retry_go op (nat n) s)")
       (auto simp: act_simps split: option.splits)
qed

text \<open>An action that never raises a caught error is run once.\<close>

lemma retry_value_once:
  "op s = (r, t) \<Longrightarrow> (\<And>e. r = Inl e \<Longrightarrow> \<not> caught e) \<Longrightarrow> 0 < n \<Longrightarrow> retry_value op n s = (r, t)"
  by (cases r; cases "nat n")
     (auto simp: retry_value_def retry_loop_def act_simps)

lemma retry_unit_once:
  "op s = (r, t) \<Longrightarrow> (\<And>e. r = Inl e \<Longrightarrow> \<not> caught e) \<Longrightarrow> 0 < n \<Longrightarrow> retry_unit op n s = (r, t)"
  by (cases r; cases "nat n")
     (auto simp: retry_unit_def retry_loop_def act_simps)

text \<open>
  What the caller of a retried database call gets, when the first \<open>j\<close> attempts ended in a
  database or connection error and \<open>j\<close> is below the configured count: the value of the next
  attempt if it succeeds; its error if it is of another kind, or if it was the last attempt
  allowed; and in the last two cases no further attempt is made (the state is the one that
  attempt left).
\<close>

theorem retry_outcome:
  assumes "failed op j s = Some t" and "op t = (r, u)" and "int j < n"
  shows "(\<forall>x. r = Inr x \<longrightarrow> retry_value op n s = (Inr x, u)) \<and>
         (\<forall>e. r = Inl e \<and> (\<not> caught e \<or> int j = n - 1) \<longrightarrow> retry_value op n s = (Inl e, u))"
proof (intro conjI allI impI)
  fix x assume "r = Inr x"
  with assms retry_go_success [of op j s t x u "nat n"]
  show "retry_value op n s = (Inr x, u)"
    by (simp add: retry_value_def retry_loop_def act_simps)
next
  fix e assume e: "r = Inl e \<and> (\<not> caught e \<or> int j = n - 1)"
  with assms have "if caught e then nat n = Suc j else j < nat n" by auto
  with e assms retry_go_error [of op j s t e u "nat n"]
  show "retry_value op n s = (Inl e, u)"
    by (simp add: retry_value_def retry_loop_def act_simps)
qed

text \<open>Two failures and then a success, within three attempts: the state counts the failures
  still to come.\<close>

definition flaky :: "(nat, exn, string) act" where
  "flaky s = (if s = 0 then (Inr ''row'', 0) else (Inl (DataAccessError ''down''), s - 1))"

theorem retry_outcome_witness: "retry_value flaky 3 2 = (Inr ''row'', 0)"
proof -
  have "failed flaky 2 2 = Some 0" by (simp add: flaky_def caught_def numeral_2_eq_2)
  moreover have "flaky 0 = (Inr ''row'', 0)" by (simp add: flaky_def)
  ultimately show ?thesis using retry_outcome [of flaky 2 2 0 "Inr ''row''" 0 3] by simp
qed



section \<open>A table that fails on schedule\<close>

text \<open>
  A concrete database for the interpretations and witnesses: rows by id in an association list
  and a schedule of outages, one entry used up by each call.
\<close>

type_synonym 'row outage_table = "bool list \<times> (string, 'row) dict"

definition outage :: "'row outage_table \<Rightarrow> bool" where
  "outage d = (case fst d of [] \<Rightarrow> False | b # _ \<Rightarrow> b)"

definition outage_call ::
  "((string, 'row) dict \<Rightarrow> 'a \<times> (string, 'row) dict) \<Rightarrow> ('row outage_table, exn, 'a) act" where
  "outage_call f d =
     (if outage d then (Inl (DataAccessError ''outage''), (tl (fst d), snd d))
      else (Inr (fst (f (snd d))), (tl (fst d), snd (f (snd d)))))"

text \<open>The key of every row is computed from the row.\<close>

definition rows_keyed :: "('row \<Rightarrow> string) \<Rightarrow> (string, 'row) dict \<Rightarrow> bool" where
  "rows_keyed key rs \<longleftrightarrow> dict_ok rs \<and> (\<forall>(k, m) \<in> set rs. key m = k)"

lemma rows_keyed_list:
  "rows_keyed key rs \<Longrightarrow> map key (dict_values rs) = dict_keys rs \<and> map (\<lambda>m. (key m, m)) (dict_values rs) = rs"
  unfolding rows_keyed_def by (induction rs) auto

lemma rows_keyed_distinct: "rows_keyed key rs \<Longrightarrow> distinct (map key (dict_values rs))"
  using rows_keyed_list [of key rs] unfolding rows_keyed_def by presburger

lemma rows_keyed_get: "rows_keyed key rs \<Longrightarrow> dict_get rs k = Some m \<Longrightarrow> key m = k"
  by (auto simp: rows_keyed_def dest!: map_of_SomeD)

lemma rows_keyed_set: "rows_keyed key rs \<Longrightarrow> key m = k \<Longrightarrow> rows_keyed key (dict_set k m rs)"
  by (auto simp: rows_keyed_def set_dict_set)

lemma rows_keyed_pop: "rows_keyed key rs \<Longrightarrow> rows_keyed key (dict_pop k rs)"
  by (auto simp: rows_keyed_def set_dict_pop)

end
