(* ===== verification/Permissions.thy ===== *)
theory Permissions
  imports Errors
begin

text \<open>
  \<open>PermissionSet\<close> of \<^verbatim>\<open>csm/core/services/permissions.py\<close> and the resource and action names of
  \<^verbatim>\<open>csm/common/permission_names.py\<close>. A permission set is a dictionary from resources to
  nonempty sets of actions; its meaning is the set of pairs it grants, and the operators are
  shown to be union, intersection and equality of those sets. The order in which a Python
  \<open>set\<close> of resources is walked is not specified; the model walks the left operand's keys
  first, and no property depends on it.
\<close>

section \<open>Names\<close>

definition Resource :: "string list" where
  "Resource = [''alerts'', ''stats'', ''users'', ''capacity'', ''sysconfig'', ''s3accounts'',
     ''s3iamusers'', ''s3buckets'', ''s3bucketpolicy'', ''s3accesskeys'', ''auditlog'',
     ''system'', ''maintenance'', ''replace_node'', ''permissions'', ''notification'',
     ''security'', ''lyve_pilot'', ''health'', ''cluster_management'', ''s3_iam_users'',
     ''s3_bucket'', ''activities'']"

definition Action :: "string list" where
  "Action = [''list'', ''read'', ''create'', ''delete'', ''update'']"


section \<open>The class\<close>

type_synonym permission_set = "(string, string set) dict"

text \<open>\<open>__init__\<close>: the argument is \<open>None\<close>, or a dictionary of action collections; empty
  collections are dropped.\<close>

definition mk_permission_set :: "(string, string list) dict option \<Rightarrow> permission_set" where
  "mk_permission_set items =
     (case items of
        None \<Rightarrow> []
      | Some d \<Rightarrow> if d = [] then []
                  else map (\<lambda>(resource, actions). (resource, set actions))
                         (filter (\<lambda>(resource, actions). length actions > 0) d))"

definition actions_of :: "permission_set \<Rightarrow> string \<Rightarrow> string set" where
  "actions_of ps resource = dict_get_default ps resource {}"

text \<open>\<open>__eq__\<close>: equality of the two dictionaries, which does not look at the order.\<close>

definition perm_eq :: "permission_set \<Rightarrow> permission_set \<Rightarrow> bool" where
  "perm_eq lhs rhs \<longleftrightarrow>
     set (dict_keys lhs) = set (dict_keys rhs) \<and>
     (\<forall>resource \<in> set (dict_keys lhs). dict_get lhs resource = dict_get rhs resource)"

text \<open>\<open>__or__\<close> and \<open>__and__\<close>.\<close>

definition perm_or :: "permission_set \<Rightarrow> permission_set \<Rightarrow> permission_set" where
  "perm_or lhs rhs =
     (let resources = dict_keys lhs @ filter (\<lambda>r. r \<notin> set (dict_keys lhs)) (dict_keys rhs)
      in filter (\<lambda>(resource, actions). actions \<noteq> {})
           (map (\<lambda>resource. (resource, actions_of lhs resource \<union> actions_of rhs resource)) resources))"

definition perm_and :: "permission_set \<Rightarrow> permission_set \<Rightarrow> permission_set" where
  "perm_and lhs rhs =
     (let resources = filter (\<lambda>r. r \<in> set (dict_keys rhs)) (dict_keys lhs)
      in filter (\<lambda>(resource, actions). actions \<noteq> {})
           (map (\<lambda>resource. (resource, actions_of lhs resource \<inter> actions_of rhs resource)) resources))"

text \<open>\<open>__ior__\<close>: the loop over the right operand's keys, updating the left one in place.\<close>

fun perm_ior_loop :: "string list \<Rightarrow> permission_set \<Rightarrow> permission_set \<Rightarrow> permission_set" where
  "perm_ior_loop [] rhs self = self"
| "perm_ior_loop (resource # rs) rhs self =
     (let actions = actions_of self resource \<union> actions_of rhs resource
      in perm_ior_loop rs rhs
           (if actions \<noteq> {} then dict_set resource actions self else dict_pop resource self))"

definition perm_ior :: "permission_set \<Rightarrow> permission_set \<Rightarrow> permission_set" where
  "perm_ior self rhs = perm_ior_loop (dict_keys rhs) rhs self"

text \<open>\<open>__iand__\<close>: the loop walks the keys of the very dictionary it pops from. CPython's key
  iterator compares the dictionary's size with the size at its creation each time the next key
  is asked for, also at the end, and raises \<open>RuntimeError\<close> when it changed.\<close>

fun perm_iand_loop :: "nat \<Rightarrow> string list \<Rightarrow> permission_set \<Rightarrow> (permission_set, exn, unit) act" where
  "perm_iand_loop sz [] rhs self = (if length self \<noteq> sz then (Inl RuntimeError, self) else (Inr (), self))"
| "perm_iand_loop sz (resource # rs) rhs self =
     (if length self \<noteq> sz then (Inl RuntimeError, self)
      else let actions = actions_of self resource \<inter> actions_of rhs resource
           in perm_iand_loop sz rs rhs
                (if actions \<noteq> {} then dict_set resource actions self else dict_pop resource self))"

definition perm_iand :: "permission_set \<Rightarrow> permission_set \<Rightarrow> (exn + unit) \<times> permission_set" where
  "perm_iand self rhs = perm_iand_loop (length self) (dict_keys self) rhs self"


section \<open>Well-formedness and meaning\<close>

definition perm_ok :: "permission_set \<Rightarrow> bool" where
  "perm_ok ps \<longleftrightarrow> dict_ok ps \<and> (\<forall>(resource, actions) \<in> set ps. actions \<noteq> {})"

definition grants :: "permission_set \<Rightarrow> (string \<times> string) set" where
  "grants ps = {(resource, action). action \<in> actions_of ps resource}"

lemma actions_of_set: "actions_of (dict_set r A ps) r' = (if r' = r then A else actions_of ps r')"
  by (simp add: actions_of_def dict_get_default_def)

lemma actions_of_pop: "actions_of (dict_pop r ps) r' = (if r' = r then {} else actions_of ps r')"
  by (simp add: actions_of_def dict_get_default_def)

lemma actions_of_not_key: "r \<notin> set (dict_keys ps) \<Longrightarrow> actions_of ps r = {}"
  by (simp add: actions_of_def dict_get_None_iff)

lemma grants_iff [simp]: "(r, a) \<in> grants ps \<longleftrightarrow> a \<in> actions_of ps r"
  by (simp add: grants_def)

lemma grants_eq_iff: "grants ps = grants qs \<longleftrightarrow> (\<forall>r. actions_of ps r = actions_of qs r)"
  by (auto simp: set_eq_iff)

lemma perm_ok_key: "perm_ok ps \<Longrightarrow> r \<in> set (dict_keys ps) \<longleftrightarrow> actions_of ps r \<noteq> {}"
proof
  assume ok: "perm_ok ps" and "r \<in> set (dict_keys ps)"
  then obtain A where "(r, A) \<in> set ps" by auto
  with ok show "actions_of ps r \<noteq> {}"
    by (auto simp: perm_ok_def actions_of_def dict_get_default_def dest!: map_of_is_SomeI)
qed (metis actions_of_not_key)

lemma map_of_graph: "map_of (map (\<lambda>r. (r, f r)) rs) k = (if k \<in> set rs then Some (f k) else None)"
  by (induction rs) auto

text \<open>A dictionary built by walking distinct keys and keeping the nonempty results.\<close>

abbreviation nonempty_graph :: "('k \<Rightarrow> 'v set) \<Rightarrow> 'k list \<Rightarrow> ('k, 'v set) dict" where
  "nonempty_graph f rs \<equiv> filter (\<lambda>(r, A). A \<noteq> {}) (map (\<lambda>r. (r, f r)) rs)"

lemma nonempty_graph_map: "nonempty_graph f rs = map (\<lambda>r. (r, f r)) (filter (\<lambda>r. f r \<noteq> {}) rs)"
  by (simp add: filter_map comp_def)

lemma collect_nonempty:
  assumes "distinct rs"
  shows "perm_ok (nonempty_graph f rs)"
    and "actions_of (nonempty_graph f rs) r = (if r \<in> set rs then f r else {})"
  using assms unfolding nonempty_graph_map
  by (auto simp: perm_ok_def comp_def actions_of_def dict_get_default_def map_of_graph)

abbreviation union_keys :: "permission_set \<Rightarrow> permission_set \<Rightarrow> string list" where
  "union_keys l r \<equiv> dict_keys l @ filter (\<lambda>k. k \<notin> set (dict_keys l)) (dict_keys r)"

abbreviation common_keys :: "permission_set \<Rightarrow> permission_set \<Rightarrow> string list" where
  "common_keys l r \<equiv> filter (\<lambda>k. k \<in> set (dict_keys r)) (dict_keys l)"

lemma perm_or_graph:
  "perm_or l r = nonempty_graph (\<lambda>k. actions_of l k \<union> actions_of r k) (union_keys l r)"
  by (simp only: perm_or_def Let_def)

lemma perm_and_graph:
  "perm_and l r = nonempty_graph (\<lambda>k. actions_of l k \<inter> actions_of r k) (common_keys l r)"
  by (simp only: perm_and_def Let_def)

lemma distinct_union_keys: "perm_ok l \<Longrightarrow> perm_ok r \<Longrightarrow> distinct (union_keys l r)"
  by (auto simp: perm_ok_def)

lemma distinct_common_keys: "perm_ok l \<Longrightarrow> distinct (common_keys l r)"
  by (simp add: perm_ok_def)

lemma actions_of_or:
  assumes "perm_ok l" "perm_ok r"
  shows "actions_of (perm_or l r) k = actions_of l k \<union> actions_of r k"
proof (cases "k \<in> set (union_keys l r)")
  case True
  then show ?thesis
    by (simp only: perm_or_graph collect_nonempty(2) [OF distinct_union_keys [OF assms]] if_True)
next
  case False
  then have "k \<notin> set (dict_keys l)" and "k \<notin> set (dict_keys r)" by auto
  then have "actions_of l k = {}" and "actions_of r k = {}"
    using actions_of_not_key by blast+
  with False show ?thesis
    by (simp only: perm_or_graph collect_nonempty(2) [OF distinct_union_keys [OF assms]]) simp
qed

lemma perm_ok_or [simp]: "perm_ok l \<Longrightarrow> perm_ok r \<Longrightarrow> perm_ok (perm_or l r)"
  unfolding perm_or_graph by (rule collect_nonempty(1) [OF distinct_union_keys])

lemma actions_of_and:
  assumes "perm_ok l"
  shows "actions_of (perm_and l r) k = actions_of l k \<inter> actions_of r k"
proof (cases "k \<in> set (common_keys l r)")
  case True
  then show ?thesis
    by (simp only: perm_and_graph collect_nonempty(2) [OF distinct_common_keys [OF assms]] if_True)
next
  case False
  then have "k \<notin> set (dict_keys l) \<or> k \<notin> set (dict_keys r)" by auto
  then have "actions_of l k \<inter> actions_of r k = {}"
    using actions_of_not_key by blast
  with False show ?thesis
    by (simp only: perm_and_graph collect_nonempty(2) [OF distinct_common_keys [OF assms]]) simp
qed

lemma perm_ok_and [simp]: "perm_ok l \<Longrightarrow> perm_ok (perm_and l r)"
  unfolding perm_and_graph by (rule collect_nonempty(1) [OF distinct_common_keys])

lemma actions_of_ior_loop:
  "actions_of (perm_ior_loop rs r s) k
     = (if k \<in> set rs then actions_of s k \<union> actions_of r k else actions_of s k)"
  by (induction rs arbitrary: s) (auto simp: Let_def actions_of_set actions_of_pop)

lemma perm_ok_set: "perm_ok ps \<Longrightarrow> A \<noteq> {} \<Longrightarrow> perm_ok (dict_set r A ps)"
  by (auto simp: perm_ok_def set_dict_set)

lemma perm_ok_pop: "perm_ok ps \<Longrightarrow> perm_ok (dict_pop r ps)"
  by (auto simp: perm_ok_def set_dict_pop)

lemma perm_ok_ior_loop: "perm_ok s \<Longrightarrow> perm_ok (perm_ior_loop rs r s)"
  by (induction rs arbitrary: s) (auto simp: Let_def perm_ok_set perm_ok_pop)

lemma perm_ok_ior [simp]: "perm_ok s \<Longrightarrow> perm_ok (perm_ior s r)"
  by (simp add: perm_ior_def perm_ok_ior_loop)

lemma actions_of_ior: "actions_of (perm_ior s r) k = actions_of s k \<union> actions_of r k"
  by (cases "k \<in> set (dict_keys r)") (simp_all add: perm_ior_def actions_of_ior_loop actions_of_not_key)

lemma perm_ok_mk [simp]: "dict_ok d \<Longrightarrow> perm_ok (mk_permission_set (Some d))"
proof -
  assume "dict_ok d"
  then have "distinct (map fst (filter (\<lambda>(r, as). length as > 0) d))"
    by (simp add: distinct_map_filter)
  then show ?thesis
    by (auto simp: mk_permission_set_def perm_ok_def case_prod_beta comp_def)
qed

lemma mk_permission_set_None [simp]: "mk_permission_set None = []"
  by (simp add: mk_permission_set_def)

lemma perm_ok_Nil [simp]: "perm_ok []"
  by (simp add: perm_ok_def)

lemma actions_of_Nil [simp]: "actions_of [] r = {}"
  by (simp add: actions_of_def dict_get_default_def)

lemma actions_of_mk:
  "dict_ok d \<Longrightarrow> actions_of (mk_permission_set (Some d)) r = set (dict_get_default d r [])"
proof (induction d)
  case (Cons p d)
  obtain k as where p: "p = (k, as)" by (cases p)
  have tail: "dict_get_default (mk_permission_set (Some d)) r {} = set (dict_get_default d r [])"
    using Cons by (simp add: actions_of_def)
  have "r = k \<Longrightarrow> dict_get d r = None"
    using Cons.prems p by (simp add: dict_get_None_iff)
  with tail p show ?case
    by (cases "r = k"; cases as)
       (auto simp: mk_permission_set_def actions_of_def dict_get_default_def split: if_splits)
qed (simp add: mk_permission_set_def dict_get_default_def)

lemma perm_eq_grants:
  assumes l: "perm_ok l" and r: "perm_ok r"
  shows "perm_eq l r \<longleftrightarrow> grants l = grants r"
proof
  assume eq: "perm_eq l r"
  show "grants l = grants r"
    unfolding grants_eq_iff
  proof
    fix k show "actions_of l k = actions_of r k"
    proof (cases "k \<in> set (dict_keys l)")
      case True
      with eq have "dict_get l k = dict_get r k" unfolding perm_eq_def by blast
      then show ?thesis by (simp add: actions_of_def dict_get_default_def)
    next
      case False
      with eq have "k \<notin> set (dict_keys r)" by (simp add: perm_eq_def)
      with False show ?thesis by (metis actions_of_not_key)
    qed
  qed
next
  assume "grants l = grants r"
  then have same: "\<And>k. actions_of l k = actions_of r k" by (simp only: grants_eq_iff)
  have keys: "set (dict_keys l) = set (dict_keys r)"
    using perm_ok_key [OF l] perm_ok_key [OF r] same by blast
  moreover have "dict_get l k = dict_get r k" if k: "k \<in> set (dict_keys l)" for k
  proof -
    from k keys obtain A B where "dict_get l k = Some A" "dict_get r k = Some B"
      by (metis dict_get_None_iff option.exhaust)
    with same [of k] show ?thesis by (simp add: actions_of_def)
  qed
  ultimately show "perm_eq l r" by (simp add: perm_eq_def)
qed


section \<open>The interface: a lattice of permissions\<close>

text \<open>
  What the rest of the program relies on: a representation of sets of granted pairs with union,
  intersection and equality. The middleware and the role manager use nothing else.
\<close>

locale permission_algebra =
  fixes ok :: "'p \<Rightarrow> bool"
    and meaning :: "'p \<Rightarrow> ('r \<times> 'a) set"
    and none :: 'p
    and join :: "'p \<Rightarrow> 'p \<Rightarrow> 'p"
    and meet :: "'p \<Rightarrow> 'p \<Rightarrow> 'p"
    and eq :: "'p \<Rightarrow> 'p \<Rightarrow> bool"
  assumes ok_none: "ok none" and meaning_none: "meaning none = {}"
    and ok_join: "ok p \<Longrightarrow> ok q \<Longrightarrow> ok (join p q)"
    and meaning_join: "ok p \<Longrightarrow> ok q \<Longrightarrow> meaning (join p q) = meaning p \<union> meaning q"
    and ok_meet: "ok p \<Longrightarrow> ok q \<Longrightarrow> ok (meet p q)"
    and meaning_meet: "ok p \<Longrightarrow> ok q \<Longrightarrow> meaning (meet p q) = meaning p \<inter> meaning q"
    and eq_meaning: "ok p \<Longrightarrow> ok q \<Longrightarrow> eq p q \<longleftrightarrow> meaning p = meaning q"
begin

text \<open>The test \<open>(held & required) == required\<close> is inclusion.\<close>

lemma meet_eq_subset: "ok held \<Longrightarrow> ok required \<Longrightarrow>
    eq (meet held required) required \<longleftrightarrow> meaning required \<subseteq> meaning held"
  by (auto simp: eq_meaning ok_meet meaning_meet)

lemma fold_join:
  assumes "\<forall>p \<in> set ps. ok p" and "ok p0"
  shows "ok (fold (\<lambda>p acc. join acc p) ps p0)
       \<and> meaning (fold (\<lambda>p acc. join acc p) ps p0) = meaning p0 \<union> (\<Union>p \<in> set ps. meaning p)"
  using assms by (induction ps arbitrary: p0) (auto simp: ok_join meaning_join)

lemma join_mono: "ok p \<Longrightarrow> ok q \<Longrightarrow> meaning p \<subseteq> meaning (join p q)"
  by (simp add: meaning_join)

end

interpretation por: permission_algebra perm_ok grants "[]" perm_or perm_and perm_eq
  by unfold_locales
     (auto simp: perm_eq_grants actions_of_or actions_of_and grants_def)

interpretation pior: permission_algebra perm_ok grants "[]" perm_ior perm_and perm_eq
  by unfold_locales
     (auto simp: perm_eq_grants actions_of_ior actions_of_and grants_def)


section \<open>The in-place intersection\<close>

text \<open>Once a pop has changed the size, the iterator raises, whatever keys are left.\<close>

lemma perm_iand_loop_size:
  "length self \<noteq> sz \<Longrightarrow> perm_iand_loop sz rs rhs self = (Inl RuntimeError, self)"
  by (cases rs) simp_all

lemma perm_iand_loop_result:
  assumes "perm_ok self" and "set rs \<subseteq> set (dict_keys self)" and "distinct rs"
  shows "fst (perm_iand_loop (length self) rs rhs self) =
           (if \<forall>r \<in> set rs. actions_of self r \<inter> actions_of rhs r \<noteq> {} then Inr () else Inl RuntimeError)"
  using assms
proof (induction rs arbitrary: self)
  case Nil
  then show ?case by simp
next
  case (Cons r rs)
  let ?A = "actions_of self r \<inter> actions_of rhs r"
  from Cons.prems have r: "r \<in> set (dict_keys self)" and ok: "dict_ok self"
    by (auto simp: perm_ok_def)
  then have pos: "0 < length self" by auto
  show ?case
  proof (cases "?A = {}")
    case True
    from ok r pos have "length (dict_pop r self) \<noteq> length self"
      by (simp only: length_dict_pop if_True)
    then have "perm_iand_loop (length self) rs rhs (dict_pop r self) = (Inl RuntimeError, dict_pop r self)"
      by (rule perm_iand_loop_size)
    with True show ?thesis by simp
  next
    case False
    let ?self' = "dict_set r ?A self"
    have len: "length ?self' = length self"
      using r by (simp only: length_dict_set if_True)
    have "perm_ok ?self'" using Cons.prems(1) False by (rule perm_ok_set)
    moreover have "set rs \<subseteq> set (dict_keys ?self')"
      using Cons.prems(2) by (simp only: dict_keys_set) auto
    moreover have "distinct rs" using Cons.prems(3) by simp
    ultimately have IH: "fst (perm_iand_loop (length ?self') rs rhs ?self') =
        (if \<forall>q \<in> set rs. actions_of ?self' q \<inter> actions_of rhs q \<noteq> {} then Inr () else Inl RuntimeError)"
      by (rule Cons.IH)
    have "\<And>q. q \<in> set rs \<Longrightarrow> actions_of ?self' q = actions_of self q"
      using Cons.prems(3) by (auto simp: actions_of_set)
    with IH False len show ?thesis by (simp add: Let_def)
  qed
qed

text \<open>
  The in-place intersection \<open>p &= q\<close> returns normally exactly when every resource of
  \<open>p\<close> keeps at least one action; if the intersection should drop a resource it raises
  \<open>RuntimeError\<close>, because the loop pops keys from the dictionary whose keys it is walking.
\<close>

theorem perm_iand_raises:
  assumes "perm_ok p"
  shows "fst (perm_iand p q) = Inl RuntimeError \<longleftrightarrow>
           (\<exists>resource \<in> set (dict_keys p). actions_of p resource \<inter> actions_of q resource = {})"
proof -
  from assms have "distinct (dict_keys p)" by (simp add: perm_ok_def)
  note res = perm_iand_loop_result [OF assms order_refl this, of q]
  show ?thesis
  proof (cases "\<forall>r \<in> set (dict_keys p). actions_of p r \<inter> actions_of q r \<noteq> {}")
    case True
    with res have "fst (perm_iand p q) = Inr ()" unfolding perm_iand_def by argo
    with True show ?thesis by auto
  next
    case False
    with res have "fst (perm_iand p q) = Inl RuntimeError" unfolding perm_iand_def by argo
    with False show ?thesis by blast
  qed
qed

theorem perm_iand_raises_witness:
  "fst (perm_iand [(''alerts'', {''list''}), (''users'', {''list''})] [(''alerts'', {''list'', ''read''})])
     = Inl RuntimeError"
proof -
  have "perm_ok [(''alerts'', {''list''}), (''users'', {''list''})]" by (simp add: perm_ok_def)
  from perm_iand_raises [OF this, of "[(''alerts'', {''list'', ''read''})]"] show ?thesis
    by (simp add: actions_of_def dict_get_default_def)
qed

text \<open>
  C25. A permission set is a faithful representation of the set of (resource, action) pairs it
  grants: the constructor grants what its argument lists, \<open>|\<close>, \<open>|=\<close> and \<open>&\<close> are union, union
  and intersection, \<open>==\<close> is equality of the granted sets, and the representation invariant
  (unique resources, no empty action set) is kept by all of them.
\<close>

theorem permission_set_refines_sets:
  assumes "perm_ok p" and "perm_ok q" and "dict_ok d"
  shows "grants (mk_permission_set (Some d)) = {(r, a). a \<in> set (dict_get_default d r [])}
       \<and> grants (perm_or p q) = grants p \<union> grants q
       \<and> grants (perm_ior p q) = grants p \<union> grants q
       \<and> grants (perm_and p q) = grants p \<inter> grants q
       \<and> (perm_eq p q \<longleftrightarrow> grants p = grants q)
       \<and> perm_ok (mk_permission_set (Some d)) \<and> perm_ok (perm_or p q)
       \<and> perm_ok (perm_ior p q) \<and> perm_ok (perm_and p q)"
  using assms
  by (simp add: por.meaning_join pior.meaning_join por.meaning_meet perm_eq_grants)
     (simp add: grants_def actions_of_mk)

theorem permission_set_refines_sets_witness:
  "grants (perm_and [(''users'', {''list'', ''create''})] [(''users'', {''list''}), (''stats'', {''list''})])
     = grants [(''users'', {''list'', ''create''})] \<inter> grants [(''users'', {''list''}), (''stats'', {''list''})]"
proof -
  have "perm_ok [(''users'', {''list'', ''create''})]"
    and "perm_ok [(''users'', {''list''}), (''stats'', {''list''})]"
    and "dict_ok [(''users'', [''list''])]"
    by (simp_all add: perm_ok_def)
  from permission_set_refines_sets [OF this] show ?thesis by blast
qed

end
