(* ===== verification/Roles.thy ===== *)
theory Roles
  imports Permissions
begin

text \<open>
  \<open>Role\<close> and \<open>RoleManager\<close> of \<^verbatim>\<open>csm/core/services/roles.py\<close>, with \<open>Validator.validate_type\<close>
  of \<^verbatim>\<open>csm/common/validate.py\<close>. The arguments of the manager are untyped Python values (parsed
  JSON), so they are values of \<open>pyval\<close>; a validation returns the same data at its type or the
  \<open>ValueError\<close> the source raises, in the order in which the source tests. The predefined roles
  are those of \<^verbatim>\<open>schema/roles.json\<close>.
\<close>

section \<open>Untyped values\<close>

datatype pyval =
    PNone | PBool bool | PInt int | PStr string
  | PList "pyval list" | PDict "(pyval \<times> pyval) list"

definition type_error :: "string \<Rightarrow> string \<Rightarrow> exn" where
  "type_error name typ = ValueError (''Type of '' @ name @ '' should be a '' @ typ)"

definition validate_str :: "pyval \<Rightarrow> string \<Rightarrow> exn + string" where
  "validate_str obj name = (case obj of PStr s \<Rightarrow> Inr s | _ \<Rightarrow> Inl (type_error name ''str''))"

definition validate_list :: "pyval \<Rightarrow> string \<Rightarrow> exn + pyval list" where
  "validate_list obj name = (case obj of PList xs \<Rightarrow> Inr xs | _ \<Rightarrow> Inl (type_error name ''list''))"

definition validate_dict :: "pyval \<Rightarrow> string \<Rightarrow> exn + (pyval, pyval) dict" where
  "validate_dict obj name = (case obj of PDict d \<Rightarrow> Inr d | _ \<Rightarrow> Inl (type_error name ''dict''))"


section \<open>Validation\<close>

fun validate_actions :: "pyval list \<Rightarrow> exn + string list" where
  "validate_actions [] = Inr []"
| "validate_actions (action # rest) =
     bind_sum (validate_str action ''action list element'') (\<lambda>a.
     bind_sum (validate_actions rest) (\<lambda>as. Inr (a # as)))"

fun validate_permission_items :: "(pyval, pyval) dict \<Rightarrow> exn + (string, string list) dict" where
  "validate_permission_items [] = Inr []"
| "validate_permission_items ((resource, actions) # rest) =
     bind_sum (validate_str resource ''resource name'') (\<lambda>r.
     bind_sum (validate_list actions ''actions'') (\<lambda>xs.
     bind_sum (validate_actions xs) (\<lambda>as.
     bind_sum (validate_permission_items rest) (\<lambda>d. Inr ((r, as) # d)))))"

definition validate_permissions :: "pyval \<Rightarrow> exn + (string, string list) dict" where
  "validate_permissions permissions =
     bind_sum (validate_dict permissions ''permission set'') validate_permission_items"

definition validate_name :: "pyval \<Rightarrow> exn + string" where
  "validate_name name = validate_str name ''role name''"

definition validate_role :: "pyval \<Rightarrow> pyval \<Rightarrow> exn + string \<times> (string, string list) dict" where
  "validate_role name permissions =
     bind_sum (validate_name name) (\<lambda>n.
     bind_sum (validate_permissions permissions) (\<lambda>d. Inr (n, d)))"

definition permissions_entry :: "(pyval, pyval) dict \<Rightarrow> pyval" where
  "permissions_entry role_value = dict_get_default role_value (PStr ''permissions'') PNone"

fun validate_role_items :: "(pyval, pyval) dict \<Rightarrow> exn + (string, (string, string list) dict) dict" where
  "validate_role_items [] = Inr []"
| "validate_role_items ((name, role_value) # rest) =
     bind_sum (validate_dict role_value ''role value'') (\<lambda>v.
       if permissions_entry v = PNone
       then Inl (ValueError ''Permission set should be specified for a role'')
       else bind_sum (validate_role name (permissions_entry v)) (\<lambda>nd.
            bind_sum (validate_role_items rest) (\<lambda>ds. Inr (nd # ds))))"

definition validate_roles :: "pyval \<Rightarrow> exn + (string, (string, string list) dict) dict" where
  "validate_roles roles = bind_sum (validate_dict roles ''roles argument'') validate_role_items"


section \<open>The manager\<close>

record role =
  role_name :: "string option"
  role_permissions :: permission_set

definition NO_ROLE :: role where
  "NO_ROLE = \<lparr>role_name = None, role_permissions = mk_permission_set None\<rparr>"

type_synonym role_manager = "(string, role) dict"

definition mk_role :: "string \<Rightarrow> (string, string list) dict \<Rightarrow> role" where
  "mk_role name permissions =
     \<lparr>role_name = Some name, role_permissions = mk_permission_set (Some permissions)\<rparr>"

definition init_role_manager :: "pyval \<Rightarrow> exn + role_manager" where
  "init_role_manager predefined_roles =
     bind_sum (validate_roles predefined_roles) (\<lambda>roles.
     Inr (map (\<lambda>(name, permissions). (name, mk_role name permissions)) roles))"

definition find_role :: "role_manager \<Rightarrow> string \<Rightarrow> role" where
  "find_role roles name = dict_get_default roles name NO_ROLE"

fun calc_loop :: "role_manager \<Rightarrow> string list \<Rightarrow> permission_set \<Rightarrow> permission_set" where
  "calc_loop roles [] permissions = permissions"
| "calc_loop roles (name # names) permissions =
     calc_loop roles names (perm_ior permissions (role_permissions (find_role roles name)))"

definition calc_effective_permissions :: "role_manager \<Rightarrow> string list \<Rightarrow> permission_set" where
  "calc_effective_permissions roles role_names = calc_loop roles role_names (mk_permission_set None)"

definition add_role :: "pyval \<Rightarrow> pyval \<Rightarrow> (role_manager, exn, bool) act" where
  "add_role name permissions roles =
     (case validate_role name permissions of
        Inl e \<Rightarrow> (Inl e, roles)
      | Inr (n, d) \<Rightarrow>
          if n \<in> set (dict_keys roles) then (Inr False, roles)
          else (Inr True, dict_set n (mk_role n d) roles))"

definition delete_role :: "pyval \<Rightarrow> (role_manager, exn, unit) act" where
  "delete_role name roles =
     (case validate_name name of
        Inl e \<Rightarrow> (Inl e, roles)
      | Inr n \<Rightarrow> (Inr (), dict_pop n roles))"

definition get_permissions :: "role_manager \<Rightarrow> string list \<Rightarrow> permission_set" where
  "get_permissions roles role_names = calc_effective_permissions roles role_names"


section \<open>Well-formed values and managers\<close>

text \<open>A Python dictionary has unique keys; \<open>pyval_ok\<close> says so at every level.\<close>

fun pyval_ok :: "pyval \<Rightarrow> bool" where
  "pyval_ok (PList xs) = (\<forall>x \<in> set xs. pyval_ok x)"
| "pyval_ok (PDict d) = (distinct (map fst d) \<and> (\<forall>p \<in> set d. pyval_ok (fst p) \<and> pyval_ok (snd p)))"
| "pyval_ok _ = True"

definition roles_ok :: "role_manager \<Rightarrow> bool" where
  "roles_ok roles \<longleftrightarrow> dict_ok roles \<and>
     (\<forall>(n, r) \<in> set roles. role_name r = Some n \<and> perm_ok (role_permissions r))"

lemma validate_str_Inr [simp]: "validate_str v m = Inr s \<longleftrightarrow> v = PStr s"
  by (cases v) (simp_all add: validate_str_def)

lemma validate_list_Inr [simp]: "validate_list v m = Inr s \<longleftrightarrow> v = PList s"
  by (cases v) (simp_all add: validate_list_def)

lemma validate_dict_Inr [simp]: "validate_dict v m = Inr s \<longleftrightarrow> v = PDict s"
  by (cases v) (simp_all add: validate_dict_def)

lemma validate_name_Inr [simp]: "validate_name v = Inr s \<longleftrightarrow> v = PStr s"
  by (simp add: validate_name_def)

lemma validate_actions_Inr [simp]: "validate_actions xs = Inr as \<longleftrightarrow> xs = map PStr as"
  by (induction xs arbitrary: as) (auto simp: Cons_eq_map_conv)

text \<open>A typed permission dictionary as the untyped value it was read from.\<close>

definition untyped :: "(string, string list) dict \<Rightarrow> (pyval, pyval) dict" where
  "untyped d = map (\<lambda>(r, as). (PStr r, PList (map PStr as))) d"

lemma validate_permission_items_Inr: "validate_permission_items d = Inr d' \<longleftrightarrow> d = untyped d'"
proof (induction d arbitrary: d')
  case (Cons p d)
  then show ?case by (cases p) (auto simp: Cons_eq_map_conv untyped_def)
qed (simp add: untyped_def eq_commute)

lemma validate_permissions_Inr: "validate_permissions p = Inr d' \<longleftrightarrow> p = PDict (untyped d')"
  by (auto simp: validate_permissions_def validate_permission_items_Inr)

lemma validate_permissions_ok:
  assumes "validate_permissions p = Inr d" and "pyval_ok p"
  shows "dict_ok d"
proof -
  from assms have "distinct (map PStr (map fst d))"
    by (simp add: validate_permissions_Inr untyped_def case_prod_beta comp_def)
  then show ?thesis by (simp only: distinct_map)
qed

lemma validate_role_Inr:
  "validate_role n p = Inr (m, d) \<longleftrightarrow> n = PStr m \<and> validate_permissions p = Inr d"
  by (auto simp: validate_role_def)

lemma pyval_ok_entry: "pyval_ok (PDict v) \<Longrightarrow> pyval_ok (permissions_entry v)"
  by (auto simp: permissions_entry_def dict_get_default_def split: option.splits
      dest!: map_of_SomeD)

lemma validate_role_items_ok:
  "validate_role_items d = Inr rs \<Longrightarrow> pyval_ok (PDict d) \<Longrightarrow>
     map fst d = map PStr (map fst rs) \<and> (\<forall>(n, p) \<in> set rs. dict_ok p)"
proof (induction d arbitrary: rs)
  case (Cons nv rest)
  obtain name v0 where nv: "nv = (name, v0)" by (cases nv)
  with Cons.prems(1) obtain v m p ds where v: "v0 = PDict v"
    and r: "validate_role name (permissions_entry v) = Inr (m, p)"
    and ds: "validate_role_items rest = Inr ds" and rs: "rs = (m, p) # ds"
    by (auto split: if_splits)
  have "map fst rest = map PStr (map fst ds) \<and> (\<forall>(n, p) \<in> set ds. dict_ok p)"
    using Cons.IH [OF ds] Cons.prems(2) by simp
  moreover from r have "name = PStr m" and "validate_permissions (permissions_entry v) = Inr p"
    by (simp_all add: validate_role_Inr)
  moreover have "pyval_ok (permissions_entry v)"
    using Cons.prems(2) nv v by (intro pyval_ok_entry) simp
  ultimately show ?case using rs nv validate_permissions_ok by auto
qed simp

lemma init_role_manager_ok:
  assumes "init_role_manager v = Inr roles" and "pyval_ok v"
  shows "roles_ok roles"
proof -
  from assms(1) obtain d rs where v: "v = PDict d" and rs: "validate_role_items d = Inr rs"
    and roles: "roles = map (\<lambda>(n, p). (n, mk_role n p)) rs"
    by (auto simp: init_role_manager_def validate_roles_def)
  from validate_role_items_ok [OF rs] assms(2) v
  have keys: "map fst d = map PStr (map fst rs)" and ps: "\<forall>(n, p) \<in> set rs. dict_ok p" by auto
  from assms(2) v have "distinct (map fst d)" by simp
  with keys have "distinct (map fst rs)" by (simp only: distinct_map)
  with ps roles show ?thesis
    by (auto simp: roles_ok_def comp_def case_prod_beta mk_role_def)
qed

lemma roles_ok_find: "roles_ok roles \<Longrightarrow> perm_ok (role_permissions (find_role roles n))"
  by (auto simp: roles_ok_def find_role_def dict_get_default_def NO_ROLE_def
      split: option.splits dest!: map_of_SomeD)

lemma calc_loop_fold:
  "calc_loop roles ns p = fold (\<lambda>q acc. perm_ior acc q) (map (\<lambda>n. role_permissions (find_role roles n)) ns) p"
  by (induction ns arbitrary: p) auto

lemma keeps_roles_ok_add: "pyval_ok p \<Longrightarrow> keeps roles_ok (add_role n p)"
  by (auto simp: keeps_def add_role_def roles_ok_def set_dict_set mk_role_def validate_role_Inr
      dest: validate_permissions_ok split: sum.splits)

lemma keeps_roles_ok_delete: "keeps roles_ok (delete_role n)"
  by (auto simp: keeps_def delete_role_def roles_ok_def set_dict_pop split: sum.splits)


lemma calc_effective_meaning:
  assumes "roles_ok roles"
  shows "perm_ok (calc_effective_permissions roles names)
       \<and> grants (calc_effective_permissions roles names)
           = (\<Union>n \<in> set names. grants (role_permissions (find_role roles n)))"
proof -
  have "\<forall>p \<in> set (map (\<lambda>n. role_permissions (find_role roles n)) names). perm_ok p"
    using roles_ok_find [OF assms] by auto
  from pior.fold_join [OF this perm_ok_Nil] show ?thesis
    by (simp add: calc_effective_permissions_def calc_loop_fold pior.meaning_none)
qed


section \<open>The predefined roles\<close>

text \<open>\<^verbatim>\<open>schema/roles.json\<close> as the value its parser returns.\<close>

definition json_role :: "(string, string list) dict \<Rightarrow> pyval" where
  "json_role d = PDict [(PStr ''permissions'', PDict (untyped d))]"

definition roles_json :: pyval where
  "roles_json = PDict [
     (PStr ''admin'', json_role [
        (''permissions'', [''list'']), (''alerts'', [''list'', ''update'', ''delete'']),
        (''maintenance'', [''list'', ''update'']), (''stats'', [''list'']), (''capacity'', [''list'']),
        (''sysconfig'', [''list'', ''update'', ''delete'']),
        (''users'', [''create'', ''list'', ''update'', ''delete'']),
        (''s3accounts'', [''create'', ''list'', ''update'', ''delete'']),
        (''auditlog'', [''list'', ''read'']), (''system'', [''list'', ''update'']),
        (''notification'', [''update'']), (''security'', [''read'', ''update'']),
        (''lyve_pilot'', [''list'', ''update'']), (''replace_node'', [''create'', ''list'']),
        (''health'', [''list'']), (''cluster_management'', [''create'', ''list'']),
        (''s3_iam_users'', [''create'', ''list'', ''update'', ''delete'']),
        (''s3_bucket'', [''update'']), (''activities'', [''create'', ''read'', ''update''])]),
     (PStr ''manage'', json_role [
        (''permissions'', [''list'']), (''alerts'', [''list'', ''update'', ''delete'']),
        (''stats'', [''list'']), (''capacity'', [''list'']),
        (''sysconfig'', [''list'', ''update'', ''delete'']),
        (''users'', [''list'', ''update'', ''delete'', ''create'']),
        (''s3accounts'', [''list'', ''create'', ''update'', ''delete'']),
        (''auditlog'', [''list'', ''read'']), (''replace_node'', [''list'']),
        (''health'', [''list'']), (''security'', [''read'']),
        (''cluster_management'', [''create'', ''list'']),
        (''s3_iam_users'', [''create'', ''list'', ''update'', ''delete'']),
        (''s3_bucket'', [''update'']), (''activities'', [''create'', ''read'', ''update''])]),
     (PStr ''monitor'', json_role [
        (''permissions'', [''list'']), (''alerts'', [''list'']), (''stats'', [''list'']),
        (''capacity'', [''list'']), (''sysconfig'', [''list'']),
        (''users'', [''list'', ''update'', ''delete'']), (''s3accounts'', [''list'']),
        (''auditlog'', [''list'', ''read'']), (''replace_node'', [''list'']),
        (''health'', [''list'']), (''security'', [''read'']), (''s3_iam_users'', [''list'']),
        (''activities'', [''read''])]),
     (PStr ''s3'', json_role [
        (''permissions'', [''list'']), (''s3accounts'', [''list'', ''update'', ''delete'']),
        (''s3iamusers'', [''list'', ''update'', ''delete'', ''create'']),
        (''s3buckets'', [''list'', ''update'', ''delete'', ''create'']),
        (''s3bucketpolicy'', [''list'', ''delete'', ''create'']),
        (''s3accesskeys'', [''list'', ''update'', ''delete'', ''create''])])]"

definition predefined_roles :: role_manager where
  "predefined_roles = (case init_role_manager roles_json of Inl _ \<Rightarrow> [] | Inr roles \<Rightarrow> roles)"

text \<open>Inclusion of permission sets, as it can be computed: every listed resource's actions.\<close>

definition perm_sub :: "permission_set \<Rightarrow> permission_set \<Rightarrow> bool" where
  "perm_sub p q \<longleftrightarrow> list_all (\<lambda>(r, A). A \<subseteq> actions_of q r) p"

lemma perm_sub_grants: "perm_sub p q \<Longrightarrow> grants p \<subseteq> grants q"
proof (rule subrelI)
  fix r a assume "perm_sub p q" and "(r, a) \<in> grants p"
  then obtain A where "(r, A) \<in> set p" and "a \<in> A"
    by (auto simp: actions_of_def dict_get_default_def split: option.splits dest!: map_of_SomeD)
  with \<open>perm_sub p q\<close> show "(r, a) \<in> grants q"
    by (auto simp: perm_sub_def list_all_iff)
qed

lemma init_roles_json: "\<not> isl (init_role_manager roles_json)"
  by code_simp

lemma pyval_ok_roles_json: "pyval_ok roles_json"
  by code_simp

lemma predefined_roles_eq: "init_role_manager roles_json = Inr predefined_roles"
  using init_roles_json by (cases "init_role_manager roles_json") (simp_all add: predefined_roles_def)

lemma predefined_sub_manage:
  "perm_sub (role_permissions (find_role predefined_roles ''monitor''))
     (role_permissions (find_role predefined_roles ''manage''))"
  by code_simp

lemma predefined_sub_admin:
  "perm_sub (role_permissions (find_role predefined_roles ''manage''))
     (role_permissions (find_role predefined_roles ''admin''))"
  by code_simp


section \<open>Properties\<close>

text \<open>
  The effective permissions of a list of role names are exactly the union of what the named
  roles grant: an action is allowed if and only if one of the names is a role of the manager
  that grants it; an unknown name adds nothing (it is not an error).
\<close>

theorem effective_permissions_union:
  assumes "roles_ok roles"
  shows "(resource, action) \<in> grants (calc_effective_permissions roles names) \<longleftrightarrow>
           (\<exists>n r. n \<in> set names \<and> dict_get roles n = Some r
                  \<and> action \<in> actions_of (role_permissions r) resource)"
proof -
  have "action \<in> actions_of (role_permissions (find_role roles n)) resource \<longleftrightarrow>
      (\<exists>r. dict_get roles n = Some r \<and> action \<in> actions_of (role_permissions r) resource)" for n
    by (cases "dict_get roles n") (simp_all add: find_role_def NO_ROLE_def)
  with calc_effective_meaning [OF assms, of names] show ?thesis
    by auto
qed

theorem effective_permissions_union_witness:
  "(''users'', ''delete'') \<in> grants (calc_effective_permissions predefined_roles [''monitor'', ''nfs''])"
proof -
  have "roles_ok predefined_roles"
    using predefined_roles_eq pyval_ok_roles_json by (rule init_role_manager_ok)
  moreover have "''delete'' \<in> actions_of (role_permissions (find_role predefined_roles ''monitor'')) ''users''"
    by code_simp
  moreover have "dict_get predefined_roles ''monitor'' = Some (find_role predefined_roles ''monitor'')"
  proof -
    have "dict_get predefined_roles ''monitor'' \<noteq> None" by code_simp
    then show ?thesis by (auto simp: find_role_def)
  qed
  ultimately show ?thesis
    using effective_permissions_union [of predefined_roles "''users''" "''delete''" "[''monitor'', ''nfs'']"]
    by auto
qed

text \<open>
  Adding a role: a malformed name or permission value raises and leaves the manager as it
  was; a name that is present is refused and its permissions stay; a new name gets exactly the
  listed permissions, no other role changes, and the manager stays well-formed.
\<close>

theorem add_role_spec:
  assumes "roles_ok roles" and "pyval_ok permissions"
  shows "case validate_role name permissions of
           Inl e \<Rightarrow> add_role name permissions roles = (Inl e, roles)
         | Inr (n, d) \<Rightarrow>
             (if dict_get roles n \<noteq> None then add_role name permissions roles = (Inr False, roles)
              else \<exists>roles'. add_role name permissions roles = (Inr True, roles') \<and> roles_ok roles'
                 \<and> grants (calc_effective_permissions roles' [n])
                     = {(r, a). a \<in> set (dict_get_default d r [])}
                 \<and> (\<forall>m. m \<noteq> n \<longrightarrow> dict_get roles' m = dict_get roles m))"
proof (cases "validate_role name permissions")
  case (Inl e)
  then show ?thesis by (simp add: add_role_def)
next
  case (Inr nd)
  obtain n d where nd: "nd = (n, d)" by (cases nd)
  show ?thesis
  proof (cases "dict_get roles n = None")
    case False
    then have "n \<in> set (dict_keys roles)" by (simp only: dict_get_None_iff) simp
    with Inr nd False show ?thesis by (simp add: add_role_def)
  next
    case True
    then have new: "n \<notin> set (dict_keys roles)" by (simp only: dict_get_None_iff) simp
    let ?roles' = "dict_set n (mk_role n d) roles"
    have add: "add_role name permissions roles = (Inr True, ?roles')"
      using Inr nd new by (simp add: add_role_def)
    with keepsD [OF keeps_roles_ok_add [OF assms(2), of name] assms(1)]
    have ok: "roles_ok ?roles'" by simp
    have "dict_ok d"
      using Inr nd validate_permissions_ok [OF _ assms(2)] by (simp add: validate_role_Inr)
    then have "grants (calc_effective_permissions ?roles' [n]) = {(r, a). a \<in> set (dict_get_default d r [])}"
      using calc_effective_meaning [OF ok, of "[n]"]
      by (simp add: find_role_def dict_get_default_def mk_role_def grants_def actions_of_mk)
    with add ok Inr nd True show ?thesis by simp
  qed
qed

theorem add_role_spec_witness:
  "fst (add_role (PStr ''audit'') (PDict [(PStr ''auditlog'', PList [PStr ''list''])]) []) = Inr True"
proof -
  let ?p = "PDict [(PStr ''auditlog'', PList [PStr ''list''])]"
  have "roles_ok []" and "pyval_ok ?p" by (simp_all add: roles_ok_def)
  note spec = add_role_spec [OF this, of "PStr ''audit''"]
  have "validate_role (PStr ''audit'') ?p = Inr (''audit'', [(''auditlog'', [''list''])])"
    by (simp add: validate_role_Inr validate_permissions_Inr untyped_def)
  with spec show ?thesis by auto
qed

text \<open>
  The predefined roles are accepted by the validation and form a chain: whatever the
  monitor role may do the manage role may do, and whatever that may do the admin role may do.
\<close>

theorem predefined_role_chain:
  "init_role_manager roles_json = Inr predefined_roles \<and>
   grants (calc_effective_permissions predefined_roles [''monitor''])
     \<subseteq> grants (calc_effective_permissions predefined_roles [''manage'']) \<and>
   grants (calc_effective_permissions predefined_roles [''manage''])
     \<subseteq> grants (calc_effective_permissions predefined_roles [''admin''])"
proof -
  have ok: "roles_ok predefined_roles"
    using predefined_roles_eq pyval_ok_roles_json by (rule init_role_manager_ok)
  show ?thesis
    using predefined_roles_eq perm_sub_grants [OF predefined_sub_manage]
      perm_sub_grants [OF predefined_sub_admin] calc_effective_meaning [OF ok]
    by simp
qed


section \<open>Typing of the untyped values\<close>

text \<open>The type a roles file has to have: names are strings, each role is a dictionary with an entry
  \<open>permissions\<close> that maps strings to lists of strings.\<close>

fun is_str :: "pyval \<Rightarrow> bool" where
  "is_str (PStr _) = True"
| "is_str _ = False"

fun actions_typed :: "pyval \<Rightarrow> bool" where
  "actions_typed (PList xs) = list_all is_str xs"
| "actions_typed _ = False"

fun permissions_typed :: "pyval \<Rightarrow> bool" where
  "permissions_typed (PDict d) = list_all (\<lambda>(resource, actions). is_str resource \<and> actions_typed actions) d"
| "permissions_typed _ = False"

fun role_typed :: "pyval \<Rightarrow> bool" where
  "role_typed (PDict d) = permissions_typed (permissions_entry d)"
| "role_typed _ = False"

fun roles_typed :: "pyval \<Rightarrow> bool" where
  "roles_typed (PDict d) = list_all (\<lambda>(name, role_value). is_str name \<and> role_typed role_value) d"
| "roles_typed _ = False"

text \<open>A validation with result \<open>m\<close> decides the type \<open>b\<close>: a \<open>ValueError\<close> when it fails.\<close>

definition decides :: "exn + 'a \<Rightarrow> bool \<Rightarrow> bool" where
  "decides m b \<longleftrightarrow> (if b then \<exists>x. m = Inr x else \<exists>msg. m = Inl (ValueError msg))"

lemma decides_Inr [simp]: "decides (Inr x) b \<longleftrightarrow> b"
  by (simp add: decides_def)

lemma decides_ValueError [simp]: "decides (Inl (ValueError msg)) b \<longleftrightarrow> \<not> b"
  by (simp add: decides_def)

lemma decides_type_error [simp]: "decides (Inl (type_error name typ)) b \<longleftrightarrow> \<not> b"
  by (simp add: type_error_def)

lemma decides_bind:
  assumes "decides m b" and "\<And>x. m = Inr x \<Longrightarrow> decides (f x) c"
  shows "decides (bind_sum m f) (b \<and> c)"
  using assms by (cases m) (auto simp: decides_def split: if_splits)

lemma decides_str: "decides (validate_str v name) (is_str v)"
  by (cases v) (simp_all add: validate_str_def)

lemma decides_actions: "decides (validate_actions xs) (list_all is_str xs)"
proof (induction xs)
  case (Cons x xs)
  have "decides (bind_sum (validate_actions xs) (\<lambda>as. Inr (a # as))) (list_all is_str xs \<and> True)" for a
    by (rule decides_bind [OF Cons.IH]) simp
  then have "decides (bind_sum (validate_actions xs) (\<lambda>as. Inr (a # as))) (list_all is_str xs)" for a by simp
  from decides_bind [OF decides_str this] show ?case by simp
qed simp

lemma decides_list_actions:
  "decides (bind_sum (validate_list v name) (\<lambda>xs. bind_sum (validate_actions xs) f)) (actions_typed v \<and> c)"
  if "\<And>as. decides (f as) c"
  using decides_bind [OF decides_actions that] by (cases v) (simp_all add: validate_list_def)

lemma decides_permission_items:
  "decides (validate_permission_items d) (list_all (\<lambda>(resource, actions). is_str resource \<and> actions_typed actions) d)"
proof (induction d)
  case (Cons p d)
  obtain resource actions where p: "p = (resource, actions)" by (cases p)
  let ?t = "list_all (\<lambda>(resource, actions). is_str resource \<and> actions_typed actions) d"
  have "decides (bind_sum (validate_permission_items d) (\<lambda>d'. Inr ((r, as) # d'))) (?t \<and> True)" for r as
    by (rule decides_bind [OF Cons.IH]) simp
  then have "decides (bind_sum (validate_permission_items d) (\<lambda>d'. Inr ((r, as) # d'))) ?t" for r as by simp
  from decides_bind [OF decides_str decides_list_actions [OF this]] show ?case by (simp add: p)
qed simp

lemma decides_permissions: "decides (validate_permissions v) (permissions_typed v)"
  using decides_permission_items by (cases v) (simp_all add: validate_permissions_def validate_dict_def)

lemma decides_role: "decides (validate_role name v) (is_str name \<and> permissions_typed v)"
proof -
  have "decides (bind_sum (validate_permissions v) (\<lambda>d. Inr (n, d))) (permissions_typed v \<and> True)" for n
    by (rule decides_bind [OF decides_permissions]) simp
  then show ?thesis unfolding validate_role_def validate_name_def by (intro decides_bind [OF decides_str]) simp
qed

lemma decides_role_items:
  "decides (validate_role_items d) (list_all (\<lambda>(name, role_value). is_str name \<and> role_typed role_value) d)"
proof (induction d)
  case (Cons p d)
  obtain name v where p: "p = (name, v)" by (cases p)
  let ?t = "list_all (\<lambda>(name, role_value). is_str name \<and> role_typed role_value) d"
  have "decides (bind_sum (validate_role_items d) (\<lambda>ds. Inr (nd # ds))) (?t \<and> True)" for nd
    by (rule decides_bind [OF Cons.IH]) simp
  then have rest: "decides (bind_sum (validate_role name e) (\<lambda>nd. bind_sum (validate_role_items d) (\<lambda>ds. Inr (nd # ds))))
      ((is_str name \<and> permissions_typed e) \<and> ?t)" for e
    by (intro decides_bind [OF decides_role]) simp
  show ?case
  proof (cases v)
    case (PDict rd)
    with rest [of "permissions_entry rd"] show ?thesis by (auto simp: p validate_dict_def)
  qed (simp_all add: p validate_dict_def)
qed simp

lemma decides_init: "decides (init_role_manager v) (roles_typed v)"
proof (cases v)
  case (PDict d)
  with decides_bind [OF decides_role_items [of d], of "\<lambda>roles. Inr (map (\<lambda>(n, p). (n, mk_role n p)) roles)" True]
  show ?thesis by (simp add: init_role_manager_def validate_roles_def validate_dict_def)
qed (simp_all add: init_role_manager_def validate_roles_def validate_dict_def)

text \<open>Changes of a manager, with any values of Python as arguments.\<close>

datatype role_op = AddRole pyval pyval | DeleteRole pyval

fun role_op_ok :: "role_op \<Rightarrow> bool" where
  "role_op_ok (AddRole name permissions) = pyval_ok permissions"
| "role_op_ok (DeleteRole name) = True"

fun run_role_op :: "role_op \<Rightarrow> role_manager \<Rightarrow> role_manager" where
  "run_role_op (AddRole name permissions) roles = snd (add_role name permissions roles)"
| "run_role_op (DeleteRole name) roles = snd (delete_role name roles)"

lemma run_role_ops_ok: "roles_ok roles \<Longrightarrow> \<forall>op \<in> set ops. role_op_ok op \<Longrightarrow> roles_ok (fold run_role_op ops roles)"
proof (induction ops arbitrary: roles)
  case (Cons op ops)
  have "roles_ok (run_role_op op roles)"
    using Cons.prems keepsD [OF keeps_roles_ok_add] keepsD [OF keeps_roles_ok_delete] by (cases op) auto
  with Cons show ?case by simp
qed simp

text \<open>
  C14. The role manager is type safe. The constructor accepts exactly the values that have the type of
  a roles file and raises \<open>ValueError\<close> for every other value; and whatever roles are added or deleted
  afterwards, with arguments of any type, every stored role has its own name and a permission set
  without duplicate or empty entries, and so has what is computed for a user from any role names.
\<close>

theorem roles_type_safe:
  assumes "pyval_ok v" and "\<forall>op \<in> set ops. role_op_ok op"
  shows "if roles_typed v
         then \<exists>roles. init_role_manager v = Inr roles \<and> roles_ok (fold run_role_op ops roles)
            \<and> perm_ok (calc_effective_permissions (fold run_role_op ops roles) names)
         else \<exists>msg. init_role_manager v = Inl (ValueError msg)"
proof (cases "roles_typed v")
  case True
  with decides_init [of v] obtain roles where r: "init_role_manager v = Inr roles" by (auto simp: decides_def)
  from run_role_ops_ok [OF init_role_manager_ok [OF r assms(1)] assms(2)]
  have "roles_ok (fold run_role_op ops roles)" .
  with r True calc_effective_meaning [OF this, of names] show ?thesis by auto
next
  case False
  with decides_init [of v] show ?thesis by (simp add: decides_def)
qed

theorem roles_type_safe_witness:
  "\<exists>roles. init_role_manager roles_json = Inr roles \<and>
     perm_ok (calc_effective_permissions
       (fold run_role_op [DeleteRole (PStr ''s3''), AddRole (PInt 3) PNone] roles) [''admin''])"
proof -
  have "\<forall>op \<in> set [DeleteRole (PStr ''s3''), AddRole (PInt 3) PNone]. role_op_ok op" by simp
  moreover have "roles_typed roles_json" by code_simp
  ultimately show ?thesis using roles_type_safe [OF pyval_ok_roles_json] by (metis (no_types, lifting))
qed

end
