(* ===== verification/Session_Store.thy ===== *)
theory Session_Store
  imports Retry Permissions
begin

text \<open>
  Sessions and where they are kept: \<^verbatim>\<open>csm/core/services/session/session_factory.py\<close>,
  \<^verbatim>\<open>csm/core/data/models/session.py\<close> and the credential classes of
  \<^verbatim>\<open>csm/core/services/sessions.py\<close>. The session manager calls a backend through four methods;
  a fifth entry of the record \<open>backend\<close> says what an assignment to \<open>expiry_time\<close> of a session
  object the backend returned does to the backend: the in-memory backend hands out the stored
  objects themselves, the database backend fresh copies. The database provider belongs to
  \<^verbatim>\<open>cortx.utils\<close>: it is a parameter, and what is assumed of it is the locale
  \<open>session_provider\<close>. Times are integers (microseconds since some epoch).
\<close>

section \<open>Sessions\<close>

datatype credentials =
    LocalCredentials string string
  | LdapCredentials string
  | S3Credentials string string string string

fun cred_user_id :: "credentials \<Rightarrow> string" where
  "cred_user_id (LocalCredentials u _) = u"
| "cred_user_id (LdapCredentials u) = u"
| "cred_user_id (S3Credentials u _ _ _) = u"

record session =
  session_id :: string
  expiry_time :: int
  session_credentials :: credentials
  session_permissions :: permission_set

abbreviation session_user :: "session \<Rightarrow> string" where
  "session_user s \<equiv> cred_user_id (session_credentials s)"

definition get_user_role :: "session \<Rightarrow> string option" where
  "get_user_role s = (case session_credentials s of LocalCredentials _ r \<Rightarrow> Some r | _ \<Rightarrow> None)"

definition is_expired :: "int \<Rightarrow> session \<Rightarrow> bool" where
  "is_expired now s \<longleftrightarrow> now > expiry_time s"


section \<open>The interface of a backend\<close>

record 'st backend =
  be_store :: "session \<Rightarrow> ('st, exn, unit) act"
  be_get :: "string \<Rightarrow> ('st, exn, session option) act"
  be_get_all :: "('st, exn, session list) act"
  be_delete :: "string \<Rightarrow> ('st, exn, unit) act"
  be_assign_expiry :: "session \<Rightarrow> int \<Rightarrow> 'st \<Rightarrow> 'st"


section \<open>InMemory\<close>

type_synonym stg = "(string, session) dict"

definition im_delete :: "string \<Rightarrow> (stg, exn, unit) act" where
  "im_delete sid stg =
     (if sid \<in> set (dict_keys stg) then (Inr (), dict_pop sid stg) else (Inl KeyError, stg))"

definition im_get :: "string \<Rightarrow> (stg, exn, session option) act" where
  "im_get sid stg = (Inr (dict_get stg sid), stg)"

definition im_get_all :: "(stg, exn, session list) act" where
  "im_get_all stg = (Inr (dict_values stg), stg)"

definition im_store :: "session \<Rightarrow> (stg, exn, unit) act" where
  "im_store s stg = (Inr (), dict_set (session_id s) s stg)"

text \<open>The assignment goes through the object the dictionary holds.\<close>

definition im_assign_expiry :: "session \<Rightarrow> int \<Rightarrow> stg \<Rightarrow> stg" where
  "im_assign_expiry s t stg =
     (case dict_get stg (session_id s) of
        None \<Rightarrow> stg
      | Some s' \<Rightarrow> dict_set (session_id s) (s'\<lparr>expiry_time := t\<rparr>) stg)"

definition in_memory :: "stg backend" where
  "in_memory = \<lparr>be_store = im_store, be_get = im_get, be_get_all = im_get_all,
     be_delete = im_delete, be_assign_expiry = im_assign_expiry\<rparr>"


section \<open>Database\<close>

text \<open>A row: \<open>SessionModel\<close>. The order of the actions of one resource is not significant.\<close>

record session_model =
  m_session_id :: string
  m_expiry_time :: int
  m_user_id :: string
  m_user_role :: string
  m_permission :: "(string, string set) dict"

definition instantiate_session ::
  "string \<Rightarrow> int \<Rightarrow> string \<Rightarrow> string \<Rightarrow> (string, string set) dict \<Rightarrow> session_model" where
  "instantiate_session sid expiry uid role perms =
     \<lparr>m_session_id = sid, m_expiry_time = expiry, m_user_id = uid, m_user_role = role,
      m_permission = perms\<rparr>"

datatype session_query = AllSessions | BySessionId string

text \<open>The calls of \<open>storage(SessionModel)\<close>.\<close>

record 'db session_db =
  sdb_get :: "session_query \<Rightarrow> ('db, exn, session_model list) act"
  sdb_store :: "session_model \<Rightarrow> ('db, exn, unit) act"
  sdb_delete :: "string \<Rightarrow> ('db, exn, unit) act"

definition db_get_retry :: "'db session_db \<Rightarrow> int \<Rightarrow> session_query \<Rightarrow> ('db, exn, session_model list option) act" where
  "db_get_retry S n q = retry_loop (sdb_get S q) n"

definition db_store_retry :: "'db session_db \<Rightarrow> int \<Rightarrow> session_model \<Rightarrow> ('db, exn, unit) act" where
  "db_store_retry S n m = retry_unit (sdb_store S m) n"

definition db_delete_retry :: "'db session_db \<Rightarrow> int \<Rightarrow> string \<Rightarrow> ('db, exn, unit) act" where
  "db_delete_retry S n sid = retry_unit (sdb_delete S sid) n"

text \<open>\<open>PermissionSet(model._permission)\<close>.\<close>

definition perm_of_model :: "(string, string set) dict \<Rightarrow> permission_set" where
  "perm_of_model d = filter (\<lambda>(r, A). A \<noteq> {}) d"

definition model_to_session :: "session_model \<Rightarrow> session" where
  "model_to_session m =
     \<lparr>session_id = m_session_id m, expiry_time = m_expiry_time m,
      session_credentials = LocalCredentials (m_user_id m) (m_user_role m),
      session_permissions = perm_of_model (m_permission m)\<rparr>"

text \<open>Iterating over the \<open>None\<close> of a \<open>_get\<close> that made no attempt raises.\<close>

definition convert_model_to_session :: "session_model list option \<Rightarrow> exn + session list" where
  "convert_model_to_session ms =
     (case ms of None \<Rightarrow> Inl TypeError | Some xs \<Rightarrow> Inr (map model_to_session xs))"

text \<open>Only local credentials have a \<open>_user_role\<close>.\<close>

definition convert_session_to_model :: "session \<Rightarrow> exn + session_model" where
  "convert_session_to_model s =
     (case session_credentials s of
        LocalCredentials u r \<Rightarrow>
          Inr (instantiate_session (session_id s) (expiry_time s) u r (session_permissions s))
      | _ \<Rightarrow> Inl AttributeError)"

definition db_get :: "'db session_db \<Rightarrow> int \<Rightarrow> string \<Rightarrow> ('db, exn, session option) act" where
  "db_get S n sid =
     bind_act (db_get_retry S n (BySessionId sid)) (\<lambda>ms.
     bind_act (of_sum (convert_model_to_session ms)) (\<lambda>ss.
     case ss of [] \<Rightarrow> ret None | s # _ \<Rightarrow> ret (Some s)))"

definition db_get_all :: "'db session_db \<Rightarrow> int \<Rightarrow> ('db, exn, session list) act" where
  "db_get_all S n =
     bind_act (db_get_retry S n AllSessions) (\<lambda>ms. of_sum (convert_model_to_session ms))"

definition db_store :: "'db session_db \<Rightarrow> int \<Rightarrow> session \<Rightarrow> ('db, exn, unit) act" where
  "db_store S n s =
     bind_act (of_sum (convert_session_to_model s)) (\<lambda>m. db_store_retry S n m)"

definition db_delete :: "'db session_db \<Rightarrow> int \<Rightarrow> string \<Rightarrow> ('db, exn, unit) act" where
  "db_delete S n sid = db_delete_retry S n sid"

definition db_assign_expiry :: "session \<Rightarrow> int \<Rightarrow> 'db \<Rightarrow> 'db" where
  "db_assign_expiry s t db = db"

definition database :: "'db session_db \<Rightarrow> int \<Rightarrow> 'db backend" where
  "database S n = \<lparr>be_store = db_store S n, be_get = db_get S n, be_get_all = db_get_all S n,
     be_delete = db_delete S n, be_assign_expiry = db_assign_expiry\<rparr>"


section \<open>SessionFactory\<close>

datatype backend_choice = ChooseInMemory | ChooseDatabase

text \<open>\<open>Database.__init__\<close>: no provider is an error, the retry settings must be integers. The
  table of backends is built, and so the database backend constructed, before the
  configuration is read.\<close>

definition init_database :: "'p option \<Rightarrow> int option \<Rightarrow> int option \<Rightarrow> exn + unit" where
  "init_database storage retry_count sleep_duration =
     (if storage = None then Inl (mk_CsmInternalError (Some ''Database Provider is NULL''))
      else if retry_count = None then Inl TypeError
      else if sleep_duration = None then Inl TypeError
      else Inr ())"

definition session_backend_keys :: "(string, (string, backend_choice) dict) dict" where
  "session_backend_keys = [(''local'', [(''in_memory'', ChooseInMemory)]),
                           (''persistent'', [(''database'', ChooseDatabase)])]"

definition get_instance ::
  "'p option \<Rightarrow> int option \<Rightarrow> int option \<Rightarrow> string option \<Rightarrow> string option \<Rightarrow> exn + backend_choice" where
  "get_instance storage retry_count sleep_duration conf_storage conf_backend =
     bind_sum (init_database storage retry_count sleep_duration) (\<lambda>_.
       case conf_storage of
         None \<Rightarrow> Inl (mk_CsmInternalError (Some ''Unable to get Session''))
       | Some k \<Rightarrow>
          (case dict_get session_backend_keys k of
             None \<Rightarrow> Inl (mk_CsmInternalError (Some ''Unable to get Session''))
           | Some inner \<Rightarrow>
              (case conf_backend of
                 None \<Rightarrow> Inl (mk_CsmInternalError (Some ''Unable to get Session''))
               | Some b \<Rightarrow>
                  (case dict_get inner b of
                     None \<Rightarrow> Inl (mk_CsmInternalError (Some ''Unable to get Session''))
                   | Some c \<Rightarrow> Inr c))))"


section \<open>What a client may rely on\<close>

text \<open>
  The contract of a backend: it keeps a finite map from session ids to sessions; a read that
  returns, returns the map's content; a write or deletion that returns has changed the map as
  asked; one that raises may or may not have taken effect. \<open>storable\<close> are the sessions the
  backend can represent.
\<close>

definition by_id :: "session list \<Rightarrow> (string \<times> session) list" where
  "by_id ss = map (\<lambda>s. (session_id s, s)) ss"

locale session_store =
  fixes B :: "'st backend"
    and inv :: "'st \<Rightarrow> bool"
    and contents :: "'st \<Rightarrow> (string \<rightharpoonup> session)"
    and storable :: "session \<Rightarrow> bool"
  assumes contents_id: "inv t \<Longrightarrow> contents t sid = Some s \<Longrightarrow> session_id s = sid"
    and contents_finite: "inv t \<Longrightarrow> finite (dom (contents t))"
    and get_law: "inv t \<Longrightarrow> be_get B sid t = (r, t') \<Longrightarrow>
      inv t' \<and> contents t' = contents t \<and> (\<forall>x. r = Inr x \<longrightarrow> x = contents t sid)"
    and get_all_law: "inv t \<Longrightarrow> be_get_all B t = (ra, t') \<Longrightarrow>
      inv t' \<and> contents t' = contents t \<and>
      (\<forall>ss. ra = Inr ss \<longrightarrow> distinct (map session_id ss) \<and> contents t = map_of (by_id ss))"
    and store_law: "inv t \<Longrightarrow> storable s \<Longrightarrow> be_store B s t = (ru, t') \<Longrightarrow>
      inv t' \<and> contents t' \<in> {contents t, (contents t)(session_id s \<mapsto> s)} \<and>
      (ru = Inr () \<longrightarrow> contents t' = (contents t)(session_id s \<mapsto> s))"
    and delete_law: "inv t \<Longrightarrow> be_delete B sid t = (ru, t') \<Longrightarrow>
      inv t' \<and> contents t' \<in> {contents t, (contents t)(sid := None)} \<and>
      (ru = Inr () \<longrightarrow> contents t' = (contents t)(sid := None))"
begin

text \<open>What is stored can be read back.\<close>

lemma store_then_get:
  assumes "inv t" "storable s" "be_store B s t = (Inr (), t')" "be_get B (session_id s) t' = (Inr x, t'')"
  shows "x = Some s"
  using store_law [OF assms(1,2,3)] get_law [of t' "session_id s" "Inr x" t''] assms(4) by auto

lemma delete_then_get:
  assumes "inv t" "be_delete B sid t = (Inr (), t')" "be_get B sid t' = (Inr x, t'')"
  shows "x = None"
  using delete_law [OF assms(1,2)] get_law [of t' sid "Inr x" t''] assms(3) by auto

text \<open>The sessions of one user, as a set of ids.\<close>

definition owned :: "string \<Rightarrow> 'st \<Rightarrow> string set" where
  "owned u t = {sid. \<exists>s. contents t sid = Some s \<and> session_user s = u}"

lemma finite_owned: "inv t \<Longrightarrow> finite (owned u t)"
  by (rule finite_subset [OF _ contents_finite]) (auto simp: owned_def)

lemma owned_upd:
  assumes "contents t' = (contents t)(sid \<mapsto> s)"
  shows "owned u t' = (if session_user s = u then insert sid (owned u t) else owned u t - {sid})"
  using assms by (auto simp: owned_def)

lemma owned_del: "contents t' = (contents t)(sid := None) \<Longrightarrow> owned u t' = owned u t - {sid}"
  by (auto simp: owned_def)

end

text \<open>A backend whose calls return; a deletion returns when the session is there.\<close>

locale reliable_session_store = session_store +
  assumes get_returns: "inv t \<Longrightarrow> \<exists>x t'. be_get B sid t = (Inr x, t')"
    and get_all_returns: "inv t \<Longrightarrow> \<exists>ss t'. be_get_all B t = (Inr ss, t')"
    and store_returns: "inv t \<Longrightarrow> storable s \<Longrightarrow> \<exists>t'. be_store B s t = (Inr (), t')"
    and delete_returns: "inv t \<Longrightarrow> contents t sid \<noteq> None \<Longrightarrow> \<exists>t'. be_delete B sid t = (Inr (), t')"


subsection \<open>The in-memory backend\<close>

definition im_ok :: "stg \<Rightarrow> bool" where
  "im_ok stg \<longleftrightarrow> dict_ok stg \<and> (\<forall>(k, s) \<in> set stg. session_id s = k)"

lemmas im_defs = in_memory_def im_store_def im_get_def im_get_all_def im_delete_def

lemma im_ok_map_of: "im_ok stg \<Longrightarrow> dict_get stg k = Some s \<Longrightarrow> session_id s = k"
  by (auto simp: im_ok_def dest!: map_of_SomeD)

lemma im_ok_values: "im_ok stg \<Longrightarrow> by_id (dict_values stg) = stg"
  unfolding by_id_def im_ok_def by (induction stg) auto

lemma im_ok_values_ids: "im_ok stg \<Longrightarrow> map session_id (dict_values stg) = dict_keys stg"
  unfolding im_ok_def by (induction stg) auto

lemma im_ok_ids_distinct: "im_ok stg \<Longrightarrow> distinct (map session_id (dict_values stg))"
  unfolding im_ok_values_ids by (simp add: im_ok_def)

lemma im_ok_set: "im_ok stg \<Longrightarrow> session_id s = k \<Longrightarrow> im_ok (dict_set k s stg)"
  by (auto simp: im_ok_def set_dict_set)

lemma im_ok_pop: "im_ok stg \<Longrightarrow> im_ok (dict_pop k stg)"
  by (auto simp: im_ok_def set_dict_pop)

interpretation im: reliable_session_store in_memory im_ok map_of "\<lambda>_. True"
proof unfold_locales
  fix t assume t: "im_ok t"
  show "\<And>sid s. dict_get t sid = Some s \<Longrightarrow> session_id s = sid"
    using t by (rule im_ok_map_of)
  show "finite (dom (map_of t))" by (rule finite_dom_map_of)
  show "\<And>sid r t'. be_get in_memory sid t = (r, t') \<Longrightarrow>
      im_ok t' \<and> map_of t' = map_of t \<and> (\<forall>x. r = Inr x \<longrightarrow> x = dict_get t sid)"
    using t by (auto simp: im_defs)
  show "\<And>r t'. be_get_all in_memory t = (r, t') \<Longrightarrow> im_ok t' \<and> map_of t' = map_of t \<and>
      (\<forall>ss. r = Inr ss \<longrightarrow> distinct (map session_id ss) \<and> map_of t = map_of (by_id ss))"
    using t im_ok_ids_distinct [OF t] by (simp add: im_defs im_ok_values)
  show "\<And>s r t'. be_store in_memory s t = (r, t') \<Longrightarrow>
      im_ok t' \<and> map_of t' \<in> {map_of t, (map_of t)(session_id s \<mapsto> s)} \<and>
      (r = Inr () \<longrightarrow> map_of t' = (map_of t)(session_id s \<mapsto> s))"
    using t by (auto simp: im_defs im_ok_set update_conv')
  show "\<And>sid r t'. be_delete in_memory sid t = (r, t') \<Longrightarrow>
      im_ok t' \<and> map_of t' \<in> {map_of t, (map_of t)(sid := None)} \<and>
      (r = Inr () \<longrightarrow> map_of t' = (map_of t)(sid := None))"
    using t by (auto simp: im_defs im_ok_pop delete_conv' split: if_splits)
  show "\<And>sid. dict_get t sid \<noteq> None \<Longrightarrow> \<exists>t'. be_delete in_memory sid t = (Inr (), t')"
    by (simp add: im_defs dict_get_None_iff del: map_of_eq_None_iff not_None_eq)
qed (auto simp: im_defs)


subsection \<open>The database backend\<close>

definition storable_in_db :: "session \<Rightarrow> bool" where
  "storable_in_db s \<longleftrightarrow> (\<exists>u r. session_credentials s = LocalCredentials u r) \<and> perm_ok (session_permissions s)"

lemma perm_of_model_ok: "perm_ok ps \<Longrightarrow> perm_of_model ps = ps"
  unfolding perm_of_model_def perm_ok_def by (auto simp: filter_id_conv)

lemma model_round_trip:
  assumes "storable_in_db s"
  obtains m where "convert_session_to_model s = Inr m" "model_to_session m = s" "m_session_id m = session_id s"
  using assms
  by (auto simp: storable_in_db_def convert_session_to_model_def model_to_session_def
      instantiate_session_def perm_of_model_ok)

text \<open>What is documented of the provider: \<open>store\<close> inserts or replaces the row with the model's
  id, \<open>delete\<close> with a comparison removes the rows that satisfy it, \<open>get\<close> returns the rows that
  satisfy the query and changes nothing; a call that raises may have taken effect.\<close>

locale session_provider =
  fixes S :: "'db session_db"
    and n :: int
    and dinv :: "'db \<Rightarrow> bool"
    and rows :: "'db \<Rightarrow> (string \<rightharpoonup> session_model)"
  assumes retries: "0 < n"
    and rows_key: "dinv d \<Longrightarrow> rows d k = Some m \<Longrightarrow> m_session_id m = k"
    and rows_finite: "dinv d \<Longrightarrow> finite (dom (rows d))"
    and p_get_all: "dinv d \<Longrightarrow> sdb_get S AllSessions d = (r, d') \<Longrightarrow> dinv d' \<and> rows d' = rows d \<and>
      (\<forall>ms. r = Inr ms \<longrightarrow> distinct (map m_session_id ms) \<and> rows d = map_of (map (\<lambda>m. (m_session_id m, m)) ms))"
    and p_get: "dinv d \<Longrightarrow> sdb_get S (BySessionId k) d = (r, d') \<Longrightarrow> dinv d' \<and> rows d' = rows d \<and>
      (\<forall>ms. r = Inr ms \<longrightarrow> ms = (case rows d k of None \<Rightarrow> [] | Some m \<Rightarrow> [m]))"
    and p_store: "dinv d \<Longrightarrow> sdb_store S m d = (ru, d') \<Longrightarrow>
      dinv d' \<and> rows d' \<in> {rows d, (rows d)(m_session_id m \<mapsto> m)} \<and>
      (ru = Inr () \<longrightarrow> rows d' = (rows d)(m_session_id m \<mapsto> m))"
    and p_delete: "dinv d \<Longrightarrow> sdb_delete S k d = (ru, d') \<Longrightarrow>
      dinv d' \<and> rows d' \<in> {rows d, (rows d)(k := None)} \<and> (ru = Inr () \<longrightarrow> rows d' = (rows d)(k := None))"
begin

definition db_contents :: "'db \<Rightarrow> (string \<rightharpoonup> session)" where
  "db_contents d k = map_option model_to_session (rows d k)"

lemma get_retry_law:
  assumes "dinv d" and "db_get_retry S n q d = (r, d')"
  shows "dinv d' \<and> rows d' = rows d \<and>
    (\<forall>z. r = Inr z \<longrightarrow> (\<exists>ms. z = Some ms \<and> (case q of
        AllSessions \<Rightarrow> distinct (map m_session_id ms) \<and> rows d = map_of (map (\<lambda>m. (m_session_id m, m)) ms)
      | BySessionId k \<Rightarrow> ms = (case rows d k of None \<Rightarrow> [] | Some m \<Rightarrow> [m]))))"
proof -
  let ?I = "\<lambda>e. dinv e \<and> rows e = rows d"
  let ?Q = "\<lambda>ms e. case q of
        AllSessions \<Rightarrow> distinct (map m_session_id ms) \<and> rows d = map_of (map (\<lambda>m. (m_session_id m, m)) ms)
      | BySessionId k \<Rightarrow> ms = (case rows d k of None \<Rightarrow> [] | Some m \<Rightarrow> [m])"
  have op: "\<And>s r t. ?I s \<Longrightarrow> sdb_get S q s = (r, t) \<Longrightarrow> ?I t \<and> (\<forall>x. r = Inr x \<longrightarrow> ?Q x t)"
  proof (cases q)
    fix e r e' assume e: "?I e" and run: "sdb_get S q e = (r, e')"
    { case AllSessions
      with p_get_all [of e r e'] e run show "?I e' \<and> (\<forall>x. r = Inr x \<longrightarrow> ?Q x e')" by simp }
    { case (BySessionId k)
      with p_get [of e k r e'] e run show "?I e' \<and> (\<forall>x. r = Inr x \<longrightarrow> ?Q x e')" by simp }
  qed
  have go: "retry_go (sdb_get S q) (nat n) d = (r, d')"
    using assms(2) by (simp add: db_get_retry_def retry_loop_def)
  have post: "?I d' \<and> (\<forall>x. r = Inr (Some x) \<longrightarrow> ?Q x d') \<and> (r = Inr None \<longrightarrow> nat n = 0)"
  proof (rule retry_go_post [where I = ?I and Q = ?Q, OF _ _ go])
    show "?I d" using assms(1) by simp
  qed (rule op)
  show ?thesis
  proof (intro conjI allI impI)
    fix z assume z: "r = Inr z"
    with post retries obtain ms where "z = Some ms" by (cases z) auto
    with post z show "\<exists>ms. z = Some ms \<and> ?Q ms d'" by blast
  qed (use post in blast)+
qed

lemma contents_fun: "rows d' = rows d \<Longrightarrow> db_contents d' = db_contents d"
  by (rule ext) (simp add: db_contents_def)

lemma contents_upd: "rows d' = (rows d)(k \<mapsto> m) \<Longrightarrow> db_contents d' = (db_contents d)(k \<mapsto> model_to_session m)"
  by (rule ext) (simp add: db_contents_def)

lemma contents_del: "rows d' = (rows d)(k := None) \<Longrightarrow> db_contents d' = (db_contents d)(k := None)"
  by (rule ext) (simp add: db_contents_def)

lemma db_store_law:
  assumes d: "dinv d" and st: "storable_in_db s" and run: "db_store S n s d = (r, d')"
  shows "dinv d' \<and> db_contents d' \<in> {db_contents d, (db_contents d)(session_id s \<mapsto> s)} \<and>
      (r = Inr () \<longrightarrow> db_contents d' = (db_contents d)(session_id s \<mapsto> s))"
proof -
  obtain m where m: "convert_session_to_model s = Inr m" "model_to_session m = s" "m_session_id m = session_id s"
    using st by (rule model_round_trip)
  with run have go: "retry_unit (sdb_store S m) n d = (r, d')"
    by (simp add: db_store_def db_store_retry_def of_sum_def act_simps)
  let ?new = "(rows d)(session_id s \<mapsto> m)"
  let ?I = "\<lambda>e. dinv e \<and> rows e \<in> {rows d, ?new}"
  have "?I d' \<and> (r = Inr () \<longrightarrow> rows d' = ?new)"
  proof (rule retry_unit_post [OF _ _ retries go, where I = ?I])
    show "?I d" using d by simp
    fix e q e' assume "?I e" and "sdb_store S m e = (q, e')"
    then show "?I e' \<and> (q = Inr () \<longrightarrow> rows e' = ?new)"
      using p_store [of e m q e'] m(3) by auto
  qed
  with m(2) contents_fun [of d' d] contents_upd [of d' d "session_id s" m]
  show ?thesis by (metis insert_iff singletonD)
qed

lemma db_delete_law:
  assumes d: "dinv d" and run: "db_delete S n k d = (r, d')"
  shows "dinv d' \<and> db_contents d' \<in> {db_contents d, (db_contents d)(k := None)} \<and>
      (r = Inr () \<longrightarrow> db_contents d' = (db_contents d)(k := None))"
proof -
  let ?new = "(rows d)(k := None)"
  let ?I = "\<lambda>e. dinv e \<and> rows e \<in> {rows d, ?new}"
  have go: "retry_unit (sdb_delete S k) n d = (r, d')"
    using run by (simp add: db_delete_def db_delete_retry_def)
  have "?I d' \<and> (r = Inr () \<longrightarrow> rows d' = ?new)"
  proof (rule retry_unit_post [OF _ _ retries go, where I = ?I])
    show "?I d" using d by simp
    fix e q e' assume "?I e" and "sdb_delete S k e = (q, e')"
    then show "?I e' \<and> (q = Inr () \<longrightarrow> rows e' = ?new)"
      using p_delete [of e k q e'] by auto
  qed
  with contents_fun [of d' d] contents_del [of d' d k]
  show ?thesis by (metis insert_iff singletonD)
qed


sublocale db: session_store "database S n" dinv db_contents storable_in_db
proof unfold_locales
  fix d assume d: "dinv d"
  show "\<And>sid s. db_contents d sid = Some s \<Longrightarrow> session_id s = sid"
    using rows_key [OF d] by (auto simp: db_contents_def model_to_session_def)
  show "finite (dom (db_contents d))"
    using rows_finite [OF d] by (rule finite_subset [rotated]) (auto simp: db_contents_def)
  show "\<And>s r d'. storable_in_db s \<Longrightarrow> be_store (database S n) s d = (r, d') \<Longrightarrow>
      dinv d' \<and> db_contents d' \<in> {db_contents d, (db_contents d)(session_id s \<mapsto> s)} \<and>
      (r = Inr () \<longrightarrow> db_contents d' = (db_contents d)(session_id s \<mapsto> s))"
    using db_store_law [OF d] by (simp add: database_def)
  show "\<And>k r d'. be_delete (database S n) k d = (r, d') \<Longrightarrow>
      dinv d' \<and> db_contents d' \<in> {db_contents d, (db_contents d)(k := None)} \<and>
      (r = Inr () \<longrightarrow> db_contents d' = (db_contents d)(k := None))"
    using db_delete_law [OF d] by (simp add: database_def)
next
  fix d sid r d' assume d: "dinv d" and run: "be_get (database S n) sid d = (r, d')"
  obtain z e where z: "db_get_retry S n (BySessionId sid) d = (z, e)" by (cases "db_get_retry S n (BySessionId sid) d")
  from get_retry_law [OF d this] run z
  show "dinv d' \<and> db_contents d' = db_contents d \<and> (\<forall>x. r = Inr x \<longrightarrow> x = db_contents d sid)"
    by (cases z) (auto simp: database_def db_get_def act_simps of_sum_def convert_model_to_session_def
        db_contents_def fun_eq_iff split: option.splits list.splits)
next
  fix d r d' assume d: "dinv d" and run: "be_get_all (database S n) d = (r, d')"
  obtain z e where z: "db_get_retry S n AllSessions d = (z, e)" by (cases "db_get_retry S n AllSessions d")
  have ids: "map session_id (map model_to_session ms) = map m_session_id ms" for ms
    by (simp add: model_to_session_def)
  have map: "map_option model_to_session (map_of (map (\<lambda>m. (m_session_id m, m)) ms) k)
      = map_of (by_id (map model_to_session ms)) k" for ms k
    by (induction ms) (auto simp: by_id_def model_to_session_def)
  from get_retry_law [OF d z] run z
  show "dinv d' \<and> db_contents d' = db_contents d \<and>
      (\<forall>ss. r = Inr ss \<longrightarrow> distinct (map session_id ss) \<and> db_contents d = map_of (by_id ss))"
    by (cases z) (auto simp: database_def db_get_all_def act_simps of_sum_def convert_model_to_session_def
        db_contents_def fun_eq_iff ids map simp del: map_map)
qed

text \<open>The client's facts about stores hold of the database backend.\<close>

lemmas database_get_law = db.get_law

lemmas database_store_then_get = db.store_then_get
lemmas database_delete_then_get = db.delete_then_get

end


text \<open>A provider that satisfies the contract and whose calls can fail.\<close>

type_synonym outage_db = "session_model outage_table"

definition outage_sessions :: "outage_db session_db" where
  "outage_sessions =
     \<lparr>sdb_get = (\<lambda>q. outage_call (\<lambda>rs. (case q of
         AllSessions \<Rightarrow> dict_values rs
       | BySessionId k \<Rightarrow> (case dict_get rs k of None \<Rightarrow> [] | Some m \<Rightarrow> [m]), rs))),
      sdb_store = (\<lambda>m. outage_call (\<lambda>rs. ((), dict_set (m_session_id m) m rs))),
      sdb_delete = (\<lambda>k. outage_call (\<lambda>rs. ((), dict_pop k rs)))\<rparr>"

abbreviation outage_ok :: "outage_db \<Rightarrow> bool" where
  "outage_ok d \<equiv> rows_keyed m_session_id (snd d)"

interpretation outage: session_provider outage_sessions 3 outage_ok "\<lambda>d. map_of (snd d)"
proof unfold_locales
  fix d assume d: "outage_ok d"
  show "\<And>k m. dict_get (snd d) k = Some m \<Longrightarrow> m_session_id m = k"
    by (rule rows_keyed_get [OF d])
  show "finite (dom (map_of (snd d)))" by (rule finite_dom_map_of)
  show "\<And>r d'. sdb_get outage_sessions AllSessions d = (r, d') \<Longrightarrow>
      outage_ok d' \<and> map_of (snd d') = map_of (snd d) \<and>
      (\<forall>ms. r = Inr ms \<longrightarrow> distinct (map m_session_id ms) \<and>
         map_of (snd d) = map_of (map (\<lambda>m. (m_session_id m, m)) ms))"
    using d rows_keyed_distinct [OF d] rows_keyed_list [OF d]
    by (auto simp: outage_sessions_def outage_call_def split: if_splits)
  show "\<And>k r d'. sdb_get outage_sessions (BySessionId k) d = (r, d') \<Longrightarrow>
      outage_ok d' \<and> map_of (snd d') = map_of (snd d) \<and>
      (\<forall>ms. r = Inr ms \<longrightarrow> ms = (case dict_get (snd d) k of None \<Rightarrow> [] | Some m \<Rightarrow> [m]))"
    using d by (auto simp: outage_sessions_def outage_call_def split: if_splits)
  show "\<And>m r d'. sdb_store outage_sessions m d = (r, d') \<Longrightarrow>
      outage_ok d' \<and> map_of (snd d') \<in> {map_of (snd d), (map_of (snd d))(m_session_id m \<mapsto> m)} \<and>
      (r = Inr () \<longrightarrow> map_of (snd d') = (map_of (snd d))(m_session_id m \<mapsto> m))"
    using d
    by (auto simp: outage_sessions_def outage_call_def rows_keyed_set update_conv' split: if_splits)
  show "\<And>k r d'. sdb_delete outage_sessions k d = (r, d') \<Longrightarrow>
      outage_ok d' \<and> map_of (snd d') \<in> {map_of (snd d), (map_of (snd d))(k := None)} \<and>
      (r = Inr () \<longrightarrow> map_of (snd d') = (map_of (snd d))(k := None))"
    using d
    by (auto simp: outage_sessions_def outage_call_def rows_keyed_pop delete_conv' split: if_splits)
qed simp


section \<open>Properties\<close>

text \<open>
  Storing and reading back, over the database backend: a session with local credentials
  and a well-formed permission set that was stored, is what a later read of its id returns,
  whatever retries both calls needed.
\<close>

theorem database_store_get:
  assumes "session_provider S n dinv rows" and "dinv d" and "storable_in_db s"
    and "be_store (database S n) s d = (Inr (), d')"
    and "be_get (database S n) (session_id s) d' = (Inr x, d'')"
  shows "x = Some s"
  using session_provider.database_store_then_get [OF assms] .

text \<open>Two outages during the store and one during the read.\<close>

definition alice_session :: session where
  "alice_session = \<lparr>session_id = ''5f3a'', expiry_time = 100,
     session_credentials = LocalCredentials ''alice'' ''admin'',
     session_permissions = [(''users'', {''list'', ''create''})]\<rparr>"

theorem database_store_get_witness:
  "\<exists>d'. be_store (database outage_sessions 3) alice_session ([True, True, False, True], []) = (Inr (), d')
      \<and> fst (be_get (database outage_sessions 3) ''5f3a'' d') = Inr (Some alice_session)"
proof -
  let ?d = "([True, True, False, True], [])"
  let ?m = "instantiate_session ''5f3a'' 100 ''alice'' ''admin'' [(''users'', {''list'', ''create''})]"
  let ?d' = "([True], [(''5f3a'', ?m)])"
  have st: "be_store (database outage_sessions 3) alice_session ?d = (Inr (), ?d')"
    by (simp add: database_def db_store_def db_store_retry_def retry_unit_def retry_loop_def
        alice_session_def convert_session_to_model_def instantiate_session_def of_sum_def act_simps
        outage_sessions_def outage_call_def outage_def caught_def numeral_3_eq_3)
  have "\<exists>x d''. be_get (database outage_sessions 3) ''5f3a'' ?d' = (Inr x, d'')"
    by (simp add: database_def db_get_def db_get_retry_def retry_loop_def convert_model_to_session_def
        of_sum_def act_simps outage_sessions_def outage_call_def outage_def caught_def numeral_3_eq_3)
  then obtain x d'' where get: "be_get (database outage_sessions 3) ''5f3a'' ?d' = (Inr x, d'')" by blast
  have "storable_in_db alice_session"
    by (simp add: storable_in_db_def alice_session_def perm_ok_def)
  moreover have "outage_ok ?d" by (simp add: rows_keyed_def)
  moreover have "be_get (database outage_sessions 3) (session_id alice_session) ?d' = (Inr x, d'')"
    using get by (simp add: alice_session_def)
  ultimately have "x = Some alice_session"
    using database_store_get [OF outage.session_provider_axioms _ _ st] by blast
  with st get show ?thesis by auto
qed

text \<open>
  The session factory builds the database backend before it looks at the configuration, so
  without a database provider every configuration, \<open>local\<close>/\<open>in_memory\<close> included, ends in an
  internal error; with a provider and integer retry settings exactly the two configured
  combinations are accepted.
\<close>

theorem session_factory_choice:
  "get_instance None retry_count sleep_duration conf_storage conf_backend
     = Inl (mk_CsmInternalError (Some ''Database Provider is NULL'')) \<and>
   (get_instance (Some p) (Some rc) (Some sl) conf_storage conf_backend = Inr c \<longleftrightarrow>
      (conf_storage, conf_backend, c) \<in> {(Some ''local'', Some ''in_memory'', ChooseInMemory),
                                        (Some ''persistent'', Some ''database'', ChooseDatabase)})"
  by (auto simp: get_instance_def init_database_def session_backend_keys_def
      split: option.splits if_splits)

end
