(* ===== verification/Sessions.thy ===== *)
theory Sessions
  imports Session_Store
begin

text \<open>
  \<open>SessionManager\<close> and \<open>QuotaSessionManager\<close> of \<^verbatim>\<open>csm/core/services/sessions.py\<close>. The
  manager's state is the backend's state, the flag that the usage statistics were restored and
  the dictionary of active users; the quota and the expiry interval are configuration. Each
  operation takes the time \<open>now\<close> at which it runs (all clock readings of one operation return
  that value) and \<open>create\<close> the session id that \<open>uuid4\<close> produced.
\<close>

section \<open>SessionManager\<close>

record session_conf =
  active_users_quota :: int
  expiry_interval :: int

definition calc_expiry_time :: "session_conf \<Rightarrow> int \<Rightarrow> int" where
  "calc_expiry_time C now = now + expiry_interval C"

definition sm_create ::
  "'st backend \<Rightarrow> session_conf \<Rightarrow> int \<Rightarrow> string \<Rightarrow> credentials \<Rightarrow> permission_set \<Rightarrow> ('st, exn, session) act" where
  "sm_create B C now sid creds perms =
     (let s = \<lparr>session_id = sid, expiry_time = calc_expiry_time C now,
               session_credentials = creds, session_permissions = perms\<rparr>
      in bind_act (be_store B s) (\<lambda>_. ret s))"

definition sm_remove_expired_sessions :: "'st backend \<Rightarrow> int \<Rightarrow> ('st, exn, unit) act" where
  "sm_remove_expired_sessions B now =
     bind_act (be_get_all B) (for_each (\<lambda>s.
       if is_expired now s then be_delete B (session_id s) else ret ()))"


section \<open>QuotaSessionManager\<close>

record 'st qsm =
  qs_store :: 'st
  qs_restored :: bool
  qs_active :: "(string, int) dict"

definition on_store :: "('st, exn, 'a) act \<Rightarrow> ('st qsm, exn, 'a) act" where
  "on_store m = within qs_store (\<lambda>t q. q\<lparr>qs_store := t\<rparr>) m"

definition remove_active_user :: "string \<Rightarrow> (string, int) dict \<Rightarrow> (string, int) dict" where
  "remove_active_user uid active =
     (let user_sessions = dict_get_default active uid 0 in
      if user_sessions > 1 then dict_set uid (user_sessions - 1) active
      else if user_sessions = 1 then dict_pop uid active
      else active)"

text \<open>\<open>delete\<close>: the session is fetched first for its user id; an absent one is \<open>None\<close>, whose
  attribute access raises.\<close>

definition q_delete :: "'st backend \<Rightarrow> string \<Rightarrow> ('st qsm, exn, unit) act" where
  "q_delete B sid =
     bind_act (on_store (be_get B sid)) (\<lambda>r.
       case r of
         None \<Rightarrow> throw AttributeError
       | Some s \<Rightarrow>
           bind_act (on_store (be_delete B sid)) (\<lambda>_.
           modify_act (\<lambda>q. q\<lparr>qs_active := remove_active_user (session_user s) (qs_active q)\<rparr>)))"

definition q_get :: "'st backend \<Rightarrow> string \<Rightarrow> ('st qsm, exn, session option) act" where
  "q_get B sid = on_store (be_get B sid)"

definition q_get_all :: "'st backend \<Rightarrow> ('st qsm, exn, session list) act" where
  "q_get_all B = on_store (be_get_all B)"

definition q_update :: "'st backend \<Rightarrow> session \<Rightarrow> ('st qsm, exn, unit) act" where
  "q_update B s = on_store (be_store B s)"

definition q_remove_expired_sessions :: "'st backend \<Rightarrow> int \<Rightarrow> ('st qsm, exn, unit) act" where
  "q_remove_expired_sessions B now =
     bind_act (q_get_all B) (for_each (\<lambda>s.
       if is_expired now s then q_delete B (session_id s) else ret ()))"

text \<open>\<open>_add_active_user_with_quota\<close> from the line after the restoration on, for a positive
  quota; this is all that runs in the calls \<open>_restore_active_users\<close> makes, since the flag is set
  before them.\<close>

definition count_active_user :: "'st backend \<Rightarrow> session_conf \<Rightarrow> int \<Rightarrow> string \<Rightarrow> ('st qsm, exn, bool) act" where
  "count_active_user B C now uid =
     bind_act (gets (\<lambda>q. int (length (qs_active q)) \<ge> active_users_quota C)) (\<lambda>overflow.
     bind_act (if overflow then q_remove_expired_sessions B now else ret ()) (\<lambda>_.
     bind_act (gets qs_active) (\<lambda>active.
       if int (length active) > active_users_quota C then ret False
       else let user_sessions = dict_get_default active uid 0 in
            if int (length active) = active_users_quota C \<and> user_sessions = 0 then ret False
            else bind_act (modify_act (\<lambda>q. q\<lparr>qs_active := dict_set uid (user_sessions + 1) (qs_active q)\<rparr>))
                   (\<lambda>_. ret True))))"

definition restore_active_users :: "'st backend \<Rightarrow> session_conf \<Rightarrow> int \<Rightarrow> ('st qsm, exn, unit) act" where
  "restore_active_users B C now =
     bind_act (q_get_all B) (for_each (\<lambda>s.
       if is_expired now s then q_delete B (session_id s)
       else bind_act (count_active_user B C now (session_user s)) (\<lambda>_. ret ())))"

definition add_active_user_with_quota ::
  "'st backend \<Rightarrow> session_conf \<Rightarrow> int \<Rightarrow> string \<Rightarrow> ('st qsm, exn, bool) act" where
  "add_active_user_with_quota B C now uid =
     (if active_users_quota C \<le> 0 then ret True
      else bind_act (gets qs_restored) (\<lambda>restored.
           bind_act (if \<not> restored
                     then bind_act (modify_act (\<lambda>q. q\<lparr>qs_restored := True\<rparr>))
                            (\<lambda>_. restore_active_users B C now)
                     else ret ()) (\<lambda>_.
           count_active_user B C now uid)))"

definition q_create ::
  "'st backend \<Rightarrow> session_conf \<Rightarrow> int \<Rightarrow> string \<Rightarrow> credentials \<Rightarrow> permission_set \<Rightarrow> ('st qsm, exn, session) act" where
  "q_create B C now sid creds perms =
     bind_act (add_active_user_with_quota B C now (cred_user_id creds)) (\<lambda>ok.
       if ok then on_store (sm_create B C now sid creds perms)
       else throw (mk_CsmPermissionDenied (Some ''Active users quota is reached'') ''PermissionDenied'' None))"

definition init_qsm :: "'st \<Rightarrow> 'st qsm" where
  "init_qsm t = \<lparr>qs_store = t, qs_restored = False, qs_active = []\<rparr>"

text \<open>The background task: \<open>_timer_task\<close> runs the handler, then moves the start by the interval;
  \<open>timer_start k\<close> is the planned start of round \<open>k\<close>, \<open>timer_delay\<close> what it sleeps before it.\<close>

definition timer_start :: "int \<Rightarrow> int \<Rightarrow> nat \<Rightarrow> int" where
  "timer_start start interval k = start + int k * interval"

definition timer_delay :: "int \<Rightarrow> int \<Rightarrow> int" where
  "timer_delay start current = (if start - current > 0 then start - current else 0)"

fun timer_rounds :: "(int \<Rightarrow> ('st qsm, exn, unit) act) \<Rightarrow> (nat \<Rightarrow> int) \<Rightarrow> int \<Rightarrow> int \<Rightarrow> nat \<Rightarrow> nat
    \<Rightarrow> ('st qsm, exn, unit) act" where
  "timer_rounds handler clock start interval k 0 = ret ()"
| "timer_rounds handler clock start interval k (Suc n) =
     bind_act (handler (clock k + timer_delay (timer_start start interval k) (clock k)))
       (\<lambda>_. timer_rounds handler clock start interval (Suc k) n)"

definition clear_sessions :: "'st backend \<Rightarrow> (nat \<Rightarrow> int) \<Rightarrow> int \<Rightarrow> int \<Rightarrow> nat \<Rightarrow> ('st qsm, exn, unit) act" where
  "clear_sessions B clock midnight two_hours n =
     timer_rounds (q_remove_expired_sessions B) clock midnight two_hours 0 n"


section \<open>The quota is never exceeded\<close>

text \<open>For any backend, also one whose calls fail: the statistics hold at most \<open>quota\<close> users,
  each with a positive count.\<close>

definition within_quota :: "session_conf \<Rightarrow> 'st qsm \<Rightarrow> bool" where
  "within_quota C q \<longleftrightarrow> dict_ok (qs_active q) \<and>
     (\<forall>(u, n) \<in> set (qs_active q). n > 0) \<and>
     (active_users_quota C > 0 \<longrightarrow> int (length (qs_active q)) \<le> active_users_quota C) \<and>
     (active_users_quota C \<le> 0 \<longrightarrow> qs_active q = [])"

lemma keeps_on_store [keeps_intros]: "keeps (within_quota C) (on_store m)"
  by (auto simp: keeps_def on_store_def act_simps within_quota_def split: prod.splits)

lemma length_remove_active: "dict_ok d \<Longrightarrow> length (remove_active_user u d) \<le> length d"
  by (force simp: remove_active_user_def Let_def length_dict_set length_dict_pop dict_get_default_def
      split: option.splits dest!: map_of_SomeD)

lemma remove_active_within:
  "dict_ok d \<Longrightarrow> \<forall>(u, n) \<in> set d. n > 0 \<Longrightarrow>
     dict_ok (remove_active_user u d) \<and> (\<forall>(u, n) \<in> set (remove_active_user u d). n > 0)"
  by (auto simp: remove_active_user_def Let_def set_dict_set set_dict_pop)

lemma positive_key:
  fixes d :: "(string, int) dict"
  assumes "\<forall>(u, n) \<in> set d. n > 0"
  shows "u \<in> set (dict_keys d) \<longleftrightarrow> dict_get_default d u 0 > 0"
proof (cases "dict_get d u")
  case None
  then show ?thesis by (simp add: map_of_eq_None_iff)
next
  case (Some n)
  from map_of_SomeD [OF this] have "(u, n) \<in> set d" .
  with assms have "n > 0" and "u \<in> set (dict_keys d)" by (auto intro: rev_image_eqI)
  with Some show ?thesis by simp
qed

lemma remove_active_Nil [simp]: "remove_active_user u [] = []"
  by (simp add: remove_active_user_def)

lemma keeps_remove_active:
  "keeps (within_quota C) (modify_act (\<lambda>q. q\<lparr>qs_active := remove_active_user u (qs_active q)\<rparr>))"
proof (rule keeps_modify)
  fix q :: "'a qsm" assume q: "within_quota C q"
  then have "int (length (remove_active_user u (qs_active q))) \<le> int (length (qs_active q))"
    using length_remove_active [of "qs_active q" u] by (simp add: within_quota_def)
  with q remove_active_within [of "qs_active q" u]
  show "within_quota C (q\<lparr>qs_active := remove_active_user u (qs_active q)\<rparr>)"
    by (auto simp: within_quota_def)
qed

lemma keeps_q_delete [keeps_intros]: "keeps (within_quota C) (q_delete B sid)"
  unfolding q_delete_def by (intro keeps_intros keeps_remove_active)

lemma keeps_q_remove_expired [keeps_intros]: "keeps (within_quota C) (q_remove_expired_sessions B now)"
  unfolding q_remove_expired_sessions_def q_get_all_def by (intro keeps_intros)

text \<open>The bounded increment: within the two tests of the source the new length is in range.\<close>

lemma within_quota_incr:
  assumes q: "within_quota C q" and pos: "active_users_quota C > 0"
    and guard: "\<not> (int (length (qs_active q)) = active_users_quota C \<and> dict_get_default (qs_active q) u 0 = 0)"
  shows "within_quota C (q\<lparr>qs_active := dict_set u (dict_get_default (qs_active q) u 0 + 1) (qs_active q)\<rparr>)"
proof -
  let ?d = "qs_active q"
  from q pos have ok: "dict_ok ?d" and counts: "\<forall>(v, n) \<in> set ?d. n > 0"
    and len: "int (length ?d) \<le> active_users_quota C"
    by (simp_all add: within_quota_def)
  have nonneg: "0 \<le> dict_get_default ?d u 0"
    using counts by (auto simp: dict_get_default_def split: option.splits dest!: map_of_SomeD)
  have "int (length (dict_set u (dict_get_default ?d u 0 + 1) ?d)) \<le> active_users_quota C"
  proof (cases "u \<in> set (dict_keys ?d)")
    case True
    with len show ?thesis by (simp only: length_dict_set if_True)
  next
    case False
    then have "dict_get ?d u = None" by (simp only: dict_get_None_iff not_False_eq_True)
    with guard len have "int (length ?d) < active_users_quota C" by simp
    with False show ?thesis by (simp only: length_dict_set if_False)
  qed
  with ok counts nonneg pos show ?thesis
    by (auto simp: within_quota_def set_dict_set)
qed

lemma keeps_count_active_user [keeps_intros]:
  assumes "active_users_quota C > 0"
  shows "keeps (within_quota C) (count_active_user B C now uid)"
proof -
  have commit: "keeps (within_quota C) (\<lambda>q :: 'a qsm. bind_act (gets qs_active) (\<lambda>active.
       if int (length active) > active_users_quota C then ret False
       else let user_sessions = dict_get_default active uid 0 in
            if int (length active) = active_users_quota C \<and> user_sessions = 0 then ret False
            else bind_act (modify_act (\<lambda>q. q\<lparr>qs_active := dict_set uid (user_sessions + 1) (qs_active q)\<rparr>))
                   (\<lambda>_. ret True)) q)"
    unfolding keeps_def
    using within_quota_incr [OF _ assms, of _ uid] by (auto simp: act_simps Let_def)
  show ?thesis
    unfolding count_active_user_def
    by (rule keeps_bind, rule keeps_gets, rule keeps_bind,
        intro keeps_if keeps_q_remove_expired keeps_ret, rule commit)
qed

lemma keeps_restore [keeps_intros]:
  "active_users_quota C > 0 \<Longrightarrow> keeps (within_quota C) (restore_active_users B C now)"
  unfolding restore_active_users_def q_get_all_def by (intro keeps_intros)

lemma keeps_add_active [keeps_intros]:
  "keeps (within_quota C) (add_active_user_with_quota B C now uid)"
proof -
  have "keeps (within_quota C) (modify_act (\<lambda>q :: 'a qsm. q\<lparr>qs_restored := True\<rparr>))"
    by (rule keeps_modify) (simp add: within_quota_def)
  then show ?thesis
    unfolding add_active_user_with_quota_def
    by (cases "active_users_quota C > 0") (auto intro!: keeps_intros)
qed

lemma keeps_q_create [keeps_intros]: "keeps (within_quota C) (q_create B C now sid creds perms)"
  unfolding q_create_def by (intro keeps_intros)

lemma keeps_q_update [keeps_intros]: "keeps (within_quota C) (q_update B s)"
  unfolding q_update_def by (intro keeps_intros)

lemma keeps_timer_rounds:
  "(\<And>now. keeps I (handler now)) \<Longrightarrow> keeps I (timer_rounds handler clock start interval k n)"
  by (induction n arbitrary: k) (auto intro: keeps_intros)


section \<open>The statistics agree with the stored sessions\<close>

text \<open>
  Over a backend whose calls return: once the statistics are kept (positive quota), the count
  of a user is the number of that user's stored sessions, and the users with a count are those
  with a session. Before the first session is created the store is empty.
\<close>

context reliable_session_store
begin

definition counted :: "'a qsm \<Rightarrow> bool" where
  "counted q \<longleftrightarrow> inv (qs_store q) \<and> dict_ok (qs_active q) \<and>
     (\<forall>(u, n) \<in> set (qs_active q). n > 0) \<and>
     (\<forall>u. dict_get_default (qs_active q) u 0 = int (card (owned u (qs_store q))))"

lemma counted_fresh: "inv t \<Longrightarrow> contents t = Map.empty \<Longrightarrow> counted (init_qsm t)"
  by (simp add: counted_def init_qsm_def owned_def)

lemma dict_default_remove_active:
  assumes "\<forall>(u, n) \<in> set d. n > 0"
  shows "dict_get_default (remove_active_user u d) v 0
       = (if v = u then max 0 (dict_get_default d u 0 - 1) else dict_get_default d v 0)"
proof -
  have "0 \<le> dict_get_default d u 0"
    using assms by (auto simp: dict_get_default_def split: option.splits dest!: map_of_SomeD)
  then show ?thesis
    by (auto simp: remove_active_user_def Let_def dict_get_default_def split: option.splits)
qed

text \<open>Deleting a session that is there succeeds and keeps the agreement.\<close>

lemma q_delete_present:
  assumes q: "counted q" and s: "contents (qs_store q) sid = Some s"
  obtains q' where "q_delete B sid q = (Inr (), q')" and "counted q'"
    and "contents (qs_store q') = (contents (qs_store q))(sid := None)"
    and "qs_restored q' = qs_restored q"
proof -
  let ?t = "qs_store q"
  from q have t: "inv ?t" by (simp add: counted_def)
  obtain x t1 where g: "be_get B sid ?t = (Inr x, t1)" using get_returns [OF t] by blast
  from get_law [OF t g] s have t1: "inv t1" "contents t1 = contents ?t" and x: "x = Some s" by auto
  obtain t2 where d: "be_delete B sid t1 = (Inr (), t2)"
    using delete_returns [OF t1(1)] t1(2) s by auto
  from delete_law [OF t1(1) d] t1(2) have t2: "inv t2" "contents t2 = (contents ?t)(sid := None)" by auto
  let ?q' = "q\<lparr>qs_store := t2, qs_active := remove_active_user (session_user s) (qs_active q)\<rparr>"
  have run: "q_delete B sid q = (Inr (), ?q')"
    using g d x by (simp add: q_delete_def on_store_def act_simps)
  have "counted ?q'"
  proof -
    have own: "\<And>v. owned v t2 = owned v ?t - {sid}" using t2(2) by (rule owned_del)
    have mine: "sid \<in> owned (session_user s) ?t" using s by (simp add: owned_def)
    have card: "int (card (owned v t2)) =
        (if v = session_user s then max 0 (int (card (owned v ?t)) - 1) else int (card (owned v ?t)))" for v
    proof (cases "v = session_user s")
      case True
      have "0 < card (owned v ?t)"
        using mine True finite_owned [OF t, of v] card_gt_0_iff by blast
      with True own mine finite_owned [OF t, of v] show ?thesis by (simp add: card_Diff_singleton)
    next
      case False
      with s have "sid \<notin> owned v ?t" by (auto simp: owned_def)
      with False own show ?thesis by simp
    qed
    from q have pos: "\<forall>(u, n) \<in> set (qs_active q). n > 0" by (simp add: counted_def)
    show ?thesis
      using q t2(1) remove_active_within [OF _ pos] dict_default_remove_active [OF pos] card
      by (simp add: counted_def)
  qed
  with that [OF run] t2(2) show thesis by simp
qed

lemma q_delete_absent:
  assumes q: "counted q" and s: "contents (qs_store q) sid = None"
  obtains q' where "q_delete B sid q = (Inl AttributeError, q')" and "counted q'"
    and "contents (qs_store q') = contents (qs_store q)"
proof -
  let ?t = "qs_store q"
  from q have t: "inv ?t" by (simp add: counted_def)
  obtain x t1 where g: "be_get B sid ?t = (Inr x, t1)" using get_returns [OF t] by blast
  from get_law [OF t g] s have t1: "inv t1" "contents t1 = contents ?t" and x: "x = None" by auto
  have "q_delete B sid q = (Inl AttributeError, q\<lparr>qs_store := t1\<rparr>)"
    using g x by (simp add: q_delete_def on_store_def act_simps)
  moreover have "counted (q\<lparr>qs_store := t1\<rparr>)"
    using q t1 by (simp add: counted_def owned_def)
  ultimately show thesis using that t1(2) by simp
qed

text \<open>The removal of the sessions that satisfy \<open>P\<close> from a snapshot of distinct stored sessions.\<close>

lemma remove_loop:
  assumes "counted q" and "distinct (map session_id ss)"
    and "\<forall>s \<in> set ss. contents (qs_store q) (session_id s) = Some s"
  shows "\<exists>q'. for_each (\<lambda>s. if P s then q_delete B (session_id s) else ret ()) ss q = (Inr (), q')
     \<and> counted q' \<and> qs_restored q' = qs_restored q
     \<and> contents (qs_store q') = (\<lambda>sid. if \<exists>s \<in> set ss. session_id s = sid \<and> P s then None
                                          else contents (qs_store q) sid)"
  using assms
proof (induction ss arbitrary: q)
  case Nil
  then show ?case by (auto simp: act_simps)
next
  case (Cons s ss)
  let ?f = "\<lambda>s. if P s then q_delete B (session_id s) else ret ()"
  show ?case
  proof (cases "P s")
    case False
    then have step: "for_each ?f (s # ss) q = for_each ?f ss q" by (simp add: act_simps)
    from Cons.IH [OF Cons.prems(1)] Cons.prems(2,3) False show ?thesis unfolding step by auto
  next
    case True
    from Cons.prems(3) have s: "contents (qs_store q) (session_id s) = Some s" by simp
    obtain q1 where q1: "q_delete B (session_id s) q = (Inr (), q1)" "counted q1"
      and c1: "contents (qs_store q1) = (contents (qs_store q))(session_id s := None)"
      and r1: "qs_restored q1 = qs_restored q"
      by (rule q_delete_present [OF Cons.prems(1) s])
    from Cons.prems(2) have d: "distinct (map session_id ss)" by simp
    note tail_entries_kept [OF Cons.prems(2,3) c1]
    from Cons.IH [OF q1(2) d this] obtain q2 where
      q2: "for_each ?f ss q1 = (Inr (), q2)" "counted q2" "qs_restored q2 = qs_restored q1"
      and c2: "contents (qs_store q2) = (\<lambda>sid. if \<exists>s \<in> set ss. session_id s = sid \<and> P s
        then None else contents (qs_store q1) sid)" by blast
    have "for_each ?f (s # ss) q = (Inr (), q2)"
      using True q1(1) q2(1) by (simp add: act_simps)
    moreover have "contents (qs_store q2) = (\<lambda>sid. if \<exists>r \<in> set (s # ss). session_id r = sid \<and> P r
        then None else contents (qs_store q) sid)"
      unfolding c2 c1 using True by (auto simp: fun_eq_iff)
    ultimately show ?thesis using q2 r1 by metis
  qed
qed

text \<open>A snapshot of the store consists of the stored sessions.\<close>

lemma snapshot:
  assumes q: "counted q"
  obtains ss q1 where "q_get_all B q = (Inr ss, q1)" "counted q1" "qs_restored q1 = qs_restored q"
    "qs_active q1 = qs_active q" "contents (qs_store q1) = contents (qs_store q)"
    "distinct (map session_id ss)" "\<forall>sid s. contents (qs_store q) sid = Some s \<longleftrightarrow> s \<in> set ss \<and> session_id s = sid"
proof -
  let ?t = "qs_store q"
  from q have t: "inv ?t" by (simp add: counted_def)
  obtain ss t1 where g: "be_get_all B ?t = (Inr ss, t1)" using get_all_returns [OF t] by blast
  from get_all_law [OF t g] have t1: "inv t1" "contents t1 = contents ?t"
    and d: "distinct (map session_id ss)" and c: "contents ?t = map_of (by_id ss)" by auto
  have keys: "map fst (by_id ss) = map session_id ss" by (simp add: by_id_def)
  have "\<forall>sid s. contents ?t sid = Some s \<longleftrightarrow> s \<in> set ss \<and> session_id s = sid"
  proof (intro allI)
    fix sid s
    have "distinct (map fst (by_id ss))" using d keys by (simp only:)
    from map_of_eq_Some_iff [OF this] show "contents ?t sid = Some s \<longleftrightarrow> s \<in> set ss \<and> session_id s = sid"
      unfolding c by (auto simp: by_id_def)
  qed
  moreover have "q_get_all B q = (Inr ss, q\<lparr>qs_store := t1\<rparr>)"
    using g by (simp add: q_get_all_def on_store_def act_simps)
  moreover have "counted (q\<lparr>qs_store := t1\<rparr>)" using q t1 by (simp add: counted_def owned_def)
  ultimately show thesis using that d t1 by simp
qed

lemma remove_where:
  assumes q: "counted q"
  shows "\<exists>q'. bind_act (q_get_all B) (for_each (\<lambda>s. if P s then q_delete B (session_id s) else ret ())) q = (Inr (), q') \<and> counted q'
     \<and> qs_restored q' = qs_restored q
     \<and> contents (qs_store q') = (\<lambda>sid. case contents (qs_store q) sid of
          None \<Rightarrow> None | Some s \<Rightarrow> if P s then None else Some s)"
proof -
  obtain ss q1 where q1: "q_get_all B q = (Inr ss, q1)" "counted q1" "qs_restored q1 = qs_restored q"
    "qs_active q1 = qs_active q" "contents (qs_store q1) = contents (qs_store q)"
    and d: "distinct (map session_id ss)"
    and c: "\<forall>sid s. contents (qs_store q) sid = Some s \<longleftrightarrow> s \<in> set ss \<and> session_id s = sid"
    by (rule snapshot [OF q])
  have "\<forall>s \<in> set ss. contents (qs_store q1) (session_id s) = Some s" using c q1(5) by auto
  from remove_loop [OF q1(2) d this, of P] obtain q2 where
    q2: "for_each (\<lambda>s. if P s then q_delete B (session_id s) else ret ()) ss q1 = (Inr (), q2)"
      "counted q2" "qs_restored q2 = qs_restored q1"
    and c2: "contents (qs_store q2) = (\<lambda>sid. if \<exists>s \<in> set ss. session_id s = sid \<and> P s then None
                                          else contents (qs_store q1) sid)" by blast
  have "contents (qs_store q2) = (\<lambda>sid. case contents (qs_store q) sid of
          None \<Rightarrow> None | Some s \<Rightarrow> if P s then None else Some s)"
  proof
    fix sid show "contents (qs_store q2) sid = (case contents (qs_store q) sid of
          None \<Rightarrow> None | Some s \<Rightarrow> if P s then None else Some s)"
    proof (cases "contents (qs_store q) sid")
      case None
      then show ?thesis unfolding c2 q1(5) by simp
    next
      case (Some s)
      have "\<And>r. r \<in> set ss \<Longrightarrow> session_id r = sid \<Longrightarrow> r = s"
        using c Some by (metis option.inject)
      moreover have "s \<in> set ss \<and> session_id s = sid" using c Some by blast
      ultimately have "(\<exists>r \<in> set ss. session_id r = sid \<and> P r) \<longleftrightarrow> P s" by blast
      with Some show ?thesis unfolding c2 q1(5) by simp
    qed
  qed
  moreover have "bind_act (q_get_all B) (for_each (\<lambda>s. if P s then q_delete B (session_id s) else ret ())) q = (Inr (), q2)"
    using q1(1) q2(1) by (simp add: act_simps)
  ultimately show ?thesis using q2 q1(3) by simp
qed

lemma remove_expired:
  assumes "counted q"
  shows "\<exists>q'. q_remove_expired_sessions B now q = (Inr (), q') \<and> counted q'
     \<and> qs_restored q' = qs_restored q
     \<and> contents (qs_store q') = (\<lambda>sid. case contents (qs_store q) sid of
          None \<Rightarrow> None | Some s \<Rightarrow> if is_expired now s then None else Some s)"
  unfolding q_remove_expired_sessions_def by (rule remove_where [OF assms])


text \<open>Creation. \<open>live_part\<close> relates the store before and after: only expired sessions may go.\<close>

definition live_part :: "int \<Rightarrow> 'a \<Rightarrow> 'a \<Rightarrow> bool" where
  "live_part now t t' \<longleftrightarrow> (\<forall>sid s. contents t' sid = Some s \<longrightarrow> contents t sid = Some s) \<and>
     (\<forall>sid s. contents t sid = Some s \<and> \<not> is_expired now s \<longrightarrow> contents t' sid = Some s)"

lemma restore_step:
  assumes q: "counted q" and boot: "qs_restored q \<or> contents (qs_store q) = Map.empty"
  shows "\<exists>q0. (if \<not> qs_restored q
                then bind_act (modify_act (\<lambda>q. q\<lparr>qs_restored := True\<rparr>)) (\<lambda>_. restore_active_users B C now)
                else ret ()) q = (Inr (), q0) \<and>
          counted q0 \<and> qs_restored q0 \<and> contents (qs_store q0) = contents (qs_store q)"
proof (cases "qs_restored q")
  case True
  with q show ?thesis by (simp add: act_simps)
next
  case False
  with boot have empty: "contents (qs_store q) = Map.empty" by simp
  let ?q = "q\<lparr>qs_restored := True\<rparr>"
  have "counted ?q" using q by (simp add: counted_def)
  then obtain ss q1 where q1: "q_get_all B ?q = (Inr ss, q1)" "counted q1" "qs_restored q1 = qs_restored ?q"
    "qs_active q1 = qs_active ?q" "contents (qs_store q1) = contents (qs_store ?q)"
    and d: "distinct (map session_id ss)"
    and c: "\<forall>sid s. contents (qs_store ?q) sid = Some s \<longleftrightarrow> s \<in> set ss \<and> session_id s = sid"
    by (rule snapshot)
  from c empty have "ss = []" by (cases ss) auto
  with False q1 show ?thesis by (simp add: restore_active_users_def act_simps)
qed

lemma expired_step:
  assumes q: "counted q"
  shows "\<exists>q1. (if b then q_remove_expired_sessions B now else ret ()) q = (Inr (), q1) \<and>
          counted q1 \<and> qs_restored q1 = qs_restored q \<and> live_part now (qs_store q) (qs_store q1)"
proof (cases b)
  case True
  from remove_expired [OF q, of now] obtain q1 where
    "q_remove_expired_sessions B now q = (Inr (), q1)" "counted q1" "qs_restored q1 = qs_restored q"
    and c: "contents (qs_store q1) = (\<lambda>sid. case contents (qs_store q) sid of
          None \<Rightarrow> None | Some s \<Rightarrow> if is_expired now s then None else Some s)" by blast
  moreover have "live_part now (qs_store q) (qs_store q1)"
    unfolding live_part_def c by (auto split: option.splits if_splits)
  ultimately show ?thesis using True by auto
qed (use q in \<open>auto simp: act_simps live_part_def\<close>)

lemma store_counted:
  assumes q: "counted q" and new: "contents (qs_store q) sid = None" and sid: "session_id s = sid"
    and st: "storable s"
  shows "\<exists>t. be_store B s (qs_store q) = (Inr (), t) \<and> contents t = (contents (qs_store q))(sid \<mapsto> s) \<and>
     counted (q\<lparr>qs_store := t,
                qs_active := dict_set (session_user s) (dict_get_default (qs_active q) (session_user s) 0 + 1) (qs_active q)\<rparr>)"
proof -
  let ?t = "qs_store q" and ?u = "session_user s"
  from q have t: "inv ?t" by (simp add: counted_def)
  obtain t1 where run: "be_store B s ?t = (Inr (), t1)" using store_returns [OF t st] by blast
  from store_law [OF t st run] sid have t1: "inv t1" and c: "contents t1 = (contents ?t)(sid \<mapsto> s)" by auto
  have card: "card (owned v t1) = card (owned v ?t) + (if v = ?u then 1 else 0)" for v
  proof -
    have "sid \<notin> owned v ?t" using new by (simp add: owned_def)
    with owned_upd [OF c, of v] finite_owned [OF t, of v] show ?thesis by (cases "v = ?u") auto
  qed
  have nonneg: "0 \<le> dict_get_default (qs_active q) ?u 0" using q by (simp add: counted_def)
  have "counted (q\<lparr>qs_store := t1, qs_active := dict_set ?u (dict_get_default (qs_active q) ?u 0 + 1) (qs_active q)\<rparr>)"
    unfolding counted_def
  proof (intro conjI allI)
    show "\<forall>(u, n) \<in> set (qs_active (q\<lparr>qs_store := t1, qs_active := dict_set ?u
        (dict_get_default (qs_active q) ?u 0 + 1) (qs_active q)\<rparr>)). n > 0"
      using q nonneg by (auto simp: counted_def set_dict_set)
    fix v
    have "dict_get_default (dict_set ?u n d) v 0 = (if v = ?u then n else dict_get_default d v 0)" for n :: int and d
      by (simp add: dict_get_default_def)
    with q card show "dict_get_default (qs_active (q\<lparr>qs_store := t1, qs_active := dict_set ?u
        (dict_get_default (qs_active q) ?u 0 + 1) (qs_active q)\<rparr>)) v 0
        = int (card (owned v (qs_store (q\<lparr>qs_store := t1, qs_active := dict_set ?u
        (dict_get_default (qs_active q) ?u 0 + 1) (qs_active q)\<rparr>))))"
      by (simp add: counted_def)
  qed (use q t1 in \<open>auto simp: counted_def\<close>)
  with run c show ?thesis by blast
qed

abbreviation quota_error :: exn where
  "quota_error \<equiv> mk_CsmPermissionDenied (Some ''Active users quota is reached'') ''PermissionDenied'' None"

lemma add_active_user_outcome:
  assumes q: "counted q" and pos: "active_users_quota C > 0"
    and boot: "qs_restored q \<or> contents (qs_store q) = Map.empty"
  obtains q1 where "counted q1" "qs_restored q1" "live_part now (qs_store q) (qs_store q1)"
    and "add_active_user_with_quota B C now u q =
      (if int (length (qs_active q1)) > active_users_quota C
          \<or> int (length (qs_active q1)) = active_users_quota C \<and> dict_get_default (qs_active q1) u 0 = 0
       then (Inr False, q1)
       else (Inr True, q1\<lparr>qs_active := dict_set u (dict_get_default (qs_active q1) u 0 + 1) (qs_active q1)\<rparr>))"
proof -
  obtain q0 where r0: "(if \<not> qs_restored q
        then bind_act (modify_act (\<lambda>q. q\<lparr>qs_restored := True\<rparr>)) (\<lambda>_. restore_active_users B C now)
        else ret ()) q = (Inr (), q0)"
    and q0: "counted q0" "qs_restored q0" "contents (qs_store q0) = contents (qs_store q)"
    using restore_step [OF q boot, of C now] by blast
  have add: "add_active_user_with_quota B C now u q = count_active_user B C now u q0"
    using pos r0 by (simp add: add_active_user_with_quota_def bind_act_def gets_def)
  let ?ovf = "int (length (qs_active q0)) \<ge> active_users_quota C"
  obtain q1 where r1: "(if ?ovf then q_remove_expired_sessions B now else ret ()) q0 = (Inr (), q1)"
    and q1: "counted q1" "qs_restored q1" "live_part now (qs_store q0) (qs_store q1)"
    using expired_step [OF q0(1), of ?ovf now] q0(2) by auto
  have "live_part now (qs_store q) (qs_store q1)"
    using q1(3) unfolding live_part_def q0(3) .
  from that [OF q1(1,2) this] show thesis unfolding add
    using r1 by (simp add: count_active_user_def bind_act_def gets_def ret_app modify_app Let_def)
qed

lemma q_create_counted:
  assumes q: "counted q" and pos: "active_users_quota C > 0"
    and boot: "qs_restored q \<or> contents (qs_store q) = Map.empty"
    and fresh: "contents (qs_store q) sid = None"
    and st: "\<And>s. session_credentials s = creds \<Longrightarrow> session_permissions s = perms \<Longrightarrow> storable s"
  shows "\<exists>r q' t. q_create B C now sid creds perms q = (r, q') \<and> counted q' \<and> qs_restored q' \<and>
     live_part now (qs_store q) t \<and>
     (case r of
        Inl e \<Rightarrow> e = quota_error \<and> contents (qs_store q') = contents t
      | Inr s \<Rightarrow> session_id s = sid \<and> session_credentials s = creds \<and> session_permissions s = perms \<and>
               expiry_time s = now + expiry_interval C \<and>
               contents (qs_store q') = (contents t)(sid \<mapsto> s))"
proof -
  let ?u = "cred_user_id creds"
  obtain q1 where q1: "counted q1" "qs_restored q1" and live: "live_part now (qs_store q) (qs_store q1)"
    and add: "add_active_user_with_quota B C now ?u q =
      (if int (length (qs_active q1)) > active_users_quota C
          \<or> int (length (qs_active q1)) = active_users_quota C \<and> dict_get_default (qs_active q1) ?u 0 = 0
       then (Inr False, q1)
       else (Inr True, q1\<lparr>qs_active := dict_set ?u (dict_get_default (qs_active q1) ?u 0 + 1) (qs_active q1)\<rparr>))"
    by (rule add_active_user_outcome [OF q pos boot, where now = now and u = "cred_user_id creds"])
  let ?a = "qs_active q1" and ?n = "dict_get_default (qs_active q1) ?u 0"
  let ?full = "int (length ?a) > active_users_quota C \<or> int (length ?a) = active_users_quota C \<and> ?n = 0"
  show ?thesis
  proof (cases ?full)
    case True
    then have "q_create B C now sid creds perms q = (Inl quota_error, q1)"
      using add by (simp add: q_create_def bind_act_def throw_app)
    with q1(1,2) live show ?thesis by (intro exI [of _ "Inl quota_error"] exI [of _ q1] exI [of _ "qs_store q1"]) simp
  next
    case False
    let ?s = "\<lparr>session_id = sid, expiry_time = calc_expiry_time C now, session_credentials = creds,
               session_permissions = perms\<rparr>"
    have "contents (qs_store q1) sid = None"
      using live fresh unfolding live_part_def by (metis not_Some_eq)
    then obtain t2 where run: "be_store B ?s (qs_store q1) = (Inr (), t2)"
      and c2: "contents t2 = (contents (qs_store q1))(sid \<mapsto> ?s)"
      and k2: "counted (q1\<lparr>qs_store := t2, qs_active := dict_set ?u (?n + 1) ?a\<rparr>)"
      using store_counted [OF q1(1), of sid ?s] st [of ?s] by auto
    let ?q2 = "q1\<lparr>qs_store := t2, qs_active := dict_set ?u (?n + 1) ?a\<rparr>"
    have "q_create B C now sid creds perms q = (Inr ?s, ?q2)"
      using add False run by (simp add: q_create_def sm_create_def on_store_def act_simps Let_def)
    with k2 c2 q1(2) live show ?thesis
      by (intro exI [of _ "Inr ?s"] exI [of _ ?q2] exI [of _ "qs_store q1"]) (simp add: calc_expiry_time_def)
  qed
qed

end


section \<open>Runs of the manager\<close>

datatype session_op =
    OpCreate int string credentials permission_set
  | OpDelete string
  | OpUpdate session
  | OpSweep int

fun q_run_op :: "'st backend \<Rightarrow> session_conf \<Rightarrow> session_op \<Rightarrow> 'st qsm \<Rightarrow> 'st qsm" where
  "q_run_op B C (OpCreate now sid creds perms) q = snd (q_create B C now sid creds perms q)"
| "q_run_op B C (OpDelete sid) q = snd (q_delete B sid q)"
| "q_run_op B C (OpUpdate s) q = snd (q_update B s q)"
| "q_run_op B C (OpSweep now) q = snd (q_remove_expired_sessions B now q)"

lemma q_run_op_within: "within_quota C q \<Longrightarrow> within_quota C (q_run_op B C op q)"
  by (cases op) (auto intro!: keepsD keeps_intros)

lemma q_run_within: "within_quota C q \<Longrightarrow> within_quota C (fold (q_run_op B C) ops q)"
  by (induction ops arbitrary: q) (auto intro: q_run_op_within)


definition quota_one :: session_conf where
  "quota_one = \<lparr>active_users_quota = 1, expiry_interval = 60\<rparr>"



section \<open>The in-memory manager as a state machine\<close>

text \<open>One rule per operation; session ids of new sessions are unused (they are random UUIDs), an
  update stores a session under an id its user already holds.\<close>

inductive im_step :: "session_conf \<Rightarrow> stg qsm \<Rightarrow> stg qsm \<Rightarrow> bool" for C where
  create: "dict_get (qs_store q) sid = None \<Longrightarrow>
     im_step C q (snd (q_create in_memory C now sid creds perms q))"
| delete: "im_step C q (snd (q_delete in_memory sid q))"
| update: "dict_get (qs_store q) (session_id s) = Some s' \<Longrightarrow> session_user s = session_user s' \<Longrightarrow>
     im_step C q (snd (q_update in_memory s q))"
| sweep: "im_step C q (snd (q_remove_expired_sessions in_memory now q))"

inductive im_reachable :: "session_conf \<Rightarrow> stg qsm \<Rightarrow> bool" for C where
  start: "im_reachable C (init_qsm [])"
| step: "im_reachable C q \<Longrightarrow> im_step C q q' \<Longrightarrow> im_reachable C q'"

inductive_simps im_step_simps: "im_step C q q'"

definition im_agrees :: "stg qsm \<Rightarrow> bool" where
  "im_agrees q \<longleftrightarrow> im.counted q \<and> (qs_restored q \<or> qs_store q = [])"

lemma map_of_empty_iff: "map_of d = Map.empty \<longleftrightarrow> d = []"
  by (cases d) (auto simp: fun_eq_iff split: if_splits)

lemma im_update_agrees:
  assumes q: "im_agrees q" and s: "dict_get (qs_store q) (session_id s) = Some s'"
    and u: "session_user s = session_user s'"
  shows "im_agrees (snd (q_update in_memory s q))"
proof -
  let ?t = "qs_store q" and ?t' = "dict_set (session_id s) s (qs_store q)"
  from q have k: "im.counted q" and ok: "im_ok ?t" by (simp_all add: im_agrees_def im.counted_def)
  have run: "snd (q_update in_memory s q) = q\<lparr>qs_store := ?t'\<rparr>"
    by (simp add: q_update_def on_store_def act_simps im_defs)
  have own: "im.owned v ?t' = im.owned v ?t" for v
    using im.owned_upd [of ?t' ?t "session_id s" s v] s u
    by (auto simp: update_conv' im.owned_def)
  have "?t \<noteq> []" using s by auto
  with q have "qs_restored q" by (simp add: im_agrees_def)
  with k own ok run show ?thesis by (simp add: im_agrees_def im.counted_def im_ok_set)
qed

lemma im_step_agrees: "im_step C q q' \<Longrightarrow> active_users_quota C > 0 \<Longrightarrow> im_agrees q \<Longrightarrow> im_agrees q'"
proof (induction rule: im_step.induct)
  case (create q sid now creds perms)
  then have k: "im.counted q" and boot: "qs_restored q \<or> map_of (qs_store q) = Map.empty"
    by (auto simp: im_agrees_def)
  from im.q_create_counted [OF k create.prems(1) boot create.hyps, of creds perms now] obtain r q'
    where "q_create in_memory C now sid creds perms q = (r, q')" "im.counted q'" "qs_restored q'" by blast
  then show ?case by (simp add: im_agrees_def)
next
  case (delete q sid)
  then have k: "im.counted q" by (simp add: im_agrees_def)
  show ?case
  proof (cases "dict_get (qs_store q) sid")
    case None
    obtain q' where "q_delete in_memory sid q = (Inl AttributeError, q')" "im.counted q'"
      "map_of (qs_store q') = map_of (qs_store q)"
      by (rule im.q_delete_absent [OF k None])
    moreover from this None have "q' = q" by (auto simp: q_delete_def on_store_def act_simps im_defs)
    ultimately show ?thesis using delete by simp
  next
    case (Some s)
    obtain q' where q': "q_delete in_memory sid q = (Inr (), q')" "im.counted q'"
      "map_of (qs_store q') = (map_of (qs_store q))(sid := None)" "qs_restored q' = qs_restored q"
      by (rule im.q_delete_present [OF k Some])
    from Some have "qs_store q \<noteq> []" by auto
    with delete q' show ?thesis by (simp add: im_agrees_def)
  qed
next
  case (update q s s')
  then show ?case by (intro im_update_agrees)
next
  case (sweep q now)
  then have k: "im.counted q" by (simp add: im_agrees_def)
  from im.remove_expired [OF k, of now] obtain q' where
    q': "q_remove_expired_sessions in_memory now q = (Inr (), q')" "im.counted q'" "qs_restored q' = qs_restored q"
    and c: "map_of (qs_store q') = (\<lambda>sid. case map_of (qs_store q) sid of
          None \<Rightarrow> None | Some s \<Rightarrow> if is_expired now s then None else Some s)" by blast
  have "qs_store q' = []" if "qs_store q = []"
  proof -
    from c that have "map_of (qs_store q') = Map.empty" by simp
    then show ?thesis by (simp only: map_of_empty_iff)
  qed
  with sweep q' show ?case by (auto simp: im_agrees_def)
qed

lemma im_reachable_agrees: "im_reachable C q \<Longrightarrow> active_users_quota C > 0 \<Longrightarrow> im_agrees q"
proof (induction rule: im_reachable.induct)
  case start
  show ?case using im.counted_fresh [of "[]"] by (simp add: im_agrees_def im_ok_def init_qsm_def)
qed (blast intro: im_step_agrees)

lemma im_owned_count:
  "im_ok stg \<Longrightarrow> card (im.owned u stg) = length (filter (\<lambda>s. session_user s = u) (dict_values stg))"
proof (induction stg)
  case (Cons p stg)
  obtain k s where p: "p = (k, s)" by (cases p)
  from Cons.prems have ok: "im_ok stg" and new: "k \<notin> set (dict_keys stg)" by (auto simp: im_ok_def p)
  have none: "dict_get stg k = None" using new by (simp only: dict_get_None_iff not_False_eq_True)
  have "im.owned u (p # stg) = (if session_user s = u then insert k (im.owned u stg) else im.owned u stg)"
    using none by (auto simp: im.owned_def p)
  moreover have "k \<notin> im.owned u stg" using none by (simp add: im.owned_def)
  ultimately show ?case using Cons.IH [OF ok] im.finite_owned [OF ok, of u] by (simp add: p)
qed (simp add: im.owned_def)




text \<open>
  A sweep of the in-memory manager removes exactly the expired sessions: afterwards no
  stored session is expired, and every session that had not expired is still there unchanged.
\<close>

theorem sweep_exact:
  assumes "im_reachable C q" and "active_users_quota C > 0"
  shows "\<exists>q'. q_remove_expired_sessions in_memory now q = (Inr (), q') \<and>
     (\<forall>sid s. dict_get (qs_store q') sid = Some s \<longleftrightarrow>
                dict_get (qs_store q) sid = Some s \<and> \<not> is_expired now s)"
proof -
  from im_reachable_agrees [OF assms] have "im.counted q" by (simp add: im_agrees_def)
  from im.remove_expired [OF this, of now] obtain q' where
    q': "q_remove_expired_sessions in_memory now q = (Inr (), q')"
    and c: "map_of (qs_store q') = (\<lambda>sid. case map_of (qs_store q) sid of
          None \<Rightarrow> None | Some s \<Rightarrow> if is_expired now s then None else Some s)" by blast
  have "\<forall>sid s. dict_get (qs_store q') sid = Some s \<longleftrightarrow>
                dict_get (qs_store q) sid = Some s \<and> \<not> is_expired now s"
    unfolding c by (auto split: option.splits if_splits)
  with q' show ?thesis by blast
qed

theorem sweep_exact_witness:
  "\<exists>q'. q_remove_expired_sessions in_memory 100 (init_qsm []) = (Inr (), q') \<and>
     (\<forall>sid s. dict_get (qs_store q') sid = Some s \<longleftrightarrow>
                dict_get (qs_store (init_qsm [])) sid = Some s \<and> \<not> is_expired 100 s)"
  by (rule sweep_exact [OF im_reachable.start [of quota_one]]) (simp add: quota_one_def)


section \<open>Restoring the statistics after a restart\<close>

text \<open>Rows of a session database at a restart, read through the database backend (no outages).\<close>

definition row :: "string \<Rightarrow> int \<Rightarrow> string \<Rightarrow> string \<times> session_model" where
  "row sid expiry uid = (sid, instantiate_session sid expiry uid ''monitor'' [])"

definition restart :: "(string \<times> session_model) list \<Rightarrow> outage_db qsm" where
  "restart rows = init_qsm ([], rows)"

definition quota_two :: session_conf where
  "quota_two = \<lparr>active_users_quota = 2, expiry_interval = 60\<rparr>"

lemmas db_run_defs =
  q_create_def add_active_user_with_quota_def count_active_user_def restore_active_users_def
  q_get_all_def q_remove_expired_sessions_def q_delete_def remove_active_user_def sm_create_def on_store_def
  act_simps init_qsm_def Let_def database_def db_get_def db_get_all_def db_delete_def db_store_def
  db_get_retry_def db_delete_retry_def db_store_retry_def retry_unit_def retry_loop_def
  convert_model_to_session_def of_sum_def outage_sessions_def outage_call_def outage_def caught_def
  model_to_session_def instantiate_session_def is_expired_def calc_expiry_time_def
  perm_of_model_def convert_session_to_model_def dict_get_default_def
  quota_one_def quota_two_def row_def restart_def

text \<open>
  Restoring the statistics can lose a user: with a live and, after it, an expired session
  of one user in the database, the restoration first counts the live one and then, deleting
  the expired one that was never counted, takes the count away again. The user still has a
  valid session, but occupies no place in the quota.
\<close>

theorem restore_undercounts:
  "\<exists>q'. add_active_user_with_quota (database outage_sessions 3) quota_two 50 ''bob''
          (restart [row ''s1'' 90 ''alice'', row ''s2'' 10 ''alice'']) = (Inr True, q') \<and>
        qs_active q' = [(''bob'', 1)] \<and>
        snd (qs_store q') = [row ''s1'' 90 ''alice'']"
  by (simp add: db_run_defs numeral_3_eq_3)

text \<open>
  Restoring the statistics can fail: when the quota is reached half way through the
  session list, the expired sessions are swept; if one of them comes later in the list that is
  being restored, it is deleted a second time, and the login that triggered the restoration
  ends in an \<open>AttributeError\<close>.
\<close>

theorem restore_crashes:
  "fst (q_create (database outage_sessions 3) quota_one 50 ''s9'' (LocalCredentials ''dave'' ''monitor'') []
          (restart [row ''s1'' 90 ''alice'', row ''s2'' 90 ''bob'', row ''s3'' 10 ''carol'']))
     = Inl AttributeError"
  by (simp add: db_run_defs numeral_3_eq_3)

end
