(* ===== verification/Users.thy ===== *)
theory Users
  imports Retry Roles
begin

text \<open>
  Users: \<^verbatim>\<open>csm/core/data/models/users.py\<close> (the model and the password hashing) and
  \<^verbatim>\<open>csm/core/services/users.py\<close> (\<open>UserManager\<close>, the update rules and \<open>CsmUserService\<close>). The
  state of the service is the user table of the database provider, a parameter with the four
  calls the code makes; \<open>bcrypt\<close> is a parameter too. Every operation takes the time at which it
  runs and, where it hashes a password, the salt \<open>gensalt\<close> produced. A row read from the
  database is a copy: changes reach the table only through \<open>store\<close>. The lock of
  \<open>create_user\<close> makes two creations exclude each other, so a creation is one action.
\<close>

section \<open>Time stamps\<close>

text \<open>A \<open>datetime\<close>, either naive or with the time zone UTC, and its \<open>isoformat\<close>.\<close>

record datetime =
  dt_year :: nat
  dt_month :: nat
  dt_day :: nat
  dt_hour :: nat
  dt_minute :: nat
  dt_second :: nat
  dt_microsecond :: nat
  dt_utc :: bool

fun padded :: "nat \<Rightarrow> nat \<Rightarrow> string" where
  "padded 0 n = []"
| "padded (Suc w) n = padded w (n div 10) @ [char_of (48 + n mod 10)]"

definition isoformat :: "datetime \<Rightarrow> string" where
  "isoformat t =
     padded 4 (dt_year t) @ ''-'' @ padded 2 (dt_month t) @ ''-'' @ padded 2 (dt_day t) @ ''T''
     @ padded 2 (dt_hour t) @ '':'' @ padded 2 (dt_minute t) @ '':'' @ padded 2 (dt_second t)
     @ (if dt_microsecond t = 0 then [] else ''.'' @ padded 6 (dt_microsecond t))
     @ (if dt_utc t then ''+00:00'' else [])"


section \<open>The user model\<close>

definition CSM_SUPER_USER_ROLE :: string where "CSM_SUPER_USER_ROLE = ''admin''"
definition CSM_MANAGE_ROLE :: string where "CSM_MANAGE_ROLE = ''manage''"
definition CSM_MONITOR_ROLE :: string where "CSM_MONITOR_ROLE = ''monitor''"

definition CSM_USER_ROLES :: "string list" where
  "CSM_USER_ROLES = [CSM_SUPER_USER_ROLE, CSM_MANAGE_ROLE, CSM_MONITOR_ROLE]"

lemmas role_names = CSM_SUPER_USER_ROLE_def CSM_MANAGE_ROLE_def CSM_MONITOR_ROLE_def CSM_USER_ROLES_def

record user =
  user_id :: string
  user_type :: string
  user_role :: string
  user_password :: "string option"
  email_address :: string
  reset_password :: "bool option"
  alert_notification :: bool
  updated_time :: datetime
  created_time :: datetime

definition user_fields :: "string list" where
  "user_fields = [''user_id'', ''user_type'', ''user_role'', ''user_password'', ''email_address'',
     ''reset_password'', ''alert_notification'', ''updated_time'', ''created_time'']"

text \<open>The calls of \<open>bcrypt\<close>, on byte strings, with the exceptions they may raise.\<close>

record crypto =
  bc_hashpw :: "string \<Rightarrow> string \<Rightarrow> exn + string"
  bc_checkpw :: "string \<Rightarrow> string \<Rightarrow> exn + bool"

text \<open>\<open>str.encode('utf-8')\<close> on the code points below 256.\<close>

definition encode_utf8 :: "string \<Rightarrow> string" where
  "encode_utf8 s = concat (map (\<lambda>c. let n = of_char c :: nat in
     if n < 128 then [c] else [char_of (192 + n div 64), char_of (128 + n mod 64)]) s)"

definition passwd_hash :: "crypto \<Rightarrow> string \<Rightarrow> string \<Rightarrow> exn + string" where
  "passwd_hash K salt password = bc_hashpw K (encode_utf8 password) salt"

definition passwd_verify :: "crypto \<Rightarrow> string \<Rightarrow> string option \<Rightarrow> exn + bool" where
  "passwd_verify K password hashed =
     (case hashed of
        None \<Rightarrow> Inl AttributeError
      | Some h \<Rightarrow> bc_checkpw K (encode_utf8 password) h)"

definition instantiate_csm_user ::
  "crypto \<Rightarrow> datetime \<Rightarrow> string \<Rightarrow> string \<Rightarrow> string \<Rightarrow> string \<Rightarrow> string \<Rightarrow> exn + user" where
  "instantiate_csm_user K now salt uid password email urole =
     bind_sum (passwd_hash K salt password) (\<lambda>h.
       Inr \<lparr>user_id = uid, user_type = ''csm'', user_role = urole, user_password = Some h,
            email_address = email, reset_password = Some False, alert_notification = True,
            updated_time = now, created_time = now\<rparr>)"

definition instantiate_s3_account_user :: "datetime \<Rightarrow> string \<Rightarrow> string \<Rightarrow> user" where
  "instantiate_s3_account_user now uid urole =
     \<lparr>user_id = uid, user_type = ''s3_account'', user_role = urole, user_password = None,
      email_address = [], reset_password = None, alert_notification = True,
      updated_time = now, created_time = now\<rparr>"

text \<open>The fields a validated PATCH body can have (\<open>CsmUserPatchSchema\<close>).\<close>

record user_patch =
  p_password :: "string option"
  p_current_password :: "string option"
  p_user_role :: "string option"
  p_email_address :: "string option"
  p_reset_password :: "bool option"

definition apply_patch :: "user_patch \<Rightarrow> user \<Rightarrow> user" where
  "apply_patch p u =
     u\<lparr>user_role := (case p_user_role p of None \<Rightarrow> user_role u | Some r \<Rightarrow> r),
       email_address := (case p_email_address p of None \<Rightarrow> email_address u | Some e \<Rightarrow> e),
       reset_password := (case p_reset_password p of None \<Rightarrow> reset_password u | Some b \<Rightarrow> Some b)\<rparr>"

text \<open>\<open>User.update\<close>.\<close>

definition user_update :: "crypto \<Rightarrow> datetime \<Rightarrow> string \<Rightarrow> user_patch \<Rightarrow> user \<Rightarrow> exn + user" where
  "user_update K now salt new_values u =
     bind_sum (case p_password new_values of
                 None \<Rightarrow> Inr u
               | Some pw \<Rightarrow> bind_sum (passwd_hash K salt pw) (\<lambda>h. Inr (u\<lparr>user_password := Some h\<rparr>)))
       (\<lambda>u'. Inr ((apply_patch new_values u')\<lparr>updated_time := now\<rparr>))"


section \<open>UserManager\<close>

datatype sort_order = ASC | DESC

datatype compare = Compare string string pyval

record user_query =
  uq_offset :: "int option"
  uq_limit :: "int option"
  uq_order :: "(string \<times> sort_order) option"
  uq_filter :: "compare list option"

definition empty_query :: user_query where
  "empty_query = \<lparr>uq_offset = None, uq_limit = None, uq_order = None, uq_filter = None\<rparr>"

text \<open>The calls of \<open>storage(User)\<close>, and what the service is configured with.\<close>

record 'db user_db =
  udb_get :: "user_query \<Rightarrow> ('db, exn, user list) act"
  udb_store :: "user \<Rightarrow> ('db, exn, unit) act"
  udb_count :: "compare option \<Rightarrow> ('db, exn, int) act"
  udb_delete :: "compare \<Rightarrow> ('db, exn, unit) act"

record 'db users_env =
  ue_db :: "'db user_db"
  ue_retries :: int
  ue_quota :: int
  ue_crypto :: crypto

definition um_store :: "'db users_env \<Rightarrow> user \<Rightarrow> ('db, exn, unit) act" where
  "um_store E u = retry_value (udb_store (ue_db E) u) (ue_retries E)"

definition um_count_query :: "'db users_env \<Rightarrow> compare option \<Rightarrow> ('db, exn, int) act" where
  "um_count_query E f = retry_value (udb_count (ue_db E) f) (ue_retries E)"

definition um_get_query :: "'db users_env \<Rightarrow> user_query \<Rightarrow> ('db, exn, user list) act" where
  "um_get_query E q = retry_value (udb_get (ue_db E) q) (ue_retries E)"

definition um_delete :: "'db users_env \<Rightarrow> string \<Rightarrow> ('db, exn, unit) act" where
  "um_delete E uid =
     retry_unit (udb_delete (ue_db E) (Compare ''user_id'' ''='' (PStr uid))) (ue_retries E)"

text \<open>Python's truth value of an optional number or string.\<close>

definition truthy_int :: "int option \<Rightarrow> bool" where
  "truthy_int x \<longleftrightarrow> x \<noteq> None \<and> x \<noteq> Some 0"

definition truthy_str :: "string option \<Rightarrow> bool" where
  "truthy_str x \<longleftrightarrow> x \<noteq> None \<and> x \<noteq> Some []"

definition user_attr :: "string option \<Rightarrow> exn + string" where
  "user_attr f = (case f of
       None \<Rightarrow> Inl TypeError
     | Some x \<Rightarrow> if x \<in> set user_fields then Inr x else Inl AttributeError)"

definition um_query ::
  "int option \<Rightarrow> int option \<Rightarrow> (string option \<times> sort_order) option \<Rightarrow> string option \<Rightarrow> string option
     \<Rightarrow> exn + user_query" where
  "um_query offset limit sort_by role username =
     (let q = empty_query\<lparr>uq_offset := (if truthy_int offset then offset else None),
                          uq_limit := (if truthy_int limit then limit else None)\<rparr>;
          filters = (if truthy_str role then [Compare ''user_role'' ''like'' (PStr (the role))] else [])
                  @ (if truthy_str username then [Compare ''user_id'' ''like'' (PStr (the username))] else [])
      in bind_sum (case sort_by of
                     None \<Rightarrow> Inr q
                   | Some (f, d) \<Rightarrow> bind_sum (user_attr f) (\<lambda>a. Inr (q\<lparr>uq_order := Some (a, d)\<rparr>)))
         (\<lambda>q'. Inr (if filters = [] then q' else q'\<lparr>uq_filter := Some filters\<rparr>)))"

definition um_get_list ::
  "'db users_env \<Rightarrow> int option \<Rightarrow> int option \<Rightarrow> (string option \<times> sort_order) option
     \<Rightarrow> string option \<Rightarrow> string option \<Rightarrow> ('db, exn, user list) act" where
  "um_get_list E offset limit sort_by role username =
     bind_act (of_sum (um_query offset limit sort_by role username)) (um_get_query E)"

definition um_get :: "'db users_env \<Rightarrow> string \<Rightarrow> ('db, exn, user option) act" where
  "um_get E uid =
     bind_act (um_get_list E None None None None None) (\<lambda>all_users.
       ret (find (\<lambda>u. lower (user_id u) = lower uid) all_users))"

definition um_create :: "'db users_env \<Rightarrow> user \<Rightarrow> ('db, exn, unit) act" where
  "um_create E u =
     bind_act (um_get E (user_id u)) (\<lambda>existing_user.
       case existing_user of
         Some v \<Rightarrow> throw (mk_ResourceExist (Some (''User already exists: '' @ user_id v)) ''users_already_exists'')
       | None \<Rightarrow> um_store E u)"

definition um_alert_emails :: "'db users_env \<Rightarrow> ('db, exn, string list) act" where
  "um_alert_emails E =
     bind_act (um_get_query E (empty_query\<lparr>uq_filter := Some [Compare ''alert_notification'' ''='' (PBool True)]\<rparr>))
       (\<lambda>us. ret (map email_address us))"

definition um_count :: "'db users_env \<Rightarrow> ('db, exn, int) act" where
  "um_count E = um_count_query E None"

definition um_save :: "'db users_env \<Rightarrow> user \<Rightarrow> ('db, exn, unit) act" where
  "um_save E u = um_store E u"

definition um_count_admins :: "'db users_env \<Rightarrow> ('db, exn, int) act" where
  "um_count_admins E = um_count_query E (Some (Compare ''user_role'' ''='' (PStr CSM_SUPER_USER_ROLE)))"


section \<open>The update rules\<close>

datatype update_user_rule = RuleNone | RuleAll | RuleSelf | RuleOthers

definition rule_apply :: "update_user_rule \<Rightarrow> bool \<Rightarrow> bool" where
  "rule_apply rule self_update =
     (case rule of
        RuleNone \<Rightarrow> False
      | RuleSelf \<Rightarrow> self_update
      | RuleOthers \<Rightarrow> \<not> self_update
      | RuleAll \<Rightarrow> True)"

type_synonym update_rules = "(string, (string, update_user_rule) dict) dict"

definition CSM_USER_PASSWD_UPDATE_RULES :: update_rules where
  "CSM_USER_PASSWD_UPDATE_RULES =
     [(CSM_SUPER_USER_ROLE, [(CSM_SUPER_USER_ROLE, RuleAll), (CSM_MANAGE_ROLE, RuleAll), (CSM_MONITOR_ROLE, RuleAll)]),
      (CSM_MANAGE_ROLE, [(CSM_SUPER_USER_ROLE, RuleNone), (CSM_MANAGE_ROLE, RuleAll), (CSM_MONITOR_ROLE, RuleAll)]),
      (CSM_MONITOR_ROLE, [(CSM_SUPER_USER_ROLE, RuleNone), (CSM_MANAGE_ROLE, RuleNone), (CSM_MONITOR_ROLE, RuleSelf)])]"

definition CSM_USER_ROLE_UPDATE_RULES :: update_rules where
  "CSM_USER_ROLE_UPDATE_RULES =
     [(CSM_SUPER_USER_ROLE, [(CSM_SUPER_USER_ROLE, RuleAll), (CSM_MANAGE_ROLE, RuleAll), (CSM_MONITOR_ROLE, RuleAll)]),
      (CSM_MANAGE_ROLE, [(CSM_SUPER_USER_ROLE, RuleNone), (CSM_MANAGE_ROLE, RuleOthers), (CSM_MONITOR_ROLE, RuleAll)]),
      (CSM_MONITOR_ROLE, [(CSM_SUPER_USER_ROLE, RuleNone), (CSM_MANAGE_ROLE, RuleNone), (CSM_MONITOR_ROLE, RuleNone)])]"

text \<open>\<open>RULES[actor][target].apply(self_update)\<close>; a role without an entry is a \<open>KeyError\<close>.\<close>

definition rule_allows :: "update_rules \<Rightarrow> string \<Rightarrow> string \<Rightarrow> bool \<Rightarrow> exn + bool" where
  "rule_allows rules actor target self_update =
     (case dict_get rules actor of
        None \<Rightarrow> Inl KeyError
      | Some row \<Rightarrow> (case dict_get row target of
            None \<Rightarrow> Inl KeyError
          | Some rule \<Rightarrow> Inr (rule_apply rule self_update)))"



section \<open>CsmUserService\<close>

type_synonym json_dict = "(string, pyval) dict"

definition user_to_dict :: "user \<Rightarrow> json_dict" where
  "user_to_dict u =
     [(''id'', PStr (user_id u)), (''username'', PStr (user_id u)), (''user_type'', PStr (user_type u)),
      (''role'', PStr (user_role u)), (''email'', PStr (email_address u)),
      (''reset_password'', (case reset_password u of None \<Rightarrow> PNone | Some b \<Rightarrow> PBool b)),
      (''created_time'', PStr (isoformat (created_time u) @ ''Z'')),
      (''updated_time'', PStr (isoformat (updated_time u) @ ''Z'')),
      (''alert_notification'', PBool (alert_notification u))]"

definition create_user ::
  "'db users_env \<Rightarrow> datetime \<Rightarrow> string \<Rightarrow> string \<Rightarrow> string \<Rightarrow> string \<Rightarrow> string option \<Rightarrow> string
     \<Rightarrow> ('db, exn, json_dict) act" where
  "create_user E now salt uid password role creator_id email =
     bind_act (if truthy_str creator_id then um_get E (the creator_id) else ret None) (\<lambda>creator.
       case creator of
         None \<Rightarrow> throw (mk_CsmPermissionDenied None ''PermissionDenied'' None)
       | Some c \<Rightarrow>
           if role = CSM_SUPER_USER_ROLE \<and> user_role c \<noteq> CSM_SUPER_USER_ROLE
           then throw (mk_CsmPermissionDenied (Some ''Only admin user can create other admin users'')
                        ''PermissionDenied'' None)
           else bind_act (um_count E) (\<lambda>existing_users_count.
             if existing_users_count \<ge> ue_quota E \<and> ue_quota E > 0
             then throw (mk_CsmPermissionDenied (Some ''User creation failed. Maximum user limit reached.'')
                          ''PermissionDenied'' None)
             else bind_act (of_sum (instantiate_csm_user (ue_crypto E) now salt uid password email role)) (\<lambda>u.
                  bind_act (um_create E u) (\<lambda>_. ret (user_to_dict u)))))"

definition user_not_found :: "string \<Rightarrow> exn" where
  "user_not_found uid = mk_CsmNotFoundError (Some (''User does not exist: '' @ uid)) ''users_not_found''"

definition get_user :: "'db users_env \<Rightarrow> string \<Rightarrow> ('db, exn, json_dict) act" where
  "get_user E uid =
     bind_act (um_get E uid) (\<lambda>r.
       case r of None \<Rightarrow> throw (user_not_found uid) | Some u \<Rightarrow> ret (user_to_dict u))"

definition field_mapping :: "(string, string) dict" where
  "field_mapping = [(''id'', ''user_id''), (''username'', ''user_id''), (''email'', ''email_address''),
                    (''role'', ''user_role'')]"

definition CSM_USER_SORTABLE_FIELDS :: "string list" where
  "CSM_USER_SORTABLE_FIELDS = [''user_id'', ''username'', ''email'', ''user_type'', ''role'', ''created_time'',
     ''updated_time'', ''email_address'', ''user_role'']"

definition map_sort_field :: "string option \<Rightarrow> string option" where
  "map_sort_field sort_by = map_option (\<lambda>f. dict_get_default field_mapping f f) sort_by"

definition get_user_list ::
  "'db users_env \<Rightarrow> int option \<Rightarrow> int option \<Rightarrow> string option \<Rightarrow> string \<Rightarrow> string option \<Rightarrow> string option
     \<Rightarrow> ('db, exn, json_dict list) act" where
  "get_user_list E limit offset sort_by sort_dir role username =
     (let f = map_sort_field sort_by in
      if truthy_str f \<and> the f \<notin> set CSM_USER_SORTABLE_FIELDS
      then throw (mk_InvalidRequest (Some ''Cannot sort by the selected field'') ''users_non_sortable_field'')
      else bind_act (um_get_list E (if truthy_int offset then offset else None)
                       (if truthy_int limit then limit else None)
                       (Some (f, if sort_dir = ''asc'' then ASC else DESC)) role username)
             (\<lambda>us. ret (map user_to_dict us)))"

definition get_user_count :: "'db users_env \<Rightarrow> ('db, exn, int) act" where
  "get_user_count E = um_count E"

text \<open>\<open>delete_user\<close> in two parts, since other requests run between its last check and its
  deletion: the checks, which return the id to delete, and the deletion.\<close>

definition delete_user_check :: "'db users_env \<Rightarrow> string \<Rightarrow> string \<Rightarrow> ('db, exn, string) act" where
  "delete_user_check E uid loggedin_user_id =
     bind_act (um_get E uid) (\<lambda>r.
       case r of
         None \<Rightarrow> throw (user_not_found uid)
       | Some u \<Rightarrow>
           bind_act (if user_role u = CSM_SUPER_USER_ROLE
                     then bind_act (um_count_admins E) (\<lambda>num_admins.
                            if num_admins = 1
                            then throw (mk_CsmPermissionDenied (Some ''Cannot delete the last admin user'')
                                         ''user_permission_denied'' (Some uid))
                            else ret ())
                     else ret ()) (\<lambda>_.
           bind_act (um_get E loggedin_user_id) (\<lambda>l.
             case l of
               None \<Rightarrow> throw AttributeError
             | Some lu \<Rightarrow>
                 if user_role lu \<noteq> CSM_SUPER_USER_ROLE \<and> lower uid \<noteq> lower loggedin_user_id
                 then throw (mk_CsmPermissionDenied (Some ''Normal user cannot delete other user'')
                              ''user_permission_denied'' (Some uid))
                 else ret (user_id u))))"

definition delete_user_commit :: "'db users_env \<Rightarrow> string \<Rightarrow> ('db, exn, json_dict) act" where
  "delete_user_commit E stored_id =
     bind_act (um_delete E stored_id) (\<lambda>_. ret [(''message'', PStr ''User Deleted Successfully.'')])"

definition delete_user :: "'db users_env \<Rightarrow> string \<Rightarrow> string \<Rightarrow> ('db, exn, json_dict) act" where
  "delete_user E uid loggedin_user_id =
     bind_act (delete_user_check E uid loggedin_user_id) (delete_user_commit E)"

definition update_denied :: "string \<Rightarrow> string option \<Rightarrow> exn" where
  "update_denied msg args = mk_CsmPermissionDenied (Some msg) ''update_not_allowed'' args"

definition validate_user_update :: "'db users_env \<Rightarrow> user \<Rightarrow> user option \<Rightarrow> user_patch \<Rightarrow> ('db, exn, unit) act" where
  "validate_user_update E u loggedin_user new_values =
     (case loggedin_user of
        None \<Rightarrow> throw AttributeError
      | Some lu \<Rightarrow>
          let self_update = (user_id u = user_id lu);
              password = p_password new_values;
              current_password = p_current_password new_values;
              role = p_user_role new_values
          in
          bind_act (of_sum (rule_allows CSM_USER_PASSWD_UPDATE_RULES (user_role lu) (user_role u) self_update)) (\<lambda>allowed.
          bind_act (if \<not> allowed
                    then throw (update_denied
                           (if truthy_str password
                            then user_id lu @ '' can not update the password for '' @ user_id u
                            else user_id lu @ '' can not update '' @ user_id u) None)
                    else ret ()) (\<lambda>_.
          bind_act (if truthy_str role
                    then bind_act (of_sum (rule_allows CSM_USER_ROLE_UPDATE_RULES (user_role lu) (user_role u) self_update))
                           (\<lambda>allowed.
                         if \<not> allowed
                         then throw (update_denied (user_id lu @ '' can not update the role for '' @ user_id u) None)
                         else if user_role lu = CSM_SUPER_USER_ROLE
                         then (if self_update
                               then bind_act (um_count_admins E) (\<lambda>num_admins.
                                      if num_admins = 1
                                      then throw (update_denied ''Cannot change role for the last admin user'' (Some (user_id u)))
                                      else ret ())
                               else ret ())
                         else if role = Some CSM_SUPER_USER_ROLE
                         then throw (update_denied ''Can not update role to admin'' None)
                         else ret ())
                    else ret ()) (\<lambda>_.
          if self_update \<and> truthy_str current_password
          then bind_act (of_sum (passwd_verify (ue_crypto E) (the current_password) (user_password u))) (\<lambda>valid.
                 if \<not> valid then throw (update_denied ''The current password is not valid'' None) else ret ())
          else ret ()))))"

definition update_user ::
  "'db users_env \<Rightarrow> datetime \<Rightarrow> string \<Rightarrow> string \<Rightarrow> user_patch \<Rightarrow> string \<Rightarrow> ('db, exn, json_dict) act" where
  "update_user E now salt uid new_values loggedin_user_id =
     bind_act (um_get E uid) (\<lambda>r.
       case r of
         None \<Rightarrow> throw (user_not_found uid)
       | Some u \<Rightarrow>
           bind_act (um_get E loggedin_user_id) (\<lambda>loggedin_user.
           bind_act (validate_user_update E u loggedin_user new_values) (\<lambda>_.
           bind_act (of_sum (user_update (ue_crypto E) now salt new_values u)) (\<lambda>u'.
           bind_act (um_save E (u'\<lparr>reset_password := Some True\<rparr>)) (\<lambda>_.
           ret (user_to_dict (u'\<lparr>reset_password := Some True\<rparr>)))))))"

definition validate_cluster_admin_create :: "'db users_env \<Rightarrow> string \<Rightarrow> ('db, exn, bool) act" where
  "validate_cluster_admin_create E username =
     bind_act (um_count_admins E) (\<lambda>n.
       if n > 0 then ret True else bind_act (um_get E username) (\<lambda>r. ret (r \<noteq> None)))"

definition create_cluster_admin ::
  "'db users_env \<Rightarrow> datetime \<Rightarrow> string \<Rightarrow> string \<Rightarrow> string \<Rightarrow> string \<Rightarrow> ('db, exn, unit) act" where
  "create_cluster_admin E now salt username password emailid =
     bind_act (of_sum (instantiate_csm_user (ue_crypto E) now salt username password emailid CSM_SUPER_USER_ROLE))
       (um_create E)"

end
