(* ===== verification/Users_Correct.thy ===== *)
theory Users_Correct
  imports Users
begin

text \<open>
  Correctness of the user service. The contract of the database provider is the locale
  \<open>user_provider\<close>; inside it each operation of the service gets one specification that says
  which changes of the table it can make (also on its exceptional exits), and the properties at
  the end follow from these. The contract is interpreted on a table whose calls fail on a
  schedule.
\<close>

section \<open>The contract of the user table\<close>

text \<open>
  What is documented of the provider: the table has one row per id; \<open>get\<close> with an empty query
  returns all rows and changes nothing, \<open>count\<close> counts all rows or those that satisfy a
  comparison, \<open>store\<close> inserts or replaces the row with the model's id, \<open>delete\<close> removes the rows
  that satisfy the comparison. A call that raises may have taken effect.
\<close>

type_synonym user_table = "string \<rightharpoonup> user"

definition with_role :: "user_table \<Rightarrow> string \<Rightarrow> string set" where
  "with_role m r = {k. \<exists>u. m k = Some u \<and> user_role u = r}"

abbreviation admins :: "user_table \<Rightarrow> string set" where
  "admins m \<equiv> with_role m CSM_SUPER_USER_ROLE"

abbreviation role_is :: "string \<Rightarrow> compare" where
  "role_is r \<equiv> Compare ''user_role'' ''='' (PStr r)"

abbreviation id_is :: "string \<Rightarrow> compare" where
  "id_is k \<equiv> Compare ''user_id'' ''='' (PStr k)"

section \<open>What the changes keep\<close>

text \<open>The admin rows, and the ids that differ in more than case.\<close>

definition admin_rows :: "user_table \<Rightarrow> (string \<times> user) set" where
  "admin_rows m = {(k, u). m k = Some u \<and> user_role u = CSM_SUPER_USER_ROLE}"

definition ids_unique :: "user_table \<Rightarrow> bool" where
  "ids_unique m \<longleftrightarrow> (\<forall>k l. k \<in> dom m \<longrightarrow> l \<in> dom m \<longrightarrow> lower k = lower l \<longrightarrow> k = l)"

definition table_ok :: "user_table \<Rightarrow> bool" where
  "table_ok m \<longleftrightarrow> ids_unique m \<and> admins m \<noteq> {}"

lemma admins_rows: "admins m = fst ` admin_rows m"
  by (force simp: with_role_def admin_rows_def)

lemma admins_del: "admins (m(k := None)) = admins m - {k}"
  by (auto simp: with_role_def)

lemma admins_upd: "admins (m(k \<mapsto> u)) =
    (if user_role u = CSM_SUPER_USER_ROLE then insert k (admins m) else admins m - {k})"
  by (auto simp: with_role_def)

lemma admin_rows_del: "admin_rows (m(k := None)) = {r \<in> admin_rows m. fst r \<noteq> k}"
  by (auto simp: admin_rows_def split: if_splits)

lemma admin_rows_upd: "user_role u \<noteq> CSM_SUPER_USER_ROLE \<Longrightarrow>
    admin_rows (m(k \<mapsto> u)) = {r \<in> admin_rows m. fst r \<noteq> k}"
  by (auto simp: admin_rows_def split: if_splits)

lemma other_admin: "admins m \<noteq> {} \<Longrightarrow> finite (dom m) \<Longrightarrow> card (admins m) \<noteq> 1 \<Longrightarrow> admins m - {k} \<noteq> {}"
proof
  assume "admins m \<noteq> {}" "card (admins m) \<noteq> 1" "admins m - {k} = {}"
  then have "admins m = {k}" by auto
  with \<open>card (admins m) \<noteq> 1\<close> show False by simp
qed

lemma ids_unique_del: "ids_unique m \<Longrightarrow> ids_unique (m(k := None))"
  by (auto simp: ids_unique_def)

lemma ids_unique_same: "ids_unique m \<Longrightarrow> m k = Some v \<Longrightarrow> ids_unique (m(k \<mapsto> u))"
  by (auto simp: ids_unique_def)

lemma ids_unique_new: "ids_unique m \<Longrightarrow> \<forall>k u. m k = Some u \<longrightarrow> lower k \<noteq> lower uid \<Longrightarrow> ids_unique (m(uid \<mapsto> u))"
  by (auto simp: ids_unique_def)

text \<open>What a lookup by id returns: a row whose id agrees up to case.\<close>

definition found :: "user_table \<Rightarrow> string \<Rightarrow> user option \<Rightarrow> bool" where
  "found m uid r \<longleftrightarrow> (case r of
       None \<Rightarrow> (\<forall>k u. m k = Some u \<longrightarrow> lower k \<noteq> lower uid)
     | Some u \<Rightarrow> m (user_id u) = Some u \<and> lower (user_id u) = lower uid)"

text \<open>Who may be deleted by whom: \<open>u\<close>, found under \<open>uid\<close>, by \<open>lu\<close>, found under the logged in id.\<close>

definition may_delete :: "user_table \<Rightarrow> string \<Rightarrow> string \<Rightarrow> user \<Rightarrow> user \<Rightarrow> bool" where
  "may_delete m uid lid u lu \<longleftrightarrow> found m uid (Some u) \<and> found m lid (Some lu)
     \<and> (user_role u = CSM_SUPER_USER_ROLE \<longrightarrow> card (admins m) \<noteq> 1)
     \<and> (user_role lu = CSM_SUPER_USER_ROLE \<or> lower uid = lower lid)"

text \<open>Who may update whom, and how.\<close>

definition may_set_role :: "user_table \<Rightarrow> user \<Rightarrow> user \<Rightarrow> user_patch \<Rightarrow> bool" where
  "may_set_role m u lu p \<longleftrightarrow>
     rule_allows CSM_USER_ROLE_UPDATE_RULES (user_role lu) (user_role u) (user_id u = user_id lu) = Inr True
     \<and> (user_role lu = CSM_SUPER_USER_ROLE \<and> user_id u = user_id lu \<longrightarrow> card (admins m) \<noteq> 1)
     \<and> (user_role lu \<noteq> CSM_SUPER_USER_ROLE \<longrightarrow> p_user_role p \<noteq> Some CSM_SUPER_USER_ROLE)"

definition may_update :: "user_table \<Rightarrow> user \<Rightarrow> user \<Rightarrow> user_patch \<Rightarrow> bool" where
  "may_update m u lu p \<longleftrightarrow>
     rule_allows CSM_USER_PASSWD_UPDATE_RULES (user_role lu) (user_role u) (user_id u = user_id lu) = Inr True
     \<and> (truthy_str (p_user_role p) \<longrightarrow> may_set_role m u lu p)"

lemma guard_spec:
  "spec P (if \<not> b then throw e else ret ()) (\<lambda>_ d. P d \<and> b) (\<lambda>_. P)"
  by (simp add: spec_def act_simps)

text \<open>The rule tables: nobody but an admin may touch an admin.\<close>

lemma passwd_rule_admin:
  "rule_allows CSM_USER_PASSWD_UPDATE_RULES actor CSM_SUPER_USER_ROLE self = Inr True \<Longrightarrow> actor = CSM_SUPER_USER_ROLE"
  by (auto simp: rule_allows_def CSM_USER_PASSWD_UPDATE_RULES_def role_names rule_apply_def
      split: option.splits if_splits)

lemma user_update_id: "user_update K now salt p u = Inr u' \<Longrightarrow> user_id u' = user_id u"
  by (auto simp: user_update_def apply_patch_def split: option.splits)

lemma user_update_role:
  "user_update K now salt p u = Inr u' \<Longrightarrow> user_role u' = (case p_user_role p of None \<Rightarrow> user_role u | Some r \<Rightarrow> r)"
  by (auto simp: user_update_def apply_patch_def split: option.splits)

text \<open>A body that passed the schema has one of the three roles, if any.\<close>

definition patch_valid :: "user_patch \<Rightarrow> bool" where
  "patch_valid p \<longleftrightarrow> (case p_user_role p of None \<Rightarrow> True | Some r \<Rightarrow> r \<in> set CSM_USER_ROLES)"

lemma patch_valid_role: "patch_valid p \<Longrightarrow> p_user_role p = Some r \<Longrightarrow> truthy_str (Some r)"
  by (auto simp: patch_valid_def truthy_str_def role_names)


text \<open>The operations of the service that change the table, as requests.\<close>

datatype user_op =
    CreateUser datetime string string string string "string option" string
  | UpdateUser datetime string string user_patch string
  | DeleteUser string string
  | CreateClusterAdmin datetime string string string string

fun run_user_op :: "'db users_env \<Rightarrow> user_op \<Rightarrow> 'db \<Rightarrow> 'db" where
  "run_user_op E (CreateUser now salt uid password role creator_id email) d =
     snd (create_user E now salt uid password role creator_id email d)"
| "run_user_op E (UpdateUser now salt uid p lid) d = snd (update_user E now salt uid p lid d)"
| "run_user_op E (DeleteUser uid lid) d = snd (delete_user E uid lid d)"
| "run_user_op E (CreateClusterAdmin now salt username password emailid) d =
     snd (create_cluster_admin E now salt username password emailid d)"

fun op_valid :: "user_op \<Rightarrow> bool" where
  "op_valid (UpdateUser _ _ _ p _) = patch_valid p"
| "op_valid _ = True"

text \<open>The requests made for a logged in user.\<close>

fun acts_for :: "string \<Rightarrow> user_op \<Rightarrow> bool" where
  "acts_for lid (CreateUser _ _ _ _ _ creator_id _) = (creator_id = Some lid)"
| "acts_for lid (UpdateUser _ _ _ _ l) = (l = lid)"
| "acts_for lid (DeleteUser _ l) = (l = lid)"
| "acts_for lid (CreateClusterAdmin _ _ _ _ _) = False"


section \<open>The provider\<close>

locale user_provider =
  fixes E :: "'db users_env"
    and uinv :: "'db \<Rightarrow> bool"
    and users :: "'db \<Rightarrow> user_table"
  assumes retries: "0 < ue_retries E"
    and users_key: "uinv d \<Longrightarrow> users d k = Some u \<Longrightarrow> user_id u = k"
    and users_finite: "uinv d \<Longrightarrow> finite (dom (users d))"
    and u_get_all: "uinv d \<Longrightarrow> udb_get (ue_db E) empty_query d = (rg, d') \<Longrightarrow> uinv d' \<and> users d' = users d \<and>
      (\<forall>us. rg = Inr us \<longrightarrow> distinct (map user_id us) \<and> users d = map_of (map (\<lambda>u. (user_id u, u)) us))"
    and u_count: "uinv d \<Longrightarrow> udb_count (ue_db E) None d = (rc, d') \<Longrightarrow> uinv d' \<and> users d' = users d \<and>
      (\<forall>c. rc = Inr c \<longrightarrow> c = int (card (dom (users d))))"
    and u_count_role: "uinv d \<Longrightarrow> udb_count (ue_db E) (Some (role_is r)) d = (rc, d') \<Longrightarrow>
      uinv d' \<and> users d' = users d \<and> (\<forall>c. rc = Inr c \<longrightarrow> c = int (card (with_role (users d) r)))"
    and u_store: "uinv d \<Longrightarrow> udb_store (ue_db E) u d = (ru, d') \<Longrightarrow>
      uinv d' \<and> users d' \<in> {users d, (users d)(user_id u \<mapsto> u)} \<and>
      (ru = Inr () \<longrightarrow> users d' = (users d)(user_id u \<mapsto> u))"
    and u_delete: "uinv d \<Longrightarrow> udb_delete (ue_db E) (id_is k) d = (ru, d') \<Longrightarrow>
      uinv d' \<and> users d' \<in> {users d, (users d)(k := None)} \<and> (ru = Inr () \<longrightarrow> users d' = (users d)(k := None))"
begin

text \<open>The database holds the table \<open>m\<close>.\<close>

definition holds :: "user_table \<Rightarrow> 'db \<Rightarrow> bool" where
  "holds m d \<longleftrightarrow> uinv d \<and> users d = m"

text \<open>A call that reads.\<close>

lemma read_retried:
  assumes "\<And>d r d'. uinv d \<Longrightarrow> users d = m \<Longrightarrow> op d = (r, d') \<Longrightarrow>
             uinv d' \<and> users d' = users d \<and> (\<forall>x. r = Inr x \<longrightarrow> F x)"
  shows "spec (holds m) (retry_value op (ue_retries E)) (\<lambda>x d. holds m d \<and> F x) (\<lambda>_. holds m)"
proof (rule spec_retry_value [OF _ retries], rule specI)
  fix d r d' assume "holds m d" "op d = (r, d')"
  with assms [of d r d'] show "case r of Inr x \<Rightarrow> holds m d' \<and> F x | Inl e \<Rightarrow> holds m d'"
    by (cases r) (auto simp: holds_def)
qed

text \<open>A call that changes the table to \<open>m'\<close>: an attempt that raised may have taken effect, a second
  one then changes nothing more.\<close>

lemma write_retried:
  assumes "\<And>d r d'. uinv d \<Longrightarrow> op d = (r, d') \<Longrightarrow>
             uinv d' \<and> users d' \<in> {users d, f (users d)} \<and> (r = Inr () \<longrightarrow> users d' = f (users d))"
    and "f (f m) = f m"
  shows "spec (holds m) (retry_value op (ue_retries E)) (\<lambda>_. holds (f m)) (\<lambda>_ d. holds m d \<or> holds (f m) d)"
proof -
  let ?P = "\<lambda>d. holds m d \<or> holds (f m) d"
  have "spec ?P op (\<lambda>_. holds (f m)) (\<lambda>_. ?P)"
  proof (rule specI)
    fix d r d' assume d: "?P d" and run: "op d = (r, d')"
    then have "uinv d" by (auto simp: holds_def)
    from assms(1) [OF this run] d assms(2)
    show "case r of Inr x \<Rightarrow> holds (f m) d' | Inl e \<Rightarrow> ?P d'"
      by (cases r) (auto simp: holds_def)
  qed
  from spec_retry_value [OF this retries] show ?thesis
    unfolding spec_def by (auto split: prod.splits sum.splits)
qed


section \<open>The user manager\<close>

lemma found_find:
  assumes "distinct (map user_id us)" and "m = map_of (map (\<lambda>u. (user_id u, u)) us)"
  shows "found m uid (find (\<lambda>u. lower (user_id u) = lower uid) us)"
proof (cases "find (\<lambda>u. lower (user_id u) = lower uid) us")
  case None
  then have none: "\<And>u. u \<in> set us \<Longrightarrow> lower (user_id u) \<noteq> lower uid" by (simp add: find_None_iff)
  have "lower k \<noteq> lower uid" if "m k = Some u" for k u
    using that none [of u] unfolding assms(2) by (auto dest!: map_of_SomeD)
  with None show ?thesis by (simp add: found_def)
next
  case (Some u)
  then have "u \<in> set us" and low: "lower (user_id u) = lower uid"
    by (auto simp: find_Some_iff)
  moreover have "distinct (map fst (map (\<lambda>u. (user_id u, u)) us))"
    using assms(1) by (simp add: comp_def)
  ultimately have "m (user_id u) = Some u"
    unfolding assms(2) by (intro map_of_is_SomeI) auto
  with Some low show ?thesis by (simp add: found_def)
qed

lemma um_get_spec: "spec (holds m) (um_get E uid) (\<lambda>r d. holds m d \<and> found m uid r) (\<lambda>_. holds m)"
proof -
  have q: "um_query None None None None None = Inr empty_query"
    by (simp add: um_query_def truthy_int_def truthy_str_def empty_query_def)
  have get: "spec (holds m) (um_get_query E empty_query)
      (\<lambda>us d. holds m d \<and> (distinct (map user_id us) \<and> m = map_of (map (\<lambda>u. (user_id u, u)) us))) (\<lambda>_. holds m)"
    unfolding um_get_query_def
  proof (rule read_retried)
    fix d r d' assume "uinv d" and m: "users d = m" and "udb_get (ue_db E) empty_query d = (r, d')"
    from u_get_all [OF this(1,3)]
    show "uinv d' \<and> users d' = users d \<and> (\<forall>us. r = Inr us \<longrightarrow>
        distinct (map user_id us) \<and> m = map_of (map (\<lambda>u. (user_id u, u)) us))"
      unfolding m .
  qed
  show ?thesis
    unfolding um_get_def um_get_list_def q bind_act_assoc
  proof (rule spec_bind_sum)
    fix x assume x: "(Inr empty_query :: exn + user_query) = Inr x"
    then have x: "x = empty_query" by simp
    show "spec (holds m) (bind_act (um_get_query E x) (\<lambda>all_users. ret (find (\<lambda>u. lower (user_id u) = lower uid) all_users)))
       (\<lambda>r d. holds m d \<and> found m uid r) (\<lambda>_. holds m)"
      unfolding x by (rule spec_read [OF get], rule spec_ret) (use found_find in blast)
  qed simp
qed

lemma um_count_spec:
  "spec (holds m) (um_count E) (\<lambda>c d. holds m d \<and> c = int (card (dom m))) (\<lambda>_. holds m)"
  unfolding um_count_def um_count_query_def by (rule read_retried) (use u_count in blast)

lemma um_count_admins_spec:
  "spec (holds m) (um_count_admins E) (\<lambda>c d. holds m d \<and> c = int (card (admins m))) (\<lambda>_. holds m)"
  unfolding um_count_admins_def um_count_query_def by (rule read_retried) (use u_count_role in blast)

lemma um_store_spec:
  "spec (holds m) (um_store E u) (\<lambda>_. holds (m(user_id u \<mapsto> u))) (\<lambda>_ d. holds m d \<or> holds (m(user_id u \<mapsto> u)) d)"
  unfolding um_store_def by (rule write_retried [where f = "\<lambda>m. m(user_id u \<mapsto> u)"]) (use u_store in simp_all)

lemma um_delete_spec:
  "spec (holds m) (um_delete E k) (\<lambda>_. holds (m(k := None))) (\<lambda>_ d. holds m d \<or> holds (m(k := None)) d)"
  unfolding um_delete_def retry_unit_value [OF retries] by (rule write_retried [where f = "\<lambda>m. m(k := None)"]) (use u_delete in simp_all)

text \<open>An operation that, if it changes the table at all, changes it to one that satisfies \<open>C\<close>, and
  that has changed it when it returns.\<close>

definition changes :: "user_table \<Rightarrow> ('db, exn, 'a) act \<Rightarrow> (user_table \<Rightarrow> bool) \<Rightarrow> bool" where
  "changes m op C \<longleftrightarrow> spec (holds m) op (\<lambda>_ d. \<exists>m'. C m' \<and> holds m' d)
     (\<lambda>_ d. holds m d \<or> (\<exists>m'. C m' \<and> holds m' d))"

lemma changes_end:
  assumes "spec (holds m) op (\<lambda>_. holds m') (\<lambda>_ d. holds m d \<or> holds m' d)" and "C m'"
  shows "changes m op C"
  unfolding changes_def by (rule spec_conseq [OF assms(1)]) (use assms(2) in blast)+

lemma changes_ret: "changes m op C \<Longrightarrow> changes m (bind_act op (\<lambda>_. ret x)) C"
  unfolding changes_def by (erule spec_bind) (rule spec_ret)

lemma changes_read:
  assumes "spec (holds m) op (\<lambda>x d. holds m d \<and> F x) (\<lambda>_. holds m)" and "\<And>x. F x \<Longrightarrow> changes m (f x) C"
  shows "changes m (bind_act op f) C"
  unfolding changes_def
  by (rule spec_read [OF spec_conseq [OF assms(1)]], assumption, rule disjI1, assumption,
      rule assms(2) [unfolded changes_def])

lemma changes_throw: "changes m (throw e) C"
  unfolding changes_def by (rule spec_throw) (rule disjI1)

lemma changes_sum: "(\<And>x. r = Inr x \<Longrightarrow> changes m (f x) C) \<Longrightarrow> changes m (bind_act (of_sum r) f) C"
  unfolding changes_def by (rule spec_bind_sum) auto

lemma changes_if: "(b \<Longrightarrow> changes m op C) \<Longrightarrow> (\<not> b \<Longrightarrow> changes m op' C) \<Longrightarrow> changes m (if b then op else op') C"
  by simp

lemma changes_option: "(z = None \<Longrightarrow> changes m op C) \<Longrightarrow> (\<And>x. z = Some x \<Longrightarrow> changes m (f x) C)
    \<Longrightarrow> changes m (case z of None \<Rightarrow> op | Some x \<Rightarrow> f x) C"
  by (cases z) auto

lemmas changes_intros = changes_if changes_option changes_sum changes_throw
  changes_read [OF um_get_spec] changes_read [OF um_count_spec] changes_read [OF um_count_admins_spec]

lemma changes_run:
  assumes "changes (users d) op C" and "uinv d"
  shows "uinv (snd (op d)) \<and> (users (snd (op d)) = users d \<or> C (users (snd (op d))))"
  by (rule specD_any [OF spec_conseq [OF assms(1) [unfolded changes_def]]])
     (use assms(2) in \<open>auto simp: holds_def\<close>)

section \<open>The service\<close>

lemmas get_read = spec_read [OF spec_conseq [OF um_get_spec]]
lemmas count_admins_read = spec_read [OF spec_conseq [OF um_count_admins_spec]]

lemma last_admin_check_spec:
  "spec (holds m) (if user_role u = CSM_SUPER_USER_ROLE
       then bind_act (um_count_admins E) (\<lambda>num_admins. if num_admins = 1 then throw e else ret ()) else ret ())
     (\<lambda>_ d. holds m d \<and> (user_role u = CSM_SUPER_USER_ROLE \<longrightarrow> card (admins m) \<noteq> 1)) (\<lambda>_. holds m)"
proof (intro spec_if count_admins_read)
  fix c assume "c = int (card (admins m))" and "c \<noteq> 1"
  then have "card (admins m) \<noteq> 1" by simp
  then show "spec (holds m) (ret ())
     (\<lambda>_ d. holds m d \<and> (user_role u = CSM_SUPER_USER_ROLE \<longrightarrow> card (admins m) \<noteq> 1)) (\<lambda>_. holds m)"
    by (intro spec_ret) blast
qed (auto intro: spec_intros)

lemma delete_user_check_spec:
  "spec (holds m) (delete_user_check E uid lid)
     (\<lambda>k d. holds m d \<and> (\<exists>u lu. k = user_id u \<and> may_delete m uid lid u lu)) (\<lambda>_. holds m)"
  unfolding delete_user_check_def
proof (intro get_read spec_option)
  fix r u assume "found m uid r" and r: "r = Some u"
  then have u: "found m uid (Some u)" by simp
  let ?Q = "\<lambda>k d. holds m d \<and> (\<exists>u lu. k = user_id u \<and> may_delete m uid lid u lu)"
  show "spec (holds m)
     (bind_act (if user_role u = CSM_SUPER_USER_ROLE
                then bind_act (um_count_admins E) (\<lambda>num_admins.
                       if num_admins = 1
                       then throw (mk_CsmPermissionDenied (Some ''Cannot delete the last admin user'')
                                    ''user_permission_denied'' (Some uid))
                       else ret ())
                else ret ()) (\<lambda>_.
      bind_act (um_get E lid) (\<lambda>l.
        case l of
          None \<Rightarrow> throw AttributeError
        | Some lu \<Rightarrow>
            if user_role lu \<noteq> CSM_SUPER_USER_ROLE \<and> lower uid \<noteq> lower lid
            then throw (mk_CsmPermissionDenied (Some ''Normal user cannot delete other user'')
                         ''user_permission_denied'' (Some uid))
            else ret (user_id u)))) ?Q (\<lambda>_. holds m)"
  proof (rule spec_read [OF last_admin_check_spec], intro get_read spec_intros)
    fix l lu d
    assume "user_role u = CSM_SUPER_USER_ROLE \<longrightarrow> card (admins m) \<noteq> 1" "found m lid l" "l = Some lu"
      "\<not> (user_role lu \<noteq> CSM_SUPER_USER_ROLE \<and> lower uid \<noteq> lower lid)" "holds m d"
    with u show "?Q (user_id u) d" by (auto simp: may_delete_def)
  qed auto
qed (auto intro: spec_intros)

definition deleted :: "user_table \<Rightarrow> string \<Rightarrow> string \<Rightarrow> user_table \<Rightarrow> bool" where
  "deleted m uid lid m' \<longleftrightarrow> (\<exists>u lu. may_delete m uid lid u lu \<and> m' = m(user_id u := None))"

lemma delete_user_changes: "changes m (delete_user E uid lid) (deleted m uid lid)"
  unfolding delete_user_def delete_user_commit_def
  by (rule changes_read [OF delete_user_check_spec], rule changes_ret, rule changes_end [OF um_delete_spec])
     (auto simp: deleted_def)

lemma set_role_spec:
  "spec (holds m)
     (bind_act (of_sum (rule_allows CSM_USER_ROLE_UPDATE_RULES (user_role lu) (user_role u) (user_id u = user_id lu)))
        (\<lambda>allowed.
          if \<not> allowed then throw e1
          else if user_role lu = CSM_SUPER_USER_ROLE
          then (if user_id u = user_id lu
                then bind_act (um_count_admins E) (\<lambda>num_admins. if num_admins = 1 then throw e2 else ret ())
                else ret ())
          else if p_user_role p = Some CSM_SUPER_USER_ROLE then throw e3 else ret ()))
     (\<lambda>_ d. holds m d \<and> may_set_role m u lu p) (\<lambda>_. holds m)"
proof (intro spec_bind_sum spec_if count_admins_read)
  fix c assume "c = int (card (admins m))" and "c \<noteq> 1"
  then have "card (admins m) \<noteq> 1" by simp
  moreover assume "user_role lu = CSM_SUPER_USER_ROLE"
  moreover fix b assume "rule_allows CSM_USER_ROLE_UPDATE_RULES (user_role lu) (user_role u) (user_id u = user_id lu) = Inr b"
    and "\<not> \<not> b"
  ultimately have "may_set_role m u lu p" by (simp add: may_set_role_def)
  then show "spec (holds m) (ret ()) (\<lambda>_ d. holds m d \<and> may_set_role m u lu p) (\<lambda>_. holds m)"
    by (intro spec_ret) blast
qed (auto intro: spec_intros simp: may_set_role_def)

lemma validate_user_update_spec:
  "spec (holds m) (validate_user_update E u (Some lu) p) (\<lambda>_ d. holds m d \<and> may_update m u lu p) (\<lambda>_. holds m)"
  unfolding validate_user_update_def option.case Let_def
proof (rule spec_bind_sum, rule spec_read [OF guard_spec])
  let ?self = "user_id u = user_id lu" and ?Q = "\<lambda>_ d. holds m d \<and> may_update m u lu p"
  fix b assume "rule_allows CSM_USER_PASSWD_UPDATE_RULES (user_role lu) (user_role u) ?self = Inr b" and b
  then have allowed: "rule_allows CSM_USER_PASSWD_UPDATE_RULES (user_role lu) (user_role u) ?self = Inr True" by simp
  have role: "spec (holds m) (if truthy_str (p_user_role p) then A else ret ())
      (\<lambda>_ d. holds m d \<and> (truthy_str (p_user_role p) \<longrightarrow> may_set_role m u lu p)) (\<lambda>_. holds m)"
    if "spec (holds m) A (\<lambda>_ d. holds m d \<and> may_set_role m u lu p) (\<lambda>_. holds m)" for A
    using that by (auto simp: spec_def act_simps split: prod.splits sum.splits)
  have check: "spec (holds m)
     (if ?self \<and> truthy_str (p_current_password p)
      then bind_act (of_sum (passwd_verify (ue_crypto E) (the (p_current_password p)) (user_password u))) (\<lambda>valid.
             if \<not> valid then throw (update_denied ''The current password is not valid'' None) else ret ())
      else ret ()) ?Q (\<lambda>_. holds m)"
    if "truthy_str (p_user_role p) \<longrightarrow> may_set_role m u lu p"
  proof -
    from allowed that have "may_update m u lu p" by (simp add: may_update_def)
    then show ?thesis by (intro spec_if spec_bind_sum spec_intros) auto
  qed
  show "spec (holds m) (bind_act
     (if truthy_str (p_user_role p)
      then bind_act (of_sum (rule_allows CSM_USER_ROLE_UPDATE_RULES (user_role lu) (user_role u) ?self))
             (\<lambda>allowed.
           if \<not> allowed
           then throw (update_denied (user_id lu @ '' can not update the role for '' @ user_id u) None)
           else if user_role lu = CSM_SUPER_USER_ROLE
           then (if ?self
                 then bind_act (um_count_admins E) (\<lambda>num_admins.
                        if num_admins = 1
                        then throw (update_denied ''Cannot change role for the last admin user'' (Some (user_id u)))
                        else ret ())
                 else ret ())
           else if p_user_role p = Some CSM_SUPER_USER_ROLE
           then throw (update_denied ''Can not update role to admin'' None)
           else ret ())
      else ret ()) (\<lambda>_.
      if ?self \<and> truthy_str (p_current_password p)
      then bind_act (of_sum (passwd_verify (ue_crypto E) (the (p_current_password p)) (user_password u))) (\<lambda>valid.
             if \<not> valid then throw (update_denied ''The current password is not valid'' None) else ret ())
      else ret ())) ?Q (\<lambda>_. holds m)"
    by (rule spec_read [OF role [OF set_role_spec] check])
qed

definition updated :: "user_table \<Rightarrow> datetime \<Rightarrow> string \<Rightarrow> string \<Rightarrow> user_patch \<Rightarrow> string \<Rightarrow> user_table \<Rightarrow> bool" where
  "updated m now salt uid p lid m' \<longleftrightarrow> (\<exists>u lu u'. found m uid (Some u) \<and> found m lid (Some lu)
     \<and> may_update m u lu p \<and> user_update (ue_crypto E) now salt p u = Inr u'
     \<and> m' = m(user_id u \<mapsto> u'\<lparr>reset_password := Some True\<rparr>))"

lemma update_user_changes: "changes m (update_user E now salt uid p lid) (updated m now salt uid p lid)"
  unfolding update_user_def
proof (intro changes_intros)
  fix r u l
  assume "found m uid r" and "r = Some u" and l: "found m lid l"
  then have u: "found m uid (Some u)" by simp
  show "changes m (bind_act (validate_user_update E u l p) (\<lambda>_.
      bind_act (of_sum (user_update (ue_crypto E) now salt p u)) (\<lambda>u'.
      bind_act (um_save E (u'\<lparr>reset_password := Some True\<rparr>)) (\<lambda>_.
      ret (user_to_dict (u'\<lparr>reset_password := Some True\<rparr>)))))) (updated m now salt uid p lid)"
  proof (cases l)
    case None
    then show ?thesis by (simp add: validate_user_update_def changes_def spec_def act_simps)
  next
    case (Some lu)
    show ?thesis
      unfolding Some
    proof (rule changes_read [OF validate_user_update_spec], rule changes_sum, rule changes_ret)
      fix u' assume ok: "may_update m u lu p" and u': "user_update (ue_crypto E) now salt p u = Inr u'"
      let ?v = "u'\<lparr>reset_password := Some True\<rparr>"
      have id: "user_id ?v = user_id u" using user_update_id [OF u'] by simp
      have "updated m now salt uid p lid (m(user_id ?v \<mapsto> ?v))"
        unfolding updated_def id using u l Some ok u' by blast
      then show "changes m (um_save E ?v) (updated m now salt uid p lid)"
        unfolding um_save_def by (rule changes_end [OF um_store_spec])
    qed
  qed
qed

lemma update_user_returns:
  assumes "uinv d" and "update_user E now salt uid p lid d = (Inr reply, d')"
  shows "\<exists>u u'. found (users d) uid (Some u) \<and> user_update (ue_crypto E) now salt p u = Inr u'
     \<and> users d' = (users d)(user_id u \<mapsto> u'\<lparr>reset_password := Some True\<rparr>)"
  using specD_value [OF update_user_changes [unfolded changes_def] _ assms(2)] assms(1)
  by (auto simp: holds_def updated_def)

text \<open>Who may create whom.\<close>

definition created :: "user_table \<Rightarrow> datetime \<Rightarrow> string \<Rightarrow> string \<Rightarrow> string \<Rightarrow> string \<Rightarrow> string option \<Rightarrow> string
    \<Rightarrow> user_table \<Rightarrow> bool" where
  "created m now salt uid password role creator_id email m' \<longleftrightarrow> (\<exists>c u. truthy_str creator_id
     \<and> found m (the creator_id) (Some c)
     \<and> (role = CSM_SUPER_USER_ROLE \<longrightarrow> user_role c = CSM_SUPER_USER_ROLE)
     \<and> (ue_quota E > 0 \<longrightarrow> int (card (dom m)) < ue_quota E)
     \<and> instantiate_csm_user (ue_crypto E) now salt uid password email role = Inr u
     \<and> found m uid None \<and> m' = m(uid \<mapsto> u))"

lemma instantiate_id: "instantiate_csm_user K now salt uid password email role = Inr u \<Longrightarrow>
    user_id u = uid \<and> user_role u = role"
  by (auto simp: instantiate_csm_user_def)

lemma um_create_changes:
  assumes "found m (user_id u) None \<Longrightarrow> C (m(user_id u \<mapsto> u))"
  shows "changes m (um_create E u) C"
  unfolding um_create_def
proof (intro changes_intros)
  fix r assume "found m (user_id u) r" "r = None"
  with assms show "changes m (um_store E u) C" by (intro changes_end [OF um_store_spec]) simp
qed

lemma create_user_changes:
  "changes m (create_user E now salt uid password role creator_id email)
     (created m now salt uid password role creator_id email)"
proof -
  let ?C = "created m now salt uid password role creator_id email"
  have creator: "spec (holds m) (if truthy_str creator_id then um_get E (the creator_id) else ret None)
      (\<lambda>r d. holds m d \<and> (r \<noteq> None \<longrightarrow> truthy_str creator_id \<and> found m (the creator_id) r)) (\<lambda>_. holds m)"
    by (intro spec_if spec_conseq [OF um_get_spec] spec_ret) blast+
  show ?thesis
    unfolding create_user_def
  proof (rule changes_read [OF creator], intro changes_intros changes_ret um_create_changes)
    fix r c n u
    assume "r \<noteq> None \<longrightarrow> truthy_str creator_id \<and> found m (the creator_id) r" and r: "r = Some c"
      and role: "\<not> (role = CSM_SUPER_USER_ROLE \<and> user_role c \<noteq> CSM_SUPER_USER_ROLE)"
      and n: "n = int (card (dom m))" "\<not> (n \<ge> ue_quota E \<and> ue_quota E > 0)"
      and u: "instantiate_csm_user (ue_crypto E) now salt uid password email role = Inr u"
      and f: "found m (user_id u) None"
    then have c: "truthy_str creator_id" "found m (the creator_id) (Some c)" by auto
    have id: "user_id u = uid" using instantiate_id [OF u] ..
    from c role n u f show "?C (m(user_id u \<mapsto> u))"
      unfolding created_def id by (intro exI [of _ c] exI [of _ u]) auto
  qed
qed

definition admin_created :: "user_table \<Rightarrow> string \<Rightarrow> user_table \<Rightarrow> bool" where
  "admin_created m k m' \<longleftrightarrow> found m k None
     \<and> (\<exists>u. user_role u = CSM_SUPER_USER_ROLE \<and> user_id u = k \<and> m' = m(k \<mapsto> u))"

lemma create_cluster_admin_changes:
  "changes m (create_cluster_admin E now salt username password emailid) (admin_created m username)"
  unfolding create_cluster_admin_def
  by (intro changes_sum um_create_changes) (auto simp: admin_created_def dest!: instantiate_id)

section \<open>Invariants of the service\<close>

lemma deleted_ok:
  assumes m: "table_ok m" "finite (dom m)" and del: "deleted m uid lid m'"
  shows "table_ok m'"
proof -
  from del obtain u lu where d: "may_delete m uid lid u lu" and m': "m' = m(user_id u := None)"
    by (auto simp: deleted_def)
  have "admins m - {user_id u} \<noteq> {}"
  proof (cases "user_role u = CSM_SUPER_USER_ROLE")
    case True
    with m d show ?thesis by (intro other_admin) (auto simp: table_ok_def may_delete_def)
  next
    case False
    with d have "user_id u \<notin> admins m" by (auto simp: may_delete_def found_def with_role_def)
    with m show ?thesis by (simp add: table_ok_def)
  qed
  with m show ?thesis unfolding m' by (simp add: table_ok_def ids_unique_del admins_del)
qed

lemma updated_ok:
  assumes m: "table_ok m" "finite (dom m)" and p: "patch_valid p" and up: "updated m now salt uid p lid m'"
  shows "table_ok m'"
proof -
  from up obtain u lu u' where u: "m (user_id u) = Some u" and lu: "m (user_id lu) = Some lu"
    and may: "may_update m u lu p" and u': "user_update (ue_crypto E) now salt p u = Inr u'"
    and m': "m' = m(user_id u \<mapsto> u'\<lparr>reset_password := Some True\<rparr>)"
    by (auto simp: updated_def found_def)
  have "admins m' \<noteq> {}"
  proof (cases "p_user_role p")
    case None
    with user_update_role [OF u'] have "user_role u' = user_role u" by simp
    then have "admins m' = admins m"
      unfolding m' admins_upd using u by (auto simp: with_role_def)
    with m show ?thesis by (simp add: table_ok_def)
  next
    case (Some r)
    with may p have set: "may_set_role m u lu p"
      using patch_valid_role [of p r] by (simp add: may_update_def)
    have "admins m - {user_id u} \<noteq> {} \<or> user_role u' = CSM_SUPER_USER_ROLE"
    proof (cases "user_role lu = CSM_SUPER_USER_ROLE")
      case True
      show ?thesis
      proof (cases "user_id u = user_id lu")
        case same: True
        with True set m show ?thesis
          by (intro disjI1 other_admin) (auto simp: may_set_role_def table_ok_def)
      next
        case False
        with True lu have "user_id lu \<in> admins m - {user_id u}" by (auto simp: with_role_def)
        then show ?thesis by blast
      qed
    next
      case False
      with may passwd_rule_admin [of "user_role lu" "user_id u = user_id lu"]
      have "user_role u \<noteq> CSM_SUPER_USER_ROLE" by (auto simp: may_update_def)
      with u have "user_id u \<notin> admins m" by (auto simp: with_role_def)
      with m show ?thesis by (simp add: table_ok_def)
    qed
    then show ?thesis unfolding m' admins_upd by auto
  qed
  with m u show ?thesis unfolding m' by (simp add: table_ok_def ids_unique_same)
qed

lemma created_ok:
  "table_ok m \<Longrightarrow> created m now salt uid password role creator_id email m' \<Longrightarrow> table_ok m'"
proof -
  assume m: "table_ok m" and c: "created m now salt uid password role creator_id email m'"
  from c obtain u where u: "found m uid None" "m' = m(uid \<mapsto> u)" by (auto simp: created_def)
  then have "uid \<notin> admins m" by (auto simp: found_def with_role_def)
  with m u show ?thesis by (auto simp: table_ok_def found_def ids_unique_new admins_upd)
qed

lemma cluster_admin_ok: "table_ok m \<Longrightarrow> admin_created m k m' \<Longrightarrow> table_ok m'"
  by (auto simp: admin_created_def table_ok_def found_def ids_unique_new admins_upd)

lemma run_user_op_ok:
  assumes d: "uinv d" "table_ok (users d)" and op: "op_valid op"
  shows "uinv (run_user_op E op d) \<and> table_ok (users (run_user_op E op d))"
proof (cases op)
  case (CreateUser now salt uid password role creator_id email)
  from changes_run [OF create_user_changes d(1), of now salt uid password role creator_id email]
    created_ok [OF d(2)] d(2)
  show ?thesis unfolding CreateUser run_user_op.simps by metis
next
  case (UpdateUser now salt uid p lid)
  with op have "patch_valid p" by simp
  from changes_run [OF update_user_changes d(1), of now salt uid p lid]
    updated_ok [OF d(2) users_finite [OF d(1)] this] d(2)
  show ?thesis unfolding UpdateUser run_user_op.simps by metis
next
  case (DeleteUser uid lid)
  from changes_run [OF delete_user_changes d(1), of uid lid]
    deleted_ok [OF d(2) users_finite [OF d(1)]] d(2)
  show ?thesis unfolding DeleteUser run_user_op.simps by metis
next
  case (CreateClusterAdmin now salt username password emailid)
  from changes_run [OF create_cluster_admin_changes d(1), of now salt username password emailid]
    cluster_admin_ok [OF d(2)] d(2)
  show ?thesis unfolding CreateClusterAdmin run_user_op.simps by metis
qed

lemma run_user_ops_ok:
  "uinv d \<Longrightarrow> table_ok (users d) \<Longrightarrow> \<forall>op \<in> set ops. op_valid op \<Longrightarrow>
     uinv (fold (run_user_op E) ops d) \<and> table_ok (users (fold (run_user_op E) ops d))"
proof (induction ops arbitrary: d)
  case (Cons op ops)
  from run_user_op_ok [of d op] Cons.prems Cons.IH [of "run_user_op E op d"] show ?case by simp
qed simp

text \<open>Requests of somebody who is not an admin leave the admin rows as they are.\<close>

lemma found_unique: "ids_unique m \<Longrightarrow> found m x (Some u) \<Longrightarrow> found m y (Some v) \<Longrightarrow> lower x = lower y \<Longrightarrow> u = v"
proof -
  assume m: "ids_unique m" and u: "found m x (Some u)" and v: "found m y (Some v)" and xy: "lower x = lower y"
  then have "user_id u = user_id v" by (auto simp: found_def ids_unique_def dom_def)
  with u v show "u = v" by (auto simp: found_def)
qed

lemma deleted_admin_rows:
  assumes m: "ids_unique m" and del: "deleted m uid lid m'" and l: "found m lid (Some a)" "user_role a \<noteq> CSM_SUPER_USER_ROLE"
  shows "admin_rows m' = admin_rows m"
proof -
  from del obtain u lu where d: "may_delete m uid lid u lu" and m': "m' = m(user_id u := None)"
    by (auto simp: deleted_def)
  then have "lu = a" using found_unique [OF m _ l(1)] by (auto simp: may_delete_def)
  with d l have "found m uid (Some u)" "lower uid = lower lid" by (auto simp: may_delete_def)
  with found_unique [OF m _ l(1)] have "u = a" by blast
  with l have "user_role u \<noteq> CSM_SUPER_USER_ROLE" "m (user_id u) = Some u" by (auto simp: found_def)
  then show ?thesis unfolding m' admin_rows_del by (auto simp: admin_rows_def)
qed

lemma updated_admin_rows:
  assumes m: "ids_unique m" and p: "patch_valid p" and up: "updated m now salt uid p lid m'"
    and l: "found m lid (Some a)" "user_role a \<noteq> CSM_SUPER_USER_ROLE"
  shows "admin_rows m' = admin_rows m"
proof -
  from up obtain u lu u' where u: "found m uid (Some u)" and lu: "found m lid (Some lu)"
    and may: "may_update m u lu p" and u': "user_update (ue_crypto E) now salt p u = Inr u'"
    and m': "m' = m(user_id u \<mapsto> u'\<lparr>reset_password := Some True\<rparr>)"
    by (auto simp: updated_def)
  from found_unique [OF m lu l(1)] have "lu = a" by simp
  with l may passwd_rule_admin [of "user_role lu" "user_id u = user_id lu"]
  have nu: "user_role u \<noteq> CSM_SUPER_USER_ROLE" by (auto simp: may_update_def)
  have nu': "user_role u' \<noteq> CSM_SUPER_USER_ROLE"
  proof (cases "p_user_role p")
    case None
    with nu user_update_role [OF u'] show ?thesis by simp
  next
    case (Some r)
    with may p have "may_set_role m u lu p" using patch_valid_role [of p r] by (simp add: may_update_def)
    with l \<open>lu = a\<close> Some user_update_role [OF u'] show ?thesis by (simp add: may_set_role_def)
  qed
  from u have "m (user_id u) = Some u" by (simp add: found_def)
  with nu nu' show ?thesis unfolding m' by (subst admin_rows_upd) (auto simp: admin_rows_def)
qed

lemma created_admin_rows:
  assumes m: "ids_unique m" and c: "created m now salt uid password role (Some lid) email m'"
    and l: "found m lid (Some a)" "user_role a \<noteq> CSM_SUPER_USER_ROLE"
  shows "admin_rows m' = admin_rows m"
proof -
  from c obtain c' u where c': "found m lid (Some c')" "role = CSM_SUPER_USER_ROLE \<longrightarrow> user_role c' = CSM_SUPER_USER_ROLE"
    and u: "instantiate_csm_user (ue_crypto E) now salt uid password email role = Inr u"
    and f: "found m uid None" and m': "m' = m(uid \<mapsto> u)"
    by (auto simp: created_def)
  from found_unique [OF m c'(1) l(1)] l c' instantiate_id [OF u]
  have nu: "user_role u \<noteq> CSM_SUPER_USER_ROLE" by auto
  from f have "m uid = None" by (cases "m uid") (auto simp: found_def)
  with nu show ?thesis unfolding m' by (subst admin_rows_upd) (auto simp: admin_rows_def)
qed

lemma non_admin_keeps_admin_rows:
  assumes d: "uinv d" "ids_unique (users d)" and op: "op_valid op" "acts_for lid op"
    and l: "found (users d) lid (Some a)" "user_role a \<noteq> CSM_SUPER_USER_ROLE"
  shows "admin_rows (users (run_user_op E op d)) = admin_rows (users d)"
proof (cases op)
  case (CreateUser now salt uid password role creator_id email)
  with op have "creator_id = Some lid" by simp
  with changes_run [OF create_user_changes d(1), of now salt uid password role creator_id email]
    created_admin_rows [OF d(2) _ l]
  show ?thesis unfolding CreateUser run_user_op.simps by metis
next
  case (UpdateUser now salt uid p l')
  with op have "patch_valid p" "l' = lid" by auto
  with changes_run [OF update_user_changes d(1), of now salt uid p lid]
    updated_admin_rows [OF d(2) \<open>patch_valid p\<close> _ l]
  show ?thesis unfolding UpdateUser run_user_op.simps by metis
next
  case (DeleteUser uid l')
  with op have "l' = lid" by simp
  with changes_run [OF delete_user_changes d(1), of uid lid] deleted_admin_rows [OF d(2) _ l]
  show ?thesis unfolding DeleteUser run_user_op.simps by metis
next
  case (CreateClusterAdmin now salt username password emailid)
  with op show ?thesis by simp
qed

text \<open>The quota.\<close>

lemma card_dom_update: "finite (dom m) \<Longrightarrow> m k = Some v \<Longrightarrow> card (dom (m(k \<mapsto> u))) = card (dom m)"
  by (simp add: insert_absorb domI)

lemma service_quota:
  assumes d: "uinv d" and op: "acts_for lid op" and q: "ue_quota E > 0" "int (card (dom (users d))) \<le> ue_quota E"
  shows "int (card (dom (users (run_user_op E op d)))) \<le> ue_quota E"
proof -
  let ?m = "users d" and ?m' = "users (run_user_op E op d)"
  note fin = users_finite [OF d]
  have "card (dom ?m') \<le> card (dom ?m) \<or> int (card (dom ?m)) < ue_quota E \<and> card (dom ?m') \<le> Suc (card (dom ?m))"
  proof (cases op)
    case (CreateUser now salt uid password role creator_id email)
    have "int (card (dom ?m)) < ue_quota E \<and> card (dom m') \<le> Suc (card (dom ?m))"
      if "created ?m now salt uid password role creator_id email m'" for m'
      using that q fin by (auto simp: created_def card_insert_if)
    with changes_run [OF create_user_changes d, of now salt uid password role creator_id email]
    show ?thesis unfolding CreateUser run_user_op.simps by (metis order_refl)
  next
    case (UpdateUser now salt uid p l')
    have "card (dom m') = card (dom ?m)" if "updated ?m now salt uid p l' m'" for m'
      using that card_dom_update [OF fin] by (auto simp: updated_def found_def simp del: dom_fun_upd)
    with changes_run [OF update_user_changes d, of now salt uid p l']
    show ?thesis unfolding UpdateUser run_user_op.simps by (metis order_refl)
  next
    case (DeleteUser uid l')
    have "card (dom m') \<le> card (dom ?m)" if "deleted ?m uid l' m'" for m'
      using that fin by (auto simp: deleted_def intro: card_mono)
    with changes_run [OF delete_user_changes d, of uid l']
    show ?thesis unfolding DeleteUser run_user_op.simps by (metis order_refl)
  next
    case (CreateClusterAdmin now salt username password emailid)
    with op show ?thesis by simp
  qed
  with q show ?thesis by auto
qed

end



section \<open>A table that fails on schedule\<close>

text \<open>The comparisons the service uses.\<close>

fun row_matches :: "compare \<Rightarrow> user \<Rightarrow> bool" where
  "row_matches (Compare f cmp (PStr v)) u =
     (cmp = ''='' \<and> (f = ''user_id'' \<and> user_id u = v \<or> f = ''user_role'' \<and> user_role u = v))"
| "row_matches _ u = False"

type_synonym users_db = "user outage_table"

definition outage_user_db :: "users_db user_db" where
  "outage_user_db =
     \<lparr>udb_get = (\<lambda>q. outage_call (\<lambda>rs. (dict_values rs, rs))),
      udb_store = (\<lambda>u. outage_call (\<lambda>rs. ((), dict_set (user_id u) u rs))),
      udb_count = (\<lambda>f. outage_call (\<lambda>rs. (case f of
          None \<Rightarrow> int (length rs) | Some c \<Rightarrow> int (length (filter (row_matches c) (dict_values rs))), rs))),
      udb_delete = (\<lambda>c. outage_call (\<lambda>rs. ((), filter (\<lambda>r. \<not> row_matches c (snd r)) rs)))\<rparr>"

text \<open>A hash that is no more than reversible.\<close>

definition rev_crypto :: crypto where
  "rev_crypto = \<lparr>bc_hashpw = (\<lambda>pw salt. Inr (rev pw)), bc_checkpw = (\<lambda>pw h. Inr (h = rev pw))\<rparr>"

definition outage_env :: "int \<Rightarrow> users_db users_env" where
  "outage_env quota = \<lparr>ue_db = outage_user_db, ue_retries = 3, ue_quota = quota, ue_crypto = rev_crypto\<rparr>"

abbreviation users_ok :: "users_db \<Rightarrow> bool" where
  "users_ok d \<equiv> rows_keyed user_id (snd d)"

lemma filter_id_pop:
  "rows_keyed user_id rs \<Longrightarrow> filter (\<lambda>r. \<not> row_matches (id_is k) (snd r)) rs = dict_pop k rs"
  unfolding rows_keyed_def by (induction rs) auto

lemma card_dom_rows: "rows_keyed key rs \<Longrightarrow> card (dom (map_of rs)) = length rs"
proof -
  assume "rows_keyed key rs"
  then have "distinct (dict_keys rs)" by (simp add: rows_keyed_def)
  from distinct_card [OF this] show ?thesis by (simp add: dom_map_of_conv_image_fst)
qed

lemma card_with_role:
  assumes "rows_keyed user_id rs"
  shows "card (with_role (map_of rs) r) = length (filter (row_matches (role_is r)) (dict_values rs))"
proof -
  let ?f = "filter (\<lambda>p. user_role (snd p) = r) rs"
  have d: "distinct (map fst ?f)" using assms by (auto simp: rows_keyed_def distinct_map_filter)
  have "with_role (map_of rs) r = fst ` set ?f"
    using assms by (force simp: with_role_def rows_keyed_def)
  then have "card (with_role (map_of rs) r) = length ?f"
    using distinct_card [OF d] by simp
  also have "\<dots> = length (filter (row_matches (role_is r)) (dict_values rs))"
    by (simp add: filter_map comp_def)
  finally show ?thesis .
qed

interpretation ou: user_provider "outage_env quota" users_ok "\<lambda>d. map_of (snd d)" for quota
proof unfold_locales
  fix d assume d: "users_ok d"
  show "\<And>k u. dict_get (snd d) k = Some u \<Longrightarrow> user_id u = k" by (rule rows_keyed_get [OF d])
  show "finite (dom (map_of (snd d)))" by (rule finite_dom_map_of)
  show "\<And>r d'. udb_get (ue_db (outage_env quota)) empty_query d = (r, d') \<Longrightarrow>
      users_ok d' \<and> map_of (snd d') = map_of (snd d) \<and>
      (\<forall>us. r = Inr us \<longrightarrow> distinct (map user_id us) \<and> map_of (snd d) = map_of (map (\<lambda>u. (user_id u, u)) us))"
    using d rows_keyed_distinct [OF d] rows_keyed_list [OF d]
    by (auto simp: outage_env_def outage_user_db_def outage_call_def split: if_splits)
  show "\<And>r d'. udb_count (ue_db (outage_env quota)) None d = (r, d') \<Longrightarrow>
      users_ok d' \<and> map_of (snd d') = map_of (snd d) \<and> (\<forall>c. r = Inr c \<longrightarrow> c = int (card (dom (map_of (snd d)))))"
    using d card_dom_rows [OF d]
    by (auto simp: outage_env_def outage_user_db_def outage_call_def split: if_splits)
  show "\<And>ro r d'. udb_count (ue_db (outage_env quota)) (Some (role_is ro)) d = (r, d') \<Longrightarrow>
      users_ok d' \<and> map_of (snd d') = map_of (snd d) \<and>
      (\<forall>c. r = Inr c \<longrightarrow> c = int (card (with_role (map_of (snd d)) ro)))"
    using d card_with_role [OF d]
    by (auto simp: outage_env_def outage_user_db_def outage_call_def split: if_splits)
  show "\<And>u r d'. udb_store (ue_db (outage_env quota)) u d = (r, d') \<Longrightarrow>
      users_ok d' \<and> map_of (snd d') \<in> {map_of (snd d), (map_of (snd d))(user_id u \<mapsto> u)} \<and>
      (r = Inr () \<longrightarrow> map_of (snd d') = (map_of (snd d))(user_id u \<mapsto> u))"
    using d
    by (auto simp: outage_env_def outage_user_db_def outage_call_def rows_keyed_set update_conv' split: if_splits)
  show "\<And>k r d'. udb_delete (ue_db (outage_env quota)) (id_is k) d = (r, d') \<Longrightarrow>
      users_ok d' \<and> map_of (snd d') \<in> {map_of (snd d), (map_of (snd d))(k := None)} \<and>
      (r = Inr () \<longrightarrow> map_of (snd d') = (map_of (snd d))(k := None))"
    using d filter_id_pop [OF d]
    by (auto simp: outage_env_def outage_user_db_def outage_call_def rows_keyed_pop delete_conv'
        split: if_splits simp del: row_matches.simps)
qed (simp add: outage_env_def)



section \<open>Properties\<close>

text \<open>
  C3. The system never loses its last admin: if the table has an admin and its ids differ in
  more than case, this is so again after any sequence of creations, updates and deletions by
  anybody, whatever each request ends in and whichever database calls fail on the way.
\<close>

theorem last_admin_remains:
  assumes "user_provider E uinv users" and "uinv d"
    and "admins (users d) \<noteq> {}" and "ids_unique (users d)" and "\<forall>op \<in> set ops. op_valid op"
  shows "admins (users (fold (run_user_op E) ops d)) \<noteq> {} \<and> ids_unique (users (fold (run_user_op E) ops d))"
  using user_provider.run_user_ops_ok [OF assms(1,2) _ assms(5)] assms(3,4) by (simp add: table_ok_def)

text \<open>
  C5. No escalation: a request made for a logged in user who is not an admin leaves every admin's
  row as it is and makes nobody an admin.
\<close>

theorem non_admin_cannot_touch_admins:
  assumes "user_provider E uinv users" and "uinv d" and "ids_unique (users d)" and "op_valid op"
    and "acts_for lid op" and "found (users d) lid (Some actor)" and "user_role actor \<noteq> CSM_SUPER_USER_ROLE"
  shows "admin_rows (users (run_user_op E op d)) = admin_rows (users d)"
  using user_provider.non_admin_keeps_admin_rows [OF assms] .

text \<open>
  C28. The user quota: with a positive quota that is respected, no request of a logged in user takes
  the number of users beyond it.
\<close>

theorem user_quota_respected:
  assumes "user_provider E uinv users" and "uinv d" and "acts_for lid op"
    and "ue_quota E > 0" and "int (card (dom (users d))) \<le> ue_quota E"
  shows "int (card (dom (users (run_user_op E op d)))) \<le> ue_quota E"
  using user_provider.service_quota [OF assms] .

text \<open>
  What a successful update has stored: exactly one row changed, the one found under the given id
  up to case; role and e-mail are the new ones where the body has them; the time of the change is
  recorded; the new password, if there is one, verifies against the stored hash. The row is always
  marked for a password reset, whatever the body says about \<open>reset_password\<close>.
\<close>

theorem update_user_stores:
  assumes "user_provider E uinv users" and "uinv d"
    and "update_user E now salt uid p lid d = (Inr reply, d')"
    and "\<forall>pw s h. bc_hashpw (ue_crypto E) pw s = Inr h \<longrightarrow> bc_checkpw (ue_crypto E) pw h = Inr True"
  shows "\<exists>u v. found (users d) uid (Some u) \<and> users d' = (users d)(user_id u \<mapsto> v)
     \<and> user_id v = user_id u
     \<and> user_role v = (case p_user_role p of None \<Rightarrow> user_role u | Some r \<Rightarrow> r)
     \<and> email_address v = (case p_email_address p of None \<Rightarrow> email_address u | Some e \<Rightarrow> e)
     \<and> updated_time v = now \<and> created_time v = created_time u
     \<and> (\<forall>pw. p_password p = Some pw \<longrightarrow> passwd_verify (ue_crypto E) pw (user_password v) = Inr True)
     \<and> reset_password v = Some True"
proof -
  from user_provider.update_user_returns [OF assms(1,2,3)] obtain u u' where u: "found (users d) uid (Some u)"
    and u': "user_update (ue_crypto E) now salt p u = Inr u'"
    and d': "users d' = (users d)(user_id u \<mapsto> u'\<lparr>reset_password := Some True\<rparr>)"
    by blast
  have "passwd_verify (ue_crypto E) pw (user_password u') = Inr True" if "p_password p = Some pw" for pw
    using u' that assms(4) by (auto simp: user_update_def apply_patch_def passwd_hash_def passwd_verify_def)
  moreover have "email_address u' = (case p_email_address p of None \<Rightarrow> email_address u | Some e \<Rightarrow> e)"
      "updated_time u' = now" "created_time u' = created_time u"
    using u' by (auto simp: user_update_def apply_patch_def split: option.splits)
  ultimately show ?thesis
    using u d' user_update_id [OF u'] user_update_role [OF u']
    by (intro exI [of _ u] exI [of _ "u'\<lparr>reset_password := Some True\<rparr>"]) simp
qed


subsection \<open>Concrete runs\<close>

definition noon :: datetime where
  "noon = \<lparr>dt_year = 2022, dt_month = 3, dt_day = 7, dt_hour = 12, dt_minute = 0, dt_second = 5,
     dt_microsecond = 0, dt_utc = True\<rparr>"

definition some_user :: "string \<Rightarrow> string \<Rightarrow> user" where
  "some_user uid role = \<lparr>user_id = uid, user_type = ''csm'', user_role = role, user_password = Some ''terces'',
     email_address = ''a@b.c'', reset_password = Some False, alert_notification = True,
     updated_time = noon, created_time = noon\<rparr>"

definition two_admins :: users_db where
  "two_admins = ([], [(''alice'', some_user ''alice'' ''admin''), (''bob'', some_user ''bob'' ''admin'')])"

definition admin_and_carol :: users_db where
  "admin_and_carol = ([], [(''alice'', some_user ''alice'' ''admin''), (''carol'', some_user ''carol'' ''manage'')])"

definition role_patch :: "string \<Rightarrow> user_patch" where
  "role_patch r = \<lparr>p_password = Some ''s3cret'', p_current_password = None, p_user_role = Some r,
     p_email_address = None, p_reset_password = Some False\<rparr>"

lemmas user_run_defs =
  delete_user_def delete_user_check_def delete_user_commit_def update_user_def validate_user_update_def
  create_user_def um_get_def um_get_list_def um_query_def um_get_query_def um_store_def um_save_def um_delete_def
  um_create_def um_count_def um_count_admins_def um_count_query_def user_not_found_def retry_unit_def retry_value_def
  retry_loop_def truthy_int_def truthy_str_def outage_env_def outage_user_db_def outage_call_def outage_def
  act_simps Let_def numeral_3_eq_3

lemma run_tables_ok:
  "users_ok two_admins" "users_ok admin_and_carol"
  by (simp_all add: two_admins_def admin_and_carol_def rows_keyed_def some_user_def)

lemma run_tables_unique:
  "ids_unique (map_of (snd two_admins))" "ids_unique (map_of (snd admin_and_carol))"
  by (auto simp: ids_unique_def two_admins_def admin_and_carol_def lower_def lower_char_def Let_def)

lemma run_tables_admin:
  "''alice'' \<in> admins (map_of (snd two_admins))" "''alice'' \<in> admins (map_of (snd admin_and_carol))"
  by (simp_all add: two_admins_def admin_and_carol_def some_user_def with_role_def role_names)

text \<open>The calls when nothing fails.\<close>

lemma calm_calls:
  "um_get (outage_env q) uid ([], rs) = (Inr (find (\<lambda>u. lower (user_id u) = lower uid) (dict_values rs)), ([], rs))"
  "um_count_admins (outage_env q) ([], rs)
     = (Inr (int (length (filter (row_matches (role_is CSM_SUPER_USER_ROLE)) (dict_values rs)))), ([], rs))"
  "um_delete (outage_env q) k ([], rs) = (Inr (), ([], filter (\<lambda>r. \<not> row_matches (id_is k) (snd r)) rs))"
  by (simp_all add: user_run_defs empty_query_def)

theorem last_admin_remains_witness:
  "admins (map_of (snd (fold (run_user_op (outage_env 10)) [DeleteUser ''bob'' ''alice'', DeleteUser ''ALICE'' ''alice'']
     two_admins))) \<noteq> {}"
  using last_admin_remains [OF ou.user_provider_axioms run_tables_ok(1) _ run_tables_unique(1),
      of "[DeleteUser ''bob'' ''alice'', DeleteUser ''ALICE'' ''alice'']" 10] run_tables_admin(1)
  by auto

theorem non_admin_cannot_touch_admins_witness:
  "admin_rows (map_of (snd (run_user_op (outage_env 10) (UpdateUser noon [] ''alice'' (role_patch ''monitor'') ''carol'')
     admin_and_carol))) = admin_rows (map_of (snd admin_and_carol))"
proof (rule non_admin_cannot_touch_admins [OF ou.user_provider_axioms run_tables_ok(2) run_tables_unique(2)])
  show "op_valid (UpdateUser noon [] ''alice'' (role_patch ''monitor'') ''carol'')"
    by (simp add: patch_valid_def role_patch_def role_names)
  show "found (map_of (snd admin_and_carol)) ''carol'' (Some (some_user ''carol'' ''manage''))"
    by (simp add: found_def admin_and_carol_def some_user_def)
qed (simp_all add: some_user_def role_names)

theorem user_quota_respected_witness:
  "int (card (dom (map_of (snd (run_user_op (outage_env 2)
     (CreateUser noon [] ''dave'' ''pw'' ''monitor'' (Some ''alice'') ''d@e.f'') two_admins))))) \<le> 2"
proof -
  have "ue_quota (outage_env 2) = 2" by (simp add: outage_env_def)
  moreover have "int (card (dom (map_of (snd two_admins)))) \<le> 2"
    by (simp add: two_admins_def dom_map_of_conv_image_fst)
  ultimately show ?thesis
    using user_quota_respected [OF ou.user_provider_axioms run_tables_ok(1),
        of "''alice''" "CreateUser noon [] ''dave'' ''pw'' ''monitor'' (Some ''alice'') ''d@e.f''" 2]
    by simp
qed

lemma carol_update_returns:
  "\<not> isl (fst (update_user (outage_env 10) noon [] ''carol'' (role_patch ''monitor'') ''alice'' admin_and_carol))"
  by (simp add: user_run_defs admin_and_carol_def some_user_def role_patch_def empty_query_def lower_def lower_char_def
      rule_allows_def CSM_USER_PASSWD_UPDATE_RULES_def CSM_USER_ROLE_UPDATE_RULES_def rule_apply_def role_names
      user_update_def passwd_hash_def rev_crypto_def apply_patch_def)

theorem update_user_stores_witness:
  "\<exists>v. map_of (snd (snd (update_user (outage_env 10) noon [] ''carol'' (role_patch ''monitor'') ''alice'' admin_and_carol)))
         ''carol'' = Some v
     \<and> user_role v = ''monitor'' \<and> reset_password v = Some True
     \<and> passwd_verify rev_crypto ''s3cret'' (user_password v) = Inr True"
proof -
  obtain reply d' where run: "update_user (outage_env 10) noon [] ''carol'' (role_patch ''monitor'') ''alice'' admin_and_carol
      = (Inr reply, d')"
    using carol_update_returns by (metis isl_def prod.collapse sum.exhaust)
  have law: "\<forall>pw s h. bc_hashpw (ue_crypto (outage_env 10)) pw s = Inr h \<longrightarrow>
      bc_checkpw (ue_crypto (outage_env 10)) pw h = Inr True"
    by (simp add: outage_env_def rev_crypto_def)
  from update_user_stores [OF ou.user_provider_axioms run_tables_ok(2) run law] obtain u v where
    u: "found (map_of (snd admin_and_carol)) ''carol'' (Some u)"
    and v: "map_of (snd d') = (map_of (snd admin_and_carol))(user_id u \<mapsto> v)"
      "user_role v = ''monitor''" "reset_password v = Some True"
      "passwd_verify rev_crypto ''s3cret'' (user_password v) = Inr True"
    by (auto simp: role_patch_def outage_env_def)
  from u have "user_id u = ''carol''"
    by (auto simp: found_def admin_and_carol_def lower_def lower_char_def some_user_def split: if_splits)
  with v run show ?thesis by simp
qed


lemma padded_numeral: "padded (numeral k) n = padded (pred_numeral k) (n div 10) @ [char_of (48 + n mod 10)]"
  unfolding numeral_eq_Suc [of k] by (rule padded.simps(2))

text \<open>
  What the service tells about a user does not depend on the stored password hash, and the time
  of creation it reports for a new user carries both the offset \<open>+00:00\<close> and the suffix \<open>Z\<close>.
\<close>

theorem user_reply:
  "user_to_dict (u\<lparr>user_password := h\<rparr>) = user_to_dict u \<and>
   dict_get (user_to_dict (u\<lparr>created_time := noon\<rparr>)) ''created_time'' = Some (PStr ''2022-03-07T12:00:05+00:00Z'')"
  by (simp add: user_to_dict_def isoformat_def noon_def padded_numeral char_of_def bit_0)

end
