(* ===== verification/Login.thy ===== *)
theory Login
  imports Sessions Users_Correct
begin

text \<open>
  Authentication and login: the policies, \<open>AuthService\<close> and \<open>LoginService\<close> of
  \<^verbatim>\<open>csm/core/services/sessions.py\<close>, and the two views of \<^verbatim>\<open>csm/core/controllers/login.py\<close>. The
  state is the user table together with the session manager; the role manager is read only here.
  An assignment to \<open>expiry_time\<close> of a session object goes through the backend's
  \<open>be_assign_expiry\<close>: it changes the stored object in memory, and only a copy with the database.
\<close>

section \<open>Authentication\<close>

datatype user_type_policy = LocalAuthPolicy | LdapAuthPolicy | S3AuthPolicy

definition policies :: "(string, user_type_policy) dict" where
  "policies = [(''csm'', LocalAuthPolicy), (''ldap'', LdapAuthPolicy), (''s3_account'', S3AuthPolicy)]"

definition policy_authenticate :: "crypto \<Rightarrow> user_type_policy \<Rightarrow> user \<Rightarrow> string \<Rightarrow> exn + credentials option" where
  "policy_authenticate K policy u password =
     (case policy of
        LocalAuthPolicy \<Rightarrow>
          bind_sum (passwd_verify K password (user_password u)) (\<lambda>ok.
            Inr (if ok then Some (LocalCredentials (user_id u) (user_role u)) else None))
      | LdapAuthPolicy \<Rightarrow> Inr None
      | S3AuthPolicy \<Rightarrow> Inr None)"

definition authenticate :: "crypto \<Rightarrow> user \<Rightarrow> string \<Rightarrow> exn + credentials option" where
  "authenticate K u password =
     (case dict_get policies (user_type u) of
        None \<Rightarrow> Inr None
      | Some policy \<Rightarrow> policy_authenticate K policy u password)"


section \<open>LoginService\<close>

record ('db, 'st) csm_state =
  cs_users :: 'db
  cs_sessions :: "'st qsm"

definition on_users :: "('db, exn, 'a) act \<Rightarrow> (('db, 'st) csm_state, exn, 'a) act" where
  "on_users m = within cs_users (\<lambda>d c. c\<lparr>cs_users := d\<rparr>) m"

definition on_sessions :: "('st qsm, exn, 'a) act \<Rightarrow> (('db, 'st) csm_state, exn, 'a) act" where
  "on_sessions m = within cs_sessions (\<lambda>q c. c\<lparr>cs_sessions := q\<rparr>) m"

definition assign_expiry :: "'st backend \<Rightarrow> session \<Rightarrow> int \<Rightarrow> ('st qsm, exn, unit) act" where
  "assign_expiry B s t = modify_act (\<lambda>q. q\<lparr>qs_store := be_assign_expiry B s t (qs_store q)\<rparr>)"

definition update_session_expiry_time :: "'st backend \<Rightarrow> session_conf \<Rightarrow> int \<Rightarrow> session \<Rightarrow> ('st qsm, exn, session) act" where
  "update_session_expiry_time B C now s =
     bind_act (assign_expiry B s (calc_expiry_time C now)) (\<lambda>_.
     bind_act (q_update B (s\<lparr>expiry_time := calc_expiry_time C now\<rparr>)) (\<lambda>_.
     ret (s\<lparr>expiry_time := calc_expiry_time C now\<rparr>)))"

text \<open>The loop of \<open>_is_valid_session_exists\<close> over a snapshot of the sessions.\<close>

fun valid_session_loop ::
  "'st backend \<Rightarrow> session_conf \<Rightarrow> int \<Rightarrow> string \<Rightarrow> session list \<Rightarrow> ('st qsm, exn, session option) act" where
  "valid_session_loop B C now uid [] = ret None"
| "valid_session_loop B C now uid (s # ss) =
     (if lower (session_user s) = lower uid
      then (if is_expired now s
            then bind_act (q_delete B (session_id s)) (\<lambda>_. valid_session_loop B C now uid ss)
            else bind_act (update_session_expiry_time B C now s) (\<lambda>s'. ret (Some s')))
      else valid_session_loop B C now uid ss)"

definition is_valid_session_exists ::
  "'st backend \<Rightarrow> session_conf \<Rightarrow> int \<Rightarrow> string \<Rightarrow> ('st qsm, exn, session option) act" where
  "is_valid_session_exists B C now uid = bind_act (q_get_all B) (valid_session_loop B C now uid)"

text \<open>\<open>login\<close> returns \<open>(None, None)\<close> or the session id with the reset flag.\<close>

definition login ::
  "'db users_env \<Rightarrow> role_manager \<Rightarrow> 'st backend \<Rightarrow> session_conf \<Rightarrow> int \<Rightarrow> string \<Rightarrow> string \<Rightarrow> string
     \<Rightarrow> (('db, 'st) csm_state, exn, (string \<times> bool option) option) act" where
  "login E RM B C now sid uid password =
     bind_act (on_users (um_get E uid)) (\<lambda>r.
       case r of
         None \<Rightarrow> ret None
       | Some u \<Rightarrow>
           bind_act (of_sum (authenticate (ue_crypto E) u password)) (\<lambda>creds.
             case creds of
               None \<Rightarrow> ret None
             | Some cr \<Rightarrow>
                 bind_act (on_sessions (is_valid_session_exists B C now uid)) (\<lambda>existing.
                 bind_act (case existing of
                             Some s \<Rightarrow> ret s
                           | None \<Rightarrow> on_sessions (q_create B C now sid cr
                                         (calc_effective_permissions RM [user_role u]))) (\<lambda>s.
                 ret (Some (session_id s, reset_password u))))))"

definition logout :: "'st backend \<Rightarrow> string \<Rightarrow> ('st qsm, exn, unit) act" where
  "logout B sid = q_delete B sid"

definition auth_session :: "'st backend \<Rightarrow> session_conf \<Rightarrow> int \<Rightarrow> string \<Rightarrow> ('st qsm, exn, session) act" where
  "auth_session B C now sid =
     bind_act (q_get B sid) (\<lambda>r.
       case r of
         None \<Rightarrow> throw (mk_CsmError CSM_ERR_INVALID_VALUE (Some (''Invalid session id: '' @ sid)))
       | Some s \<Rightarrow>
           if now > expiry_time s
           then bind_act (q_delete B sid) (\<lambda>_. throw (mk_CsmError CSM_ERR_INVALID_VALUE (Some ''Session expired'')))
           else bind_act (assign_expiry B s (calc_expiry_time C now)) (\<lambda>_.
                ret (s\<lparr>expiry_time := calc_expiry_time C now\<rparr>)))"

definition get_temp_access_keys :: "'st backend \<Rightarrow> string \<Rightarrow> ('st qsm, exn, string list) act" where
  "get_temp_access_keys B uid =
     bind_act (q_get_all B) (\<lambda>ss.
       ret (concat (map (\<lambda>s. case session_credentials s of
              S3Credentials u k _ _ \<Rightarrow> (if lower u = lower uid then [k] else [])
            | _ \<Rightarrow> []) ss)))"

definition delete_all_sessions_for_user :: "'st backend \<Rightarrow> string \<Rightarrow> ('st qsm, exn, unit) act" where
  "delete_all_sessions_for_user B uid =
     bind_act (q_get_all B) (for_each (\<lambda>s.
       if lower (session_user s) = lower uid then q_delete B (session_id s) else ret ()))"

definition delete_all_sessions :: "'st backend \<Rightarrow> string \<Rightarrow> ('st qsm, exn, unit) act" where
  "delete_all_sessions B sid =
     bind_act (q_get B sid) (\<lambda>r.
       case r of
         Some s \<Rightarrow> delete_all_sessions_for_user B (session_user s)
       | None \<Rightarrow> q_delete B sid)"


section \<open>The views\<close>

text \<open>The body of a login request after JSON decoding and the schema: both can fail before the
  service is called.\<close>

datatype login_request = NotJson | SchemaError string | LoginRequest string string

record 'b response =
  rsp_body :: 'b
  rsp_headers :: "(string \<times> string) list"

definition JSON_ERROR :: string where
  "JSON_ERROR = ''Unable to parse request body, Malformed request body received.''"

definition login_post ::
  "'db users_env \<Rightarrow> role_manager \<Rightarrow> 'st backend \<Rightarrow> session_conf \<Rightarrow> int \<Rightarrow> string \<Rightarrow> login_request
     \<Rightarrow> (('db, 'st) csm_state, exn, bool option response) act" where
  "login_post E RM B C now sid req =
     (case req of
        NotJson \<Rightarrow> throw (mk_InvalidRequest (Some JSON_ERROR) ''MalformedRequest'')
      | SchemaError msg \<Rightarrow> throw (mk_InvalidRequest (Some msg) ''MalformedRequest'')
      | LoginRequest username password \<Rightarrow>
          bind_act (login E RM B C now sid username password) (\<lambda>r.
            case r of
              None \<Rightarrow> throw (mk_CsmUnauthorizedError (Some ''Invalid credentials for user''))
            | Some (session, reset) \<Rightarrow>
                if session = [] then throw (mk_CsmUnauthorizedError (Some ''Invalid credentials for user''))
                else ret \<lparr>rsp_body = reset, rsp_headers = [(''Authorization'', ''Bearer '' @ session)]\<rparr>))"

definition logout_post :: "'st backend \<Rightarrow> session \<Rightarrow> ('st qsm, exn, unit) act" where
  "logout_post B request_session = logout B (session_id request_session)"



section \<open>Sessions of one user\<close>

text \<open>
  A backend on which the expiry time can be refreshed: the assignment may or may not reach the
  stored session, and a stored session can be stored again with another expiry time.
\<close>

locale refreshing_store = reliable_session_store +
  assumes assign_law: "inv t \<Longrightarrow> contents t (session_id s) = Some s \<Longrightarrow>
      inv (be_assign_expiry B s x t) \<and>
      contents (be_assign_expiry B s x t) \<in> {contents t, (contents t)(session_id s \<mapsto> s\<lparr>expiry_time := x\<rparr>)}"
    and storable_refreshed: "inv t \<Longrightarrow> contents t sid = Some s \<Longrightarrow> storable (s\<lparr>expiry_time := x\<rparr>)"
begin

lemma owned_refreshed:
  "contents t sid = Some s \<Longrightarrow> contents t' = (contents t)(sid \<mapsto> s\<lparr>expiry_time := x\<rparr>) \<Longrightarrow> owned v t' = owned v t"
  using owned_upd [of t' t sid "s\<lparr>expiry_time := x\<rparr>" v] by (auto simp: owned_def)

lemma refresh_present:
  assumes q: "counted q" and s: "contents (qs_store q) (session_id s) = Some s"
  shows "\<exists>q'. update_session_expiry_time B C now s q = (Inr (s\<lparr>expiry_time := now + expiry_interval C\<rparr>), q')
     \<and> counted q' \<and> qs_restored q' = qs_restored q
     \<and> contents (qs_store q') = (contents (qs_store q))(session_id s \<mapsto> s\<lparr>expiry_time := now + expiry_interval C\<rparr>)"
proof -
  let ?t = "qs_store q" and ?x = "now + expiry_interval C"
  let ?s' = "s\<lparr>expiry_time := ?x\<rparr>" and ?t1 = "be_assign_expiry B s ?x ?t"
  from q have t: "inv ?t" by (simp add: counted_def)
  from assign_law [OF t s, of ?x] have t1: "inv ?t1" and
    c1: "contents ?t1 \<in> {contents ?t, (contents ?t)(session_id s \<mapsto> ?s')}" by auto
  have st: "storable ?s'" by (rule storable_refreshed [OF t s])
  obtain t2 where run: "be_store B ?s' ?t1 = (Inr (), t2)" using store_returns [OF t1 st] by blast
  from store_law [OF t1 st run] c1 have t2: "inv t2" and
    c2: "contents t2 = (contents ?t)(session_id s \<mapsto> ?s')" by auto
  have "counted (q\<lparr>qs_store := t2\<rparr>)"
    using q t2 owned_refreshed [OF s c2] by (simp add: counted_def)
  moreover have "update_session_expiry_time B C now s q = (Inr ?s', q\<lparr>qs_store := t2\<rparr>)"
    using run by (simp add: update_session_expiry_time_def assign_expiry_def q_update_def on_store_def
        calc_expiry_time_def act_simps)
  ultimately show ?thesis using c2 by simp
qed

text \<open>The search for a valid session leaves the sessions of other users alone; it ends with a
  refreshed live session of the user, or finds that the user has none.\<close>

definition others_kept :: "string \<Rightarrow> 'a \<Rightarrow> 'a \<Rightarrow> bool" where
  "others_kept uid t t' \<longleftrightarrow> (\<forall>k s. lower (session_user s) \<noteq> lower uid \<longrightarrow>
      contents t' k = Some s \<longleftrightarrow> contents t k = Some s)"

definition search_result :: "session_conf \<Rightarrow> int \<Rightarrow> string \<Rightarrow> session list \<Rightarrow> session option \<Rightarrow> 'a \<Rightarrow> 'a \<Rightarrow> bool" where
  "search_result C now uid ss r t t' \<longleftrightarrow> others_kept uid t t' \<and>
     (case r of
        None \<Rightarrow> (\<forall>s \<in> set ss. lower (session_user s) = lower uid \<longrightarrow> is_expired now s \<and> contents t' (session_id s) = None)
          \<and> (\<forall>k s. contents t' k = Some s \<longrightarrow> contents t k = Some s)
      | Some s \<Rightarrow> contents t' (session_id s) = Some s \<and> lower (session_user s) = lower uid
          \<and> expiry_time s = now + expiry_interval C
          \<and> (\<exists>s0 \<in> set ss. \<not> is_expired now s0 \<and> s = s0\<lparr>expiry_time := now + expiry_interval C\<rparr>))"

lemma others_kept_refl [simp]: "others_kept uid t t"
  by (simp add: others_kept_def)

lemma others_kept_trans: "others_kept uid t t' \<Longrightarrow> others_kept uid t' t'' \<Longrightarrow> others_kept uid t t''"
  by (simp add: others_kept_def)

lemma others_kept_del:
  "contents t k = Some s \<Longrightarrow> lower (session_user s) = lower uid \<Longrightarrow> contents t' = (contents t)(k := None)
     \<Longrightarrow> others_kept uid t t'"
  by (auto simp: others_kept_def)

lemma others_kept_upd:
  "contents t k = Some s \<Longrightarrow> lower (session_user s) = lower uid \<Longrightarrow>
     contents t' = (contents t)(k \<mapsto> s\<lparr>expiry_time := x\<rparr>) \<Longrightarrow> others_kept uid t t'"
  by (auto simp: others_kept_def)

lemma search_result_dead:
  assumes s: "contents d (session_id s) = Some s" and u: "lower (session_user s) = lower uid"
    and dead: "is_expired now s" and c1: "contents d1 = (contents d)(session_id s := None)"
    and res: "search_result C now uid ss r d1 d2"
  shows "search_result C now uid (s # ss) r d d2"
proof (cases r)
  case (Some v)
  with res others_kept_trans [OF others_kept_del [OF s u c1]] show ?thesis
    by (auto simp: search_result_def)
next
  case None
  have "contents d2 (session_id s) = None"
  proof (rule ccontr)
    assume "contents d2 (session_id s) \<noteq> None"
    with None res have "contents d1 (session_id s) \<noteq> None" by (auto simp: search_result_def)
    then show False unfolding c1 by simp
  qed
  moreover have "\<And>k v. contents d1 k = Some v \<Longrightarrow> contents d k = Some v"
    unfolding c1 by (simp split: if_splits)
  ultimately show ?thesis
    using None res dead others_kept_trans [OF others_kept_del [OF s u c1]]
    by (simp add: search_result_def)
qed

lemma search_result_live:
  assumes s: "contents d (session_id s) = Some s" and u: "lower (session_user s) = lower uid"
    and live: "\<not> is_expired now s"
    and c: "contents d' = (contents d)(session_id s \<mapsto> s\<lparr>expiry_time := now + expiry_interval C\<rparr>)"
  shows "search_result C now uid (s # ss) (Some (s\<lparr>expiry_time := now + expiry_interval C\<rparr>)) d d'"
  using u live c others_kept_upd [OF s u c] by (simp add: search_result_def)

lemma valid_session_loop_result:
  assumes "counted q" and "distinct (map session_id ss)"
    and "\<forall>s \<in> set ss. contents (qs_store q) (session_id s) = Some s"
  shows "\<exists>r q'. valid_session_loop B C now uid ss q = (Inr r, q') \<and> counted q' \<and> qs_restored q' = qs_restored q
     \<and> search_result C now uid ss r (qs_store q) (qs_store q')"
  using assms
proof (induction ss arbitrary: q)
  case Nil
  then show ?case by (auto simp: act_simps search_result_def)
next
  case (Cons s ss)
  have s: "contents (qs_store q) (session_id s) = Some s" by (rule bspec [OF Cons.prems(3)]) simp
  from Cons.prems(2) have d: "distinct (map session_id ss)" by simp
  have rest: "\<And>r. r \<in> set ss \<Longrightarrow> contents (qs_store q) (session_id r) = Some r"
    using Cons.prems(3) by (meson list.set_intros(2))
  consider (other) "lower (session_user s) \<noteq> lower uid"
    | (dead) "lower (session_user s) = lower uid" "is_expired now s"
    | (live) "lower (session_user s) = lower uid" "\<not> is_expired now s" by blast
  then show ?case
  proof cases
    case other
    then have step: "valid_session_loop B C now uid (s # ss) q = valid_session_loop B C now uid ss q" by simp
    from Cons.IH [OF Cons.prems(1) d] rest obtain r q' where
      q': "valid_session_loop B C now uid ss q = (Inr r, q')" "counted q'" "qs_restored q' = qs_restored q"
      and res: "search_result C now uid ss r (qs_store q) (qs_store q')" by blast
    from res other have "search_result C now uid (s # ss) r (qs_store q) (qs_store q')"
      by (cases r) (auto simp: search_result_def)
    with q' show ?thesis unfolding step by blast
  next
    case live
    from refresh_present [OF Cons.prems(1) s, of C now] obtain q' where
      q': "update_session_expiry_time B C now s q = (Inr (s\<lparr>expiry_time := now + expiry_interval C\<rparr>), q')"
        "counted q'" "qs_restored q' = qs_restored q"
      and c: "contents (qs_store q') = (contents (qs_store q))(session_id s \<mapsto> s\<lparr>expiry_time := now + expiry_interval C\<rparr>)"
      by blast
    have "valid_session_loop B C now uid (s # ss) q
        = (Inr (Some (s\<lparr>expiry_time := now + expiry_interval C\<rparr>)), q')"
      using live q'(1) by (simp add: act_simps)
    moreover note search_result_live [OF s live c, of ss]
    ultimately show ?thesis using q' by blast
  next
    case dead
    obtain q1 where q1: "q_delete B (session_id s) q = (Inr (), q1)" "counted q1"
      and c1: "contents (qs_store q1) = (contents (qs_store q))(session_id s := None)"
      and r1: "qs_restored q1 = qs_restored q"
      by (rule q_delete_present [OF Cons.prems(1) s])
    note tail_entries_kept [OF Cons.prems(2,3) c1]
    from Cons.IH [OF q1(2) d this] obtain r q2 where
      q2: "valid_session_loop B C now uid ss q1 = (Inr r, q2)" "counted q2" "qs_restored q2 = qs_restored q1"
      and res: "search_result C now uid ss r (qs_store q1) (qs_store q2)" by blast
    note search_result_dead [OF s dead c1 res]
    moreover have "valid_session_loop B C now uid (s # ss) q = (Inr r, q2)"
      using dead q1(1) q2(1) by (simp add: act_simps)
    ultimately show ?thesis using q2 r1 by metis
  qed
qed

lemma is_valid_session_exists_result:
  assumes q: "counted q"
  shows "\<exists>r q'. is_valid_session_exists B C now uid q = (Inr r, q') \<and> counted q' \<and> qs_restored q' = qs_restored q
     \<and> others_kept uid (qs_store q) (qs_store q')
     \<and> (case r of
          None \<Rightarrow> (\<forall>k s. contents (qs_store q') k = Some s \<longrightarrow>
                     contents (qs_store q) k = Some s \<and> lower (session_user s) \<noteq> lower uid)
        | Some s \<Rightarrow> contents (qs_store q') (session_id s) = Some s \<and> lower (session_user s) = lower uid
            \<and> expiry_time s = now + expiry_interval C
            \<and> (\<exists>s0. contents (qs_store q) (session_id s) = Some s0 \<and> \<not> is_expired now s0
                  \<and> s = s0\<lparr>expiry_time := now + expiry_interval C\<rparr>))"
proof -
  obtain ss q1 where q1: "q_get_all B q = (Inr ss, q1)" "counted q1" "qs_restored q1 = qs_restored q"
    "qs_active q1 = qs_active q" "contents (qs_store q1) = contents (qs_store q)"
    and d: "distinct (map session_id ss)"
    and c: "\<forall>sid s. contents (qs_store q) sid = Some s \<longleftrightarrow> s \<in> set ss \<and> session_id s = sid"
    by (rule snapshot [OF q])
  have "\<forall>s \<in> set ss. contents (qs_store q1) (session_id s) = Some s" using c q1(5) by simp
  from valid_session_loop_result [OF q1(2) d this, of C now uid] obtain r q2 where
    q2: "valid_session_loop B C now uid ss q1 = (Inr r, q2)" "counted q2" "qs_restored q2 = qs_restored q1"
    and res: "search_result C now uid ss r (qs_store q1) (qs_store q2)" by blast
  have kept: "others_kept uid (qs_store q) (qs_store q2)"
    using res by (simp add: search_result_def others_kept_def q1(5))
  have run: "is_valid_session_exists B C now uid q = (Inr r, q2)"
    using q1(1) q2(1) by (simp add: is_valid_session_exists_def act_simps)
  show ?thesis
  proof (cases r)
    case None
    have "contents (qs_store q) k = Some s \<and> lower (session_user s) \<noteq> lower uid"
      if k: "contents (qs_store q2) k = Some s" for k s
    proof -
      from res None k have old: "contents (qs_store q) k = Some s" by (simp add: search_result_def q1(5))
      with c have "s \<in> set ss" "session_id s = k" by blast+
      with res None k have "lower (session_user s) \<noteq> lower uid" by (auto simp: search_result_def)
      with old show ?thesis by blast
    qed
    with run q2 q1(3) kept None show ?thesis by auto
  next
    case (Some s)
    from res Some obtain s0 where s0: "s0 \<in> set ss" "\<not> is_expired now s0"
      "s = s0\<lparr>expiry_time := now + expiry_interval C\<rparr>" by (auto simp: search_result_def)
    with c have "contents (qs_store q) (session_id s) = Some s0" by simp
    with run q2 q1(3) kept Some res s0 show ?thesis by (auto simp: search_result_def)
  qed
qed

lemma delete_all_for_user_result:
  assumes "counted q"
  shows "\<exists>q'. delete_all_sessions_for_user B uid q = (Inr (), q') \<and> counted q' \<and> qs_restored q' = qs_restored q
     \<and> contents (qs_store q') = (\<lambda>sid. case contents (qs_store q) sid of
          None \<Rightarrow> None | Some s \<Rightarrow> if lower (session_user s) = lower uid then None else Some s)"
  unfolding delete_all_sessions_for_user_def by (rule remove_where [OF assms])

end

interpretation imr: refreshing_store in_memory im_ok map_of "\<lambda>_. True"
proof unfold_locales
  fix t :: stg and s x assume t: "im_ok t" and s: "dict_get t (session_id s) = Some s"
  then show "im_ok (be_assign_expiry in_memory s x t) \<and> map_of (be_assign_expiry in_memory s x t)
      \<in> {map_of t, (map_of t)(session_id s \<mapsto> s\<lparr>expiry_time := x\<rparr>)}"
    by (simp add: in_memory_def im_assign_expiry_def im_ok_set update_conv')
qed simp


section \<open>Properties\<close>

text \<open>Creating a session after the search came back empty.\<close>

lemma counted_boot:
  "im_agrees q \<Longrightarrow> im.counted q \<and> (qs_restored q \<or> map_of (qs_store q) = Map.empty)"
  by (auto simp: im_agrees_def)

lemma authenticate_Some:
  "authenticate K u password = Inr (Some cr) \<Longrightarrow>
     user_type u = ''csm'' \<and> passwd_verify K password (user_password u) = Inr True
     \<and> cr = LocalCredentials (user_id u) (user_role u)"
  by (auto simp: authenticate_def policies_def policy_authenticate_def split: option.splits if_splits)

text \<open>The session part of a login: the valid session of the user, or a new one.\<close>

definition session_for :: "'st backend \<Rightarrow> session_conf \<Rightarrow> int \<Rightarrow> string \<Rightarrow> string \<Rightarrow> credentials \<Rightarrow> permission_set
    \<Rightarrow> ('st qsm, exn, session) act" where
  "session_for B C now sid uid cr perms =
     bind_act (is_valid_session_exists B C now uid) (\<lambda>existing.
       case existing of Some s \<Rightarrow> ret s | None \<Rightarrow> q_create B C now sid cr perms)"

lemma on_sessions_bind: "on_sessions (bind_act m f) = bind_act (on_sessions m) (\<lambda>x. on_sessions (f x))"
  by (rule ext) (auto simp: on_sessions_def act_simps split: prod.splits sum.splits)

lemma on_sessions_ret: "on_sessions (ret x) = ret x"
  by (rule ext) (simp add: on_sessions_def act_simps)

lemma on_sessions_case:
  "on_sessions (case z of Some s \<Rightarrow> ret s | None \<Rightarrow> m) = (case z of Some s \<Rightarrow> ret s | None \<Rightarrow> on_sessions m)"
  by (cases z) (simp_all add: on_sessions_ret)

lemma login_unfold:
  "login E RM B C now sid uid password =
     bind_act (on_users (um_get E uid)) (\<lambda>r.
       case r of
         None \<Rightarrow> ret None
       | Some u \<Rightarrow>
           bind_act (of_sum (authenticate (ue_crypto E) u password)) (\<lambda>creds.
             case creds of
               None \<Rightarrow> ret None
             | Some cr \<Rightarrow>
                 bind_act (on_sessions (session_for B C now sid uid cr (calc_effective_permissions RM [user_role u])))
                   (\<lambda>s. ret (Some (session_id s, reset_password u)))))"
  unfolding login_def session_for_def on_sessions_bind bind_act_assoc on_sessions_case ..

lemma session_for_in_memory:
  assumes q: "im_agrees q" and pos: "active_users_quota C > 0" and fresh: "dict_get (qs_store q) sid = None"
    and uid: "lower (cred_user_id cr) = lower uid"
    and run: "session_for in_memory C now sid uid cr perms q = (Inr s, q')"
  shows "dict_get (qs_store q') (session_id s) = Some s \<and> lower (session_user s) = lower uid
    \<and> expiry_time s = now + expiry_interval C \<and> im_agrees q'"
proof -
  from counted_boot [OF q] have k: "im.counted q" and boot: "qs_restored q \<or> map_of (qs_store q) = Map.empty" by auto
  from imr.is_valid_session_exists_result [OF k, of C now uid] obtain r q1 where
    r: "is_valid_session_exists in_memory C now uid q = (Inr r, q1)" "im.counted q1" "qs_restored q1 = qs_restored q"
    and res: "case r of
          None \<Rightarrow> (\<forall>k s. dict_get (qs_store q1) k = Some s \<longrightarrow>
                     dict_get (qs_store q) k = Some s \<and> lower (session_user s) \<noteq> lower uid)
        | Some s \<Rightarrow> dict_get (qs_store q1) (session_id s) = Some s \<and> lower (session_user s) = lower uid
            \<and> expiry_time s = now + expiry_interval C
            \<and> (\<exists>s0. dict_get (qs_store q) (session_id s) = Some s0 \<and> \<not> is_expired now s0
                  \<and> s = s0\<lparr>expiry_time := now + expiry_interval C\<rparr>)" by blast
  show ?thesis
  proof (cases r)
    case (Some v)
    with run r(1) have "s = v" "q' = q1" by (auto simp: session_for_def act_simps)
    moreover from Some res boot have "qs_restored q" by auto
    ultimately show ?thesis using Some res r by (auto simp: im_agrees_def)
  next
    case None
    with res have sub: "\<And>k s. dict_get (qs_store q1) k = Some s \<Longrightarrow> dict_get (qs_store q) k = Some s" by auto
    have fresh1: "dict_get (qs_store q1) sid = None" using sub fresh by (cases "dict_get (qs_store q1) sid") auto
    have boot1: "qs_restored q1 \<or> map_of (qs_store q1) = Map.empty"
      using boot r(3) sub by (auto simp: fun_eq_iff) (metis not_Some_eq option.distinct(1))
    from run r(1) None have create: "q_create in_memory C now sid cr perms q1 = (Inr s, q')"
      by (simp add: session_for_def act_simps)
    from im.q_create_counted [OF r(2) pos boot1 fresh1, of cr perms now] create obtain t where
      c: "im.counted q'" "qs_restored q'" "session_id s = sid" "session_credentials s = cr"
        "expiry_time s = now + expiry_interval C" "map_of (qs_store q') = (map_of t)(sid \<mapsto> s)"
      by auto
    with uid show ?thesis by (simp add: im_agrees_def)
  qed
qed

text \<open>What a login without error has gone through once the user is looked up.\<close>

lemma login_run_cases:
  assumes run: "login E RM B C now sid uid password c = (Inr r, c')"
    and g: "um_get E uid (cs_users c) = (Inr x, d)"
  obtains (refused) "r = None" "c' = c\<lparr>cs_users := d\<rparr>"
    | (granted) u cr s q' where "x = Some u" "authenticate (ue_crypto E) u password = Inr (Some cr)"
        "session_for B C now sid uid cr (calc_effective_permissions RM [user_role u]) (cs_sessions c) = (Inr s, q')"
        "r = Some (session_id s, reset_password u)" "c' = c\<lparr>cs_users := d, cs_sessions := q'\<rparr>"
proof -
  have step: "on_users (um_get E uid) c = (Inr x, c\<lparr>cs_users := d\<rparr>)" using g by (simp add: on_users_def within_def)
  show thesis
  proof (cases x)
    case None
    with run step refused show thesis unfolding login_unfold by (auto simp: act_simps)
  next
    case (Some u)
    show thesis
    proof (cases "authenticate (ue_crypto E) u password")
      case (Inl e)
      with run step Some show thesis unfolding login_unfold by (simp add: act_simps)
    next
      case auth: (Inr creds)
      show thesis
      proof (cases creds)
        case None
        with run step Some auth refused show thesis unfolding login_unfold by (auto simp: act_simps)
      next
        case cr: (Some cr)
        let ?perms = "calc_effective_permissions RM [user_role u]"
        obtain y q' where sf: "session_for B C now sid uid cr ?perms (cs_sessions c) = (y, q')"
          by (cases "session_for B C now sid uid cr ?perms (cs_sessions c)")
        with run step Some auth cr granted [of u cr] show thesis
          unfolding login_unfold by (cases y) (auto simp: act_simps on_sessions_def)
      qed
    qed
  qed
qed



lemma auth_session_outcome:
  assumes "im_reachable C q" and "active_users_quota C > 0"
  shows "case dict_get (qs_store q) sid of
       None \<Rightarrow> fst (auth_session in_memory C now sid q)
                 = Inl (mk_CsmError CSM_ERR_INVALID_VALUE (Some (''Invalid session id: '' @ sid)))
     | Some s \<Rightarrow>
         if is_expired now s
         then fst (auth_session in_memory C now sid q) = Inl (mk_CsmError CSM_ERR_INVALID_VALUE (Some ''Session expired''))
            \<and> map_of (qs_store (snd (auth_session in_memory C now sid q))) = (map_of (qs_store q))(sid := None)
         else fst (auth_session in_memory C now sid q) = Inr (s\<lparr>expiry_time := now + expiry_interval C\<rparr>)
            \<and> map_of (qs_store (snd (auth_session in_memory C now sid q)))
                = (map_of (qs_store q))(sid \<mapsto> s\<lparr>expiry_time := now + expiry_interval C\<rparr>)"
proof (cases "dict_get (qs_store q) sid")
  case None
  then show ?thesis by (simp add: auth_session_def q_get_def on_store_def act_simps im_defs)
next
  case (Some s)
  from im_reachable_agrees [OF assms] have k: "im.counted q" by (simp add: im_agrees_def)
  then have "im_ok (qs_store q)" by (simp add: im.counted_def)
  with Some have id: "session_id s = sid" by (rule im_ok_map_of [rotated])
  show ?thesis
  proof (cases "is_expired now s")
    case True
    obtain q' where "q_delete in_memory sid q = (Inr (), q')" "map_of (qs_store q') = (map_of (qs_store q))(sid := None)"
      by (rule im.q_delete_present [OF k Some])
    with True Some show ?thesis
      by (simp add: auth_session_def q_get_def on_store_def act_simps im_get_def in_memory_def is_expired_def)
  next
    case False
    with Some id show ?thesis
      by (simp add: auth_session_def q_get_def on_store_def act_simps im_defs is_expired_def assign_expiry_def
          im_assign_expiry_def calc_expiry_time_def update_conv')
  qed
qed

text \<open>
  Checking a token against the in-memory backend: an unknown token is refused; an expired one
  is refused and its session removed; a valid one gives the session of that id, and its expiry
  time moves to one interval from now, in the store as well.
\<close>

theorem auth_session_in_memory:
  assumes "im_reachable C q" and "active_users_quota C > 0"
  shows "case dict_get (qs_store q) sid of
       None \<Rightarrow> fst (auth_session in_memory C now sid q)
                 = Inl (mk_CsmError CSM_ERR_INVALID_VALUE (Some (''Invalid session id: '' @ sid)))
     | Some s \<Rightarrow>
         if is_expired now s
         then fst (auth_session in_memory C now sid q) = Inl (mk_CsmError CSM_ERR_INVALID_VALUE (Some ''Session expired''))
            \<and> map_of (qs_store (snd (auth_session in_memory C now sid q))) = (map_of (qs_store q))(sid := None)
         else fst (auth_session in_memory C now sid q) = Inr (s\<lparr>expiry_time := now + expiry_interval C\<rparr>)
            \<and> map_of (qs_store (snd (auth_session in_memory C now sid q)))
                = (map_of (qs_store q))(sid \<mapsto> s\<lparr>expiry_time := now + expiry_interval C\<rparr>)"
  by (rule auth_session_outcome [OF assms])

theorem auth_session_in_memory_witness:
  "fst (auth_session in_memory quota_one 0 ''nosuch'' (init_qsm []))
     = Inl (mk_CsmError CSM_ERR_INVALID_VALUE (Some ''Invalid session id: nosuch''))"
  using auth_session_in_memory [OF im_reachable.start [of quota_one], where sid = "''nosuch''" and now = 0]
  by (simp add: quota_one_def init_qsm_def)

text \<open>
  C38. With the database backend the refresh is lost: the session that \<open>auth_session\<close> returns has
  the new expiry time, but what a later read of the same token gives is the session as it was
  before. So the lifetime of a token does not extend with its use.
\<close>

theorem auth_refresh_lost:
  assumes "session_provider S n dinv rows" and "dinv (qs_store q)"
    and "q_get (database S n) sid q = (Inr (Some s), q1)"
    and "auth_session (database S n) C now sid q1 = (Inr s', q2)"
    and "q_get (database S n) sid q2 = (Inr x, q3)"
  shows "s' = s\<lparr>expiry_time := now + expiry_interval C\<rparr> \<and> x = Some s"
proof -
  note law = session_provider.database_get_law [OF assms(1)]
  have get: "\<And>p p' r. q_get (database S n) sid p = (r, p') \<Longrightarrow>
      be_get (database S n) sid (qs_store p) = (r, qs_store p') \<and> p' = p\<lparr>qs_store := qs_store p'\<rparr>"
    by (auto simp: q_get_def on_store_def act_simps split: prod.splits)
  from law [OF assms(2) conjunct1 [OF get [OF assms(3)]]] have
    q1: "dinv (qs_store q1)" "session_provider.db_contents rows (qs_store q1) = session_provider.db_contents rows (qs_store q)"
    and s: "session_provider.db_contents rows (qs_store q) sid = Some s" by auto
  obtain r p where g: "q_get (database S n) sid q1 = (r, p)" by (cases "q_get (database S n) sid q1")
  from assms(4) g obtain y where r: "r = Inr y"
    by (cases r) (auto simp: auth_session_def act_simps)
  from law [OF q1(1) conjunct1 [OF get [OF g]]] r q1(2) s have
    p: "dinv (qs_store p)" "session_provider.db_contents rows (qs_store p) = session_provider.db_contents rows (qs_store q)"
    and y: "y = Some s" by auto
  have q2: "\<not> now > expiry_time s" "q2 = p" "s' = s\<lparr>expiry_time := now + expiry_interval C\<rparr>"
  proof -
    have "\<not> now > expiry_time s"
      using assms(4) g r y by (auto simp: auth_session_def act_simps split: prod.splits sum.splits)
    then show "\<not> now > expiry_time s" "q2 = p" "s' = s\<lparr>expiry_time := now + expiry_interval C\<rparr>"
      using assms(4) g r y
      by (auto simp: auth_session_def act_simps assign_expiry_def database_def db_assign_expiry_def calc_expiry_time_def)
  qed
  from law [OF p(1) conjunct1 [OF get [OF assms(5) [unfolded q2(2)]]]] p(2) s q2(3) show ?thesis by auto
qed

text \<open>
  Revoking the sessions of a user in memory: it returns, removes every session whose user id
  agrees with the given one up to case, and keeps all others as they are.
\<close>

theorem delete_all_sessions_exact:
  assumes "im_reachable C q" and "active_users_quota C > 0"
  shows "\<exists>q'. delete_all_sessions_for_user in_memory uid q = (Inr (), q') \<and>
    (\<forall>sid s. dict_get (qs_store q') sid = Some s \<longleftrightarrow>
       dict_get (qs_store q) sid = Some s \<and> lower (session_user s) \<noteq> lower uid)"
proof -
  from im_reachable_agrees [OF assms] have "im.counted q" by (simp add: im_agrees_def)
  from imr.delete_all_for_user_result [OF this, of uid] obtain q' where
    "delete_all_sessions_for_user in_memory uid q = (Inr (), q')"
    and c: "map_of (qs_store q') = (\<lambda>sid. case dict_get (qs_store q) sid of
          None \<Rightarrow> None | Some s \<Rightarrow> if lower (session_user s) = lower uid then None else Some s)" by blast
  then show ?thesis by (intro exI [of _ q']) (auto simp: c split: option.splits if_splits)
qed

theorem delete_all_sessions_exact_witness:
  "\<exists>q'. delete_all_sessions_for_user in_memory ''alice'' (init_qsm []) = (Inr (), q') \<and>
    (\<forall>sid s. dict_get (qs_store q') sid = Some s \<longleftrightarrow>
       dict_get (qs_store (init_qsm [])) sid = Some s \<and> lower (session_user s) \<noteq> lower ''alice'')"
  by (rule delete_all_sessions_exact [OF im_reachable.start [of quota_one]]) (simp add: quota_one_def)


subsection \<open>Concrete runs\<close>

definition start_state :: "(users_db, stg) csm_state" where
  "start_state = \<lparr>cs_users = admin_and_carol, cs_sessions = init_qsm []\<rparr>"

definition two_roles :: role_manager where
  "two_roles = [(''admin'', mk_role ''admin'' [(''users'', [''create''])]), (''monitor'', mk_role ''monitor'' [])]"

lemma outage_env_crypto: "ue_crypto (outage_env q) = rev_crypto"
  by (simp add: outage_env_def)

lemmas login_run_defs =
  login_def on_users_def on_sessions_def start_state_def admin_and_carol_def calm_calls some_user_def
  authenticate_def policies_def policy_authenticate_def passwd_verify_def encode_utf8_def
  outage_env_crypto rev_crypto_def lower_def lower_char_def Let_def act_simps
  is_valid_session_exists_def update_session_expiry_time_def assign_expiry_def im_assign_expiry_def
  q_create_def q_get_all_def q_update_def add_active_user_with_quota_def count_active_user_def
  restore_active_users_def q_remove_expired_sessions_def sm_create_def on_store_def im_defs init_qsm_def
  quota_one_def calc_expiry_time_def is_expired_def

lemma alice_login:
  "\<exists>c'. login (outage_env 10) two_roles in_memory quota_one 5 ''t1'' ''alice'' ''secret'' start_state
      = (Inr (Some (''t1'', Some False)), c')"
  by (simp add: login_run_defs)



definition demoted_state :: "(users_db, stg) csm_state \<Rightarrow> (users_db, stg) csm_state" where
  "demoted_state c = c\<lparr>cs_users := ([], [(''alice'', some_user ''alice'' ''monitor'')])\<rparr>"

text \<open>
  A login that finds a valid session returns it with the permissions it was created with: after
  an admin's role is changed to monitor, logging in again gives the same token, and the session
  behind it still has the admin's permissions.
\<close>

theorem login_keeps_stale_permissions:
  "let c1 = snd (login (outage_env 10) two_roles in_memory quota_one 5 ''t1'' ''alice'' ''secret'' start_state);
       (r, c2) = login (outage_env 10) two_roles in_memory quota_one 10 ''t2'' ''alice'' ''secret'' (demoted_state c1)
   in r = Inr (Some (''t1'', Some False)) \<and>
      map_option session_permissions (dict_get (qs_store (cs_sessions c2)) ''t1'') = Some [(''users'', {''create''})]"
  by (simp add: login_run_defs demoted_state_def two_roles_def calc_effective_permissions_def find_role_def
      mk_role_def mk_permission_set_def perm_ior_def actions_of_def dict_get_default_def)

text \<open>Two reads and a check of the token of alice, with an outage during the check.\<close>

definition alice_row :: "outage_db qsm" where
  "alice_row = init_qsm ([False, True, False, False], [row ''s1'' 90 ''alice''])"

theorem auth_refresh_lost_witness:
  "\<exists>q2 s'. auth_session (database outage_sessions 3) quota_one 50 ''s1'' (snd (q_get (database outage_sessions 3) ''s1'' alice_row))
        = (Inr s', q2) \<and> expiry_time s' = 110
     \<and> (\<exists>s. fst (q_get (database outage_sessions 3) ''s1'' q2) = Inr (Some s) \<and> expiry_time s = 90)"
proof -
  let ?B = "database outage_sessions 3"
  let ?s = "model_to_session (snd (row ''s1'' 90 ''alice''))"
  note defs = q_get_def auth_session_def assign_expiry_def db_assign_expiry_def alice_row_def db_run_defs numeral_3_eq_3
  obtain q1 where g1: "q_get ?B ''s1'' alice_row = (Inr (Some ?s), q1)" by (simp add: defs)
  then have q1: "q1 = snd (q_get ?B ''s1'' alice_row)" by simp
  obtain s' q2 where au: "auth_session ?B quota_one 50 ''s1'' q1 = (Inr s', q2)"
    unfolding q1 by (simp add: defs)
  obtain x q3 where g2: "q_get ?B ''s1'' q2 = (Inr x, q3)"
    using au unfolding q1 by (auto simp: defs)
  have "outage_ok (qs_store alice_row)" by (simp add: alice_row_def init_qsm_def rows_keyed_def row_def instantiate_session_def)
  from auth_refresh_lost [OF outage.session_provider_axioms this g1 au g2]
  have "s' = ?s\<lparr>expiry_time := 50 + expiry_interval quota_one\<rparr>" "x = Some ?s" by auto
  with au g2 q1 show ?thesis
    by (auto simp: quota_one_def model_to_session_def row_def instantiate_session_def)
qed

end
