(* ===== verification/Client.thy ===== *)
theory Client
  imports Prelude "HOL-Library.Word" "HOL-Library.Sublist"
begin

text \<open>
  The browser client \<^verbatim>\<open>experiments/aio-py/client/client.js\<close>. The page's state is the list of log
  items, the content of the message field, the \<open>readyState\<close> of the one WebSocket and, as a
  record of what the network has seen, the messages handed to the open connection. Strings are
  sequences of 16-bit code units. The handlers are actions that may end in the DOM exception
  \<open>send\<close> raises; the browser reports an exception of a handler and goes on, so the effects
  before it stay. What the browser does on its own (the connection opens, a message arrives, the
  connection closes or fails, the user clicks or types) is the step relation \<open>browser_step\<close>.
\<close>

section \<open>Strings\<close>

type_synonym js_string = "16 word list"

text \<open>A string literal with characters below 256.\<close>

definition js :: "string \<Rightarrow> js_string" where
  "js s = map of_char s"

definition party_popper :: js_string where
  "party_popper = [0xD83C, 0xDF89]"

definition screaming_face :: js_string where
  "screaming_face = [0xD83D, 0xDE31]"

definition high_surrogate :: "16 word \<Rightarrow> bool" where
  "high_surrogate c \<longleftrightarrow> 0xD800 \<le> c \<and> c \<le> 0xDBFF"

definition low_surrogate :: "16 word \<Rightarrow> bool" where
  "low_surrogate c \<longleftrightarrow> 0xDC00 \<le> c \<and> c \<le> 0xDFFF"

text \<open>The conversion of a string argument of \<open>WebSocket.send\<close> to a \<open>USVString\<close>: a surrogate
  without its partner becomes the replacement character.\<close>

fun to_usv :: "js_string \<Rightarrow> js_string" where
  "to_usv [] = []"
| "to_usv [c] = [if high_surrogate c \<or> low_surrogate c then 0xFFFD else c]"
| "to_usv (c # d # cs) =
     (if high_surrogate c \<and> low_surrogate d then c # d # to_usv cs
      else (if high_surrogate c \<or> low_surrogate c then 0xFFFD else c) # to_usv (d # cs))"


section \<open>The page\<close>

datatype ready_state = CONNECTING | OPEN | CLOSING | CLOSED

text \<open>The number \<open>readyState\<close> has in the WebSocket interface orders the states.\<close>

fun state_number :: "ready_state \<Rightarrow> nat" where
  "state_number CONNECTING = 0"
| "state_number OPEN = 1"
| "state_number CLOSING = 2"
| "state_number CLOSED = 3"

lemma state_number_inject [simp]: "state_number x = state_number y \<longleftrightarrow> x = y"
  by (cases x; cases y) simp_all

lemma state_number_le [simp]: "state_number x \<le> 3"
  by (cases x) simp_all

instantiation ready_state :: linorder
begin

definition less_eq_ready_state :: "ready_state \<Rightarrow> ready_state \<Rightarrow> bool" where
  "less_eq_ready_state x y \<longleftrightarrow> state_number x \<le> state_number y"

definition less_ready_state :: "ready_state \<Rightarrow> ready_state \<Rightarrow> bool" where
  "less_ready_state x y \<longleftrightarrow> state_number x < state_number y"

instance
  by standard (auto simp: less_eq_ready_state_def less_ready_state_def)

end

datatype dom_exception = InvalidStateError

record page =
  log_items :: "js_string list"
  message_value :: js_string
  ready :: ready_state
  transmitted :: "js_string list"

text \<open>The data of a message event: a text frame is a string, a binary frame a \<open>Blob\<close>.\<close>

datatype message_data = Text js_string | Blob

definition data_to_string :: "message_data \<Rightarrow> js_string" where
  "data_to_string d = (case d of Text s \<Rightarrow> s | Blob \<Rightarrow> js ''[object Blob]'')"

text \<open>The only own enumerable property of an event object is \<open>isTrusted\<close>.\<close>

definition stringify_event :: js_string where
  "stringify_event = js (CHR ''{'' # CHR 0x22 # ''isTrusted'' @ CHR 0x22 # '':true}'')"

definition log :: "js_string \<Rightarrow> (page, dom_exception, unit) act" where
  "log text = modify_act (\<lambda>p. p\<lparr>log_items := log_items p @ [text]\<rparr>)"

text \<open>An empty host is falsy.\<close>

definition mkuri :: "js_string \<Rightarrow> js_string \<Rightarrow> js_string \<Rightarrow> js_string \<Rightarrow> js_string" where
  "mkuri protocol host port path =
     protocol @ js ''://'' @ (if host \<noteq> [] then host else js ''localhost'') @ js '':''
       @ port @ js ''/'' @ path"

definition wsuri :: "js_string \<Rightarrow> js_string \<Rightarrow> js_string" where
  "wsuri hostname wsport = mkuri (js ''ws'') hostname wsport (js ''ws'')"

text \<open>\<open>WebSocket.send\<close> and \<open>WebSocket.close\<close> of the browser, as far as the page sees them.\<close>

definition socket_send :: "js_string \<Rightarrow> (page, dom_exception, unit) act" where
  "socket_send msg p =
     (case ready p of
        CONNECTING \<Rightarrow> (Inl InvalidStateError, p)
      | OPEN \<Rightarrow> (Inr (), p\<lparr>transmitted := transmitted p @ [to_usv msg]\<rparr>)
      | CLOSING \<Rightarrow> (Inr (), p)
      | CLOSED \<Rightarrow> (Inr (), p))"

definition socket_close :: "(page, dom_exception, unit) act" where
  "socket_close p =
     (case ready p of
        CONNECTING \<Rightarrow> (Inr (), p\<lparr>ready := CLOSING\<rparr>)
      | OPEN \<Rightarrow> (Inr (), p\<lparr>ready := CLOSING\<rparr>)
      | CLOSING \<Rightarrow> (Inr (), p)
      | CLOSED \<Rightarrow> (Inr (), p))"

definition send :: "js_string \<Rightarrow> (page, dom_exception, unit) act" where
  "send msg = bind_act (log (js ''MSG-SEND: '' @ msg)) (\<lambda>_. socket_send msg)"

definition onopen :: "(page, dom_exception, unit) act" where
  "onopen = bind_act (log (js ''SOCK-OPEN: Opened connection '' @ party_popper)) (\<lambda>_. send (js ''HELLO''))"

definition onerror :: "(page, dom_exception, unit) act" where
  "onerror = log (js ''SOCK-ERR: '' @ stringify_event)"

definition onmessage :: "message_data \<Rightarrow> (page, dom_exception, unit) act" where
  "onmessage data = log (js ''MSG-RECV: '' @ data_to_string data)"

definition onclose :: "(page, dom_exception, unit) act" where
  "onclose = log (js ''SOCK-CLOSE: Connection closed! '' @ screaming_face)"

definition click_close :: "(page, dom_exception, unit) act" where
  "click_close = bind_act (log (js ''CLICK: Closing connection '' @ screaming_face)) (\<lambda>_. socket_close)"

definition click_send :: "(page, dom_exception, unit) act" where
  "click_send =
     bind_act (gets message_value) (\<lambda>msg.
     bind_act (log (js ''CLICK: Sending message'')) (\<lambda>_. send msg))"

definition beforeunload :: "(page, dom_exception, unit) act" where
  "beforeunload = socket_close"

text \<open>The page after the script has run.\<close>

definition page_init :: "js_string \<Rightarrow> js_string \<Rightarrow> js_string \<Rightarrow> page" where
  "page_init hostname port field =
     snd (log (js ''websocket: '' @ wsuri hostname port)
       \<lparr>log_items = [], message_value = field, ready = CONNECTING, transmitted = []\<rparr>)"


section \<open>What the browser does\<close>

text \<open>
  The connection can be established only while connecting, and a message is delivered only
  while open; a remote close moves an open socket to closing; a socket that is not closed can
  get closed, with an error event first when the connection failed.
\<close>

inductive browser_step :: "page \<Rightarrow> page \<Rightarrow> bool" where
  established: "ready p = CONNECTING \<Longrightarrow> browser_step p (snd (onopen (p\<lparr>ready := OPEN\<rparr>)))"
| message: "ready p = OPEN \<Longrightarrow> browser_step p (snd (onmessage d p))"
| remote_close: "ready p = OPEN \<Longrightarrow> browser_step p (p\<lparr>ready := CLOSING\<rparr>)"
| closed: "ready p \<noteq> CLOSED \<Longrightarrow> browser_step p (snd (onclose (p\<lparr>ready := CLOSED\<rparr>)))"
| closed_with_error: "ready p \<noteq> CLOSED \<Longrightarrow>
    browser_step p (snd (bind_act onerror (\<lambda>_. onclose) (p\<lparr>ready := CLOSED\<rparr>)))"
| clicked_send: "browser_step p (snd (click_send p))"
| clicked_close: "browser_step p (snd (click_close p))"
| unloading: "browser_step p (snd (beforeunload p))"
| typed: "browser_step p (p\<lparr>message_value := v\<rparr>)"

inductive page_reachable :: "page \<Rightarrow> bool" where
  loaded: "page_reachable (page_init hostname port field)"
| step: "page_reachable p \<Longrightarrow> browser_step p p' \<Longrightarrow> page_reachable p'"

inductive_simps browser_step_iff: "browser_step p p'"

lemmas client_defs =
  log_def send_def socket_send_def socket_close_def onopen_def onerror_def onmessage_def onclose_def
  click_close_def click_send_def beforeunload_def


section \<open>The life of the connection\<close>

text \<open>
  The abstract view: the client waits for the connection, then is live with the messages sent so
  far, then is over. A live connection has sent the greeting before anything else.
\<close>

datatype connection = Waiting | Live "js_string list" | Over "js_string list"

inductive conn_step :: "connection \<Rightarrow> connection \<Rightarrow> bool" where
  greet: "conn_step Waiting (Live [js ''HELLO''])"
| give_up: "conn_step Waiting (Over [])"
| say: "conn_step (Live ms) (Live (ms @ [m]))"
| hang_up: "conn_step (Live ms) (Over ms)"

definition connection_of :: "page \<Rightarrow> connection" where
  "connection_of p = (case ready p of CONNECTING \<Rightarrow> Waiting | OPEN \<Rightarrow> Live (transmitted p)
     | CLOSING \<Rightarrow> Over (transmitted p) | CLOSED \<Rightarrow> Over (transmitted p))"

definition page_ok :: "page \<Rightarrow> bool" where
  "page_ok p \<longleftrightarrow> (ready p = CONNECTING \<longrightarrow> transmitted p = [])
     \<and> (ready p = OPEN \<longrightarrow> transmitted p \<noteq> [])
     \<and> (transmitted p = [] \<or> hd (transmitted p) = js ''HELLO'')"

lemma to_usv_HELLO [simp]: "to_usv (js ''HELLO'') = js ''HELLO''"
  by (simp add: js_def high_surrogate_def low_surrogate_def)

lemma browser_step_ok: "browser_step p p' \<Longrightarrow> page_ok p \<Longrightarrow> page_ok p'"
  by (induction rule: browser_step.induct)
     (auto simp: client_defs act_simps page_ok_def split: ready_state.splits)

lemma page_reachable_ok: "page_reachable p \<Longrightarrow> page_ok p"
proof (induction rule: page_reachable.induct)
  case (loaded hostname port field)
  show ?case by (simp add: page_init_def log_def act_simps page_ok_def)
qed (rule browser_step_ok)

text \<open>The state of the socket only ever advances.\<close>

lemma browser_step_advances: "browser_step p p' \<Longrightarrow> ready p \<le> ready p'"
  by (induction rule: browser_step.induct)
     (auto simp: client_defs act_simps less_eq_ready_state_def split: ready_state.splits)

lemma browser_step_refines:
  "browser_step p p' \<Longrightarrow> page_ok p \<Longrightarrow>
     connection_of p' = connection_of p \<or> conn_step (connection_of p) (connection_of p')"
  by (induction rule: browser_step.induct)
     (auto simp: client_defs act_simps page_ok_def connection_of_def conn_step.simps split: ready_state.splits)

text \<open>
  C29. The page implements the abstract connection: from every page the browser can reach, each
  further event (a connection opening, failing or closing, a message, a click, typing, leaving
  the page) either leaves the abstract connection as it is or makes one of its steps. So the
  greeting comes first, every later send on the open connection appends one message, and once the
  connection is closing or closed nothing is transmitted any more; \<open>readyState\<close> never goes back.
\<close>

theorem page_refines_connection:
  assumes "page_reachable p" and "browser_step p p'"
  shows "(connection_of p' = connection_of p \<or> conn_step (connection_of p) (connection_of p')) \<and> ready p \<le> ready p'"
  using browser_step_refines [OF assms(2) page_reachable_ok [OF assms(1)]] browser_step_advances [OF assms(2)] by blast

theorem page_refines_connection_witness:
  "conn_step (connection_of (page_init [] (js ''8080'') []))
     (connection_of (snd (onopen ((page_init [] (js ''8080'') [])\<lparr>ready := OPEN\<rparr>))))"
proof -
  let ?p = "page_init [] (js ''8080'') []" and ?p' = "snd (onopen ((page_init [] (js ''8080'') [])\<lparr>ready := OPEN\<rparr>))"
  have r: "ready ?p = CONNECTING" by (simp add: page_init_def log_def act_simps)
  have "connection_of ?p' \<noteq> connection_of ?p"
    using r by (simp add: connection_of_def client_defs act_simps)
  with page_refines_connection [OF page_reachable.loaded browser_step.established [OF r]]
  show ?thesis by blast
qed


section \<open>The log\<close>

text \<open>The message of a log item that \<open>send\<close> wrote.\<close>

definition sent_text :: "js_string \<Rightarrow> js_string option" where
  "sent_text item = (if take 10 item = js ''MSG-SEND: '' then Some (drop 10 item) else None)"

definition sent_texts :: "js_string list \<Rightarrow> js_string list" where
  "sent_texts items = List.map_filter sent_text items"

lemma sent_texts_append [simp]: "sent_texts (xs @ ys) = sent_texts xs @ sent_texts ys"
  by (simp add: sent_texts_def map_filter_def)

lemma sent_texts_Cons: "sent_texts (x # xs) = (case sent_text x of None \<Rightarrow> sent_texts xs | Some t \<Rightarrow> t # sent_texts xs)"
  by (simp add: sent_texts_def map_filter_def split: option.splits)

lemma sent_texts_Nil [simp]: "sent_texts [] = []"
  by (simp add: sent_texts_def map_filter_def)

lemma sent_text_simps [simp]:
  "sent_text (js ''MSG-SEND: '' @ m) = Some m"
  "sent_text (js ''MSG-RECV: '' @ d) = None"
  "sent_text (js ''SOCK-OPEN: Opened connection '' @ d) = None"
  "sent_text (js ''SOCK-ERR: '' @ d) = None"
  "sent_text (js ''SOCK-CLOSE: Connection closed! '' @ d) = None"
  "sent_text (js ''CLICK: Closing connection '' @ d) = None"
  "sent_text (js ''CLICK: Sending message'') = None"
  "sent_text (js ''websocket: '' @ d) = None"
  by (simp_all add: sent_text_def js_def)

lemma browser_step_log: "browser_step p p' \<Longrightarrow> prefix (log_items p) (log_items p')"
  by (induction rule: browser_step.induct)
     (auto simp: client_defs act_simps split: ready_state.splits)

lemma browser_step_logged:
  "browser_step p p' \<Longrightarrow> subseq (transmitted p) (map to_usv (sent_texts (log_items p))) \<Longrightarrow>
     subseq (transmitted p') (map to_usv (sent_texts (log_items p')))"
  by (induction rule: browser_step.induct)
     (auto simp: client_defs act_simps sent_texts_Cons intro: list_emb_append_mono list_emb_prefix
        split: ready_state.splits)


text \<open>
  C30. The log is a faithful record: it only grows, and the messages transmitted are, in order,
  among the messages the log says were sent (after the browser's replacement of unpaired
  surrogates), starting with the greeting.
\<close>

theorem transmitted_logged:
  assumes "page_reachable p"
  shows "subseq (transmitted p) (map to_usv (sent_texts (log_items p)))
       \<and> (transmitted p \<noteq> [] \<longrightarrow> hd (transmitted p) = js ''HELLO'')
       \<and> (\<forall>p'. browser_step p p' \<longrightarrow> prefix (log_items p) (log_items p'))"
proof -
  from assms have "subseq (transmitted p) (map to_usv (sent_texts (log_items p)))"
  proof (induction rule: page_reachable.induct)
    case (loaded hostname port field)
    show ?case by (simp add: page_init_def log_def act_simps)
  qed (rule browser_step_logged)
  then show ?thesis
    using page_reachable_ok [OF assms] browser_step_log [of p] by (auto simp: page_ok_def)
qed

theorem transmitted_logged_witness:
  "subseq (transmitted (page_init [] (js ''8080'') (js ''x'')))
     (map to_usv (sent_texts (log_items (page_init [] (js ''8080'') (js ''x'')))))"
  using transmitted_logged [OF page_reachable.loaded [of "[]" "js ''8080''" "js ''x''"]] by blast



section \<open>The address of the socket\<close>

lemma js_append: "js (s @ t) = js s @ js t"
  by (simp add: js_def)

lemma last_separator:
  assumes "h @ c # p = h' @ c # p'" and "c \<notin> set p" and "c \<notin> set p'"
  shows "h = h' \<and> p = p'"
  using assms
proof (induction h arbitrary: h')
  case Nil
  then show ?case by (cases h') auto
next
  case (Cons x h)
  then show ?case by (cases h') auto
qed

text \<open>
  The socket address determines the host and the port of the page: two pages that were
  loaded from a named host connect to the same address only if host and port agree, also when
  the host is an IPv6 address with colons in it.
\<close>

theorem wsuri_injective:
  assumes "h \<noteq> []" and "h' \<noteq> []"
    and "of_char (CHR '':'') \<notin> set port" and "of_char (CHR '':'') \<notin> set port'"
  shows "wsuri h port = wsuri h' port' \<longleftrightarrow> h = h' \<and> port = port'"
proof
  assume "wsuri h port = wsuri h' port'"
  then have "h @ of_char (CHR '':'') # port = h' @ of_char (CHR '':'') # port'"
    using assms(1,2) by (simp add: wsuri_def mkuri_def js_def)
  then show "h = h' \<and> port = port'" using assms(3,4) by (rule last_separator)
qed simp

theorem wsuri_injective_witness:
  "wsuri (js ''[::1]'') (js ''80'') \<noteq> wsuri (js ''[::1]:8'') (js ''0'')"
  by (subst wsuri_injective) (simp_all add: js_def)

end
