(* ===== verification/Json_Values.thy ===== *)
theory Json_Values
  imports Roles
begin

text \<open>
  Parsed JSON as the services handle it: subscripts, iteration, slices and \<open>str.split('.', 1)\<close> of Python
  on the untyped values of \<open>pyval\<close>, and \<open>Utility.remove_json_key\<close> of \<^verbatim>\<open>csm/common/utility.py\<close>. Numbers with
  a fraction do not occur in the type; none of the code below looks into a number. A measure on values
  serves the termination proofs.
\<close>

section \<open>Python's operations on values\<close>

text \<open>\<open>v[k]\<close> for a string \<open>k\<close>: only a dictionary can be subscripted by a string.\<close>

definition py_getitem :: "pyval \<Rightarrow> string \<Rightarrow> exn + pyval" where
  "py_getitem v k =
     (case v of
        PDict d \<Rightarrow> (case dict_get d (PStr k) of None \<Rightarrow> Inl KeyError | Some x \<Rightarrow> Inr x)
      | _ \<Rightarrow> Inl TypeError)"

text \<open>\<open>v.get(k, default)\<close>\<close>

definition py_get :: "pyval \<Rightarrow> string \<Rightarrow> pyval \<Rightarrow> exn + pyval" where
  "py_get v k other = (case v of PDict d \<Rightarrow> Inr (dict_get_default d (PStr k) other) | _ \<Rightarrow> Inl AttributeError)"

text \<open>The truth value of an object.\<close>

fun truthy :: "pyval \<Rightarrow> bool" where
  "truthy PNone = False"
| "truthy (PBool b) = b"
| "truthy (PInt i) = (i \<noteq> 0)"
| "truthy (PStr s) = (s \<noteq> [])"
| "truthy (PList xs) = (xs \<noteq> [])"
| "truthy (PDict d) = (d \<noteq> [])"

definition py_len :: "pyval \<Rightarrow> exn + nat" where
  "py_len v =
     (case v of
        PStr s \<Rightarrow> Inr (length s)
      | PList xs \<Rightarrow> Inr (length xs)
      | PDict d \<Rightarrow> Inr (length d)
      | _ \<Rightarrow> Inl TypeError)"

text \<open>What \<open>reversed(v)\<close> runs over, in the order of \<open>v\<close>. Dictionaries are not reversible (Python 3.6).\<close>

definition py_reversible :: "pyval \<Rightarrow> exn + pyval list" where
  "py_reversible v =
     (case v of
        PList xs \<Rightarrow> Inr xs
      | PStr s \<Rightarrow> Inr (map (\<lambda>c. PStr [c]) s)
      | _ \<Rightarrow> Inl TypeError)"

text \<open>Iterating a dictionary gives its keys, a string its characters.\<close>

definition py_iter :: "pyval \<Rightarrow> exn + pyval list" where
  "py_iter v =
     (case v of
        PList xs \<Rightarrow> Inr xs
      | PDict d \<Rightarrow> Inr (dict_keys d)
      | PStr s \<Rightarrow> Inr (map (\<lambda>c. PStr [c]) s)
      | _ \<Rightarrow> Inl TypeError)"

text \<open>\<open>xs[start:end]\<close>: a negative index counts from the end, and both are cut to the list.\<close>

definition slice_index :: "nat \<Rightarrow> int \<Rightarrow> nat" where
  "slice_index n i = (if i < 0 then nat (i + int n) else min (nat i) n)"

definition py_slice :: "'a list \<Rightarrow> int \<Rightarrow> int \<Rightarrow> 'a list" where
  "py_slice xs start end =
     (let a = slice_index (length xs) start; b = slice_index (length xs) end in take (b - a) (drop a xs))"

lemma py_slice_inside:
  "0 \<le> start \<Longrightarrow> start \<le> end \<Longrightarrow> end \<le> int (length xs)
     \<Longrightarrow> py_slice xs start end = take (nat (end - start)) (drop (nat start) xs)"
  by (simp add: py_slice_def slice_index_def nat_diff_distrib Let_def)

text \<open>\<open>str\<close> of an integer.\<close>

fun str_nat :: "nat \<Rightarrow> string" where
  "str_nat n = (if n < 10 then [char_of (48 + n)] else str_nat (n div 10) @ [char_of (48 + n mod 10)])"

declare str_nat.simps [simp del]

definition str_int :: "int \<Rightarrow> string" where
  "str_int i = (if i < 0 then CHR ''-'' # str_nat (nat (- i)) else str_nat (nat i))"

text \<open>\<open>key.split('.', 1)\<close>: the part before the first dot, and what follows it if there is one.\<close>

fun split_once :: "'a \<Rightarrow> 'a list \<Rightarrow> 'a list \<times> 'a list option" where
  "split_once c [] = ([], None)"
| "split_once c (x # xs) =
     (if x = c then ([], Some xs) else case split_once c xs of (k, rest) \<Rightarrow> (x # k, rest))"

lemma split_once_shorter: "split_once c s = (k, Some r) \<Longrightarrow> length r < length s"
  by (induction s arbitrary: k) (auto split: if_splits prod.splits)

lemma split_once_split_on:
  "split_on c s = (case split_once c s of (k, None) \<Rightarrow> [k] | (k, Some r) \<Rightarrow> k # split_on c r)"
  by (induction s) (auto split: prod.splits option.splits)


section \<open>A measure\<close>

fun weight :: "pyval \<Rightarrow> nat" where
  "weight (PStr s) = max 1 (length s)"
| "weight (PList xs) = Suc (sum_list (map weight xs))"
| "weight (PDict d) = Suc (sum_list (map (\<lambda>p. weight (snd p)) d))"
| "weight _ = 1"

lemma weight_entry: "dict_get d k = Some v \<Longrightarrow> weight v < weight (PDict d)"
  by (induction d) (auto split: if_splits)

lemma weight_pos: "0 < weight v"
  by (cases v) auto

lemma weight_reversible: "py_reversible v = Inr vs \<Longrightarrow> sum_list (map weight vs) \<le> weight v"
  by (auto simp: py_reversible_def comp_def sum_list_triv split: pyval.splits)


section \<open>Removal of a key at all depths\<close>

fun remove_json_key :: "pyval \<Rightarrow> string \<Rightarrow> pyval" where
  "remove_json_key (PDict d) key = PDict (map (\<lambda>p. (fst p, remove_json_key (snd p) key)) (filter (\<lambda>p. fst p \<noteq> PStr key) d))"
| "remove_json_key (PList xs) key = PList (map (\<lambda>x. remove_json_key x key) xs)"
| "remove_json_key v key = v"

text \<open>The key occurs in a dictionary somewhere inside the value.\<close>

fun mentions :: "string \<Rightarrow> pyval \<Rightarrow> bool" where
  "mentions key (PDict d) \<longleftrightarrow> (\<exists>p \<in> set d. fst p = PStr key \<or> mentions key (snd p))"
| "mentions key (PList xs) \<longleftrightarrow> (\<exists>x \<in> set xs. mentions key x)"
| "mentions key _ \<longleftrightarrow> False"

lemma remove_json_key_gone: "\<not> mentions key (remove_json_key v key)"
  by (induction v key rule: remove_json_key.induct) auto

lemma remove_json_key_keeps: "\<not> mentions k v \<Longrightarrow> \<not> mentions k (remove_json_key v key)"
  by (induction v key rule: remove_json_key.induct) auto

lemma filter_all: "(\<And>x. x \<in> set xs \<Longrightarrow> P x) \<Longrightarrow> filter P xs = xs"
  by simp

lemma remove_json_key_id: "\<not> mentions key v \<Longrightarrow> remove_json_key v key = v"
proof (induction v key rule: remove_json_key.induct)
  case (1 d key)
  then have "filter (\<lambda>p. fst p \<noteq> PStr key) d = d" by (intro filter_all) auto
  with 1 show ?case by (simp add: map_idI prod_eq_iff)
qed (auto simp: map_idI)

end
