(* ===== verification/Api.thy ===== *)
theory Api
  imports Login Json_Values "HOL-Library.Sublist"
begin

text \<open>
  The REST front end: \<open>CsmAuth\<close> and \<open>CsmView\<close> of \<^verbatim>\<open>csm/core/controllers/view.py\<close>, the middlewares
  and error responses of \<^verbatim>\<open>csm/core/agent/api.py\<close>, and the views of
  \<^verbatim>\<open>csm/core/controllers/permissions.py\<close>. What belongs to packages is a parameter, gathered in the
  record \<open>api_env\<close>: the route resolution of \<open>aiohttp\<close>, the accessors of \<open>BaseError\<close>, \<open>str\<close> of an
  exception, loading through the marshmallow schema, and the configuration store. A handler is an
  action on the state of the login service that gets the session the middleware found.
\<close>

section \<open>Handlers and their attributes\<close>

text \<open>The attributes the decorators of \<open>CsmAuth\<close> set, on a handler or on one of its methods.\<close>

record auth_attrs =
  at_public :: bool
  at_hybrid :: bool
  at_permissions :: "permission_set option"

record handler_info =
  h_attrs :: auth_attrs
  h_is_view :: bool
  h_methods :: "(string, auth_attrs) dict"

definition auth_is_public :: "auth_attrs \<Rightarrow> bool" where
  "auth_is_public a = at_public a"

definition auth_is_hybrid :: "auth_attrs \<Rightarrow> bool" where
  "auth_is_hybrid a = at_hybrid a"

definition auth_get_permissions :: "auth_attrs \<Rightarrow> permission_set" where
  "auth_get_permissions a = (case at_permissions a of None \<Rightarrow> mk_permission_set None | Some p \<Rightarrow> p)"

definition get_method_handler :: "handler_info \<Rightarrow> string \<Rightarrow> auth_attrs option" where
  "get_method_handler h name = (if h_is_view h then dict_get (h_methods h) (lower name) else None)"

definition view_is_public :: "handler_info \<Rightarrow> string \<Rightarrow> bool" where
  "view_is_public h meth =
     (case get_method_handler h meth of
        Some m \<Rightarrow> if auth_is_public m then True else auth_is_public (h_attrs h)
      | None \<Rightarrow> auth_is_public (h_attrs h))"

definition view_is_hybrid :: "handler_info \<Rightarrow> string \<Rightarrow> bool" where
  "view_is_hybrid h meth =
     (case get_method_handler h meth of
        Some m \<Rightarrow> if auth_is_hybrid m then True else auth_is_hybrid (h_attrs h)
      | None \<Rightarrow> auth_is_hybrid (h_attrs h))"

definition view_get_permissions :: "handler_info \<Rightarrow> string \<Rightarrow> permission_set" where
  "view_get_permissions h meth =
     (let view_permissions = auth_get_permissions (h_attrs h) in
      case get_method_handler h meth of
        Some m \<Rightarrow> auth_get_permissions m
      | None \<Rightarrow> view_permissions)"


section \<open>Requests and the environment\<close>

text \<open>The body as far as the middleware reads it: absent, not JSON, or a JSON value.\<close>

datatype request_body = NoBody | BadJson | JsonBody pyval

record request =
  rq_method :: string
  rq_path :: string
  rq_query :: "(string \<times> string) list"
  rq_headers :: "(string \<times> string) list"
  rq_body :: request_body

record api_env =
  ae_resolve :: "string \<Rightarrow> string \<Rightarrow> handler_info"
  ae_conf :: "string \<Rightarrow> string option"
  ae_error :: "csm_error \<Rightarrow> string option"
  ae_message_id :: "csm_error \<Rightarrow> string option"
  ae_message_args :: "csm_error \<Rightarrow> string option"
  ae_str :: "exn \<Rightarrow> string"
  ae_traceback :: "string list"
  ae_schema_load :: "json_dict \<Rightarrow> string + json_dict"

definition resolve_handler :: "api_env \<Rightarrow> request \<Rightarrow> handler_info" where
  "resolve_handler A rq = ae_resolve A (rq_method rq) (rq_path rq)"

definition SWAGGER_UI_URL :: string where "SWAGGER_UI_URL = ''/api/doc''"
definition SWAGGER_JSON_URL :: string where "SWAGGER_JSON_URL = ''/api/doc/swagger.json''"
definition SWAGGER_UI_STATICS_URL :: string where "SWAGGER_UI_STATICS_URL = ''/api/static''"

definition is_public :: "api_env \<Rightarrow> request \<Rightarrow> bool" where
  "is_public A rq =
     (if prefix SWAGGER_UI_URL (rq_path rq) \<or> prefix SWAGGER_UI_STATICS_URL (rq_path rq) then True
      else view_is_public (resolve_handler A rq) (rq_method rq))"

definition is_hybrid :: "api_env \<Rightarrow> request \<Rightarrow> bool" where
  "is_hybrid A rq = view_is_hybrid (resolve_handler A rq) (rq_method rq)"

definition required_permissions :: "api_env \<Rightarrow> request \<Rightarrow> permission_set" where
  "required_permissions A rq = view_get_permissions (resolve_handler A rq) (rq_method rq)"

text \<open>Header names are compared without case.\<close>

definition headers_get :: "(string \<times> string) list \<Rightarrow> string \<Rightarrow> string option" where
  "headers_get hs name = map_option snd (find (\<lambda>(k, v). lower k = lower name) hs)"

definition HDR :: string where "HDR = ''Authorization''"
definition AUTH_TYPE :: string where "AUTH_TYPE = ''Bearer''"

definition not_found_error :: "string option \<Rightarrow> exn" where
  "not_found_error desc = mk_CsmNotFoundError desc ''NotFoundError''"

definition extract_bearer :: "(string \<times> string) list \<Rightarrow> exn + string" where
  "extract_bearer headers =
     (case headers_get headers HDR of
        None \<Rightarrow> Inl (not_found_error (Some (''No '' @ HDR @ '' header'')))
      | Some hdr \<Rightarrow>
          if hdr = [] then Inl (not_found_error (Some (''No '' @ HDR @ '' header'')))
          else case split_on (CHR '' '') hdr of
                 [auth_type, sid] \<Rightarrow>
                   if auth_type \<noteq> AUTH_TYPE then Inl (not_found_error (Some (''Invalid auth type '' @ auth_type)))
                   else Inr sid
               | _ \<Rightarrow> Inl (not_found_error (Some (''The header is incorrect. Expected '' @ [CHR 0x22] @ HDR
                        @ '' session_id'' @ [CHR 0x22]))))"

definition validate_bearer ::
  "api_env \<Rightarrow> 'st backend \<Rightarrow> session_conf \<Rightarrow> int \<Rightarrow> string \<Rightarrow> ('st qsm, exn, session) act" where
  "validate_bearer A B C now sid =
     catch_act (auth_session B C now sid) (\<lambda>e.
       case e of Csm r \<Rightarrow> throw (not_found_error (ae_error A r)) | _ \<Rightarrow> throw e)"

definition HYBRID_APIS :: "(string, string) dict" where
  "HYBRID_APIS = [(''GET:/api/v2/metrics/stats/perf'', ''STATS>auth'')]"

definition retrieve_config :: "api_env \<Rightarrow> request \<Rightarrow> exn + string option" where
  "retrieve_config A rq =
     (case dict_get HYBRID_APIS (rq_method rq @ '':'' @ rq_path rq) of
        None \<Rightarrow> Inl KeyError
      | Some conf_key \<Rightarrow> Inr (ae_conf A conf_key))"


section \<open>The session and permission middlewares\<close>

text \<open>The decision of the first part of \<open>session_middleware\<close>; a missing setting is \<open>None\<close>, on which
  \<open>lower\<close> raises.\<close>

definition request_is_public :: "api_env \<Rightarrow> request \<Rightarrow> exn + bool" where
  "request_is_public A rq =
     (if is_hybrid A rq
      then bind_sum (retrieve_config A rq) (\<lambda>v.
             case v of
               None \<Rightarrow> Inl AttributeError
             | Some conf \<Rightarrow> Inr (lower conf \<noteq> ''enable''))
      else Inr (is_public A rq))"

definition unauthorised :: exn where
  "unauthorised = mk_CsmUnauthorizedError (Some ''Invalid authentication credentials for the target resource.'')"

type_synonym ('st, 'a) handler = "session option \<Rightarrow> ('st qsm, exn, 'a) act"

definition session_middleware ::
  "api_env \<Rightarrow> 'st backend \<Rightarrow> session_conf \<Rightarrow> int \<Rightarrow> request \<Rightarrow> ('st, 'a) handler \<Rightarrow> ('st qsm, exn, 'a) act" where
  "session_middleware A B C now rq handler =
     bind_act (of_sum (request_is_public A rq)) (\<lambda>public.
     bind_act (catch_act
         (if \<not> public
          then bind_act (of_sum (extract_bearer (rq_headers rq))) (\<lambda>sid.
               bind_act (validate_bearer A B C now sid) (\<lambda>s. ret (Some s)))
          else ret None)
         (\<lambda>e. if is_csm CsmNotFoundError e then throw unauthorised else throw e))
       handler)"

definition permission_denied :: exn where
  "permission_denied =
     mk_CsmPermissionDenied (Some ''Access to the requested resource is forbidden'') ''PermissionDenied'' None"

definition permission_middleware :: "api_env \<Rightarrow> request \<Rightarrow> ('st, 'a) handler \<Rightarrow> ('st, 'a) handler" where
  "permission_middleware A rq handler session =
     (case session of
        None \<Rightarrow> handler None
      | Some s \<Rightarrow>
          let required = required_permissions A rq in
          if \<not> perm_eq (perm_and (session_permissions s) required) required
          then throw permission_denied
          else handler (Some s))"

definition guarded ::
  "api_env \<Rightarrow> 'st backend \<Rightarrow> session_conf \<Rightarrow> int \<Rightarrow> request \<Rightarrow> ('st, 'a) handler \<Rightarrow> ('st qsm, exn, 'a) act" where
  "guarded A B C now rq handler =
     session_middleware A B C now rq (permission_middleware A rq handler)"


section \<open>Error responses\<close>

definition is_debug :: "request \<Rightarrow> bool" where
  "is_debug rq \<longleftrightarrow> ''debug'' \<in> set (map fst (rq_query rq))"

definition opt_str :: "string option \<Rightarrow> pyval" where
  "opt_str x = (case x of None \<Rightarrow> PNone | Some s \<Rightarrow> PStr s)"

text \<open>\<open>HTTPError\<close> is the part of \<open>HTTPException\<close> with an error status.\<close>

definition error_fields :: "api_env \<Rightarrow> request \<Rightarrow> exn \<Rightarrow> json_dict" where
  "error_fields A rq err =
     (let stacktrace = (if is_debug rq then [(''stacktrace'', PList (map PStr (ae_traceback A)))] else []) in
      case err of
        Csm r \<Rightarrow>
          [(''error_code'', PInt (err_rc r)), (''message'', opt_str (ae_error A r)),
           (''message_id'', opt_str (ae_message_id A r))] @ stacktrace
          @ (case ae_message_args A r of None \<Rightarrow> [] | Some a \<Rightarrow> [(''error_format_args'', PStr a)])
      | HTTPException status reason \<Rightarrow>
          if status \<ge> 400
          then [(''error_code'', PInt CSM_HTTP_ERROR), (''message'', PStr reason), (''message_id'', PStr ''HttpError'')] @ stacktrace
          else [(''error_code'', PInt CSM_UNKNOWN_ERROR), (''message'', PStr (ae_str A err)),
                (''message_id'', PStr ''UnknownError'')] @ stacktrace
      | _ \<Rightarrow>
          [(''error_code'', PInt CSM_UNKNOWN_ERROR), (''message'', PStr (ae_str A err)),
           (''message_id'', PStr ''UnknownError'')] @ stacktrace)"

text \<open>When the schema rejects the response, the local variable that is returned was never set.\<close>

definition error_response :: "api_env \<Rightarrow> request \<Rightarrow> exn \<Rightarrow> exn + json_dict" where
  "error_response A rq err =
     (case ae_schema_load A (error_fields A rq err) of
        Inl val_err \<Rightarrow> Inl UnboundLocalError
      | Inr err_response \<Rightarrow> Inr err_response)"


section \<open>The outer middleware\<close>

datatype 'r handler_value =
    HDownload string string
  | HStream 'r
  | HResponse int string
  | HObject pyval

datatype 'r http_reply =
    RFile string "(string \<times> string) list"
  | RStream 'r
  | RJson pyval int

text \<open>Python's truth value of a JSON value.\<close>

definition secret_key :: "pyval \<Rightarrow> bool" where
  "secret_key k = (case k of
       PStr key \<Rightarrow> sublist ''password'' (lower key) \<or> sublist ''passwd'' (lower key) \<or> sublist ''secret'' (lower key)
     | _ \<Rightarrow> False)"

text \<open>The loop that removes secrets from the body: only a dictionary has \<open>keys\<close>.\<close>

definition sanitize_body :: "pyval \<Rightarrow> exn + pyval" where
  "sanitize_body body =
     (if truthy body
      then (case body of
              PDict d \<Rightarrow> Inr (PDict (filter (\<lambda>(k, v). \<not> secret_key k) d))
            | _ \<Rightarrow> Inl AttributeError)
      else Inr body)"

definition logged_body :: "request \<Rightarrow> exn + pyval" where
  "logged_body rq =
     (if rq_query rq \<noteq> [] then Inr (PDict (map (\<lambda>(k, v). (PStr k, PStr v)) (rq_query rq)))
      else case rq_body rq of
             NoBody \<Rightarrow> Inr (PDict [])
           | BadJson \<Rightarrow> sanitize_body (PDict [])
           | JsonBody v \<Rightarrow> sanitize_body v)"

definition reply_of :: "'r handler_value \<Rightarrow> 'r http_reply" where
  "reply_of v =
     (case v of
        HDownload path name \<Rightarrow>
          RFile path [(''Content-Disposition'', ''attachment; filename='' @ [CHR 0x22] @ name @ [CHR 0x22])]
      | HStream r \<Rightarrow> RStream r
      | HResponse rc out \<Rightarrow> RJson (PDict [(PStr ''message'', PStr out)]) rc
      | HObject obj \<Rightarrow> RJson obj 200)"

text \<open>The \<open>except\<close> clauses in their order; \<open>None\<close> for the one that raises again.\<close>

definition status_of :: "exn \<Rightarrow> int option" where
  "status_of e =
     (case e of
        CancelledError \<Rightarrow> Some 499
      | CsmHttpException _ _ _ _ _ \<Rightarrow> None
      | HTTPException status _ \<Rightarrow> Some status
      | DataAccessError _ \<Rightarrow> Some 503
      | Csm r \<Rightarrow>
          if is_csm InvalidRequest e then Some 400
          else if is_csm CsmNotFoundError e then Some 404
          else if is_csm CsmPermissionDenied e then Some 403
          else if is_csm ResourceExist e then Some 409
          else if is_csm CsmInternalError e then Some 500
          else if is_csm CsmNotImplemented e then Some 501
          else if is_csm CsmGatewayTimeout e then Some 504
          else if is_csm CsmServiceConflict e then Some 409
          else if is_csm CsmUnauthorizedError e then Some 401
          else Some 400
      | KeyError \<Rightarrow> Some 422
      | ServerDisconnectedError \<Rightarrow> Some 503
      | ClientConnectorError _ \<Rightarrow> Some 503
      | ClientOSError \<Rightarrow> Some 503
      | TimeoutError \<Rightarrow> Some 503
      | _ \<Rightarrow> Some 500)"

text \<open>The exception the error response describes: a cancelled call is reported as a CSM error. The
  message of a \<open>KeyError\<close>, which the clause extends, is part of the parameter \<open>ae_str\<close>.\<close>

definition reported :: "exn \<Rightarrow> exn" where
  "reported e = (case e of
       CancelledError \<Rightarrow> mk_CsmRequestCancelled (Some ''Call cancelled by client'')
     | _ \<Rightarrow> e)"

definition rest_middleware ::
  "api_env \<Rightarrow> bool \<Rightarrow> request \<Rightarrow> ('s, exn, 'r handler_value) act \<Rightarrow> ('s, exn, 'r http_reply) act" where
  "rest_middleware A shutting_down rq handler =
     (if shutting_down then ret (RJson (PStr ''CSM agent is shutting down'') 503)
      else catch_act
        (bind_act (of_sum (logged_body rq)) (\<lambda>_.
         bind_act handler (\<lambda>v. ret (reply_of v))))
        (\<lambda>e. case status_of e of
               None \<Rightarrow> throw e
             | Some status \<Rightarrow>
                 bind_act (of_sum (error_response A rq (reported e))) (\<lambda>resp.
                 ret (RJson (PDict (map (\<lambda>(k, v). (PStr k, v)) resp)) status))))"



section \<open>The throttler\<close>

record throttle =
  nreq :: int
  nblocked :: int

text \<open>The first half of \<open>throttler_middleware\<close>: whether the request is let in.\<close>

definition throttler_enter :: "int \<Rightarrow> throttle \<Rightarrow> bool \<times> throttle" where
  "throttler_enter request_quota t =
     (if nreq t \<ge> request_quota then (False, t\<lparr>nblocked := nblocked t + 1\<rparr>)
      else (True, t\<lparr>nreq := nreq t + 1\<rparr>))"

text \<open>The \<open>finally\<close> block.\<close>

definition throttler_exit :: "throttle \<Rightarrow> throttle" where
  "throttler_exit t = t\<lparr>nreq := nreq t - 1\<rparr>"

datatype 'r throttled = TooManyRequests | Passed 'r

definition throttler_middleware :: "int \<Rightarrow> ('s, exn, 'r) act \<Rightarrow> (throttle \<times> 's, exn, 'r throttled) act" where
  "throttler_middleware request_quota handler st =
     (case throttler_enter request_quota (fst st) of
        (False, t) \<Rightarrow> (Inr TooManyRequests, (t, snd st))
      | (True, t) \<Rightarrow>
          (case handler (snd st) of
             (Inr r, s) \<Rightarrow> (Inr (Passed r), (throttler_exit t, s))
           | (Inl e, s) \<Rightarrow> (Inl e, (throttler_exit t, s))))"

text \<open>Requests run concurrently: the middleware is left while a handler waits. The state is the
  counters with the requests that are inside.\<close>

record throttled_server =
  ts_counters :: throttle
  ts_inside :: "nat list"
  ts_refused :: nat

inductive throttle_step :: "int \<Rightarrow> throttled_server \<Rightarrow> throttled_server \<Rightarrow> bool" for quota where
  arrive: "throttler_enter quota (ts_counters s) = (True, t) \<Longrightarrow> rid \<notin> set (ts_inside s) \<Longrightarrow>
     throttle_step quota s (s\<lparr>ts_counters := t, ts_inside := rid # ts_inside s\<rparr>)"
| refuse: "throttler_enter quota (ts_counters s) = (False, t) \<Longrightarrow>
     throttle_step quota s (s\<lparr>ts_counters := t, ts_refused := Suc (ts_refused s)\<rparr>)"
| leave: "rid \<in> set (ts_inside s) \<Longrightarrow>
     throttle_step quota s (s\<lparr>ts_counters := throttler_exit (ts_counters s), ts_inside := removeAll rid (ts_inside s)\<rparr>)"

definition throttle_start :: throttled_server where
  "throttle_start = \<lparr>ts_counters = \<lparr>nreq = 0, nblocked = 0\<rparr>, ts_inside = [], ts_refused = 0\<rparr>"

inductive throttle_reachable :: "int \<Rightarrow> throttled_server \<Rightarrow> bool" for quota where
  start: "throttle_reachable quota throttle_start"
| step: "throttle_reachable quota s \<Longrightarrow> throttle_step quota s s' \<Longrightarrow> throttle_reachable quota s'"

inductive_simps throttle_step_iff: "throttle_step quota s s'"


section \<open>The views of permissions\<close>

text \<open>For every resource the dictionary \<open>{action: True}\<close> of its granted actions, as a map.\<close>

type_synonym ui_permissions = "(string, (string, string \<rightharpoonup> bool) dict) dict"

definition transform_permissions :: "permission_set \<Rightarrow> ui_permissions" where
  "transform_permissions ps =
     [(''permissions'', map (\<lambda>(resource, action_list).
         (resource, \<lambda>action. if action \<in> action_list then Some True else None)) ps)]"

definition current_permissions_get :: "session \<Rightarrow> ui_permissions" where
  "current_permissions_get s = transform_permissions (session_permissions s)"

text \<open>The view of another user's permissions reads \<open>localuser['roles']\<close>; only a missing user is
  caught. The roles are passed on as the items of whatever is iterable there.\<close>

fun role_items :: "pyval list \<Rightarrow> exn + string list" where
  "role_items [] = Inr []"
| "role_items (PStr r # vs) = bind_sum (role_items vs) (\<lambda>rs. Inr (r # rs))"
| "role_items (_ # vs) = Inl TypeError"

definition roles_of_value :: "pyval \<Rightarrow> exn + string list" where
  "roles_of_value v = (case v of PList vs \<Rightarrow> role_items vs | PStr s \<Rightarrow> Inr (map (\<lambda>c. [c]) s) | _ \<Rightarrow> Inl TypeError)"

definition user_permissions_get ::
  "'db users_env \<Rightarrow> role_manager \<Rightarrow> string \<Rightarrow> ('db, exn, ui_permissions) act" where
  "user_permissions_get E RM uid =
     bind_act
       (catch_act
          (bind_act (get_user E uid) (\<lambda>localuser.
             case dict_get localuser ''roles'' of None \<Rightarrow> throw KeyError | Some roles \<Rightarrow> ret roles))
          (\<lambda>e. if is_csm CsmNotFoundError e
               then throw (mk_csm CsmNotFoundError CSM_INTERNAL_ERROR (Some ''There is no such user'')
                             (Some ''users_not_found'') (Some uid))
               else throw e))
       (\<lambda>roles. bind_act (of_sum (roles_of_value roles)) (\<lambda>rs.
          ret (transform_permissions (get_permissions RM rs))))"


section \<open>The views of users\<close>

text \<open>\<open>DELETE\<close>: the user, and then the sessions of the id given in the path.\<close>

definition users_delete ::
  "'db users_env \<Rightarrow> 'st backend \<Rightarrow> string \<Rightarrow> session \<Rightarrow> (('db, 'st) csm_state, exn, json_dict) act" where
  "users_delete E B uid request_session =
     bind_act (on_users (delete_user E uid (session_user request_session))) (\<lambda>resp.
     bind_act (on_sessions (delete_all_sessions_for_user B uid)) (\<lambda>_. ret resp))"

text \<open>\<open>PATCH\<close>: what the schema's hooks add to the field checks of marshmallow. A body is the decoded
  dictionary, the fields that passed the checks, and their printed form; whether the schema object
  has an attribute \<open>current_password\<close>, which a debug message reads, is up to marshmallow.\<close>

datatype patch_request = PatchNotJson | PatchInvalid string | PatchBody json_dict user_patch string

definition patch_field_count :: "user_patch \<Rightarrow> nat" where
  "patch_field_count p =
     (if p_password p \<noteq> None then 1 else 0) + (if p_current_password p \<noteq> None then 1 else 0)
     + (if p_user_role p \<noteq> None then 1 else 0) + (if p_email_address p \<noteq> None then 1 else 0)
     + (if p_reset_password p \<noteq> None then 1 else 0)"

definition users_patch ::
  "'db users_env \<Rightarrow> exn option \<Rightarrow> datetime \<Rightarrow> string \<Rightarrow> string \<Rightarrow> session \<Rightarrow> patch_request
     \<Rightarrow> ('db, exn, json_dict) act" where
  "users_patch E attr_error now salt uid request_session req =
     (case req of
        PatchNotJson \<Rightarrow> throw (invalid_request JSON_ERROR)
      | PatchInvalid msg \<Rightarrow> throw (invalid_request (''Invalid request body: '' @ msg))
      | PatchBody data p printed \<Rightarrow>
          if ''username'' \<in> set (dict_keys data) then throw (invalid_request ''username cannot be modified'')
          else if patch_field_count p = 0 then throw (invalid_request ''Insufficient information in request body'')
          else if patch_field_count p = 1 \<and> p_current_password p \<noteq> None
          then (case attr_error of
                  Some e \<Rightarrow> throw e
                | None \<Rightarrow> throw (invalid_request (''Insufficient information in request body '' @ printed)))
          else update_user E now salt uid p (session_user request_session))"

end
