(* ===== verification/Api_Correct.thy ===== *)
theory Api_Correct
  imports Api
begin

text \<open>
  Correctness of the REST front end: who gets to a handler, how exceptions become responses, the
  bound of the throttler, and the token in the header.
\<close>

section \<open>Access control\<close>

lemma extract_bearer_error: "extract_bearer hs = Inl e \<Longrightarrow> is_csm CsmNotFoundError e"
  by (auto simp: extract_bearer_def not_found_error_def mk_error_defs is_subclass_of_def
      split: option.splits if_splits list.splits)

lemma verdict_iff:
  "perm_ok held \<Longrightarrow> perm_ok required \<Longrightarrow>
     perm_eq (perm_and held required) required \<longleftrightarrow> grants required \<subseteq> grants held"
  by (rule por.meet_eq_subset)

text \<open>The request behind a bearer token whose session is in the store.\<close>

lemma guarded_token:
  assumes "request_is_public A rq = Inr False" and "extract_bearer (rq_headers rq) = Inr sid"
  shows "guarded A B C now rq h q =
    (case auth_session B C now sid q of
       (Inl e, q') \<Rightarrow> (Inl (case e of Csm _ \<Rightarrow> unauthorised | _ \<Rightarrow> e), q')
     | (Inr s, q') \<Rightarrow> permission_middleware A rq h (Some s) q')"
proof -
  obtain r q' where run: "auth_session B C now sid q = (r, q')" by (cases "auth_session B C now sid q")
  show ?thesis
  proof (cases r)
    case (Inl e)
    with run assms show ?thesis
      by (cases e) (auto simp: guarded_def session_middleware_def validate_bearer_def act_simps
          not_found_error_def mk_error_defs is_subclass_of_def is_csm_def)
  next
    case (Inr s)
    with run assms show ?thesis
      by (simp add: guarded_def session_middleware_def validate_bearer_def act_simps)
  qed
qed

lemma permission_middleware_Some:
  assumes "perm_ok (session_permissions s)" and "perm_ok (required_permissions A rq)"
  shows "permission_middleware A rq h (Some s) =
    (if grants (required_permissions A rq) \<subseteq> grants (session_permissions s) then h (Some s) else throw permission_denied)"
  using verdict_iff [OF assms] by (simp add: permission_middleware_def Let_def)

lemma guarded_live_session:
  assumes "request_is_public A rq = Inr False" and "extract_bearer (rq_headers rq) = Inr sid"
    and "auth_session in_memory C now sid q = (Inr s, q')"
    and "perm_ok (session_permissions s)" and "perm_ok (required_permissions A rq)"
  shows "guarded A in_memory C now rq h q =
    (if grants (required_permissions A rq) \<subseteq> grants (session_permissions s)
     then h (Some s) q' else (Inl permission_denied, q'))"
  using guarded_token [OF assms(1,2), of in_memory C now h q] assms(3)
    permission_middleware_Some [OF assms(4,5), of h]
  by (simp add: throw_app)



text \<open>Nobody is logged in, and the view of users is asked for with a made up token.\<close>

definition users_handler :: handler_info where
  "users_handler =
     \<lparr>h_attrs = \<lparr>at_public = False, at_hybrid = False, at_permissions = None\<rparr>, h_is_view = True,
      h_methods = [(''get'', \<lparr>at_public = False, at_hybrid = False,
                              at_permissions = Some (mk_permission_set (Some [(''users'', [''list''])]))\<rparr>)]\<rparr>"

text \<open>Loading through the schema: the three fields must be there and not null, others are left out.\<close>

definition load_error_schema :: "json_dict \<Rightarrow> string + json_dict" where
  "load_error_schema d =
     (case (dict_get d ''error_code'', dict_get d ''message'', dict_get d ''message_id'') of
        (Some (PInt c), Some (PStr m), Some (PStr i)) \<Rightarrow>
          Inr [(''error_code'', PInt c), (''message_id'', PStr i), (''message'', PStr m)]
      | _ \<Rightarrow> Inl ''Missing data for required field.'')"

definition sample_env :: api_env where
  "sample_env =
     \<lparr>ae_resolve = (\<lambda>m p. users_handler), ae_conf = (\<lambda>k. None), ae_error = err_desc, ae_message_id = err_message_id,
      ae_message_args = err_message_args, ae_str = (\<lambda>e. ''error''), ae_traceback = [],
      ae_schema_load = load_error_schema\<rparr>"

definition users_request :: request where
  "users_request = \<lparr>rq_method = ''GET'', rq_path = ''/api/v2/system/users'', rq_query = [],
     rq_headers = [(''authorization'', ''Bearer abc'')], rq_body = NoBody\<rparr>"

lemmas sample_defs = sample_env_def users_request_def users_handler_def request_is_public_def is_hybrid_def
  view_is_hybrid_def get_method_handler_def lower_def lower_char_def Let_def resolve_handler_def is_public_def
  SWAGGER_UI_URL_def SWAGGER_UI_STATICS_URL_def view_is_public_def auth_is_public_def auth_is_hybrid_def
  required_permissions_def view_get_permissions_def auth_get_permissions_def char_of_def bit_0



section \<open>Exceptions and responses\<close>

lemma csm_status: "\<exists>n. status_of (Csm r) = Some n"
  by (simp add: status_of_def)

text \<open>
  The status for every class of CSM error: no \<open>except\<close> clause hides a later one, the classes
  derived from \<open>CsmInternalError\<close> are 500 as well, and all classes without a clause of their own,
  \<open>CsmServiceNotAvailable\<close> among them, are reported as 400.
\<close>

theorem csm_error_status:
  "status_of (Csm r) = Some (case err_class r of
       InvalidRequest \<Rightarrow> 400 | CsmNotFoundError \<Rightarrow> 404 | CsmPermissionDenied \<Rightarrow> 403 | ResourceExist \<Rightarrow> 409
     | CsmInternalError \<Rightarrow> 500 | CsmResourceNotAvailable \<Rightarrow> 500 | CsmTypeError \<Rightarrow> 500
     | CsmNotImplemented \<Rightarrow> 501 | CsmGatewayTimeout \<Rightarrow> 504 | CsmServiceConflict \<Rightarrow> 409
     | CsmUnauthorizedError \<Rightarrow> 401
     | CsmServiceNotAvailable \<Rightarrow> 400 | CsmSetupError \<Rightarrow> 400 | CsmRequestCancelled \<Rightarrow> 400 | CsmError \<Rightarrow> 400)"
  by (cases "err_class r") (simp_all add: status_of_def is_subclass_of_def)

text \<open>
  C40. What an exception of a handler becomes: a CSM HTTP exception passes through; an error whose
  response the schema accepts becomes a JSON reply with the status of its class; and when the schema
  rejects the response the middleware itself fails with \<open>UnboundLocalError\<close>. Under a schema that leaves
  unknown fields out and rejects a null message id (as marshmallow documents for \<open>unknown='EXCLUDE'\<close>
  and for a required string), the reply has none but the three declared fields, so that neither
  \<open>error_format_args\<close> nor the stack trace of debug mode reach the client, and every CSM error without a
  message id ends in the \<open>UnboundLocalError\<close>.
\<close>

theorem handler_error_reply:
  assumes "\<forall>d r. ae_schema_load A d = Inr r \<longrightarrow> set (dict_keys r) \<subseteq> {''error_code'', ''message'', ''message_id''}"
    and "\<forall>d. dict_get d ''message_id'' = Some PNone \<longrightarrow> isl (ae_schema_load A d)"
    and "logged_body rq = Inr body" and "handler s = (Inl e, t)"
  shows "rest_middleware A False rq handler s =
      (case status_of e of
         None \<Rightarrow> (Inl e, t)
       | Some status \<Rightarrow>
           (case ae_schema_load A (error_fields A rq (reported e)) of
              Inl x \<Rightarrow> (Inl UnboundLocalError, t)
            | Inr resp \<Rightarrow> (Inr (RJson (PDict (map (\<lambda>(k, v). (PStr k, v)) resp)) status), t)))
     \<and> (\<forall>obj status t'. rest_middleware A False rq handler s = (Inr (RJson (PDict obj) status), t')
           \<longrightarrow> fst ` set obj \<subseteq> {PStr ''error_code'', PStr ''message'', PStr ''message_id''})
     \<and> (\<forall>r. e = Csm r \<and> ae_message_id A r = None \<longrightarrow> rest_middleware A False rq handler s = (Inl UnboundLocalError, t))"
    (is "?run = ?out \<and> ?fields \<and> ?noid")
proof (intro conjI)
  show run: "?run = ?out"
    using assms(3,4)
    by (auto simp: rest_middleware_def error_response_def act_simps split: option.splits sum.splits)
  show ?fields
  proof (intro allI impI)
    fix obj status t'
    assume "?run = (Inr (RJson (PDict obj) status), t')"
    with run obtain resp where load: "ae_schema_load A (error_fields A rq (reported e)) = Inr resp"
      and obj: "obj = map (\<lambda>(k, v). (PStr k, v)) resp" by (auto split: option.splits sum.splits)
    from load assms(1) have "set (dict_keys resp) \<subseteq> {''error_code'', ''message'', ''message_id''}" by blast
    with obj show "fst ` set obj \<subseteq> {PStr ''error_code'', PStr ''message'', PStr ''message_id''}"
      by force
  qed
  show ?noid
  proof (intro allI impI)
    fix r
    assume e: "e = Csm r \<and> ae_message_id A r = None"
    then have "dict_get (error_fields A rq (reported e)) ''message_id'' = Some PNone"
      by (simp add: error_fields_def opt_str_def reported_def)
    with assms(2) have "isl (ae_schema_load A (error_fields A rq (reported e)))" by blast
    with e run show "?run = (Inl UnboundLocalError, t)" using csm_status [of r] by (auto simp: isl_def)
  qed
qed


text \<open>A plain CSM error, as \<open>auth_session\<close> raises it, has no message id.\<close>

theorem handler_error_reply_witness:
  "rest_middleware sample_env False users_request (throw (mk_CsmError CSM_ERR_INVALID_VALUE (Some ''bad''))) ()
     = (Inl UnboundLocalError, ())"
proof -
  let ?e = "mk_CsmError CSM_ERR_INVALID_VALUE (Some ''bad'')"
  have 1: "\<forall>d r. ae_schema_load sample_env d = Inr r \<longrightarrow> set (dict_keys r) \<subseteq> {''error_code'', ''message'', ''message_id''}"
    by (auto simp: sample_env_def load_error_schema_def split: option.splits pyval.splits)
  have 2: "\<forall>d. dict_get d ''message_id'' = Some PNone \<longrightarrow> isl (ae_schema_load sample_env d)"
    by (auto simp: sample_env_def load_error_schema_def split: option.splits pyval.splits)
  have 3: "logged_body users_request = Inr (PDict [])"
    by (simp add: logged_body_def users_request_def)
  have 4: "throw ?e () = (Inl ?e, ())" by (rule throw_app)
  from handler_error_reply [where handler = "throw ?e", OF 1 2 3 4, THEN conjunct2, THEN conjunct2]
  show ?thesis by (simp add: mk_error_defs sample_env_def)
qed

text \<open>
  A request without query whose JSON body is neither a dictionary nor empty never gets to its
  handler: stripping the secrets asks the body for its keys, and the request is answered with 500 (or
  leaves the middleware when the error response itself is rejected), whatever the handler is.
\<close>

theorem non_object_body:
  assumes "rq_query rq = []" and "rq_body rq = JsonBody v" and "truthy v" and "\<forall>d. v \<noteq> PDict d"
  shows "rest_middleware A False rq handler s =
    (case error_response A rq AttributeError of
       Inl x \<Rightarrow> (Inl x, s)
     | Inr resp \<Rightarrow> (Inr (RJson (PDict (map (\<lambda>(k, v). (PStr k, v)) resp)) 500), s))"
proof -
  have "logged_body rq = Inl AttributeError"
    using assms by (cases v) (simp_all add: logged_body_def sanitize_body_def)
  then show ?thesis
    by (auto simp: rest_middleware_def act_simps status_of_def reported_def split: sum.splits)
qed

theorem non_object_body_witness:
  "fst (rest_middleware sample_env False (users_request\<lparr>rq_body := JsonBody (PList [PInt 1])\<rparr>) (ret (HObject PNone)) ())
     = Inr (RJson (PDict [(PStr ''error_code'', PInt 0x1010), (PStr ''message_id'', PStr ''UnknownError''),
                          (PStr ''message'', PStr ''error'')]) 500)"
  by (subst non_object_body [where v = "PList [PInt 1]"])
     (simp_all add: users_request_def error_response_def error_fields_def sample_env_def load_error_schema_def
       is_debug_def CSM_UNKNOWN_ERROR_def)


section \<open>The throttler\<close>

lemma length_removeAll_distinct: "distinct xs \<Longrightarrow> x \<in> set xs \<Longrightarrow> Suc (length (removeAll x xs)) = length xs"
  by (induction xs) (auto simp: removeAll_id)

lemma throttle_invariant:
  assumes "throttle_reachable quota s" and "quota \<ge> 0"
  shows "distinct (ts_inside s) \<and> nreq (ts_counters s) = int (length (ts_inside s))
     \<and> nreq (ts_counters s) \<le> quota \<and> nblocked (ts_counters s) = int (ts_refused s)"
  using assms(1)
proof (induction rule: throttle_reachable.induct)
  case start
  with assms(2) show ?case by (simp add: throttle_start_def)
next
  case (step s s')
  from step.hyps(2) step.IH show ?case
  proof (induction rule: throttle_step.induct)
    case (leave rid s)
    then show ?case using length_removeAll_distinct [of "ts_inside s" rid]
      by (auto simp: throttler_exit_def distinct_removeAll)
  qed (auto simp: throttler_enter_def split: if_splits)
qed

text \<open>
  C31. The throttler counts right under concurrency: in every state that arriving, refused and
  finished requests can lead to, the counter is the number of requests inside, it is between 0 and
  the quota, and the other counter is the number of requests refused.
\<close>

theorem throttle_bound:
  assumes "throttle_reachable quota s" and "quota \<ge> 0"
  shows "nreq (ts_counters s) = int (length (ts_inside s)) \<and> 0 \<le> nreq (ts_counters s)
     \<and> nreq (ts_counters s) \<le> quota \<and> nblocked (ts_counters s) = int (ts_refused s)"
  using throttle_invariant [OF assms] by simp

theorem throttle_bound_witness:
  "nreq (ts_counters (throttle_start\<lparr>ts_counters := \<lparr>nreq = 1, nblocked = 0\<rparr>, ts_inside := [7]\<rparr>)) \<le> 1"
proof -
  have "throttle_step 1 throttle_start (throttle_start\<lparr>ts_counters := \<lparr>nreq = 1, nblocked = 0\<rparr>, ts_inside := 7 # ts_inside throttle_start\<rparr>)"
    by (rule throttle_step.arrive) (simp_all add: throttle_start_def throttler_enter_def)
  then have "throttle_reachable 1 (throttle_start\<lparr>ts_counters := \<lparr>nreq = 1, nblocked = 0\<rparr>, ts_inside := [7]\<rparr>)"
    using throttle_reachable.step [OF throttle_reachable.start] by (simp add: throttle_start_def)
  from throttle_bound [OF this] show ?thesis by simp
qed


section \<open>The token in the header\<close>

text \<open>
  The header a successful login sends is what the session middleware accepts: a token without
  spaces, put into the header by the login view, is what \<open>_extract_bearer\<close> reads from it, in whatever
  case the client writes the header's name.
\<close>

theorem bearer_round_trip:
  assumes "login E RM B C now sid username password c = (Inr (Some (token, reset)), c')"
    and "token \<noteq> []" and "CHR '' '' \<notin> set token" and "lower name = lower HDR"
  shows "\<exists>resp. login_post E RM B C now sid (LoginRequest username password) c = (Inr resp, c')
     \<and> extract_bearer (map (\<lambda>(k, v). (name, v)) (rsp_headers resp)) = Inr token"
proof -
  have "split_on (CHR '' '') (''Bearer'' @ CHR '' '' # token) = [''Bearer'', token]"
    using assms(3) by (subst split_on_append) (simp_all add: split_on_none)
  then have "extract_bearer [(name, ''Bearer '' @ token)] = Inr token"
    using assms(4) by (simp add: extract_bearer_def headers_get_def AUTH_TYPE_def)
  with assms(1,2) show ?thesis by (simp add: login_post_def act_simps)
qed

theorem bearer_round_trip_witness:
  "\<exists>resp c'. login_post (outage_env 10) two_roles in_memory quota_one 5 ''t1'' (LoginRequest ''alice'' ''secret'') start_state
       = (Inr resp, c')
     \<and> extract_bearer (map (\<lambda>(k, v). (''authorization'', v)) (rsp_headers resp)) = Inr ''t1''"
proof -
  obtain c' where run: "login (outage_env 10) two_roles in_memory quota_one 5 ''t1'' ''alice'' ''secret'' start_state
      = (Inr (Some (''t1'', Some False)), c')" using alice_login by blast
  have "lower ''authorization'' = lower HDR"
    by (simp add: HDR_def lower_def lower_char_def Let_def char_of_def bit_0)
  from bearer_round_trip [OF run _ _ this] show ?thesis by auto
qed


section \<open>The view of a user's permissions\<close>

text \<open>
  The permissions of another user are never delivered: the view reads the key \<open>roles\<close> of the
  user's description, which has only \<open>role\<close>. So for every user that exists the request ends in a
  \<open>KeyError\<close> (status 422).
\<close>

theorem user_permissions_unavailable:
  assumes "get_user E uid d = (Inr localuser, d')"
  shows "user_permissions_get E RM uid d = (Inl KeyError, d') \<and> status_of KeyError = Some 422"
proof -
  from assms obtain u where "localuser = user_to_dict u"
    by (auto simp: get_user_def act_simps split: prod.splits sum.splits option.splits)
  then have "dict_get localuser ''roles'' = None" by (simp add: user_to_dict_def)
  with assms show ?thesis by (simp add: user_permissions_get_def act_simps is_csm_def status_of_def)
qed

theorem user_permissions_unavailable_witness:
  "fst (user_permissions_get (outage_env 10) two_roles ''alice'' two_admins) = Inl KeyError"
proof -
  have "get_user (outage_env 10) ''alice'' two_admins = (Inr (user_to_dict (some_user ''alice'' ''admin'')), two_admins)"
    by (simp add: get_user_def bind_act_def two_admins_def calm_calls some_user_def ret_app)
  from user_permissions_unavailable [OF this] show ?thesis by simp
qed

end
