(* ===== verification/Swagger.thy ===== *)
theory Swagger
  imports Api
begin

text \<open>
  The API documentation page: the browser script \<^verbatim>\<open>templates/swagger-ui/swagger-ui-onload.js\<close> and
  the routes it relies on (\<^verbatim>\<open>csm/core/routes.py\<close>). \<open>SwaggerUIBundle\<close> and the standalone preset are
  the vendored bundle: parameters of the script. All strings here are ASCII.
\<close>

section \<open>The script\<close>

text \<open>The object literal passed to \<open>SwaggerUIBundle\<close>; a null \<open>validatorUrl\<close> is \<open>None\<close>.\<close>

record ('preset, 'plugin) swagger_config =
  sc_url :: string
  sc_dom_id :: string
  sc_validatorUrl :: "string option"
  sc_deepLinking :: bool
  sc_presets :: "'preset list"
  sc_plugins :: "'plugin list"
  sc_layout :: string

text \<open>The globals the bundle and the preset define; the constructor may raise.\<close>

record ('preset, 'plugin, 'ui, 'e) swagger_globals =
  sg_bundle :: "('preset, 'plugin) swagger_config \<Rightarrow> 'e + 'ui"
  sg_presets_apis :: 'preset
  sg_plugins_DownloadUrl :: 'plugin
  sg_StandalonePreset :: 'preset

text \<open>The part of \<open>window\<close> the script touches.\<close>

record 'ui window =
  win_onload_set :: bool
  win_ui :: "'ui option"

definition onload_config :: "('preset, 'plugin, 'ui, 'e) swagger_globals \<Rightarrow> ('preset, 'plugin) swagger_config" where
  "onload_config G =
     \<lparr>sc_url = ''static/swagger.json'', sc_dom_id = ''#swagger-ui'', sc_validatorUrl = None,
      sc_deepLinking = True, sc_presets = [sg_presets_apis G, sg_StandalonePreset G],
      sc_plugins = [sg_plugins_DownloadUrl G], sc_layout = ''StandaloneLayout''\<rparr>"

definition onload_handler :: "('preset, 'plugin, 'ui, 'e) swagger_globals \<Rightarrow> ('ui window, 'e, unit) act" where
  "onload_handler G =
     bind_act (of_sum (sg_bundle G (onload_config G))) (\<lambda>ui.
     modify_act (\<lambda>w. w\<lparr>win_ui := Some ui\<rparr>))"

text \<open>Running the script installs the handler; the load event runs it once it is installed.\<close>

definition run_script :: "('ui window, 'e, unit) act" where
  "run_script = modify_act (\<lambda>w. w\<lparr>win_onload_set := True\<rparr>)"

definition load_event :: "('preset, 'plugin, 'ui, 'e) swagger_globals \<Rightarrow> ('ui window, 'e, unit) act" where
  "load_event G = bind_act (gets win_onload_set) (\<lambda>set. if set then onload_handler G else ret ())"


section \<open>The routes\<close>

definition SWAGGER_UI_DIST :: "string \<Rightarrow> string" where
  "SWAGGER_UI_DIST csm_path = csm_path @ ''/templates/swagger-ui''"

definition SWAGGER_UI_INDEX_HTML :: "string \<Rightarrow> string" where
  "SWAGGER_UI_INDEX_HTML csm_path = SWAGGER_UI_DIST csm_path @ ''/index.html''"

definition SWAGGER_JSON :: "string \<Rightarrow> string" where
  "SWAGGER_JSON csm_path = SWAGGER_UI_DIST csm_path @ ''/swagger.json''"

text \<open>What the handlers and the static route deliver: the content of a file, under a content type.\<close>

datatype route =
    WebSocketRoute string
  | FileRoute string string string
  | StaticRoute string string

definition serve_swagger_ui :: "string \<Rightarrow> string \<times> string" where
  "serve_swagger_ui csm_path = (SWAGGER_UI_INDEX_HTML csm_path, ''text/html'')"

definition serve_swagger_json :: "string \<Rightarrow> string \<times> string" where
  "serve_swagger_json csm_path = (SWAGGER_JSON csm_path, ''application/json'')"

definition add_websocket_routes :: "route list \<Rightarrow> route list" where
  "add_websocket_routes router = router @ [WebSocketRoute ''/ws'']"

definition add_swagger_ui_routes :: "string \<Rightarrow> route list \<Rightarrow> route list" where
  "add_swagger_ui_routes csm_path router =
     router @ [FileRoute SWAGGER_UI_URL (fst (serve_swagger_ui csm_path)) (snd (serve_swagger_ui csm_path)),
               FileRoute SWAGGER_JSON_URL (fst (serve_swagger_json csm_path)) (snd (serve_swagger_json csm_path)),
               StaticRoute SWAGGER_UI_STATICS_URL (SWAGGER_UI_DIST csm_path)]"

text \<open>The file a GET of a path is answered with: a plain route matches its path, a static route the
  paths below its prefix.\<close>

fun route_file :: "string \<Rightarrow> route \<Rightarrow> string option" where
  "route_file path (WebSocketRoute p) = None"
| "route_file path (FileRoute p file ctype) = (if path = p then Some file else None)"
| "route_file path (StaticRoute pre dir) =
     (if prefix (pre @ ''/'') path then Some (dir @ drop (length pre) path) else None)"

fun served_file :: "string \<Rightarrow> route list \<Rightarrow> string option" where
  "served_file path [] = None"
| "served_file path (r # rs) = (case route_file path r of Some f \<Rightarrow> Some f | None \<Rightarrow> served_file path rs)"

text \<open>Resolution of a relative reference without dot segments against the path of the page: what
  follows the last slash is replaced.\<close>

definition resolve_relative :: "string \<Rightarrow> string \<Rightarrow> string" where
  "resolve_relative base ref = rev (dropWhile (\<lambda>c. c \<noteq> CHR ''/'') (rev base)) @ ref"


section \<open>Properties\<close>

text \<open>
  C32. The page under the documentation URL finds its description. The script, once loaded, leaves the
  object the bundle built in \<open>window.ui\<close>; the address it asked the bundle to read resolves, against the
  URL of the page, to a path the static route answers with the same file that the JSON route serves;
  and that path needs no session.
\<close>

theorem swagger_page_finds_spec:
  fixes G :: "('preset, 'plugin, 'ui, 'e) swagger_globals"
  assumes "sg_bundle G (onload_config G) = Inr ui"
    and "rq_path rq = resolve_relative SWAGGER_UI_URL (sc_url (onload_config G))"
  shows "win_ui (snd (bind_act run_script (\<lambda>_. load_event G) w)) = Some ui
     \<and> served_file (rq_path rq) (add_swagger_ui_routes csm_path []) = Some (SWAGGER_JSON csm_path)
     \<and> served_file SWAGGER_JSON_URL (add_swagger_ui_routes csm_path []) = Some (SWAGGER_JSON csm_path)
     \<and> is_public A rq"
proof -
  have path: "rq_path rq = ''/api/static/swagger.json''"
    using assms(2) by (simp add: resolve_relative_def SWAGGER_UI_URL_def onload_config_def)
  have "win_ui (snd (bind_act run_script (\<lambda>_. load_event G) w)) = Some ui"
    using assms(1) by (simp add: run_script_def load_event_def onload_handler_def act_simps)
  moreover have "served_file (rq_path rq) (add_swagger_ui_routes csm_path []) = Some (SWAGGER_JSON csm_path)"
    "served_file SWAGGER_JSON_URL (add_swagger_ui_routes csm_path []) = Some (SWAGGER_JSON csm_path)"
    unfolding path
    by (simp_all add: add_swagger_ui_routes_def serve_swagger_ui_def serve_swagger_json_def SWAGGER_UI_URL_def
        SWAGGER_JSON_URL_def SWAGGER_UI_STATICS_URL_def SWAGGER_JSON_def)
  moreover have "is_public A rq"
    by (simp add: is_public_def path SWAGGER_UI_STATICS_URL_def)
  ultimately show ?thesis by blast
qed

definition sample_globals :: "(string, string, string, unit) swagger_globals" where
  "sample_globals = \<lparr>sg_bundle = (\<lambda>c. Inr (sc_layout c)), sg_presets_apis = ''apis'',
     sg_plugins_DownloadUrl = ''DownloadUrl'', sg_StandalonePreset = ''standalone''\<rparr>"

theorem swagger_page_finds_spec_witness:
  "served_file ''/api/static/swagger.json'' (add_swagger_ui_routes ''/opt/seagate/cortx/csm'' [])
     = Some ''/opt/seagate/cortx/csm/templates/swagger-ui/swagger.json''"
proof -
  let ?rq = "\<lparr>rq_method = ''GET'', rq_path = ''/api/static/swagger.json'', rq_query = [], rq_headers = [],
     rq_body = NoBody\<rparr>"
  have "sg_bundle sample_globals (onload_config sample_globals) = Inr ''StandaloneLayout''"
    by (simp add: sample_globals_def onload_config_def)
  moreover have "rq_path ?rq = resolve_relative SWAGGER_UI_URL (sc_url (onload_config sample_globals))"
    by (simp add: resolve_relative_def SWAGGER_UI_URL_def onload_config_def)
  ultimately show ?thesis
    using swagger_page_finds_spec [of sample_globals "''StandaloneLayout''" ?rq] by (simp add: SWAGGER_JSON_def SWAGGER_UI_DIST_def)
qed

text \<open>
  What loading the page does to \<open>window\<close>, on every branch: the object the bundle returns is kept,
  an exception of the bundle ends the handler with \<open>window.ui\<close> as it was, and a load event that fires
  before the script has run does nothing.
\<close>

theorem swagger_load_outcome:
  "bind_act run_script (\<lambda>_. load_event G) w =
     (case sg_bundle G (onload_config G) of
        Inl e \<Rightarrow> (Inl e, w\<lparr>win_onload_set := True\<rparr>)
      | Inr ui \<Rightarrow> (Inr (), w\<lparr>win_onload_set := True, win_ui := Some ui\<rparr>))
   \<and> load_event G (w\<lparr>win_onload_set := False\<rparr>) = (Inr (), w\<lparr>win_onload_set := False\<rparr>)"
  by (simp add: load_event_def run_script_def onload_handler_def act_simps split: sum.split)

end
