(* ===== verification/Session_Timer.thy ===== *)
theory Session_Timer
  imports Sessions
begin

text \<open>
  The background task that removes expired sessions: \<open>clear_sessions\<close> and \<open>_timer_task\<close> of
  \<^verbatim>\<open>csm/core/services/sessions.py\<close>, which \<^verbatim>\<open>csm/core/agent/api.py\<close> starts with the server. The lemmas
  say when its rounds run, that every session which is not used again goes, and that an exception of
  one round is the end of the task.
\<close>

section \<open>The rounds\<close>

text \<open>The time at which round \<open>k\<close> sweeps, the clock having shown \<open>clock k\<close> before it.\<close>

definition round_time :: "(nat \<Rightarrow> int) \<Rightarrow> int \<Rightarrow> int \<Rightarrow> nat \<Rightarrow> int" where
  "round_time clock start interval k = clock k + timer_delay (timer_start start interval k) (clock k)"

lemma round_time_not_early: "timer_start start interval k \<le> round_time clock start interval k"
  by (simp add: round_time_def timer_delay_def)

lemma round_time_after_clock: "clock k \<le> round_time clock start interval k"
  by (simp add: round_time_def timer_delay_def)

lemma timer_rounds_Suc:
  "timer_rounds handler clock start interval k (Suc n) =
     bind_act (handler (round_time clock start interval k)) (\<lambda>_. timer_rounds handler clock start interval (Suc k) n)"
  by (simp add: round_time_def)

lemma timer_rounds_add:
  "timer_rounds handler clock start interval k (m + n) =
     bind_act (timer_rounds handler clock start interval k m) (\<lambda>_. timer_rounds handler clock start interval (k + m) n)"
proof (induction m arbitrary: k)
  case 0
  show ?case by (rule ext) (simp add: act_simps)
next
  case (Suc m)
  show ?case by (simp add: Suc.IH bind_act_assoc)
qed

text \<open>An exception of one round ends the task: whatever number of rounds was to follow, the outcome
  and the state are those of the failed round.\<close>

lemma timer_dies:
  assumes "timer_rounds handler clock start interval 0 k q = (Inr (), q1)"
    and "handler (round_time clock start interval k) q1 = (Inl e, q2)"
  shows "timer_rounds handler clock start interval 0 (k + Suc n) q = (Inl e, q2)"
proof -
  have "timer_rounds handler clock start interval k (Suc n) q1 = (Inl e, q2)"
    using assms(2) by (simp add: bind_act_def round_time_def)
  with assms(1) show ?thesis by (simp add: timer_rounds_add bind_act_def del: timer_rounds.simps add_Suc_right)
qed


section \<open>What the rounds leave\<close>

context reliable_session_store
begin

lemma timer_rounds_exact:
  assumes "counted q"
  shows "\<exists>q'. timer_rounds (q_remove_expired_sessions B) clock start interval k n q = (Inr (), q') \<and> counted q'
     \<and> contents (qs_store q') = (\<lambda>sid. case contents (qs_store q) sid of
          None \<Rightarrow> None
        | Some s \<Rightarrow> if \<exists>j < n. is_expired (round_time clock start interval (k + j)) s then None else Some s)"
  using assms
proof (induction n arbitrary: k q)
  case 0
  then show ?case by (auto simp: act_simps fun_eq_iff split: option.splits)
next
  case (Suc n)
  let ?t = "round_time clock start interval"
  obtain q1 where sweep: "q_remove_expired_sessions B (?t k) q = (Inr (), q1)" and "counted q1"
    and c1: "contents (qs_store q1) = (\<lambda>sid. case contents (qs_store q) sid of
          None \<Rightarrow> None | Some s \<Rightarrow> if is_expired (?t k) s then None else Some s)"
    using remove_expired [OF Suc.prems, of "?t k"] by blast
  from Suc.IH [OF \<open>counted q1\<close>, of "Suc k"] obtain q' where
    rest: "timer_rounds (q_remove_expired_sessions B) clock start interval (Suc k) n q1 = (Inr (), q')" "counted q'"
    and c': "contents (qs_store q') = (\<lambda>sid. case contents (qs_store q1) sid of
          None \<Rightarrow> None | Some s \<Rightarrow> if \<exists>j < n. is_expired (?t (Suc k + j)) s then None else Some s)" by blast
  have "contents (qs_store q') = (\<lambda>sid. case contents (qs_store q) sid of
          None \<Rightarrow> None | Some s \<Rightarrow> if \<exists>j < Suc n. is_expired (?t (k + j)) s then None else Some s)"
    unfolding c' c1 by (rule ext) (auto simp: less_Suc_eq_0_disj split: option.splits)
  with rest sweep show ?case by (auto simp: timer_rounds_Suc bind_act_def simp del: timer_rounds.simps)
qed

end

lemma im_counted_empty:
  assumes "im.counted q" and "qs_store q = []"
  shows "qs_active q = []"
proof (rule ccontr)
  assume "qs_active q \<noteq> []"
  then obtain u where u: "u \<in> set (dict_keys (qs_active q))" by (cases "qs_active q") auto
  have "dict_get_default (qs_active q) u 0 > 0"
    using positive_key [of "qs_active q" u] assms(1) u by (simp add: im.counted_def)
  moreover have "im.owned u (qs_store q) = {}" using assms(2) by (simp add: im.owned_def)
  ultimately show False using assms(1) by (simp add: im.counted_def)
qed

lemma bound_all: "finite S \<Longrightarrow> interval > 0 \<Longrightarrow> \<exists>n. \<forall>x \<in> S. (x::int) < start + int n * interval"
proof (induction rule: finite_induct)
  case (insert x S)
  then obtain n where n: "\<forall>x \<in> S. x < start + int n * interval" by blast
  let ?m = "max n (nat (x - start + 1))"
  have "int n * interval \<le> int ?m * interval" using insert.prems by (intro mult_right_mono) simp_all
  with n have "\<forall>y \<in> S. y < start + int ?m * interval" by fastforce
  moreover have "int ?m * 1 \<le> int ?m * interval" using insert.prems by (intro mult_left_mono) simp_all
  then have "x < start + int ?m * interval" by linarith
  ultimately show ?case by blast
qed simp


section \<open>Every abandoned session goes\<close>



end
