(* ===== verification/Pattern.thy ===== *)
theory Pattern
  imports Prelude
begin

text \<open>
  Regular expressions as the validators of \<^verbatim>\<open>csm/core/controllers/validators.py\<close> use them. A Python
  string is a list of code points. The patterns are all of the form \<open>^...$\<close> and only asked whether they
  match, so their meaning is a language (\<open>lang\<close>) and greediness does not matter; \<open>matches\<close> decides the
  language by derivatives. \<open>$\<close> matches at the end of the string and before a newline that ends it.
\<close>

type_synonym pystr = "nat list"

section \<open>Expressions and their languages\<close>

datatype rexp = Zero | One | Cls "nat \<Rightarrow> bool" | Alt rexp rexp | Seq rexp rexp | Star rexp

definition conc :: "pystr set \<Rightarrow> pystr set \<Rightarrow> pystr set" where
  "conc A B = {s. \<exists>u v. s = u @ v \<and> u \<in> A \<and> v \<in> B}"

inductive_set star :: "pystr set \<Rightarrow> pystr set" for A where
  star_Nil: "[] \<in> star A"
| star_step: "u \<in> A \<Longrightarrow> v \<in> star A \<Longrightarrow> u @ v \<in> star A"

fun lang :: "rexp \<Rightarrow> pystr set" where
  "lang Zero = {}"
| "lang One = {[]}"
| "lang (Cls P) = {s. \<exists>c. s = [c] \<and> P c}"
| "lang (Alt r q) = lang r \<union> lang q"
| "lang (Seq r q) = conc (lang r) (lang q)"
| "lang (Star r) = star (lang r)"

text \<open>The quantifiers \<open>?\<close>, \<open>+\<close>, \<open>{m,n}\<close> and literals.\<close>

definition opt :: "rexp \<Rightarrow> rexp" where
  "opt r = Alt One r"

definition one_or_more :: "rexp \<Rightarrow> rexp" where
  "one_or_more r = Seq r (Star r)"

fun exactly :: "nat \<Rightarrow> rexp \<Rightarrow> rexp" where
  "exactly 0 r = One"
| "exactly (Suc n) r = Seq r (exactly n r)"

fun up_to :: "nat \<Rightarrow> rexp \<Rightarrow> rexp" where
  "up_to 0 r = One"
| "up_to (Suc n) r = opt (Seq r (up_to n r))"

definition rep :: "nat \<Rightarrow> nat \<Rightarrow> rexp \<Rightarrow> rexp" where
  "rep m n r = Seq (exactly m r) (up_to (n - m) r)"

definition lit :: "char \<Rightarrow> rexp" where
  "lit c = Cls (\<lambda>x. x = of_char c)"


section \<open>The matcher\<close>

fun nullable :: "rexp \<Rightarrow> bool" where
  "nullable Zero = False"
| "nullable One = True"
| "nullable (Cls P) = False"
| "nullable (Alt r q) = (nullable r \<or> nullable q)"
| "nullable (Seq r q) = (nullable r \<and> nullable q)"
| "nullable (Star r) = True"

fun deriv :: "nat \<Rightarrow> rexp \<Rightarrow> rexp" where
  "deriv c Zero = Zero"
| "deriv c One = Zero"
| "deriv c (Cls P) = (if P c then One else Zero)"
| "deriv c (Alt r q) = Alt (deriv c r) (deriv c q)"
| "deriv c (Seq r q) = (let l = Seq (deriv c r) q in if nullable r then Alt l (deriv c q) else l)"
| "deriv c (Star r) = Seq (deriv c r) (Star r)"

fun matches :: "rexp \<Rightarrow> pystr \<Rightarrow> bool" where
  "matches r [] = nullable r"
| "matches r (c # s) = matches (deriv c r) s"

text \<open>\<open>re.search(r"^...$", s)\<close>\<close>

definition search_anchored :: "rexp \<Rightarrow> pystr \<Rightarrow> bool" where
  "search_anchored r s \<longleftrightarrow> matches r s \<or> (s \<noteq> [] \<and> last s = 10 \<and> matches r (butlast s))"

lemma Nil_conc [simp]: "[] \<in> conc A B \<longleftrightarrow> [] \<in> A \<and> [] \<in> B"
  by (auto simp: conc_def)

lemma nullable_iff: "nullable r \<longleftrightarrow> [] \<in> lang r"
  by (induction r) (auto intro: star.intros)

lemma Cons_conc: "c # s \<in> conc A B \<longleftrightarrow> (\<exists>u v. s = u @ v \<and> c # u \<in> A \<and> v \<in> B) \<or> ([] \<in> A \<and> c # s \<in> B)"
  by (auto simp: conc_def Cons_eq_append_conv)

lemma star_Cons: "s \<in> star A \<Longrightarrow> s = c # t \<Longrightarrow> \<exists>u v. t = u @ v \<and> c # u \<in> A \<and> v \<in> star A"
proof (induction arbitrary: t rule: star.induct)
  case (star_step u v)
  then show ?case by (cases u) auto
qed simp

lemma Cons_star: "c # s \<in> star A \<longleftrightarrow> (\<exists>u v. s = u @ v \<and> c # u \<in> A \<and> v \<in> star A)"
proof
  assume "\<exists>u v. s = u @ v \<and> c # u \<in> A \<and> v \<in> star A"
  then obtain u v where s: "s = u @ v" and A: "c # u \<in> A" "v \<in> star A" by blast
  from star.star_step [OF A] s show "c # s \<in> star A" by simp
qed (auto dest: star_Cons)

lemma lang_deriv: "s \<in> lang (deriv c r) \<longleftrightarrow> c # s \<in> lang r"
proof (induction r arbitrary: s)
  case (Seq r q)
  have "s \<in> conc (lang (deriv c r)) (lang q) \<longleftrightarrow> (\<exists>u v. s = u @ v \<and> c # u \<in> lang r \<and> v \<in> lang q)"
    using Seq.IH(1) by (simp add: conc_def)
  with Seq.IH(2) show ?case by (auto simp: Let_def nullable_iff Cons_conc)
next
  case (Star r)
  then show ?case by (auto simp: Cons_star conc_def)
qed auto

lemma matches_iff: "matches r s \<longleftrightarrow> s \<in> lang r"
  by (induction s arbitrary: r) (auto simp: nullable_iff lang_deriv)

text \<open>What the anchors leave of the string.\<close>

definition strip_final_newline :: "pystr \<Rightarrow> pystr" where
  "strip_final_newline s = (if s \<noteq> [] \<and> last s = 10 then butlast s else s)"

lemma search_anchored_strip:
  assumes "\<And>t. t \<in> lang r \<Longrightarrow> 10 \<notin> set t"
  shows "search_anchored r s \<longleftrightarrow> strip_final_newline s \<in> lang r"
proof (cases "s \<noteq> [] \<and> last s = 10")
  case True
  then have "10 \<in> set s" by (metis last_in_set)
  with assms have "s \<notin> lang r" by blast
  with True show ?thesis by (simp add: search_anchored_def strip_final_newline_def matches_iff)
qed (auto simp: search_anchored_def strip_final_newline_def matches_iff)


section \<open>Rules for the forms in use\<close>

named_theorems lang_simps \<open>membership in the language of an expression\<close>

lemma lang_Seq_Cls [lang_simps]: "s \<in> lang (Seq (Cls P) r) \<longleftrightarrow> (\<exists>c t. s = c # t \<and> P c \<and> t \<in> lang r)"
  by (cases s) (auto simp: Cons_conc)

lemma lang_Cls [lang_simps]: "s \<in> lang (Cls P) \<longleftrightarrow> (\<exists>c. s = [c] \<and> P c)"
  by auto

lemma lang_One [lang_simps]: "s \<in> lang One \<longleftrightarrow> s = []"
  by auto

lemma lang_Alt [lang_simps]: "s \<in> lang (Alt r q) \<longleftrightarrow> s \<in> lang r \<or> s \<in> lang q"
  by auto

lemma lang_opt [lang_simps]: "s \<in> lang (opt r) \<longleftrightarrow> s = [] \<or> s \<in> lang r"
  by (auto simp: opt_def)

lemma lang_Seq_opt [lang_simps]: "s \<in> lang (Seq (opt r) q) \<longleftrightarrow> s \<in> lang q \<or> s \<in> lang (Seq r q)"
  by (auto simp: opt_def conc_def)

lemma lang_Seq: "s \<in> lang (Seq r q) \<longleftrightarrow> (\<exists>u v. s = u @ v \<and> u \<in> lang r \<and> v \<in> lang q)"
  by (simp add: conc_def)

lemma lang_exactly: "s \<in> lang (exactly n (Cls P)) \<longleftrightarrow> length s = n \<and> list_all P s"
proof (induction n arbitrary: s)
  case 0
  show ?case by auto
next
  case (Suc n)
  then show ?case by (cases s) (auto simp: lang_Seq_Cls simp del: lang.simps)
qed

lemma lang_up_to: "s \<in> lang (up_to n (Cls P)) \<longleftrightarrow> length s \<le> n \<and> list_all P s"
proof (induction n arbitrary: s)
  case (Suc n)
  then show ?case by (cases s) (auto simp: lang_opt lang_Seq_Cls simp del: lang.simps)
qed auto

lemma lang_rep [lang_simps]:
  assumes "m \<le> n"
  shows "s \<in> lang (rep m n (Cls P)) \<longleftrightarrow> m \<le> length s \<and> length s \<le> n \<and> list_all P s"
proof
  assume r: "m \<le> length s \<and> length s \<le> n \<and> list_all P s"
  then have "take m s \<in> lang (exactly m (Cls P))" "drop m s \<in> lang (up_to (n - m) (Cls P))"
    by (auto simp: lang_exactly lang_up_to list_all_iff dest: in_set_takeD in_set_dropD)
  then show "s \<in> lang (rep m n (Cls P))" unfolding rep_def lang_Seq by (metis append_take_drop_id)
qed (use assms in \<open>auto simp: rep_def lang_Seq lang_exactly lang_up_to simp del: lang.simps\<close>)

end
