(* ===== verification/Validators.thy ===== *)
theory Validators
  imports Pattern "HOL-Library.Sublist"
begin

text \<open>
  The field validators of \<^verbatim>\<open>csm/core/controllers/validators.py\<close>. A validator returns nothing or raises
  \<open>ValidationError\<close>, whose message is the left value. The classification of characters beyond ASCII is
  Unicode's: the parameter \<open>unicode\<close> has the predicates of Python's \<open>str\<close> and of \<open>\w\<close>. The lemmas replace
  each pattern by what it means for the string, and the dotted quad by a reference definition.
\<close>

section \<open>Character classes\<close>

record unicode =
  uc_isupper :: "nat \<Rightarrow> bool"
  uc_islower :: "nat \<Rightarrow> bool"
  uc_isdigit :: "nat \<Rightarrow> bool"
  uc_word :: "nat \<Rightarrow> bool"
  uc_isspace :: "nat \<Rightarrow> bool"

definition codes :: "string \<Rightarrow> pystr" where
  "codes s = map of_char s"

definition in_range :: "char \<Rightarrow> char \<Rightarrow> nat \<Rightarrow> bool" where
  "in_range a b c \<longleftrightarrow> of_char a \<le> c \<and> c \<le> of_char b"

definition one_of :: "string \<Rightarrow> nat \<Rightarrow> bool" where
  "one_of cs c \<longleftrightarrow> c \<in> set (codes cs)"

definition digit :: "nat \<Rightarrow> bool" where
  "digit c \<longleftrightarrow> in_range (CHR ''0'') (CHR ''9'') c"

definition lower_or_digit :: "nat \<Rightarrow> bool" where
  "lower_or_digit c \<longleftrightarrow> in_range (CHR ''a'') (CHR ''z'') c \<or> digit c"

definition alphanumeric :: "nat \<Rightarrow> bool" where
  "alphanumeric c \<longleftrightarrow> lower_or_digit c \<or> in_range (CHR ''A'') (CHR ''Z'') c"

lemmas char_class_defs = in_range_def one_of_def codes_def digit_def lower_or_digit_def alphanumeric_def


section \<open>The validators\<close>

type_synonym validated = "string + unit"

definition iam_user_name_validator :: "unicode \<Rightarrow> pystr \<Rightarrow> validated" where
  "iam_user_name_validator U value =
     (if \<not> search_anchored (rep 1 64 (Cls (\<lambda>c. uc_word U c \<or> one_of ''@+=.,-'' c))) value
      then Inl (''Iam username should be between 1-64 Characters.''
        @ ''Should contain Alphanumeric . - _ @ + = or ,.'')
      else Inr ())"

definition user_name_char :: "nat \<Rightarrow> bool" where
  "user_name_char c \<longleftrightarrow> alphanumeric c \<or> one_of ''_-'' c"

definition user_name_validator :: "pystr \<Rightarrow> validated" where
  "user_name_validator value =
     (if \<not> search_anchored (rep 4 56 (Cls user_name_char)) value
      then Inl (''Username can only contain Alphanumeric, - and  _ .Length '' @ ''Must be between 4-56 Characters'')
      else Inr ())"

definition access_key_validator :: "pystr \<Rightarrow> validated" where
  "access_key_validator value =
     (if \<not> search_anchored (rep 16 128 (Cls (\<lambda>c. alphanumeric c \<or> one_of ''_'' c))) value
      then Inl (''Access key can only contain Alphanumeric and _ .Length '' @ ''Must be between 16-128 Characters'')
      else Inr ())"

definition STRING_MAX_VALUE :: nat where "STRING_MAX_VALUE = 250"
definition PATH_PREFIX_MAX_VALUE :: nat where "PATH_PREFIX_MAX_VALUE = 512"
definition PORT_MIN_VALUE :: int where "PORT_MIN_VALUE = 0"
definition PORT_MAX_VALUE :: int where "PORT_MAX_VALUE = 65536"

definition comments_validator :: "pystr \<Rightarrow> validated" where
  "comments_validator value =
     (if length value > STRING_MAX_VALUE then Inl ''Length should not be more than 250 characters.'' else Inr ())"

definition port_validator :: "int \<Rightarrow> validated" where
  "port_validator value =
     (if \<not> PORT_MIN_VALUE < value \<or> \<not> PORT_MAX_VALUE > value
      then Inl ''Port Value should be between 0 and 65536'' else Inr ())"

definition path_prefix_validator :: "pystr \<Rightarrow> validated" where
  "path_prefix_validator value =
     (if length value > PATH_PREFIX_MAX_VALUE then Inl ''Path must not be more than 512 characters.''
      else if \<not> prefix (codes ''/'') value then Inl (''Path Must Start with '' @ [CHR 0x27] @ ''/'' @ [CHR 0x27] @ ''.'')
      else Inr ())"

definition PASSWORD_SPECIAL_CHARACTER :: string where
  "PASSWORD_SPECIAL_CHARACTER = ''!@#$%^&*()_+-=[]{}|'' @ [CHR 0x27]"

text \<open>\<open>" ".join\<close>\<close>

fun join_blank :: "string list \<Rightarrow> string" where
  "join_blank [] = []"
| "join_blank [s] = s"
| "join_blank (s # t # ss) = s @ '' '' @ join_blank (t # ss)"

definition password_errors :: "unicode \<Rightarrow> pystr \<Rightarrow> string list" where
  "password_errors U password =
     (if length password < 8 then [''Must be more than 8 characters.''] else [])
     @ (if \<not> list_ex (uc_isupper U) password then [''Must contain at least one Uppercase Alphabet.''] else [])
     @ (if \<not> list_ex (uc_islower U) password then [''Must contain at least one Lowercase Alphabet.''] else [])
     @ (if \<not> list_ex (uc_isdigit U) password then [''Must contain at least one Numeric value.''] else [])
     @ (if \<not> list_ex (one_of PASSWORD_SPECIAL_CHARACTER) password
        then [''Must include '' @ PASSWORD_SPECIAL_CHARACTER @ ''.''] else [])"

definition password_validator :: "unicode \<Rightarrow> pystr \<Rightarrow> validated" where
  "password_validator U password =
     (let error = password_errors U password in
      if error \<noteq> [] then Inl (''Password Policy Not Met. '' @ join_blank error) else Inr ())"

text \<open>\<open>25[0-5]|2[0-4][0-9]|[0-1]?[0-9][0-9]?\<close>, and four of them between dots.\<close>

definition octet :: rexp where
  "octet =
     Alt (Seq (lit (CHR ''2'')) (Seq (lit (CHR ''5'')) (Cls (in_range (CHR ''0'') (CHR ''5'')))))
    (Alt (Seq (lit (CHR ''2'')) (Seq (Cls (in_range (CHR ''0'') (CHR ''4''))) (Cls digit)))
         (Seq (opt (Cls (in_range (CHR ''0'') (CHR ''1'')))) (Seq (Cls digit) (opt (Cls digit)))))"

definition ip_regex :: rexp where
  "ip_regex = Seq octet (Seq (lit (CHR ''.'')) (Seq octet (Seq (lit (CHR ''.'')) (Seq octet (Seq (lit (CHR ''.'')) octet)))))"

definition validate_ipv4 :: "pystr \<Rightarrow> bool" where
  "validate_ipv4 ip = search_anchored ip_regex ip"

definition ipv4_validator :: "pystr \<Rightarrow> validated" where
  "ipv4_validator ip = (if \<not> validate_ipv4 ip then Inl ''Invalid IP4 address.'' else Inr ())"

definition bucket_char :: "nat \<Rightarrow> bool" where
  "bucket_char c \<longleftrightarrow> lower_or_digit c \<or> one_of ''-.'' c"

definition bucket_regex :: rexp where
  "bucket_regex = Seq (Cls lower_or_digit) (Seq (rep 2 54 (Cls bucket_char)) (Cls lower_or_digit))"

definition is_value_valid :: "pystr \<Rightarrow> bool" where
  "is_value_valid value = search_anchored bucket_regex value"

definition check_ipv4 :: "pystr \<Rightarrow> validated" where
  "check_ipv4 value =
     (case ipv4_validator value of
        Inr _ \<Rightarrow> Inl ''Bucket Name cannot be ip v4 format''
      | Inl _ \<Rightarrow> Inr ())"

definition bucket_name_validator :: "pystr \<Rightarrow> validated" where
  "bucket_name_validator value =
     (if \<not> is_value_valid value
      then Inl (''Bucket Name should be between 4-56 Characters long.''
        @ ''Should contain either lowercase, numeric, '' @ [CHR 0x27] @ ''-'' @ [CHR 0x27] @ '' or '' @ [CHR 0x27] @ ''.''
        @ [CHR 0x27] @ '' characters. '' @ ''Not starting or ending with '' @ [CHR 0x27] @ ''-'' @ [CHR 0x27] @ '' or ''
        @ [CHR 0x27] @ ''.'' @ [CHR 0x27])
      else if prefix (codes ''xn--'') value
      then Inl (''Bucket Name cannot start with '' @ [CHR 0x27] @ ''xn--'' @ [CHR 0x27])
      else check_ipv4 value)"

text \<open>\<open>([a-z0-9]([a-z0-9-]{0,61}[a-z0-9])?\.)+[a-z]{2,6}\<close>\<close>

definition label_regex :: rexp where
  "label_regex = Seq (Cls lower_or_digit)
     (Seq (opt (Seq (rep 0 61 (Cls (\<lambda>c. lower_or_digit c \<or> one_of ''-'' c))) (Cls lower_or_digit)))
          (lit (CHR ''.'')))"

definition domain_regex :: rexp where
  "domain_regex = Seq (one_or_more label_regex) (rep 2 6 (Cls (in_range (CHR ''a'') (CHR ''z''))))"

definition validate_domain_name :: "pystr \<Rightarrow> bool" where
  "validate_domain_name domain_name = search_anchored domain_regex domain_name"

definition domain_name_validator :: "pystr \<Rightarrow> validated" where
  "domain_name_validator domain_name =
     (if length domain_name > 253 then Inl ''Domain name should be less than 253 characters''
      else if \<not> validate_domain_name domain_name then Inl ''Invalid domain name.''
      else Inr ())"

definition server_validator :: "pystr \<Rightarrow> validated" where
  "server_validator server_name =
     (if length server_name > 253 then Inl ''Server name should be less than 253 characters''
      else if \<not> (validate_ipv4 server_name \<or> validate_domain_name server_name) then Inl ''Invalid server name.''
      else Inr ())"

definition enum_validator :: "string list \<Rightarrow> string \<Rightarrow> validated" where
  "enum_validator validator_values value =
     (if value \<notin> set validator_values
      then Inl (''Incorrect Value: must be from '' @ join_blank validator_values) else Inr ())"

definition iso_filename_validator :: "pystr \<Rightarrow> validated" where
  "iso_filename_validator file_name =
     (if \<not> suffix (codes ''.iso'') file_name
      then Inl (''Package must be an '' @ [CHR 0x27] @ ''.iso'' @ [CHR 0x27] @ '' file.'') else Inr ())"

definition bin_filename_validator :: "pystr \<Rightarrow> validated" where
  "bin_filename_validator file_name =
     (if \<not> suffix (codes ''.bin'') file_name
      then Inl (''Package must be a '' @ [CHR 0x27] @ ''.bin'' @ [CHR 0x27] @ '' file.'') else Inr ())"

text \<open>\<open>ValidateSchema\<close>: the fields with \<open>str\<close> of their values, \<open>None\<close> for a null; the first empty one is
  reported.\<close>

fun invalidate_empty_values :: "unicode \<Rightarrow> (string \<times> pystr option) list \<Rightarrow> validated" where
  "invalidate_empty_values U [] = Inr ()"
| "invalidate_empty_values U ((key, value) # data) =
     (case value of
        None \<Rightarrow> invalidate_empty_values U data
      | Some v \<Rightarrow> if list_all (uc_isspace U) v then Inl (''Empty value for '' @ key)
                  else invalidate_empty_values U data)"


section \<open>The dotted quad\<close>

text \<open>The reference: four fields between dots, each a decimal number of one to three digits up to 255
  (leading zeros are allowed).\<close>

definition decimal :: "pystr \<Rightarrow> nat" where
  "decimal s = foldl (\<lambda>n c. 10 * n + (c - 48)) 0 s"

definition octet_value :: "pystr \<Rightarrow> bool" where
  "octet_value s \<longleftrightarrow> s \<noteq> [] \<and> length s \<le> 3 \<and> list_all digit s \<and> decimal s \<le> 255"

definition dotted_quad :: "pystr \<Rightarrow> bool" where
  "dotted_quad s \<longleftrightarrow> (let fields = split_on (of_char (CHR ''.'')) s in length fields = 4 \<and> list_all octet_value fields)"

lemma octet_iff: "s \<in> lang octet \<longleftrightarrow> octet_value s"
proof -
  consider "s = []" | a where "s = [a]" | a b where "s = [a, b]" | a b c where "s = [a, b, c]"
    | a b c d t where "s = a # b # c # d # t"
    by (metis list.exhaust)
  then show ?thesis
    by cases (auto simp: octet_def lit_def lang_simps octet_value_def decimal_def digit_def in_range_def
        simp del: lang.simps)
qed

lemma octet_no_dot: "octet_value s \<Longrightarrow> of_char (CHR ''.'') \<notin> set s"
  by (auto simp: octet_value_def list_all_iff digit_def in_range_def)

lemma octet_no_newline: "octet_value s \<Longrightarrow> 10 \<notin> set s"
  by (auto simp: octet_value_def list_all_iff digit_def in_range_def)

lemma lang_field: "s \<in> lang (Seq octet (Seq (lit (CHR ''.'')) r)) \<longleftrightarrow>
    (\<exists>a t. s = a @ of_char (CHR ''.'') # t \<and> octet_value a \<and> t \<in> lang r)"
proof -
  have "s \<in> lang (Seq octet (Seq (lit (CHR ''.'')) r)) \<longleftrightarrow>
      (\<exists>a v. s = a @ v \<and> octet_value a \<and> v \<in> lang (Seq (lit (CHR ''.'')) r))"
    unfolding lang_Seq [of s octet] octet_iff ..
  then show ?thesis unfolding lit_def lang_Seq_Cls by blast
qed

lemma lang_ip_regex: "s \<in> lang ip_regex \<longleftrightarrow> dotted_quad s"
proof -
  let ?d = "of_char (CHR ''.'') :: nat"
  have "s \<in> lang ip_regex \<longleftrightarrow> (\<exists>a b c d. s = a @ ?d # b @ ?d # c @ ?d # d \<and>
      octet_value a \<and> octet_value b \<and> octet_value c \<and> octet_value d)"
    unfolding ip_regex_def lang_field octet_iff by blast
  also have "\<dots> \<longleftrightarrow> dotted_quad s"
  proof
    assume "\<exists>a b c d. s = a @ ?d # b @ ?d # c @ ?d # d \<and> octet_value a \<and> octet_value b \<and> octet_value c \<and> octet_value d"
    then obtain a b c d where s: "s = a @ ?d # b @ ?d # c @ ?d # d"
      and v: "octet_value a" "octet_value b" "octet_value c" "octet_value d" by blast
    have "split_on ?d s = [a, b, c, d]"
      unfolding s using v [THEN octet_no_dot] by (simp add: split_on_append split_on_none)
    with v show "dotted_quad s" by (simp add: dotted_quad_def)
  next
    assume q: "dotted_quad s"
    then have "length (split_on ?d s) = 4" by (simp add: dotted_quad_def Let_def)
    then obtain a b c d where f: "split_on ?d s = [a, b, c, d]"
      by (auto simp: numeral_eq_Suc length_Suc_conv)
    with q have "octet_value a \<and> octet_value b \<and> octet_value c \<and> octet_value d"
      by (simp add: dotted_quad_def)
    with split_on_join [OF f] show "\<exists>a b c d. s = a @ ?d # b @ ?d # c @ ?d # d \<and>
        octet_value a \<and> octet_value b \<and> octet_value c \<and> octet_value d" by auto
  qed
  finally show ?thesis .
qed

lemma dotted_quad_no_newline: "dotted_quad s \<Longrightarrow> 10 \<notin> set s"
proof -
  let ?d = "of_char (CHR ''.'') :: nat"
  assume "dotted_quad s"
  then have f: "\<forall>w \<in> set (split_on ?d s). 10 \<notin> set w"
    by (auto simp: dotted_quad_def Let_def list_all_iff dest: octet_no_newline)
  obtain w ws where w: "split_on ?d s = w # ws" by (cases "split_on ?d s") simp_all
  from split_on_join [OF w] f w show ?thesis by auto
qed

lemma validate_ipv4_iff: "validate_ipv4 s \<longleftrightarrow> dotted_quad (strip_final_newline s)"
  unfolding validate_ipv4_def lang_ip_regex [symmetric]
  by (rule search_anchored_strip) (simp add: lang_ip_regex dotted_quad_no_newline)

text \<open>
  C15. The pattern for IPv4 addresses is equivalent to the reference definition: a string is accepted
  exactly when it consists of four dot-separated decimal numbers of one to three digits, none above
  255, possibly followed by one newline, which \<open>$\<close> lets pass.
\<close>

theorem ipv4_equivalence: "validate_ipv4 s \<longleftrightarrow> dotted_quad (strip_final_newline s)"
  by (rule validate_ipv4_iff)



section \<open>Names\<close>

lemma search_anchored_rep:
  assumes "m \<le> n" and "\<not> P 10"
  shows "search_anchored (rep m n (Cls P)) s \<longleftrightarrow>
    (let t = strip_final_newline s in m \<le> length t \<and> length t \<le> n \<and> list_all P t)"
proof -
  have "search_anchored (rep m n (Cls P)) s \<longleftrightarrow> strip_final_newline s \<in> lang (rep m n (Cls P))"
    by (rule search_anchored_strip) (use assms in \<open>auto simp: lang_rep list_all_iff\<close>)
  then show ?thesis using assms(1) by (simp add: lang_rep Let_def)
qed

lemma user_name_accepts:
  "user_name_validator s = Inr () \<longleftrightarrow>
     (let t = strip_final_newline s in 4 \<le> length t \<and> length t \<le> 56 \<and> list_all user_name_char t)"
  by (simp add: user_name_validator_def search_anchored_rep user_name_char_def char_class_defs)

lemma lang_bucket_regex:
  "s \<in> lang bucket_regex \<longleftrightarrow> 4 \<le> length s \<and> length s \<le> 56 \<and> list_all bucket_char s
     \<and> lower_or_digit (hd s) \<and> lower_or_digit (last s)"
proof
  assume "s \<in> lang bucket_regex"
  then obtain a m z where "s = a # m @ [z]" "lower_or_digit a" "lower_or_digit z"
    "2 \<le> length m" "length m \<le> 54" "list_all bucket_char m"
    unfolding bucket_regex_def lang_Seq_Cls lang_Seq [of _ "rep 2 54 (Cls bucket_char)"]
    by (auto simp: lang_rep simp del: lang.simps) (auto simp: lang_Cls)
  then show "4 \<le> length s \<and> length s \<le> 56 \<and> list_all bucket_char s \<and> lower_or_digit (hd s) \<and> lower_or_digit (last s)"
    by (simp add: bucket_char_def)
next
  assume b: "4 \<le> length s \<and> length s \<le> 56 \<and> list_all bucket_char s \<and> lower_or_digit (hd s) \<and> lower_or_digit (last s)"
  then obtain a r where r: "s = a # r" by (cases s) auto
  with b obtain m z where m: "r = m @ [z]" by (cases r rule: rev_cases) auto
  from b r m have "lower_or_digit a" "lower_or_digit z" "2 \<le> length m" "length m \<le> 54" "list_all bucket_char m"
    by auto
  then have "m \<in> lang (rep 2 54 (Cls bucket_char))" "[z] \<in> lang (Cls lower_or_digit)" by (simp_all add: lang_rep)
  then have "r \<in> lang (Seq (rep 2 54 (Cls bucket_char)) (Cls lower_or_digit))" unfolding m lang_Seq by blast
  with \<open>lower_or_digit a\<close> show "s \<in> lang bucket_regex" unfolding bucket_regex_def lang_Seq_Cls r by blast
qed

lemma is_value_valid_iff: "is_value_valid s \<longleftrightarrow> strip_final_newline s \<in> lang bucket_regex"
  unfolding is_value_valid_def
  by (rule search_anchored_strip) (auto simp: lang_bucket_regex list_all_iff bucket_char_def char_class_defs)

lemma prefix_strip: "length p \<le> length (strip_final_newline s) \<Longrightarrow> prefix p (strip_final_newline s) \<longleftrightarrow> prefix p s"
proof (cases "s \<noteq> [] \<and> last s = 10")
  case True
  assume "length p \<le> length (strip_final_newline s)"
  with True have l: "length p \<le> length (butlast s)" by (simp add: strip_final_newline_def)
  have "prefix (butlast s) s" by (rule prefixeq_butlast)
  with l have "prefix p s \<Longrightarrow> prefix p (butlast s)" by (metis prefix_length_prefix)
  moreover have "prefix p (butlast s) \<Longrightarrow> prefix p s"
    using True by (metis append_butlast_last_id prefix_append)
  ultimately show ?thesis using True by (auto simp: strip_final_newline_def)
qed (auto simp: strip_final_newline_def)

text \<open>
  The names of buckets that are accepted: four to 56 lower case letters, digits, hyphens and dots,
  with a letter or digit at both ends, not beginning with the prefix of internationalised names and
  not an IPv4 address; but again a newline may follow.
\<close>

theorem bucket_name_spec:
  "bucket_name_validator s = Inr () \<longleftrightarrow>
     (let t = strip_final_newline s in
      4 \<le> length t \<and> length t \<le> 56 \<and> list_all bucket_char t \<and> lower_or_digit (hd t) \<and> lower_or_digit (last t)
      \<and> \<not> prefix (codes ''xn--'') t \<and> \<not> dotted_quad t)"
proof -
  let ?t = "strip_final_newline s"
  have "bucket_name_validator s = Inr () \<longleftrightarrow>
      ?t \<in> lang bucket_regex \<and> \<not> prefix (codes ''xn--'') s \<and> \<not> dotted_quad ?t"
    by (simp add: bucket_name_validator_def is_value_valid_iff check_ipv4_def ipv4_validator_def validate_ipv4_iff)
  moreover have "prefix (codes ''xn--'') s \<longleftrightarrow> prefix (codes ''xn--'') ?t" if "4 \<le> length ?t"
    using prefix_strip [of "codes ''xn--''" s] that by (simp add: codes_def)
  ultimately show ?thesis unfolding lang_bucket_regex by (auto simp: Let_def)
qed

end
