(* ===== verification/User_Views.thy ===== *)
theory User_Views
  imports Api Users_Correct Validators
begin

text \<open>
  The views of \<^verbatim>\<open>csm/core/controllers/users.py\<close> that list, show and create users, with the schema
  \<open>CsmUserCreateSchema\<close> in front of the service. What marshmallow itself checks (a JSON object, the
  required strings, an email address) has passed in a \<open>PostBody\<close>; its rejections are \<open>PostInvalid\<close>. How it
  prints the collected errors is the parameter \<open>printed\<close>.
\<close>

section \<open>The views\<close>

datatype post_request = PostNotJson | PostInvalid string | PostBody string string string string

definition one_of_error :: "string list \<Rightarrow> string" where
  "one_of_error choices = ''Must be one of: '' @ concat (map (\<lambda>c. c @ '', '') (butlast choices)) @ last choices @ ''.''"

text \<open>The validators of \<open>CsmUserCreateSchema\<close>, per field.\<close>

definition create_schema_errors :: "unicode \<Rightarrow> string \<Rightarrow> string \<Rightarrow> string \<Rightarrow> (string \<times> string) list" where
  "create_schema_errors U uid password role =
     (case user_name_validator (codes uid) of Inl e \<Rightarrow> [(''username'', e)] | Inr _ \<Rightarrow> [])
     @ (case password_validator U (codes password) of Inl e \<Rightarrow> [(''password'', e)] | Inr _ \<Rightarrow> [])
     @ (if role \<notin> set CSM_USER_ROLES then [(''role'', one_of_error CSM_USER_ROLES)] else [])"

definition users_post ::
  "'db users_env \<Rightarrow> unicode \<Rightarrow> ((string \<times> string) list \<Rightarrow> string) \<Rightarrow> datetime \<Rightarrow> string \<Rightarrow> session option \<Rightarrow> post_request
     \<Rightarrow> ('db, exn, json_dict \<times> int) act" where
  "users_post E U printed now salt request_session req =
     (let creator = map_option session_user request_session in
      case req of
        PostNotJson \<Rightarrow> throw (invalid_request JSON_ERROR)
      | PostInvalid msg \<Rightarrow> throw (invalid_request (''Invalid request body: '' @ msg))
      | PostBody uid password email role \<Rightarrow>
          let errors = create_schema_errors U uid password role in
          if errors \<noteq> [] then throw (invalid_request (''Invalid request body: '' @ printed errors))
          else bind_act (create_user E now salt uid password role creator email) (\<lambda>response. ret (response, 201)))"

definition users_get :: "'db users_env \<Rightarrow> string \<Rightarrow> ('db, exn, json_dict) act" where
  "users_get E uid = get_user E uid"

text \<open>The query of the list, as decoded: missing values take the defaults of \<open>CsmGetUsersSchema\<close>.\<close>

record list_query =
  lq_offset :: "int option"
  lq_limit :: "int option"
  lq_sort_by :: "string option"
  lq_sort_dir :: "string option"
  lq_username :: "string option"
  lq_role :: "string option"

definition deserialize_sort_by :: "string \<Rightarrow> string" where
  "deserialize_sort_by v = (if v = ''username'' then ''user_id'' else v)"

definition CSM_USER_NAME_MAX_LEN :: nat where "CSM_USER_NAME_MAX_LEN = 64"

definition list_query_ok :: "list_query \<Rightarrow> bool" where
  "list_query_ok q \<longleftrightarrow>
     (\<forall>n \<in> set_option (lq_offset q). n \<ge> 0) \<and> (\<forall>n \<in> set_option (lq_limit q). n \<ge> 0)
     \<and> (\<forall>f \<in> set_option (lq_sort_by q). deserialize_sort_by f \<in> set CSM_USER_SORTABLE_FIELDS)
     \<and> (\<forall>d \<in> set_option (lq_sort_dir q). d \<in> {''desc'', ''asc''})
     \<and> (\<forall>u \<in> set_option (lq_username q). 1 \<le> length u \<and> length u \<le> CSM_USER_NAME_MAX_LEN)"

definition users_list_get ::
  "'db users_env \<Rightarrow> string \<Rightarrow> list_query \<Rightarrow> ('db, exn, json_dict list) act" where
  "users_list_get E val_err q =
     (if \<not> list_query_ok q then throw (invalid_request val_err)
      else get_user_list E (lq_limit q) (lq_offset q)
             (Some (case lq_sort_by q of None \<Rightarrow> ''user_id'' | Some f \<Rightarrow> deserialize_sort_by f))
             (case lq_sort_dir q of None \<Rightarrow> ''asc'' | Some d \<Rightarrow> d)
             (lq_role q) (lq_username q))"


section \<open>Who gets created\<close>

text \<open>The password rules.\<close>

definition password_policy :: "unicode \<Rightarrow> pystr \<Rightarrow> bool" where
  "password_policy U password \<longleftrightarrow> length password \<ge> 8
     \<and> (\<exists>c \<in> set password. uc_isupper U c) \<and> (\<exists>c \<in> set password. uc_islower U c)
     \<and> (\<exists>c \<in> set password. uc_isdigit U c) \<and> (\<exists>c \<in> set password. one_of PASSWORD_SPECIAL_CHARACTER c)"

lemma password_accepts: "password_validator U s = Inr () \<longleftrightarrow> password_policy U s"
  by (auto simp: password_validator_def password_errors_def password_policy_def list_ex_iff Let_def)

lemma validated_cases: "(case v of Inl e \<Rightarrow> [(k, e)] | Inr (_::unit) \<Rightarrow> []) = [] \<longleftrightarrow> v = Inr ()"
  by (cases v) auto

lemma create_schema_accepts:
  "create_schema_errors U uid password role = [] \<longleftrightarrow>
     user_name_validator (codes uid) = Inr () \<and> password_policy U (codes password) \<and> role \<in> set CSM_USER_ROLES"
  by (simp add: create_schema_errors_def validated_cases password_accepts)

lemma list_query_field: "list_query_ok q \<Longrightarrow>
  map_sort_field (Some (case lq_sort_by q of None \<Rightarrow> ''user_id'' | Some f \<Rightarrow> deserialize_sort_by f)) = Some f \<Longrightarrow>
  f \<in> set CSM_USER_SORTABLE_FIELDS"
  by (auto simp: list_query_ok_def map_sort_field_def field_mapping_def CSM_USER_SORTABLE_FIELDS_def
      deserialize_sort_by_def dict_get_default_def split: option.splits if_splits)


text \<open>A concrete request: the admin \<open>alice\<close> creates an account with the same name and a newline after it.\<close>

definition ascii :: unicode where
  "ascii = \<lparr>uc_isupper = in_range (CHR ''A'') (CHR ''Z''), uc_islower = in_range (CHR ''a'') (CHR ''z''),
     uc_isdigit = digit, uc_word = (\<lambda>c. alphanumeric c \<or> one_of ''_'' c), uc_isspace = (\<lambda>c. c = 32 \<or> 9 \<le> c \<and> c \<le> 13)\<rparr>"

definition admin_session :: session where
  "admin_session = \<lparr>session_id = ''t1'', expiry_time = 60, session_credentials = LocalCredentials ''alice'' ''admin'',
     session_permissions = []\<rparr>"

definition lookalike :: post_request where
  "lookalike = PostBody (''alice'' @ [CHR 0x0A]) ''Secret#1'' ''a@b.c'' ''manage''"

definition concat_errors :: "(string \<times> string) list \<Rightarrow> string" where
  "concat_errors es = concat (map (\<lambda>(k, e). k @ '': '' @ e) es)"

lemma lookalike_name: "user_name_validator (codes (''alice'' @ [CHR 0x0A])) = Inr ()"
  by (simp add: user_name_accepts strip_final_newline_def codes_def user_name_char_def char_class_defs)

lemma lookalike_accepted: "create_schema_errors ascii (''alice'' @ [CHR 0x0A]) ''Secret#1'' ''manage'' = []"
  unfolding create_schema_accepts
  using lookalike_name
  by (simp add: ascii_def codes_def password_policy_def PASSWORD_SPECIAL_CHARACTER_def char_class_defs role_names)

lemma calm_writes:
  "um_count (outage_env q) ([], rs) = (Inr (int (length rs)), ([], rs))"
  "um_store (outage_env q) u ([], rs) = (Inr (), ([], dict_set (user_id u) u rs))"
  by (simp_all add: user_run_defs)

lemma lookalike_run:
  "\<exists>x u. users_post (outage_env 10) ascii printed noon [] (Some admin_session) lookalike two_admins
     = (Inr x, ([], snd two_admins @ [(''alice'' @ [CHR 0x0A], u)]))"
  by (simp add: users_post_def lookalike_def lookalike_accepted [simplified] two_admins_def create_user_def bind_act_def
      calm_calls calm_writes admin_session_def truthy_str_def some_user_def lower_def lower_char_def Let_def role_names
      ret_app of_sum_def um_create_def instantiate_csm_user_def passwd_hash_def outage_env_def [of 10, THEN arg_cong [of _ _ ue_quota]]
      outage_env_def [of 10, THEN arg_cong [of _ _ ue_crypto]] rev_crypto_def)


end
