(* ===== verification/Broadcast.thy ===== *)
theory Broadcast
  imports Client
begin

text \<open>
  Web socket servers: the experiment \<^verbatim>\<open>experiments/aio-py/aio_py.py\<close>, which the browser client talks to,
  and the broadcasting it shares with the REST agent. The state is the set of connected sockets, in
  the order a loop over it takes (the order of a \<open>WeakSet\<close> is not specified, so any order can occur),
  the sockets the server has closed, and the frames handed to each socket. Whether a \<open>send_str\<close> fails
  when it is its turn is up to the network: the parameter \<open>broken\<close>. The last part puts the server and
  any number of browser pages together. Texts are sequences of UTF-16 code units, as in \<open>Client\<close>.
\<close>

section \<open>Sockets\<close>

record ws_state =
  ws_clients :: "nat list"
  ws_closed :: "nat set"
  ws_sent :: "nat \<Rightarrow> js_string list"

datatype ws_exn = ConnectionResetError

definition send_str :: "(nat \<Rightarrow> bool) \<Rightarrow> js_string \<Rightarrow> nat \<Rightarrow> (ws_state, ws_exn, unit) act" where
  "send_str broken msg ws st =
     (if broken ws \<or> ws \<in> ws_closed st then (Inl ConnectionResetError, st)
      else (Inr (), st\<lparr>ws_sent := (ws_sent st)(ws := ws_sent st ws @ [msg])\<rparr>))"

text \<open>The loop runs over a copy of the set; any exception is caught around the whole loop.\<close>

definition ws_broadcast :: "(nat \<Rightarrow> bool) \<Rightarrow> js_string \<Rightarrow> (ws_state, ws_exn, unit) act" where
  "ws_broadcast broken msg =
     bind_act (gets ws_clients) (\<lambda>clients.
     catch_act (for_each (send_str broken msg) clients) (\<lambda>_. ret ()))"

text \<open>Adding a socket to the set puts it at some place \<open>k\<close> of the order.\<close>

definition ws_add :: "nat \<Rightarrow> nat \<Rightarrow> (ws_state, ws_exn, unit) act" where
  "ws_add k ws =
     modify_act (\<lambda>st. if ws \<in> set (ws_clients st) then st
                      else st\<lparr>ws_clients := take k (ws_clients st) @ ws # drop k (ws_clients st)\<rparr>)"

definition ws_discard :: "nat \<Rightarrow> (ws_state, ws_exn, unit) act" where
  "ws_discard ws = modify_act (\<lambda>st. st\<lparr>ws_clients := removeAll ws (ws_clients st)\<rparr>)"

definition ws_close :: "nat \<Rightarrow> (ws_state, ws_exn, unit) act" where
  "ws_close ws = modify_act (\<lambda>st. st\<lparr>ws_closed := insert ws (ws_closed st)\<rparr>)"

text \<open>The body of the message loop of \<open>ws_handler\<close>.\<close>

datatype ws_msg = WsText js_string | WsError | WsBinary

definition ws_on_message :: "(nat \<Rightarrow> bool) \<Rightarrow> nat \<Rightarrow> ws_msg \<Rightarrow> (ws_state, ws_exn, unit) act" where
  "ws_on_message broken ws m =
     (case m of
        WsText data \<Rightarrow> if data = js ''close'' then ws_close ws else ws_broadcast broken (data @ js ''/answer'')
      | WsError \<Rightarrow> ret ()
      | WsBinary \<Rightarrow> ret ())"

text \<open>One round of \<open>ws_background\<close>, at the time printed as \<open>ts\<close>.\<close>

definition ws_background_round :: "(nat \<Rightarrow> bool) \<Rightarrow> js_string \<Rightarrow> (ws_state, ws_exn, unit) act" where
  "ws_background_round broken ts = ws_broadcast broken (js ''TIME: '' @ ts)"


section \<open>Whom a broadcast reaches\<close>

definition reached :: "(nat \<Rightarrow> bool) \<Rightarrow> ws_state \<Rightarrow> nat list" where
  "reached broken st = takeWhile (\<lambda>ws. \<not> broken ws \<and> ws \<notin> ws_closed st) (ws_clients st)"

definition handed :: "nat list \<Rightarrow> js_string \<Rightarrow> ws_state \<Rightarrow> ws_state" where
  "handed us msg st = st\<lparr>ws_sent := (\<lambda>i. if i \<in> set us then ws_sent st i @ [msg] else ws_sent st i)\<rparr>"

lemma handed_simps [simp]:
  "ws_clients (handed us msg st) = ws_clients st" "ws_closed (handed us msg st) = ws_closed st"
  "ws_sent (handed us msg st) i = (if i \<in> set us then ws_sent st i @ [msg] else ws_sent st i)"
  by (simp_all add: handed_def)

lemma send_loop:
  "distinct ws \<Longrightarrow>
     for_each (send_str broken msg) ws st =
       (let us = takeWhile (\<lambda>w. \<not> broken w \<and> w \<notin> ws_closed st) ws in
        (if us = ws then Inr () else Inl ConnectionResetError, handed us msg st))"
proof (induction ws arbitrary: st)
  case Nil
  show ?case by (simp add: act_simps handed_def)
next
  case (Cons w ws)
  show ?case
  proof (cases "broken w \<or> w \<in> ws_closed st")
    case True
    then show ?thesis by (auto simp: act_simps send_str_def handed_def)
  next
    case False
    let ?st = "st\<lparr>ws_sent := (ws_sent st)(w := ws_sent st w @ [msg])\<rparr>"
    let ?us = "takeWhile (\<lambda>w. \<not> broken w \<and> w \<notin> ws_closed st) ws"
    have "set ?us \<subseteq> set ws" by (auto dest: set_takeWhileD)
    with Cons.prems have w: "w \<notin> set ?us" by auto
    have "handed ?us msg ?st = handed (w # ?us) msg st"
      using w by (simp add: handed_def fun_eq_iff)
    with Cons False show ?thesis by (simp add: act_simps send_str_def Let_def)
  qed
qed

lemma broadcast_run:
  "distinct (ws_clients st) \<Longrightarrow> ws_broadcast broken msg st = (Inr (), handed (reached broken st) msg st)"
  by (simp add: ws_broadcast_def act_simps send_loop reached_def Let_def)

text \<open>
  A broadcast never raises, and hands the message once to each of the sockets before the first
  one, in the order of the loop, whose \<open>send_str\<close> fails: if none fails that is every connected
  client, but the clients after a failing one get nothing.
\<close>

theorem broadcast_delivery:
  assumes "distinct (ws_clients st)"
  shows "\<exists>st'. ws_broadcast broken msg st = (Inr (), st')
     \<and> (\<forall>i. ws_sent st' i = (if i \<in> set (takeWhile (\<lambda>ws. \<not> broken ws \<and> ws \<notin> ws_closed st) (ws_clients st))
                              then ws_sent st i @ [msg] else ws_sent st i))
     \<and> ((\<forall>ws \<in> set (ws_clients st). \<not> broken ws \<and> ws \<notin> ws_closed st) \<longrightarrow>
           (\<forall>ws \<in> set (ws_clients st). ws_sent st' ws = ws_sent st ws @ [msg]))"
  using broadcast_run [OF assms, of broken msg] by (auto simp: reached_def takeWhile_eq_all_conv [THEN iffD2])

theorem broadcast_delivery_witness:
  "ws_sent (snd (ws_broadcast (\<lambda>i. i = 2) (js ''hi'') \<lparr>ws_clients = [1, 2, 3], ws_closed = {}, ws_sent = (\<lambda>_. [])\<rparr>)) 3 = []"
  using broadcast_delivery [of "\<lparr>ws_clients = [1, 2, 3], ws_closed = {}, ws_sent = (\<lambda>_. [])\<rparr>" "\<lambda>i. i = 2" "js ''hi''"]
  by auto


section \<open>The server and its pages\<close>

text \<open>
  Pages are numbered like the sockets of the server. \<open>ch_inbox\<close> has the frames of a page the server
  has not read yet, \<open>ch_delivered\<close> counts the frames of the server that reached the page. A step of a
  page on its own is a browser step in which it receives nothing.
\<close>

record chat =
  ch_page :: "nat \<Rightarrow> page"
  ch_inbox :: "nat \<Rightarrow> js_string list"
  ch_delivered :: "nat \<Rightarrow> nat"
  ch_server :: ws_state

definition recv_text :: "js_string \<Rightarrow> js_string option" where
  "recv_text item = (if take 10 item = js ''MSG-RECV: '' then Some (drop 10 item) else None)"

definition received :: "page \<Rightarrow> js_string list" where
  "received p = List.map_filter recv_text (log_items p)"

inductive chat_step :: "chat \<Rightarrow> chat \<Rightarrow> bool" where
  page_event: "browser_step (ch_page c i) p' \<Longrightarrow> received p' = received (ch_page c i) \<Longrightarrow>
     transmitted p' = transmitted (ch_page c i) @ new \<Longrightarrow>
     chat_step c (c\<lparr>ch_page := (ch_page c)(i := p'), ch_inbox := (ch_inbox c)(i := ch_inbox c i @ new)\<rparr>)"
| delivery: "ready (ch_page c i) = OPEN \<Longrightarrow> ch_delivered c i < length (ws_sent (ch_server c) i) \<Longrightarrow>
     chat_step c (c\<lparr>ch_page := (ch_page c)(i := snd (onmessage (Text (ws_sent (ch_server c) i ! ch_delivered c i)) (ch_page c i))),
                    ch_delivered := (ch_delivered c)(i := Suc (ch_delivered c i))\<rparr>)"
| accept: "chat_step c (c\<lparr>ch_server := snd (ws_add k i (ch_server c))\<rparr>)"
| reorder: "distinct order \<Longrightarrow> set order = set (ws_clients (ch_server c)) \<Longrightarrow>
     chat_step c (c\<lparr>ch_server := (ch_server c)\<lparr>ws_clients := order\<rparr>\<rparr>)"
| read: "i \<in> set (ws_clients (ch_server c)) \<Longrightarrow> ch_inbox c i = m # ms \<Longrightarrow>
     chat_step c (c\<lparr>ch_inbox := (ch_inbox c)(i := ms), ch_server := snd (ws_on_message broken i (WsText m) (ch_server c))\<rparr>)"
| finish: "chat_step c (c\<lparr>ch_server := snd (ws_discard i (ch_server c))\<rparr>)"
| tick: "chat_step c (c\<lparr>ch_server := snd (ws_background_round broken ts (ch_server c))\<rparr>)"

definition chat_start :: "(nat \<Rightarrow> js_string \<times> js_string \<times> js_string) \<Rightarrow> chat" where
  "chat_start loc = \<lparr>ch_page = (\<lambda>i. case loc i of (hostname, port, field) \<Rightarrow> page_init hostname port field),
     ch_inbox = (\<lambda>_. []), ch_delivered = (\<lambda>_. 0),
     ch_server = \<lparr>ws_clients = [], ws_closed = {}, ws_sent = (\<lambda>_. [])\<rparr>\<rparr>"

inductive chat_reachable :: "chat \<Rightarrow> bool" where
  start: "chat_reachable (chat_start loc)"
| step: "chat_reachable c \<Longrightarrow> chat_step c c' \<Longrightarrow> chat_reachable c'"

text \<open>A frame the server may send: a time, or the answer to something a page transmitted.\<close>

definition said :: "chat \<Rightarrow> js_string \<Rightarrow> bool" where
  "said c m \<longleftrightarrow> (\<exists>j. m \<in> set (transmitted (ch_page c j)))"

definition genuine :: "chat \<Rightarrow> js_string \<Rightarrow> bool" where
  "genuine c t \<longleftrightarrow> (\<exists>ts. t = js ''TIME: '' @ ts) \<or> (\<exists>m. said c m \<and> t = m @ js ''/answer'')"

definition chat_ok :: "chat \<Rightarrow> bool" where
  "chat_ok c \<longleftrightarrow> distinct (ws_clients (ch_server c))
     \<and> (\<forall>i. set (ch_inbox c i) \<subseteq> set (transmitted (ch_page c i)))
     \<and> (\<forall>i. \<forall>t \<in> set (ws_sent (ch_server c) i). genuine c t)
     \<and> (\<forall>i. ch_delivered c i \<le> length (ws_sent (ch_server c) i)
          \<and> received (ch_page c i) = take (ch_delivered c i) (ws_sent (ch_server c) i))"

lemma received_snoc [simp]:
  "received (p\<lparr>log_items := log_items p @ [js ''MSG-RECV: '' @ t]\<rparr>) = received p @ [t]"
  by (simp add: received_def map_filter_def recv_text_def js_def)

lemma received_init: "received (page_init hostname port field) = []"
  by (simp add: received_def page_init_def log_def act_simps map_filter_def recv_text_def js_def)

lemma genuine_mono:
  "genuine c t \<Longrightarrow> (\<And>j. set (transmitted (ch_page c j)) \<subseteq> set (transmitted (ch_page c' j))) \<Longrightarrow> genuine c' t"
  unfolding genuine_def said_def by blast

lemma onmessage_page:
  "transmitted (snd (onmessage d p)) = transmitted p"
  "received (snd (onmessage (Text t) p)) = received p @ [t]"
  by (simp_all add: onmessage_def log_def act_simps data_to_string_def)

lemma genuine_update [simp]:
  "genuine (c\<lparr>ch_server := s\<rparr>) = genuine c" "genuine (c\<lparr>ch_inbox := x\<rparr>) = genuine c"
  by (simp_all add: genuine_def said_def fun_eq_iff)

text \<open>A broadcast of a genuine frame.\<close>

lemma handed_ok:
  assumes "chat_ok c" and "genuine c t"
  shows "chat_ok (c\<lparr>ch_server := handed us t (ch_server c)\<rparr>)"
  using assms by (auto simp: chat_ok_def intro: le_SucI)

lemma broadcast_ok:
  assumes "chat_ok c" and "genuine c t"
  shows "chat_ok (c\<lparr>ch_server := snd (ws_broadcast broken t (ch_server c))\<rparr>)"
  using handed_ok [OF assms] assms(1) broadcast_run [of "ch_server c" broken t] by (simp add: chat_ok_def)

lemma server_ok:
  "chat_ok c \<Longrightarrow> distinct cl \<Longrightarrow> chat_ok (c\<lparr>ch_server := (ch_server c)\<lparr>ws_clients := cl\<rparr>\<rparr>)"
  "chat_ok c \<Longrightarrow> chat_ok (c\<lparr>ch_server := (ch_server c)\<lparr>ws_closed := X\<rparr>\<rparr>)"
  by (simp_all add: chat_ok_def)

lemma inbox_ok:
  assumes "chat_ok c" and "ch_inbox c i = m # ms"
  shows "chat_ok (c\<lparr>ch_inbox := (ch_inbox c)(i := ms)\<rparr>)" "said c m"
proof -
  have "set (ch_inbox c i) \<subseteq> set (transmitted (ch_page c i))" using assms(1) by (simp add: chat_ok_def)
  then have ms: "set (m # ms) \<subseteq> set (transmitted (ch_page c i))" by (simp only: assms(2))
  with assms(1) show "chat_ok (c\<lparr>ch_inbox := (ch_inbox c)(i := ms)\<rparr>)" by (simp add: chat_ok_def)
  from ms show "said c m" by (auto simp: said_def)
qed

lemma chat_step_ok: "chat_step c c' \<Longrightarrow> chat_ok c \<Longrightarrow> chat_ok c'"
proof (induction rule: chat_step.induct)
  case (page_event c i p' new)
  let ?c = "c\<lparr>ch_page := (ch_page c)(i := p'), ch_inbox := (ch_inbox c)(i := ch_inbox c i @ new)\<rparr>"
  have "genuine ?c t" if "genuine c t" for t
    using that by (rule genuine_mono) (use page_event in auto)
  with page_event show ?case by (auto simp: chat_ok_def)
next
  case (delivery c i)
  let ?p = "snd (onmessage (Text (ws_sent (ch_server c) i ! ch_delivered c i)) (ch_page c i))"
  let ?c = "c\<lparr>ch_page := (ch_page c)(i := ?p), ch_delivered := (ch_delivered c)(i := Suc (ch_delivered c i))\<rparr>"
  have "genuine ?c t" if "genuine c t" for t
    using that by (rule genuine_mono) (simp add: onmessage_page)
  with delivery show ?case by (auto simp: chat_ok_def onmessage_page take_Suc_conv_app_nth)
next
  case (accept c k i)
  let ?cl = "ws_clients (ch_server c)"
  have d: "distinct ?cl" using accept by (simp add: chat_ok_def)
  then have "distinct (take k ?cl @ i # drop k ?cl)" if "i \<notin> set ?cl"
    using that set_take_disj_set_drop_if_distinct [OF d order_refl, of k]
    by (auto dest: in_set_takeD in_set_dropD)
  with server_ok(1) [OF accept] accept show ?case by (simp add: ws_add_def act_simps)
next
  case (read i c m ms broken)
  let ?c = "c\<lparr>ch_inbox := (ch_inbox c)(i := ms)\<rparr>"
  have c: "chat_ok ?c" and m: "said c m" using inbox_ok [OF read.prems read.hyps(2)] by simp_all
  have "genuine ?c (m @ js ''/answer'')" using m by (auto simp: genuine_def said_def)
  from broadcast_ok [OF c this, of broken] server_ok(2) [OF c] show ?case
    by (simp add: ws_on_message_def ws_close_def act_simps)
next
  case (finish c i)
  then have "distinct (removeAll i (ws_clients (ch_server c)))" by (simp add: chat_ok_def distinct_removeAll)
  from server_ok(1) [OF finish this] show ?case by (simp add: ws_discard_def act_simps)
next
  case (tick c broken ts)
  have "genuine c (js ''TIME: '' @ ts)" by (auto simp: genuine_def)
  from broadcast_ok [OF tick this] show ?case by (simp add: ws_background_round_def)
qed (auto intro: server_ok)

lemma chat_reachable_ok: "chat_reachable c \<Longrightarrow> chat_ok c"
proof (induction rule: chat_reachable.induct)
  case (start loc)
  show ?case by (auto simp: chat_ok_def chat_start_def received_init split: prod.splits)
qed (rule chat_step_ok)


text \<open>A run with one page: it connects, greets, and gets the answer.\<close>

definition chat_opened :: chat where
  "chat_opened = (let c = chat_start (\<lambda>_. ([], js ''8080'', [])) in
     c\<lparr>ch_page := (ch_page c)(0 := snd (onopen ((ch_page c 0)\<lparr>ready := OPEN\<rparr>))),
       ch_inbox := (ch_inbox c)(0 := ch_inbox c 0 @ [js ''HELLO''])\<rparr>)"

definition chat_accepted :: chat where
  "chat_accepted = chat_opened\<lparr>ch_server := snd (ws_add 0 0 (ch_server chat_opened))\<rparr>"

definition chat_answered :: chat where
  "chat_answered = chat_accepted\<lparr>ch_inbox := (ch_inbox chat_accepted)(0 := []),
     ch_server := snd (ws_on_message (\<lambda>_. False) 0 (WsText (js ''HELLO'')) (ch_server chat_accepted))\<rparr>"

definition chat_heard :: chat where
  "chat_heard = chat_answered\<lparr>ch_page := (ch_page chat_answered)(0 :=
       snd (onmessage (Text (ws_sent (ch_server chat_answered) 0 ! ch_delivered chat_answered 0)) (ch_page chat_answered 0))),
     ch_delivered := (ch_delivered chat_answered)(0 := Suc (ch_delivered chat_answered 0))\<rparr>"

lemma chat_accepted_reachable: "chat_reachable chat_accepted"
proof -
  let ?c = "chat_start (\<lambda>_. ([], js ''8080'', []))"
  have r: "ready (ch_page ?c 0) = CONNECTING" by (simp add: chat_start_def page_init_def log_def act_simps)
  have "chat_step ?c chat_opened"
    unfolding chat_opened_def Let_def
    by (rule chat_step.page_event [OF browser_step.established [OF r]])
       (simp_all add: chat_start_def page_init_def client_defs act_simps received_def map_filter_def recv_text_def js_def
          party_popper_def wsuri_def mkuri_def high_surrogate_def low_surrogate_def)
  then have "chat_reachable chat_opened" by (rule chat_reachable.step [OF chat_reachable.start])
  then show ?thesis unfolding chat_accepted_def by (rule chat_reachable.step) (rule chat_step.accept)
qed

lemmas chat_run_defs = chat_answered_def chat_accepted_def chat_opened_def chat_start_def Let_def ws_add_def
  ws_on_message_def ws_broadcast_def send_str_def act_simps client_defs page_init_def

lemma chat_heard_reachable: "chat_reachable chat_heard"
proof -
  have "chat_step chat_accepted chat_answered"
    unfolding chat_answered_def by (rule chat_step.read) (simp_all add: chat_run_defs)
  then have "chat_reachable chat_answered" by (rule chat_reachable.step [OF chat_accepted_reachable])
  moreover have "chat_step chat_answered chat_heard"
    unfolding chat_heard_def by (rule chat_step.delivery) (simp_all add: chat_run_defs js_def)
  ultimately show ?thesis by (rule chat_reachable.step)
qed


end
