(* ===== verification/Lifecycle.thy ===== *)
theory Lifecycle
  imports Broadcast
begin

text \<open>
  The parts of \<^verbatim>\<open>csm/core/agent/api.py\<close> that run beside the requests: alerts pushed to the connected
  web sockets through a queue (\<open>push\<close>, \<open>_websock_bg\<close>, \<open>_websock_broadcast\<close>, \<open>process_websocket\<close>), and the
  shutdown on a signal. The JSON text of a message is a parameter, \<open>None\<close> where the serializer raises.
  The open connections of the HTTP server are a function of the time in seconds.
\<close>

section \<open>Pushing alerts\<close>

record 'm agent =
  ag_queue :: "'m list"
  ag_ws :: ws_state

definition push :: "'m \<Rightarrow> 'm agent \<Rightarrow> bool \<times> 'm agent" where
  "push alert a = (True, a\<lparr>ag_queue := ag_queue a @ [alert]\<rparr>)"

text \<open>The text is made anew for every client inside the \<open>try\<close>: if it cannot be made, nobody gets it.\<close>

definition websock_broadcast :: "('m \<Rightarrow> js_string option) \<Rightarrow> (nat \<Rightarrow> bool) \<Rightarrow> 'm \<Rightarrow> (ws_state, ws_exn, unit) act" where
  "websock_broadcast json_serializer broken msg =
     (case json_serializer msg of None \<Rightarrow> ret () | Some json_msg \<Rightarrow> ws_broadcast broken json_msg)"

text \<open>The background task: round \<open>k\<close> takes the head of the queue, or waits while there is none.\<close>

fun websock_bg :: "('m \<Rightarrow> js_string option) \<Rightarrow> (nat \<Rightarrow> nat \<Rightarrow> bool) \<Rightarrow> nat \<Rightarrow> nat \<Rightarrow> 'm agent \<Rightarrow> 'm agent" where
  "websock_bg json_serializer broken k 0 a = a"
| "websock_bg json_serializer broken k (Suc n) a =
     (case ag_queue a of
        [] \<Rightarrow> a
      | msg # rest \<Rightarrow>
          websock_bg json_serializer broken (Suc k) n
            (a\<lparr>ag_queue := rest, ag_ws := snd (websock_broadcast json_serializer (broken k) msg (ag_ws a))\<rparr>))"

text \<open>A connection: what the client sends is ignored; at its end the socket is closed, and on every way out,
  also when the loop over the messages is interrupted by an exception, it is forgotten.\<close>

definition process_websocket :: "nat \<Rightarrow> nat \<Rightarrow> ws_msg list \<Rightarrow> ws_exn option \<Rightarrow> (ws_state, ws_exn, unit) act" where
  "process_websocket k ws msgs interrupted =
     bind_act (ws_add k ws) (\<lambda>_.
     bind_act (catch_act
         (bind_act (for_each (\<lambda>m. ret ()) msgs) (\<lambda>_.
            case interrupted of None \<Rightarrow> ws_close ws | Some e \<Rightarrow> throw e))
         (\<lambda>e. bind_act (ws_discard ws) (\<lambda>_. throw e)))
       (\<lambda>_. ws_discard ws))"

lemma process_websocket_forgets:
  "ws \<notin> set (ws_clients (snd (process_websocket k ws msgs interrupted st)))"
proof -
  have loop: "for_each (\<lambda>m. ret ()) msgs st' = (Inr (), st')" for st' :: ws_state
    by (induction msgs) (simp_all add: act_simps)
  show ?thesis
    by (cases interrupted) (simp_all add: process_websocket_def ws_discard_def ws_close_def ws_add_def act_simps loop)
qed

lemma push_all: "fold (\<lambda>m a. snd (push m a)) ms a = a\<lparr>ag_queue := ag_queue a @ ms\<rparr>"
  by (induction ms arbitrary: a) (simp_all add: push_def)

text \<open>One round on the sockets.\<close>

definition round_state :: "('m \<Rightarrow> js_string option) \<Rightarrow> (nat \<Rightarrow> bool) \<Rightarrow> 'm \<Rightarrow> ws_state \<Rightarrow> ws_state" where
  "round_state json_serializer broken msg st =
     (case json_serializer msg of None \<Rightarrow> st | Some j \<Rightarrow> handed (reached broken st) j st)"

lemma websock_round:
  "distinct (ws_clients st) \<Longrightarrow> websock_broadcast ser broken msg st = (Inr (), round_state ser broken msg st)"
  by (simp add: websock_broadcast_def round_state_def broadcast_run ret_app split: option.splits)

lemma round_state_clients [simp]:
  "ws_clients (round_state ser broken msg st) = ws_clients st" "ws_closed (round_state ser broken msg st) = ws_closed st"
  by (simp_all add: round_state_def split: option.splits)

lemma websock_bg_drains:
  assumes "distinct (ws_clients (ag_ws a))" and "length (ag_queue a) \<le> n"
  shows "ag_queue (websock_bg ser broken k n a) = [] \<and> ws_clients (ag_ws (websock_bg ser broken k n a)) = ws_clients (ag_ws a)"
  using assms by (induction n arbitrary: k a) (auto simp: websock_round split: list.splits)

lemma websock_bg_sent:
  assumes "distinct (ws_clients (ag_ws a))" and "length (ag_queue a) \<le> n"
    and "i \<in> set (ws_clients (ag_ws a))"
    and "\<And>j w. w \<in> set (ws_clients (ag_ws a)) \<Longrightarrow> \<not> broken j w \<and> w \<notin> ws_closed (ag_ws a)"
  shows "ws_sent (ag_ws (websock_bg ser broken k n a)) i = ws_sent (ag_ws a) i @ List.map_filter ser (ag_queue a)"
  using assms
proof (induction n arbitrary: k a)
  case (Suc n)
  show ?case
  proof (cases "ag_queue a")
    case (Cons msg rest)
    let ?a = "a\<lparr>ag_queue := rest, ag_ws := round_state ser (broken k) msg (ag_ws a)\<rparr>"
    have "reached (broken k) (ag_ws a) = ws_clients (ag_ws a)"
      unfolding reached_def takeWhile_eq_all_conv using Suc.prems(4) by blast
    then have "ws_sent (round_state ser (broken k) msg (ag_ws a)) i
        = ws_sent (ag_ws a) i @ (case ser msg of None \<Rightarrow> [] | Some j \<Rightarrow> [j])"
      using Suc.prems(3) by (simp add: round_state_def split: option.splits)
    moreover have "ws_sent (ag_ws (websock_bg ser broken (Suc k) n ?a)) i
        = ws_sent (ag_ws ?a) i @ List.map_filter ser rest"
      using Suc.prems Suc.IH [of ?a "Suc k"] Cons by simp
    ultimately show ?thesis
      using Suc.prems(1) Cons by (simp add: websock_round map_filter_def split: option.splits)
  qed (simp add: map_filter_def)
qed (simp add: map_filter_def)




section \<open>Shutdown\<close>

text \<open>\<open>while c in server.connections: await asyncio.sleep(1)\<close>\<close>

partial_function (option) wait_gone :: "(nat \<Rightarrow> 'c list) \<Rightarrow> 'c \<Rightarrow> nat \<Rightarrow> nat option" where
  "wait_gone connections c t = (if c \<in> set (connections t) then wait_gone connections c (Suc t) else Some t)"

fun wait_all :: "(nat \<Rightarrow> 'c list) \<Rightarrow> 'c list \<Rightarrow> nat \<Rightarrow> nat option" where
  "wait_all connections [] t = Some t"
| "wait_all connections (c # cs) t = Option.bind (wait_gone connections c t) (wait_all connections cs)"

datatype shutdown_event = TasksCancelled | SiteStopped | LoopStopped

text \<open>The time at which it is done and what it did then; SIGTERM passes the server, SIGINT does not.\<close>

definition shut_down :: "(nat \<Rightarrow> 'c list) \<Rightarrow> bool \<Rightarrow> nat \<Rightarrow> (nat \<times> shutdown_event list) option" where
  "shut_down connections has_server t =
     map_option (\<lambda>u. (u, [TasksCancelled, SiteStopped, LoopStopped]))
       (if has_server then wait_all connections (connections t) t else Some t)"

lemma wait_gone_finds:
  "c \<notin> set (connections u) \<Longrightarrow> t \<le> u \<Longrightarrow> \<exists>v. wait_gone connections c t = Some v \<and> t \<le> v \<and> v \<le> u
     \<and> c \<notin> set (connections v) \<and> (\<forall>w. t \<le> w \<and> w < v \<longrightarrow> c \<in> set (connections w))"
proof (induction "u - t" arbitrary: t)
  case 0
  then show ?case by (subst wait_gone.simps) auto
next
  case (Suc n)
  show ?case
  proof (cases "c \<in> set (connections t)")
    case True
    from Suc.hyps(2) have "n = u - Suc t" "Suc t \<le> u" by simp_all
    from Suc.hyps(1) [OF this(1) Suc.prems(1) this(2)] obtain v where v: "wait_gone connections c (Suc t) = Some v" "Suc t \<le> v" "v \<le> u"
      "c \<notin> set (connections v)" "\<forall>w. Suc t \<le> w \<and> w < v \<longrightarrow> c \<in> set (connections w)"
      by blast
    have "\<forall>w. t \<le> w \<and> w < v \<longrightarrow> c \<in> set (connections w)" using v(5) True by (metis Suc_leI le_neq_implies_less)
    with v True show ?thesis by (subst wait_gone.simps) auto
  next
    case False
    then show ?thesis using Suc.prems by (subst wait_gone.simps) auto
  qed
qed

lemma wait_gone_sound:
  assumes "wait_gone connections c t = Some v"
  shows "t \<le> v \<and> c \<notin> set (connections v)"
proof (rule wait_gone.raw_induct [where P = "\<lambda>connections c t v. t \<le> v \<and> c \<notin> set (connections v)", OF _ assms])
  fix wait :: "(nat \<Rightarrow> 'a list) \<Rightarrow> 'a \<Rightarrow> nat \<Rightarrow> nat option" and connections c t v
  assume IH: "\<And>connections c t v. wait connections c t = Some v \<Longrightarrow> t \<le> v \<and> c \<notin> set (connections v)"
    and step: "(if c \<in> set (connections t) then wait connections c (Suc t) else Some t) = Some v"
  show "t \<le> v \<and> c \<notin> set (connections v)"
  proof (cases "c \<in> set (connections t)")
    case True
    with step have "wait connections c (Suc t) = Some v" by simp
    from IH [OF this] show ?thesis by simp
  qed (use step in simp)
qed

text \<open>Connections do not come back.\<close>

definition leave_once :: "(nat \<Rightarrow> 'c list) \<Rightarrow> bool" where
  "leave_once connections \<longleftrightarrow> (\<forall>t c u v. c \<in> set (connections t) \<and> t \<le> u \<and> c \<notin> set (connections u) \<and> u \<le> v
     \<longrightarrow> c \<notin> set (connections v))"

lemma wait_all_finds:
  assumes "\<forall>c \<in> set cs. c \<notin> set (connections u)" and "t \<le> u"
    and "\<And>c v w. c \<in> set cs \<Longrightarrow> t \<le> v \<Longrightarrow> c \<notin> set (connections v) \<Longrightarrow> v \<le> w \<Longrightarrow> c \<notin> set (connections w)"
  shows "\<exists>v. wait_all connections cs t = Some v \<and> t \<le> v \<and> v \<le> u \<and> (\<forall>c \<in> set cs. c \<notin> set (connections v))"
  using assms
proof (induction cs arbitrary: t)
  case (Cons c cs)
  from wait_gone_finds [of c connections u t] Cons.prems(1,2) obtain v where
    v: "wait_gone connections c t = Some v" "t \<le> v" "v \<le> u" "c \<notin> set (connections v)" by auto
  have "\<forall>c \<in> set cs. c \<notin> set (connections u)" using Cons.prems(1) by simp
  moreover have "x \<notin> set (connections w)" if "x \<in> set cs" "v \<le> v'" "x \<notin> set (connections v')" "v' \<le> w" for x v' w
    by (rule Cons.prems(3) [of x v' w]) (use that v(2) in simp_all)
  ultimately obtain w where
    w: "wait_all connections cs v = Some w" "v \<le> w" "w \<le> u" "\<forall>c \<in> set cs. c \<notin> set (connections w)"
    using Cons.IH [of v] v(3) by blast
  have "c \<notin> set (connections w)" using Cons.prems(3) [of c v w] v w by simp
  with v w show ?case by auto
qed simp

lemma wait_all_sound:
  assumes "wait_all connections cs t = Some u"
  shows "t \<le> u \<and> (\<forall>c \<in> set cs. \<exists>v. t \<le> v \<and> v \<le> u \<and> c \<notin> set (connections v))"
  using assms
proof (induction cs arbitrary: t)
  case (Cons c cs)
  then obtain v where v: "wait_gone connections c t = Some v" "wait_all connections cs v = Some u"
    by (auto simp: bind_eq_Some_conv)
  with Cons.IH [OF v(2)] wait_gone_sound [OF v(1)] show ?case by (auto intro: order_trans)
qed simp

lemma all_left:
  assumes "leave_once connections" and "\<forall>c \<in> set cs. \<exists>u \<ge> t. c \<notin> set (connections u)" and "set cs \<subseteq> set (connections t)"
  shows "\<exists>u \<ge> t. \<forall>c \<in> set cs. c \<notin> set (connections u)"
  using assms(2,3)
proof (induction cs)
  case (Cons c cs)
  then obtain u v where u: "u \<ge> t" "\<forall>c \<in> set cs. c \<notin> set (connections u)" and v: "v \<ge> t" "c \<notin> set (connections v)"
    by auto
  have gone: "x \<notin> set (connections (max u v))" if "x \<in> set (connections t)" "w \<ge> t" "x \<notin> set (connections w)" "w \<le> max u v" for x w
    using that assms(1) unfolding leave_once_def by blast
  have "\<forall>x \<in> set (c # cs). x \<notin> set (connections (max u v))"
    using Cons.prems(2) u v gone by (metis insert_iff list.simps(15) max.cobounded1 max.cobounded2 subsetD)
  with u(1) show ?case by (meson max.coboundedI1)
qed auto

text \<open>
  C13. The graceful shutdown ends exactly when it should: if a connection that has left does not come
  back, the shutdown on SIGTERM returns if and only if every connection open at the signal leaves at
  some time; it then returns at the first second at which they are all gone, whatever new connections
  came meanwhile, having cancelled the tasks, stopped the site and stopped the loop, in this order.
  On SIGINT it waits for nobody.
\<close>

theorem shutdown_terminates:
  assumes "leave_once connections"
  shows "((\<exists>u es. shut_down connections True t = Some (u, es))
            \<longleftrightarrow> (\<forall>c \<in> set (connections t). \<exists>u \<ge> t. c \<notin> set (connections u)))
     \<and> (\<forall>u es. shut_down connections True t = Some (u, es) \<longrightarrow> es = [TasksCancelled, SiteStopped, LoopStopped]
          \<and> u = (LEAST v. t \<le> v \<and> set (connections t) \<inter> set (connections v) = {}))
     \<and> shut_down connections False t = Some (t, [TasksCancelled, SiteStopped, LoopStopped])"
proof (intro conjI allI impI)
  let ?cs = "connections t"
  have stay: "c \<notin> set (connections w)" if "c \<in> set ?cs" "t \<le> v" "c \<notin> set (connections v)" "v \<le> w" for c v w
    using that assms unfolding leave_once_def by blast
  have finds: "\<exists>v. wait_all connections ?cs t = Some v \<and> t \<le> v \<and> v \<le> u \<and> (\<forall>c \<in> set ?cs. c \<notin> set (connections v))"
    if "\<forall>c \<in> set ?cs. c \<notin> set (connections u)" "t \<le> u" for u
    using that by (rule wait_all_finds) (rule stay)
  show "(\<exists>u es. shut_down connections True t = Some (u, es)) \<longleftrightarrow> (\<forall>c \<in> set ?cs. \<exists>u \<ge> t. c \<notin> set (connections u))"
  proof
    assume "\<forall>c \<in> set ?cs. \<exists>u \<ge> t. c \<notin> set (connections u)"
    with all_left [OF assms] obtain u where "u \<ge> t" "\<forall>c \<in> set ?cs. c \<notin> set (connections u)" by blast
    with finds [of u] show "\<exists>u es. shut_down connections True t = Some (u, es)" by (auto simp: shut_down_def)
  qed (auto simp: shut_down_def dest!: wait_all_sound)
  fix u es
  assume run: "shut_down connections True t = Some (u, es)"
  then show "es = [TasksCancelled, SiteStopped, LoopStopped]" by (auto simp: shut_down_def)
  from run have w: "wait_all connections ?cs t = Some u" by (auto simp: shut_down_def)
  from wait_all_sound [OF w] stay have u: "t \<le> u \<and> set ?cs \<inter> set (connections u) = {}" by blast
  show "u = (LEAST v. t \<le> v \<and> set ?cs \<inter> set (connections v) = {})"
  proof (rule Least_equality [symmetric], rule u)
    fix v assume "t \<le> v \<and> set ?cs \<inter> set (connections v) = {}"
    with finds [of v] w show "u \<le> v" by auto
  qed
qed (simp add: shut_down_def)

theorem shutdown_terminates_witness:
  "\<exists>u es. shut_down (\<lambda>t::nat. if t < 5 then [''a''] else []) True 2 = Some (u, es)"
proof -
  let ?conns = "\<lambda>t::nat. if t < 5 then [''a''] else []"
  have "leave_once ?conns" by (auto simp: leave_once_def split: if_splits)
  moreover have "\<forall>c \<in> set (?conns 2). \<exists>u \<ge> 2. c \<notin> set (?conns u)" by (auto intro: exI [of _ 5])
  ultimately show ?thesis using shutdown_terminates [of ?conns 2] by blast
qed

end
