(* ===== verification/Cluster.thy ===== *)
theory Cluster
  imports Users Session_Store
begin

text \<open>
  Cluster management: the view \<open>ClusterOperationsView\<close> of \<^verbatim>\<open>csm/core/controllers/cluster_management.py\<close>,
  the service of \<^verbatim>\<open>csm/core/services/cluster_management.py\<close>, the plugin of
  \<^verbatim>\<open>csm/plugins/cortx/cluster_management.py\<close>, the operations and their factories of
  \<^verbatim>\<open>csm/common/ha/cluster_management\<close>, and the producer side of \<open>MessageBusComm\<close> in
  \<^verbatim>\<open>csm/common/comm.py\<close>. The message bus of \<^verbatim>\<open>cortx.utils\<close> is the parameter \<open>bus_lib\<close>, whose calls act on a
  world of its own; the locale \<open>message_bus\<close> says what is relied on. The HA framework, which handles the
  operations other than the shutdown signal, is the parameter \<open>ha\<close>.
\<close>

section \<open>The message bus\<close>

record 'w bus_lib =
  bl_init :: "string list \<Rightarrow> ('w, exn, unit) act"
  bl_producer :: "('w, exn, unit) act"
  bl_send :: "string \<Rightarrow> ('w, exn, unit) act"

text \<open>\<open>MessageBusComm\<close>: whether it has a producer, and \<open>is_running\<close>.\<close>

record message_bus_comm =
  mc_producer :: bool
  mc_running :: bool

record 'w cluster =
  cl_bus :: "message_bus_comm option"
  cl_world :: 'w

definition on_world :: "('w, exn, 'a) act \<Rightarrow> ('w cluster, exn, 'a) act" where
  "on_world m = within cl_world (\<lambda>w c. c\<lparr>cl_world := w\<rparr>) m"

definition comm_create :: "'w bus_lib \<Rightarrow> string list \<Rightarrow> ('w cluster, exn, unit) act" where
  "comm_create L endpoints =
     bind_act (on_world (bl_init L endpoints)) (\<lambda>_.
     modify_act (\<lambda>c. c\<lparr>cl_bus := Some \<lparr>mc_producer = False, mc_running = False\<rparr>\<rparr>))"

definition comm_update :: "(message_bus_comm \<Rightarrow> message_bus_comm) \<Rightarrow> ('w cluster, exn, unit) act" where
  "comm_update f = modify_act (\<lambda>c. c\<lparr>cl_bus := map_option f (cl_bus c)\<rparr>)"

definition comm_init_producer :: "'w bus_lib \<Rightarrow> ('w cluster, exn, unit) act" where
  "comm_init_producer L =
     bind_act (comm_update (\<lambda>b. b\<lparr>mc_running := True\<rparr>)) (\<lambda>_.
     bind_act (on_world (bl_producer L)) (\<lambda>_.
     comm_update (\<lambda>b. b\<lparr>mc_producer := True\<rparr>)))"

text \<open>\<open>send\<close> only logs when there is no producer.\<close>

definition comm_send :: "'w bus_lib \<Rightarrow> message_bus_comm \<Rightarrow> string \<Rightarrow> ('w cluster, exn, unit) act" where
  "comm_send L b message =
     (if mc_producer b
      then if mc_running b then on_world (bl_send L message)
           else comm_update (\<lambda>b. b\<lparr>mc_producer := False\<rparr>)
      else ret ())"


section \<open>The service\<close>

definition unavailable :: "string \<Rightarrow> exn" where
  "unavailable msg = mk_CsmServiceNotAvailable (Some msg)"

definition init_message_bus_producer :: "'w bus_lib \<Rightarrow> ('w cluster, exn, bool) act" where
  "init_message_bus_producer L =
     catch_act (bind_act (comm_init_producer L) (\<lambda>_. ret True)) (\<lambda>_. ret False)"

text \<open>The loop over the configured endpoints; a missing or empty one is an error.\<close>

fun collect_endpoints :: "string option list \<Rightarrow> exn + string list" where
  "collect_endpoints [] = Inr []"
| "collect_endpoints (ep # eps) =
     (case ep of
        None \<Rightarrow> Inl (unavailable ''Kafka endpoint not found.'')
      | Some e \<Rightarrow> if e = [] then Inl (unavailable ''Kafka endpoint not found.'')
                  else bind_sum (collect_endpoints eps) (\<lambda>es. Inr (e # es)))"

text \<open>\<open>for retry in range(0, MAX_RETRY_COUNT)\<close> around a call that says whether it succeeded; the result is
  that of the last attempt.\<close>

fun attempts :: "nat \<Rightarrow> ('s, exn, bool) act \<Rightarrow> ('s, exn, bool) act" where
  "attempts 0 call = ret False"
| "attempts (Suc n) call = bind_act call (\<lambda>ok. if ok then ret True else attempts n call)"

definition init_message_bus :: "'w bus_lib \<Rightarrow> string option list \<Rightarrow> nat \<Rightarrow> ('w cluster, exn, unit) act" where
  "init_message_bus L endpoints max_retry =
     bind_act (of_sum (collect_endpoints endpoints)) (\<lambda>eps.
     bind_act (comm_create L eps) (\<lambda>_.
     bind_act (attempts max_retry (init_message_bus_producer L)) (\<lambda>ok.
       if \<not> ok then throw (unavailable ''Communiction channel is not available'') else ret ())))"


section \<open>Operations\<close>

definition ShUTDOWN_SIGNAL :: string where "ShUTDOWN_SIGNAL = ''shutdown_signal''"
definition ADMIN_ONLY_OPERATIONS :: "string list" where "ADMIN_ONLY_OPERATIONS = [ShUTDOWN_SIGNAL]"

datatype operation =
    ClusterStartOperation | ClusterStopOperation | ClusterShutdownSignal
  | NodeStartOperation | NodeStopOperation | NodePoweroffOperation

datatype resource_operations = ClusterOperations | NodeOperations

definition malformed :: "string \<Rightarrow> exn" where
  "malformed msg = mk_InvalidRequest (Some msg) ''MalformedRequest''"

definition get_operations_by_resource :: "string \<Rightarrow> exn + resource_operations" where
  "get_operations_by_resource resource =
     (if resource = ''cluster'' then Inr ClusterOperations
      else if resource = ''node'' then Inr NodeOperations
      else Inl (malformed ''Invalid resource or the resource does not support any operations.''))"

definition get_operation :: "resource_operations \<Rightarrow> string \<Rightarrow> exn + operation" where
  "get_operation ro operation =
     (case ro of
        ClusterOperations \<Rightarrow>
          if operation = ''start'' then Inr ClusterStartOperation
          else if operation = ''stop'' then Inr ClusterStopOperation
          else if operation = ShUTDOWN_SIGNAL then Inr ClusterShutdownSignal
          else Inl (malformed (''Cluster does not support '' @ operation @ '' operation.''))
      | NodeOperations \<Rightarrow>
          if operation = ''start'' then Inr NodeStartOperation
          else if operation = ''stop'' then Inr NodeStopOperation
          else if operation = ''poweroff'' then Inr NodePoweroffOperation
          else Inl (malformed (''Node does not support '' @ operation @ '' operation.'')))"

definition shutdown_message :: string where
  "shutdown_message = ''{'' @ [CHR 0x27] @ ''start_cluster_shutdown'' @ [CHR 0x27] @ '': 1}''"

definition send_message :: "'w bus_lib \<Rightarrow> message_bus_comm \<Rightarrow> string \<Rightarrow> ('w cluster, exn, bool) act" where
  "send_message L b message = catch_act (bind_act (comm_send L b message) (\<lambda>_. ret True)) (\<lambda>_. ret False)"

text \<open>\<open>ClusterShutdownSignal.execute\<close>. The object is the service's own, so each attempt sees its state.\<close>

definition send_current :: "'w bus_lib \<Rightarrow> ('w cluster, exn, bool) act" where
  "send_current L =
     bind_act (gets cl_bus) (\<lambda>b. case b of
       None \<Rightarrow> ret False
     | Some bus \<Rightarrow> send_message L bus shutdown_message)"

definition execute_shutdown :: "'w bus_lib \<Rightarrow> nat \<Rightarrow> ('w cluster, exn, unit) act" where
  "execute_shutdown L max_retry =
     bind_act (gets cl_bus) (\<lambda>b.
       case b of
         None \<Rightarrow> throw (unavailable ''Error while sending shutdown signal'')
       | Some _ \<Rightarrow>
           bind_act (attempts max_retry (send_current L)) (\<lambda>ok.
             if \<not> ok then throw (unavailable ''Error while sending shutdown signal'') else ret ()))"

text \<open>\<open>execute\<close> of the operations the factories give for the shutdown signal; the others are not reached
  from there with this name.\<close>

definition shutdown_reply :: "(string, string) dict" where
  "shutdown_reply = [(''message'', ''Shutdown signal sent successfully.'')]"

definition process_shutdown_signal :: "'w bus_lib \<Rightarrow> nat \<Rightarrow> string \<Rightarrow> string \<Rightarrow> ('w cluster, exn, (string, string) dict) act" where
  "process_shutdown_signal L max_retry resource operation =
     bind_act (of_sum (bind_sum (get_operations_by_resource resource) (\<lambda>ro. get_operation ro operation))) (\<lambda>op.
     bind_act (if op = ClusterShutdownSignal then execute_shutdown L max_retry else ret ()) (\<lambda>_.
     ret shutdown_reply))"

definition request_operation ::
  "'w bus_lib \<Rightarrow> (string \<Rightarrow> string \<Rightarrow> pyval \<Rightarrow> ('w cluster, exn, (string, string) dict) act) \<Rightarrow> nat
     \<Rightarrow> string \<Rightarrow> string \<Rightarrow> pyval \<Rightarrow> ('w cluster, exn, (string, string) dict) act" where
  "request_operation L ha max_retry resource operation arguments =
     (if operation = ShUTDOWN_SIGNAL then process_shutdown_signal L max_retry resource operation
      else ha resource operation arguments)"


section \<open>The view\<close>

definition validate_operation :: "string \<Rightarrow> string option \<Rightarrow> exn + unit" where
  "validate_operation operation role =
     (if operation \<in> set ADMIN_ONLY_OPERATIONS \<and> role \<noteq> Some CSM_SUPER_USER_ROLE
      then Inl (mk_CsmPermissionDenied
             (Some (''Operation '' @ [CHR 0x27] @ operation @ [CHR 0x27] @ '' can not be performed by the user with role: ''
               @ [CHR 0x27] @ (case role of None \<Rightarrow> ''None'' | Some r \<Rightarrow> r) @ [CHR 0x27])) ''PermissionDenied'' None)
      else Inr ())"

text \<open>A body as the schemas let it pass: the operation is a supported one, and the whole dictionary. The
  arguments are passed as keywords, so they must be a dictionary of strings without the names of the
  parameters.\<close>

datatype cluster_request = ClusterInvalid exn | ClusterBody bool string "(pyval, pyval) dict"

definition operation_arguments :: "bool \<Rightarrow> (pyval, pyval) dict \<Rightarrow> exn + pyval" where
  "operation_arguments flat body =
     (if flat then Inr (PDict (dict_pop (PStr ''operation'') body))
      else case dict_get body (PStr ''arguments'') of None \<Rightarrow> Inl KeyError | Some v \<Rightarrow> Inr v)"

fun is_keyword :: "pyval \<Rightarrow> bool" where
  "is_keyword (PStr k) = (k \<notin> {''self'', ''resource'', ''operation''})"
| "is_keyword _ = False"

fun keywords_ok :: "pyval \<Rightarrow> bool" where
  "keywords_ok (PDict d) = list_all (\<lambda>(k, v). is_keyword k) d"
| "keywords_ok _ = False"

definition cluster_view_init :: "'w bus_lib \<Rightarrow> string option list \<Rightarrow> nat \<Rightarrow> ('w cluster, exn, unit) act" where
  "cluster_view_init L endpoints max_retry =
     bind_act (gets cl_bus) (\<lambda>b. if b = None then init_message_bus L endpoints max_retry else ret ())"

definition cluster_post ::
  "'w bus_lib \<Rightarrow> (string \<Rightarrow> string \<Rightarrow> pyval \<Rightarrow> ('w cluster, exn, (string, string) dict) act) \<Rightarrow> string option list \<Rightarrow> nat
     \<Rightarrow> string \<Rightarrow> cluster_request \<Rightarrow> session \<Rightarrow> ('w cluster, exn, (string, string) dict) act" where
  "cluster_post L ha endpoints max_retry resource req request_session =
     bind_act (cluster_view_init L endpoints max_retry) (\<lambda>_.
       case req of
         ClusterInvalid e \<Rightarrow> throw e
       | ClusterBody flat operation body \<Rightarrow>
           if operation \<notin> {ShUTDOWN_SIGNAL} then throw (malformed ''Operation: Incorrect Value: must be from shutdown_signal'')
           else
           bind_act (of_sum (operation_arguments flat body)) (\<lambda>arguments.
           bind_act (of_sum (validate_operation operation (get_user_role request_session))) (\<lambda>_.
             if \<not> keywords_ok arguments then throw TypeError
             else request_operation L ha max_retry resource operation arguments)))"


lemma operation_for_shutdown:
  "get_operations_by_resource resource = Inr ro \<Longrightarrow> get_operation ro ShUTDOWN_SIGNAL = Inr op
     \<Longrightarrow> resource = ''cluster'' \<and> op = ClusterShutdownSignal"
  by (cases ro) (auto simp: get_operations_by_resource_def get_operation_def ShUTDOWN_SIGNAL_def split: if_splits)


section \<open>What is sent\<close>

text \<open>The contract of the bus: only a successful send adds to the topic, exactly its message.\<close>

locale message_bus =
  fixes L :: "'w bus_lib" and topic :: "'w \<Rightarrow> string list"
  assumes init_keeps: "topic (snd (bl_init L eps w)) = topic w"
    and producer_keeps: "topic (snd (bl_producer L w)) = topic w"
    and send_done: "bl_send L m w = (Inr (), w') \<Longrightarrow> topic w' = topic w @ [m]"
    and send_failed: "bl_send L m w = (Inl e, w') \<Longrightarrow> topic w' = topic w"
begin

definition sent :: "'w cluster \<Rightarrow> string list" where
  "sent c = topic (cl_world c)"

lemma keeps_on_world: "(\<And>w. topic (snd (m w)) = topic w) \<Longrightarrow> keeps (\<lambda>c. sent c = t) (on_world m)"
  by (simp add: keeps_def on_world_def sent_def within_def split: prod.splits) (metis snd_conv)

lemma keeps_comm_update [keeps_intros]: "keeps (\<lambda>c. sent c = t) (comm_update f)"
  by (simp add: keeps_def comm_update_def sent_def act_simps)

lemma keeps_attempts: "keeps I call \<Longrightarrow> keeps I (attempts n call)"
  by (induction n) (auto intro!: keeps_intros)

lemma keeps_view_init: "keeps (\<lambda>c. sent c = t) (cluster_view_init L endpoints n)"
proof -
  have create: "keeps (\<lambda>c. sent c = t) (comm_create L eps)" for eps
    unfolding comm_create_def
    by (intro keeps_bind keeps_on_world init_keeps keeps_modify) (simp add: sent_def)
  have "keeps (\<lambda>c. sent c = t) (init_message_bus_producer L)"
    unfolding init_message_bus_producer_def comm_init_producer_def
    by (intro keeps_intros keeps_on_world producer_keeps)
  then show ?thesis
    unfolding cluster_view_init_def init_message_bus_def by (intro keeps_intros create keeps_attempts)
qed

text \<open>One attempt to send, by the state of the channel.\<close>

lemma send_current_cases:
  assumes "cl_bus c = Some b" and "send_current L c = (r, c')"
  shows "\<exists>ok. r = Inr ok \<and>
     (if mc_producer b \<and> mc_running b
      then cl_bus c' = Some b \<and> sent c' = (if ok then sent c @ [shutdown_message] else sent c)
      else ok \<and> cl_bus c' = Some (b\<lparr>mc_producer := False\<rparr>) \<and> sent c' = sent c)"
proof (cases "mc_producer b \<and> mc_running b")
  case True
  obtain x w where send: "bl_send L shutdown_message (cl_world c) = (x, w)" by (cases "bl_send L shutdown_message (cl_world c)")
  from assms send True have c': "r = Inr (\<not> isl x)" "c' = c\<lparr>cl_world := w\<rparr>"
    by (cases x; simp add: send_current_def send_message_def comm_send_def on_world_def act_simps)+
  have "topic w = (if isl x then topic (cl_world c) else topic (cl_world c) @ [shutdown_message])"
    using send send_done send_failed by (cases x) auto
  with c' True assms(1) show ?thesis by (simp add: sent_def)
next
  case False
  with assms have "r = Inr True" "c' = c\<lparr>cl_bus := Some (b\<lparr>mc_producer := False\<rparr>)\<rparr>"
    by (cases "mc_producer b"; simp add: send_current_def send_message_def comm_send_def comm_update_def act_simps)+
  with False show ?thesis by (auto simp: sent_def)
qed

lemma attempts_send:
  assumes "cl_bus c = Some b" and "attempts n (send_current L) c = (r, c')"
  shows "\<exists>ok. r = Inr ok \<and> (ok \<longrightarrow>
     (if mc_producer b \<and> mc_running b then cl_bus c' = Some b \<and> sent c' = sent c @ [shutdown_message]
      else cl_bus c' = Some (b\<lparr>mc_producer := False\<rparr>) \<and> sent c' = sent c))
     \<and> (\<not> ok \<longrightarrow> sent c' = sent c)"
  using assms
proof (induction n arbitrary: c)
  case (Suc n)
  obtain x c1 where one: "send_current L c = (x, c1)" by (cases "send_current L c")
  from send_current_cases [OF Suc.prems(1) one] obtain ok where x: "x = Inr ok"
    and step: "if mc_producer b \<and> mc_running b
      then cl_bus c1 = Some b \<and> sent c1 = (if ok then sent c @ [shutdown_message] else sent c)
      else ok \<and> cl_bus c1 = Some (b\<lparr>mc_producer := False\<rparr>) \<and> sent c1 = sent c" by blast
  show ?case
  proof (cases ok)
    case True
    with one x Suc.prems(2) have "r = Inr True" "c' = c1" by (simp_all add: act_simps)
    with True step show ?thesis by (intro exI [of _ True]) simp
  next
    case False
    with one x Suc.prems(2) have "attempts n (send_current L) c1 = (r, c')" by (simp add: act_simps)
    moreover from False step have c1: "cl_bus c1 = Some b" "sent c1 = sent c" by (simp_all split: if_splits)
    ultimately show ?thesis using Suc.IH [of c1] by (simp only: c1)
  qed
qed (auto simp: act_simps)

lemma execute_sends:
  assumes "cl_bus c = Some b" and "execute_shutdown L n c = (Inr (), c')"
  shows "sent c' = sent c @ (if mc_producer b \<and> mc_running b then [shutdown_message] else [])"
proof -
  obtain x c1 where run: "attempts n (send_current L) c = (x, c1)" by (cases "attempts n (send_current L) c")
  from attempts_send [OF assms(1) run] obtain ok where x: "x = Inr ok" by blast
  with assms run have "ok" "c' = c1" by (cases ok; simp add: execute_shutdown_def act_simps)+
  with attempts_send [OF assms(1) run] x show ?thesis by (auto split: if_splits)
qed

lemma cluster_post_sends:
  assumes "cluster_post L ha endpoints n resource req s c = (Inr reply, c')"
  shows "resource = ''cluster'' \<and> get_user_role s = Some CSM_SUPER_USER_ROLE
     \<and> (\<exists>flat body. req = ClusterBody flat ShUTDOWN_SIGNAL body) \<and> reply = shutdown_reply
     \<and> (\<exists>b. cl_bus (snd (cluster_view_init L endpoints n c)) = Some b
          \<and> sent c' = sent c @ (if mc_producer b \<and> mc_running b then [shutdown_message] else []))"
proof -
  from assms obtain c1 where init: "cluster_view_init L endpoints n c = (Inr (), c1)"
    and rest: "(case req of ClusterInvalid e \<Rightarrow> throw e | ClusterBody flat operation body \<Rightarrow>
           if operation \<notin> {ShUTDOWN_SIGNAL} then throw (malformed ''Operation: Incorrect Value: must be from shutdown_signal'')
           else
           bind_act (of_sum (operation_arguments flat body)) (\<lambda>arguments.
           bind_act (of_sum (validate_operation operation (get_user_role s))) (\<lambda>_.
             if \<not> keywords_ok arguments then throw TypeError
             else request_operation L ha n resource operation arguments))) c1 = (Inr reply, c')"
    unfolding cluster_post_def by (elim bind_act_InrE) simp
  from rest obtain flat body where req: "req = ClusterBody flat ShUTDOWN_SIGNAL body"
    by (cases req) (auto simp: throw_app split: if_splits)
  with rest obtain arguments where role: "get_user_role s = Some CSM_SUPER_USER_ROLE"
    and op: "request_operation L ha n resource ShUTDOWN_SIGNAL arguments c1 = (Inr reply, c')"
    by (auto simp: of_sum_def validate_operation_def ADMIN_ONLY_OPERATIONS_def throw_app elim!: bind_act_InrE split: if_splits)
  from op obtain op' where res: "resource = ''cluster''" and reply: "reply = shutdown_reply"
    and ex: "execute_shutdown L n c1 = (Inr (), c')"
    unfolding request_operation_def process_shutdown_signal_def
    by (auto simp: of_sum_def ret_app elim!: bind_act_InrE dest!: operation_for_shutdown split: if_splits)
  from ex obtain b where b: "cl_bus c1 = Some b"
    by (auto simp: execute_shutdown_def gets_app throw_app elim!: bind_act_InrE split: option.splits)
  have "sent c1 = sent c" using keepsD [OF keeps_view_init [of "sent c" endpoints n], of c] init by simp
  with req role res reply b init execute_sends [OF b ex] show ?thesis by simp
qed

end


text \<open>A bus with a schedule of faults, one entry used up by each call.\<close>

definition flaky_call :: "(string list \<Rightarrow> string list) \<Rightarrow> (bool list \<times> string list, exn, unit) act" where
  "flaky_call f w =
     (case fst w of
        [] \<Rightarrow> (Inr (), ([], f (snd w)))
      | fault # faults \<Rightarrow> if fault then (Inl (OtherException ''unreachable''), (faults, snd w))
                           else (Inr (), (faults, f (snd w))))"

definition flaky_bus :: "(bool list \<times> string list) bus_lib" where
  "flaky_bus = \<lparr>bl_init = (\<lambda>eps. flaky_call id), bl_producer = flaky_call id, bl_send = (\<lambda>m. flaky_call (\<lambda>t. t @ [m]))\<rparr>"

interpretation fb: message_bus flaky_bus snd
  by unfold_locales (auto simp: flaky_bus_def flaky_call_def split: list.splits if_splits)

definition the_admin :: session where
  "the_admin = \<lparr>session_id = ''t1'', expiry_time = 60, session_credentials = LocalCredentials ''alice'' ''admin'',
     session_permissions = []\<rparr>"

definition shutdown_body :: cluster_request where
  "shutdown_body = ClusterBody True ShUTDOWN_SIGNAL [(PStr ''operation'', PStr ShUTDOWN_SIGNAL)]"

lemmas cluster_run_defs = cluster_post_def cluster_view_init_def init_message_bus_def comm_create_def
  init_message_bus_producer_def comm_init_producer_def comm_update_def on_world_def act_simps
  operation_arguments_def validate_operation_def get_user_role_def the_admin_def shutdown_body_def
  request_operation_def process_shutdown_signal_def get_operations_by_resource_def get_operation_def
  execute_shutdown_def send_current_def send_message_def comm_send_def role_names ShUTDOWN_SIGNAL_def


text \<open>A channel without a producer.\<close>

lemma attempts_no_producer:
  assumes "\<And>v. \<exists>e v'. bl_producer L v = (Inl e, v')"
  shows "\<exists>r' w'. attempts n (init_message_bus_producer L) \<lparr>cl_bus = Some \<lparr>mc_producer = False, mc_running = r\<rparr>, cl_world = w\<rparr>
      = (Inr False, \<lparr>cl_bus = Some \<lparr>mc_producer = False, mc_running = r'\<rparr>, cl_world = w'\<rparr>)"
proof (induction n arbitrary: r w)
  case (Suc n)
  from assms [of w] obtain e v where v: "bl_producer L w = (Inl e, v)" by blast
  then have "init_message_bus_producer L \<lparr>cl_bus = Some \<lparr>mc_producer = False, mc_running = r\<rparr>, cl_world = w\<rparr>
      = (Inr False, \<lparr>cl_bus = Some \<lparr>mc_producer = False, mc_running = True\<rparr>, cl_world = v\<rparr>)"
    by (simp add: init_message_bus_producer_def comm_init_producer_def comm_update_def on_world_def act_simps)
  with Suc.IH [of True v] show ?case by (simp add: bind_act_def)
qed (simp add: act_simps)

lemma post_without_producer:
  assumes "max_retry > 0" and "get_user_role s = Some CSM_SUPER_USER_ROLE"
    and "operation_arguments flat body = Inr arguments" and "keywords_ok arguments"
  shows "cluster_post L ha endpoints max_retry ''cluster'' (ClusterBody flat ShUTDOWN_SIGNAL body) s
      \<lparr>cl_bus = Some \<lparr>mc_producer = False, mc_running = r\<rparr>, cl_world = w\<rparr>
    = (Inr shutdown_reply, \<lparr>cl_bus = Some \<lparr>mc_producer = False, mc_running = r\<rparr>, cl_world = w\<rparr>)"
proof -
  obtain k where k: "max_retry = Suc k" using assms(1) by (cases max_retry) auto
  show ?thesis
    using assms(2-) unfolding k
    by (simp add: cluster_post_def cluster_view_init_def act_simps validate_operation_def request_operation_def
        process_shutdown_signal_def get_operations_by_resource_def get_operation_def ShUTDOWN_SIGNAL_def
        execute_shutdown_def send_current_def send_message_def comm_send_def)
qed

text \<open>
  C36. A channel that could not be set up is not set up again, and then hides it: when the bus answers
  but no producer can be created, the first request of an admin fails, after the configured number
  of attempts, as unavailable; from then on each request is answered with success although nothing is
  handed to the bus.
\<close>

theorem failed_channel_hides:
  assumes "collect_endpoints endpoints = Inr eps" and "bl_init L eps w = (Inr (), w0)"
    and "\<And>v. \<exists>e v'. bl_producer L v = (Inl e, v')" and "max_retry > 0"
    and "get_user_role s = Some CSM_SUPER_USER_ROLE" and "operation_arguments flat body = Inr arguments"
    and "keywords_ok arguments"
  shows "\<exists>c1. cluster_post L ha endpoints max_retry ''cluster'' (ClusterBody flat ShUTDOWN_SIGNAL body) s \<lparr>cl_bus = None, cl_world = w\<rparr>
        = (Inl (unavailable ''Communiction channel is not available''), c1)
     \<and> cluster_post L ha endpoints max_retry ''cluster'' (ClusterBody flat ShUTDOWN_SIGNAL body) s c1 = (Inr shutdown_reply, c1)"
proof -
  let ?req = "ClusterBody flat ShUTDOWN_SIGNAL body"
  obtain r w' where fail: "attempts max_retry (init_message_bus_producer L)
      \<lparr>cl_bus = Some \<lparr>mc_producer = False, mc_running = False\<rparr>, cl_world = w0\<rparr>
      = (Inr False, \<lparr>cl_bus = Some \<lparr>mc_producer = False, mc_running = r\<rparr>, cl_world = w'\<rparr>)"
    using attempts_no_producer [OF assms(3)] by blast
  have create: "comm_create L eps \<lparr>cl_bus = None, cl_world = w\<rparr>
      = (Inr (), \<lparr>cl_bus = Some \<lparr>mc_producer = False, mc_running = False\<rparr>, cl_world = w0\<rparr>)"
    using assms(2) by (simp add: comm_create_def on_world_def act_simps)
  have "cluster_view_init L endpoints max_retry \<lparr>cl_bus = None, cl_world = w\<rparr>
      = (Inl (unavailable ''Communiction channel is not available''),
         \<lparr>cl_bus = Some \<lparr>mc_producer = False, mc_running = r\<rparr>, cl_world = w'\<rparr>)"
    by (simp add: cluster_view_init_def init_message_bus_def bind_act_def gets_app of_sum_def assms(1) create fail throw_app)
  then have "cluster_post L ha endpoints max_retry ''cluster'' ?req s \<lparr>cl_bus = None, cl_world = w\<rparr>
      = (Inl (unavailable ''Communiction channel is not available''),
         \<lparr>cl_bus = Some \<lparr>mc_producer = False, mc_running = r\<rparr>, cl_world = w'\<rparr>)"
    unfolding cluster_post_def by (rule bind_act_err [where m = "cluster_view_init L endpoints max_retry"])
  from this post_without_producer [OF assms(4-)] show ?thesis by (intro exI conjI)
qed

definition dead_bus :: "unit bus_lib" where
  "dead_bus = \<lparr>bl_init = (\<lambda>eps. ret ()), bl_producer = throw (OtherException ''timed out''), bl_send = (\<lambda>m. ret ())\<rparr>"

theorem failed_channel_hides_witness:
  "\<exists>c1. cluster_post dead_bus (\<lambda>_ _ _. throw TypeError) [Some ''kafka:9092''] 3 ''cluster'' shutdown_body the_admin
          \<lparr>cl_bus = None, cl_world = ()\<rparr> = (Inl (unavailable ''Communiction channel is not available''), c1)
     \<and> cluster_post dead_bus (\<lambda>_ _ _. throw TypeError) [Some ''kafka:9092''] 3 ''cluster'' shutdown_body the_admin c1
          = (Inr shutdown_reply, c1)"
  unfolding shutdown_body_def
  by (rule failed_channel_hides [of _ "[''kafka:9092'']" _ _ "()" _ _ _ _ "PDict []"])
     (simp_all add: dead_bus_def act_simps the_admin_def get_user_role_def role_names operation_arguments_def)

end
