(* ===== verification/Health.thy ===== *)
theory Health
  imports Json_Values Validators
begin

text \<open>
  Health of resources: the view of \<^verbatim>\<open>csm/core/controllers/health.py\<close> with its query schema, the service of
  \<^verbatim>\<open>csm/core/services/health.py\<close> and the plugin of \<^verbatim>\<open>csm/plugins/cortx/health.py\<close>, which flattens the tree of
  resources HA returns and cuts it into pages. HA is the parameter \<open>ha\<close>, from the resource, the depth and
  the optional id to a parsed response. The loop over the explicit stack is compared with the recursive
  traversal, and the pages are shown to partition the list.
\<close>

section \<open>The plugin\<close>

definition RESPONSE_FORMAT_TREE :: string where "RESPONSE_FORMAT_TREE = ''tree''"
definition RESPONSE_FORMAT_TABLE :: string where "RESPONSE_FORMAT_TABLE = ''flattened''"
definition FETCH_RESOURCE_HEALTH_REQ :: string where "FETCH_RESOURCE_HEALTH_REQ = ''fetch_resource_health''"
definition HEALTH_DEFAULT_DEPTH :: int where "HEALTH_DEFAULT_DEPTH = 1"
definition HEALTH_DEFAULT_OFFSET :: int where "HEALTH_DEFAULT_OFFSET = 1"
definition HEALTH_DEFAULT_LIMIT :: int where "HEALTH_DEFAULT_LIMIT = 0"

text \<open>The keyword arguments of \<open>process_request\<close>, which the service builds in full.\<close>

record health_filters =
  hf_request :: string
  hf_resource :: string
  hf_resource_id :: string
  hf_depth :: int
  hf_offset :: int
  hf_limit :: int
  hf_response_format :: string

definition build_resource_obj :: "pyval \<Rightarrow> exn + pyval" where
  "build_resource_obj resource =
     bind_sum (py_getitem resource ''resource'') (\<lambda>name.
     bind_sum (py_getitem resource ''id'') (\<lambda>ident.
     bind_sum (py_getitem resource ''status'') (\<lambda>status.
     bind_sum (py_getitem resource ''last_updated_time'') (\<lambda>time.
       Inr (PDict [(PStr ''resource'', name), (PStr ''id'', ident), (PStr ''status'', status),
                   (PStr ''last_updated_time'', time)])))))"

text \<open>What a popped resource puts on the stack; the element to be popped next comes first.\<close>

definition sub_resources :: "pyval \<Rightarrow> exn + pyval list" where
  "sub_resources resource =
     bind_sum (py_getitem resource ''sub_resources'') (\<lambda>subs.
       if subs = PNone then Inr []
       else bind_sum (py_len subs) (\<lambda>n. if n > 0 then py_reversible subs else Inr []))"

lemma sub_resources_lighter:
  assumes "sub_resources v = Inr vs"
  shows "sum_list (map weight vs) < weight v"
proof -
  obtain d where v: "v = PDict d" using assms by (cases v) (auto simp: sub_resources_def py_getitem_def)
  with assms obtain w where w: "dict_get d (PStr ''sub_resources'') = Some w"
    by (auto simp: sub_resources_def py_getitem_def split: option.splits)
  have "sum_list (map weight vs) \<le> weight w"
    using assms w v weight_reversible [of w vs]
    by (auto simp: sub_resources_def py_getitem_def split: if_splits)
  also have "\<dots> < weight v" unfolding v by (rule weight_entry [OF w])
  finally show ?thesis .
qed

text \<open>The \<open>while\<close> loop: the stack with its top first, and the resources listed so far.\<close>

function flatten_loop :: "pyval list \<Rightarrow> pyval list \<Rightarrow> exn + pyval list" where
  "flatten_loop [] resources = Inr resources"
| "flatten_loop (resource # stack) resources =
     bind_sum (build_resource_obj resource) (\<lambda>obj.
     bind_sum (sub_resources resource) (\<lambda>subs.
       flatten_loop (subs @ stack) (resources @ [obj])))"
  by pat_completeness auto
termination
  by (relation "measure (\<lambda>(stack, _). sum_list (map weight stack))") (auto dest: sub_resources_lighter)

definition flatten_ha_resp :: "pyval \<Rightarrow> exn + pyval list" where
  "flatten_ha_resp resource_health =
     bind_sum (py_get resource_health ''health'' (PList [])) (\<lambda>health.
     bind_sum (py_reversible health) (\<lambda>stack. flatten_loop stack []))"

definition parse_ha_resp :: "pyval \<Rightarrow> health_filters \<Rightarrow> exn + pyval" where
  "parse_ha_resp resource_health filters =
     bind_sum
       (if hf_response_format filters = RESPONSE_FORMAT_TABLE then
          bind_sum (flatten_ha_resp resource_health) (\<lambda>flattened.
            let offset = hf_offset filters;
                total = int (length flattened);
                limit = (if hf_limit filters = 0 then total else hf_limit filters);
                start = (offset - 1) * limit;
                end = min (start + limit) total in
            if start \<ge> end
            then Inl (invalid_request (''Invalid offset '' @ str_int offset @ ''. Offset is out of bounds.''))
            else Inr [(PStr ''data'', PList (py_slice flattened start end)), (PStr ''total_records'', PInt total)])
        else bind_sum (py_getitem resource_health ''health'') (\<lambda>health. Inr [(PStr ''data'', health)]))
       (\<lambda>resp. bind_sum (py_getitem resource_health ''version'') (\<lambda>version.
          Inr (PDict (dict_set (PStr ''version'') version resp))))"

definition build_args_to_get_system_health :: "health_filters \<Rightarrow> string option" where
  "build_args_to_get_system_health filters =
     (if hf_resource_id filters \<noteq> '''' then Some (hf_resource_id filters) else None)"

definition fetch_resource_health ::
  "(string \<Rightarrow> int \<Rightarrow> string option \<Rightarrow> exn + pyval) \<Rightarrow> health_filters \<Rightarrow> exn + pyval" where
  "fetch_resource_health ha filters =
     (let depth = (if hf_response_format filters = RESPONSE_FORMAT_TABLE then 0 else hf_depth filters) in
      bind_sum (ha (hf_resource filters) depth (build_args_to_get_system_health filters))
        (\<lambda>resource_health. parse_ha_resp resource_health filters))"

definition process_request ::
  "(string \<Rightarrow> int \<Rightarrow> string option \<Rightarrow> exn + pyval) \<Rightarrow> health_filters \<Rightarrow> exn + pyval" where
  "process_request ha filters =
     (if hf_request filters = FETCH_RESOURCE_HEALTH_REQ then fetch_resource_health ha filters else Inr PNone)"


section \<open>The view and the service\<close>

text \<open>The query parameters as strings and integers, those left out as \<open>None\<close>.\<close>

record health_query =
  hq_resource_id :: "string option"
  hq_depth :: "int option"
  hq_response_format :: "string option"
  hq_offset :: "int option"
  hq_limit :: "int option"

definition or_default :: "'a option \<Rightarrow> 'a \<Rightarrow> 'a" where
  "or_default x v = (case x of None \<Rightarrow> v | Some w \<Rightarrow> w)"

definition health_query_ok :: "health_query \<Rightarrow> bool" where
  "health_query_ok q \<longleftrightarrow>
     (\<forall>n \<in> set_option (hq_depth q). n \<ge> 0)
     \<and> (\<forall>f \<in> set_option (hq_response_format q).
          enum_validator [RESPONSE_FORMAT_TABLE, RESPONSE_FORMAT_TREE] f = Inr ())
     \<and> (\<forall>n \<in> set_option (hq_offset q). n \<ge> 1) \<and> (\<forall>n \<in> set_option (hq_limit q). n \<ge> 0)"

definition build_request_parameters :: "string \<Rightarrow> health_query \<Rightarrow> health_filters" where
  "build_request_parameters resource q =
     \<lparr>hf_request = FETCH_RESOURCE_HEALTH_REQ, hf_resource = resource,
      hf_resource_id = or_default (hq_resource_id q) '''',
      hf_depth = or_default (hq_depth q) HEALTH_DEFAULT_DEPTH,
      hf_offset = or_default (hq_offset q) HEALTH_DEFAULT_OFFSET,
      hf_limit = or_default (hq_limit q) HEALTH_DEFAULT_LIMIT,
      hf_response_format = or_default (hq_response_format q) RESPONSE_FORMAT_TREE\<rparr>"

definition fetch_resources_health ::
  "(string \<Rightarrow> int \<Rightarrow> string option \<Rightarrow> exn + pyval) \<Rightarrow> string \<Rightarrow> health_query \<Rightarrow> exn + pyval" where
  "fetch_resources_health ha resource q = process_request ha (build_request_parameters resource q)"

definition health_get ::
  "(string \<Rightarrow> int \<Rightarrow> string option \<Rightarrow> exn + pyval) \<Rightarrow> string \<Rightarrow> string \<Rightarrow> health_query \<Rightarrow> exn + pyval" where
  "health_get ha val_err resource q =
     (if \<not> health_query_ok q then Inl (invalid_request val_err) else fetch_resources_health ha resource q)"


section \<open>The traversal\<close>

text \<open>The reference: a resource, then what is below it, then the next one; the first fault of a resource
  met in this order is the result.\<close>

function preorder :: "pyval list \<Rightarrow> exn + pyval list" where
  "preorder [] = Inr []"
| "preorder (resource # siblings) =
     bind_sum (build_resource_obj resource) (\<lambda>obj.
     bind_sum (sub_resources resource) (\<lambda>subs.
     bind_sum (preorder subs) (\<lambda>below.
     bind_sum (preorder siblings) (\<lambda>rest. Inr (obj # below @ rest)))))"
  by pat_completeness auto
termination
  by (relation "measure (\<lambda>vs. sum_list (map weight vs))") (auto simp: weight_pos dest: sub_resources_lighter)

lemma preorder_append:
  "preorder (vs @ ws) = bind_sum (preorder vs) (\<lambda>xs. bind_sum (preorder ws) (\<lambda>ys. Inr (xs @ ys)))"
proof (induction vs rule: preorder.induct)
  case 1
  show ?case by (simp add: bind_sum_def split: sum.split)
next
  case (2 v vs)
  show ?case
  proof (cases "build_resource_obj v")
    case obj: (Inr obj)
    show ?thesis
    proof (cases "sub_resources v")
      case (Inr subs)
      with obj 2 show ?thesis by (auto simp: bind_sum_def split: sum.splits)
    qed (simp add: obj)
  qed simp
qed

lemma flatten_loop_preorder:
  "flatten_loop stack resources = bind_sum (preorder stack) (\<lambda>xs. Inr (resources @ xs))"
proof (induction stack resources rule: flatten_loop.induct)
  case (2 v stack resources)
  show ?case
  proof (cases "build_resource_obj v")
    case obj: (Inr obj)
    show ?thesis
    proof (cases "sub_resources v")
      case (Inr subs)
      with obj 2 show ?thesis by (auto simp: preorder_append bind_sum_def split: sum.splits)
    qed (simp add: obj)
  qed simp
qed simp

text \<open>
  C21. The loop over the explicit stack is the recursive preorder traversal of the forest HA returns: for
  every response, whatever its shape, it ends, lists the same resources in the same order (each before
  those below it, siblings in their order) and raises the same exception if one of them lacks a key.
\<close>

theorem flatten_equivalence:
  "flatten_ha_resp resource_health =
     bind_sum (py_get resource_health ''health'' (PList [])) (\<lambda>health.
     bind_sum (py_reversible health) preorder)"
  unfolding flatten_ha_resp_def
  by (intro bind_sum_cong refl) (simp add: flatten_loop_preorder bind_sum_def split: sum.split)


section \<open>The pages\<close>

definition page_query :: "int \<Rightarrow> int \<Rightarrow> health_query" where
  "page_query offset limit =
     \<lparr>hq_resource_id = None, hq_depth = None, hq_response_format = Some RESPONSE_FORMAT_TABLE,
      hq_offset = Some offset, hq_limit = Some limit\<rparr>"

definition out_of_bounds :: "int \<Rightarrow> exn" where
  "out_of_bounds offset = invalid_request (''Invalid offset '' @ str_int offset @ ''. Offset is out of bounds.'')"

definition page_of :: "nat \<Rightarrow> nat \<Rightarrow> 'a list \<Rightarrow> 'a list" where
  "page_of limit p xs = take limit (drop (p * limit) xs)"

lemma concat_pages:
  assumes "length xs \<le> n * limit"
  shows "concat (map (\<lambda>p. page_of limit p xs) [0..<n]) = xs"
proof -
  have "concat (map (\<lambda>p. page_of limit p xs) [0..<n]) = take (n * limit) xs"
  proof (induction n)
    case (Suc n)
    have "take (Suc n * limit) xs = take (n * limit) xs @ page_of limit n xs"
      unfolding page_of_def by (simp only: mult_Suc add.commute [of limit] take_add)
    with Suc show ?case by simp
  qed simp
  with assms show ?thesis by simp
qed

text \<open>The number of resources on a page (zero as the limit asks for all of them) and of pages.\<close>

definition page_size :: "int \<Rightarrow> 'a list \<Rightarrow> nat" where
  "page_size limit xs = (if limit = 0 then length xs else nat limit)"

definition page_count :: "int \<Rightarrow> 'a list \<Rightarrow> nat" where
  "page_count limit xs = (length xs + page_size limit xs - 1) div page_size limit xs"

lemma page_valid:
  assumes "0 \<le> limit"
  shows "p * page_size limit xs < length xs \<longleftrightarrow> p < page_count limit xs"
proof (cases "page_size limit xs = 0")
  case True
  with assms show ?thesis by (auto simp: page_count_def page_size_def split: if_splits)
next
  case False
  let ?l = "page_size limit xs"
  have "p < page_count limit xs \<longleftrightarrow> Suc p \<le> (length xs + ?l - 1) div ?l" by (simp add: page_count_def Suc_le_eq)
  also have "\<dots> \<longleftrightarrow> Suc p * ?l \<le> length xs + ?l - 1" using False by (simp add: less_eq_div_iff_mult_less_eq)
  also have "\<dots> \<longleftrightarrow> p * ?l < length xs" using False by auto
  finally show ?thesis by simp
qed

lemma page_count_covers:
  assumes "0 \<le> limit"
  shows "length xs \<le> page_count limit xs * page_size limit xs"
  using page_valid [OF assms, of "page_count limit xs" xs] by simp

definition page_reply :: "pyval list \<Rightarrow> nat \<Rightarrow> pyval \<Rightarrow> pyval" where
  "page_reply data n version =
     PDict [(PStr ''data'', PList data), (PStr ''total_records'', PInt (int n)), (PStr ''version'', version)]"

lemma py_slice_page:
  assumes "a < length xs"
  shows "py_slice xs (int a) (min (int a + int l) (int (length xs))) = take l (drop a xs)"
proof -
  have "nat (min (int a + int l) (int (length xs)) - int a) = min l (length xs - a)" using assms by linarith
  then have "py_slice xs (int a) (min (int a + int l) (int (length xs))) = take (min l (length xs - a)) (drop a xs)"
    using assms by (subst py_slice_inside) auto
  also have "\<dots> = take l (drop a xs)" by (simp add: min_def)
  finally show ?thesis .
qed

lemma parse_page:
  assumes all: "flatten_ha_resp rh = Inr all" and version: "py_getitem rh ''version'' = Inr version"
    and "0 \<le> limit" and "1 \<le> offset"
    and f: "hf_response_format f = RESPONSE_FORMAT_TABLE" "hf_offset f = offset" "hf_limit f = limit"
  shows "parse_ha_resp rh f =
     (if nat (offset - 1) < page_count limit all
      then Inr (page_reply (page_of (page_size limit all) (nat (offset - 1)) all) (length all) version)
      else Inl (out_of_bounds offset))"
proof -
  obtain p where p: "offset = int p + 1" using assms(4) by (metis add.commute diff_add_cancel nonneg_int_cases diff_ge_0_iff_ge)
  let ?l = "page_size limit all"
  have l: "(if limit = 0 then int (length all) else limit) = int ?l"
    using assms(3) by (simp add: page_size_def)
  have start: "(offset - 1) * int ?l = int (p * ?l)" by (simp add: p)
  have bound: "int (p * ?l) \<ge> min (int (p * ?l) + int ?l) (int (length all)) \<longleftrightarrow> \<not> p < page_count limit all"
  proof -
    have "p * ?l < length all \<Longrightarrow> 0 < ?l" using assms(3) by (cases "?l = 0") (auto simp: page_size_def split: if_splits)
    then have "\<not> int (p * ?l) \<ge> min (int (p * ?l) + int ?l) (int (length all)) \<longleftrightarrow> p * ?l < length all" by linarith
    then show ?thesis using page_valid [OF assms(3), of p all] by blast
  qed
  note slice = py_slice_page [of "p * ?l" all ?l]
  show ?thesis
    unfolding parse_ha_resp_def all f l Let_def bind_sum_Inr start if_P [OF refl]
    using bound page_valid [OF assms(3), of p all] version
    by (auto simp: slice page_reply_def page_of_def out_of_bounds_def p simp del: of_nat_mult)
qed

text \<open>
  C22. The pages of the flattened list partition it. For a response of HA that can be flattened and every
  limit a request may give, the request for page \<open>offset\<close> is answered exactly for the offsets from one to
  the number of pages, with that page, the total and the version; every other offset is refused
  as out of bounds (for an empty list every offset, the default included). The pages put together are
  the list: nothing is lost, repeated or reordered.
\<close>

theorem health_pages:
  assumes "ha resource 0 None = Inr rh" and "flatten_ha_resp rh = Inr all" and "py_getitem rh ''version'' = Inr version"
    and "0 \<le> limit"
  shows "(\<forall>offset \<ge> 1. health_get ha val_err resource (page_query offset limit) =
       (if offset \<le> int (page_count limit all)
        then Inr (page_reply (page_of (page_size limit all) (nat (offset - 1)) all) (length all) version)
        else Inl (out_of_bounds offset)))
     \<and> concat (map (\<lambda>p. page_of (page_size limit all) p all) [0..<page_count limit all]) = all"
proof (intro conjI allI impI)
  fix offset :: int assume offset: "1 \<le> offset"
  let ?f = "build_request_parameters resource (page_query offset limit)"
  have f: "hf_response_format ?f = RESPONSE_FORMAT_TABLE" "hf_offset ?f = offset" "hf_limit ?f = limit"
    by (simp_all add: build_request_parameters_def page_query_def or_default_def)
  have ok: "health_query_ok (page_query offset limit)"
    using assms(4) offset by (simp add: health_query_ok_def page_query_def enum_validator_def)
  have "health_get ha val_err resource (page_query offset limit) = parse_ha_resp rh ?f"
    using ok assms(1) f(1)
    by (simp add: health_get_def fetch_resources_health_def process_request_def fetch_resource_health_def Let_def
        build_args_to_get_system_health_def build_request_parameters_def page_query_def or_default_def)
  also note parse_page [OF assms(2-4) offset f]
  also have "nat (offset - 1) < page_count limit all \<longleftrightarrow> offset \<le> int (page_count limit all)" using offset by linarith
  finally show "health_get ha val_err resource (page_query offset limit) =
       (if offset \<le> int (page_count limit all)
        then Inr (page_reply (page_of (page_size limit all) (nat (offset - 1)) all) (length all) version)
        else Inl (out_of_bounds offset))" .
next
  show "concat (map (\<lambda>p. page_of (page_size limit all) p all) [0..<page_count limit all]) = all"
    by (rule concat_pages [OF page_count_covers [OF assms(4)]])
qed

text \<open>A node with two disks, asked for in pages of two.\<close>

definition resource_of :: "string \<Rightarrow> pyval \<Rightarrow> pyval" where
  "resource_of name subs =
     PDict [(PStr ''resource'', PStr name), (PStr ''id'', PStr name), (PStr ''status'', PStr ''online''),
            (PStr ''last_updated_time'', PInt 7), (PStr ''sub_resources'', subs)]"

definition node_health :: pyval where
  "node_health = PDict [(PStr ''version'', PStr ''2.0''),
     (PStr ''health'', PList [resource_of ''node'' (PList [resource_of ''disk1'' PNone, resource_of ''disk2'' (PList [])])])]"

definition listed :: "string \<Rightarrow> pyval" where
  "listed name = PDict [(PStr ''resource'', PStr name), (PStr ''id'', PStr name), (PStr ''status'', PStr ''online''),
     (PStr ''last_updated_time'', PInt 7)]"

lemma node_flattened: "flatten_ha_resp node_health = Inr [listed ''node'', listed ''disk1'', listed ''disk2'']"
  by (simp add: flatten_ha_resp_def node_health_def py_get_def py_reversible_def resource_of_def listed_def
      build_resource_obj_def sub_resources_def py_getitem_def py_len_def dict_get_default_def)

theorem health_pages_witness:
  "health_get (\<lambda>_ _ _. Inr node_health) ''error'' ''node'' (page_query 2 2)
     = Inr (page_reply [listed ''disk2''] 3 (PStr ''2.0''))"
proof -
  let ?all = "[listed ''node'', listed ''disk1'', listed ''disk2'']"
  have "py_getitem node_health ''version'' = Inr (PStr ''2.0'')" by (simp add: node_health_def py_getitem_def)
  from health_pages [where ha = "\<lambda>_ _ _. Inr node_health" and resource = "''node''" and limit = 2, OF refl node_flattened this]
  have "health_get (\<lambda>_ _ _. Inr node_health) ''error'' ''node'' (page_query 2 2)
      = (if 2 \<le> int (page_count 2 ?all) then Inr (page_reply (page_of (page_size 2 ?all) (nat (2 - 1)) ?all) (length ?all) (PStr ''2.0''))
         else Inl (out_of_bounds 2))" by simp
  then show ?thesis by (simp add: page_count_def page_size_def page_of_def numeral_3_eq_3)
qed

end
