(* ===== verification/Payloads.thy ===== *)
theory Payloads
  imports Json_Values "HOL-Library.Sublist"
begin

text \<open>
  The class \<open>Payload\<close> of \<^verbatim>\<open>csm/common/payload.py\<close> with its two documents that need no file, \<open>Dict\<close> and
  \<open>JsonMessage\<close>. Keys are dotted paths into nested dictionaries. The loaded data of a \<open>Dict\<close> is the document
  itself (one object), a \<open>JsonMessage\<close> holds text, represented by the value the text denotes (printing and
  parsing are inverse on values with string keys). The operations are shown to implement an environment
  of paths; \<open>convert\<close>, \<open>pop\<close> and the dirty mark are built on them.
\<close>

section \<open>The payload\<close>

datatype doc = DictDoc | JsonMessage pyval

record payload =
  pl_doc :: doc
  pl_data :: pyval
  pl_dirty :: bool

definition not_synced :: exn where
  "not_synced = OtherException ''not synced to disk''"

definition payload_load :: "(payload, exn, pyval) act" where
  "payload_load =
     bind_act (gets pl_dirty) (\<lambda>dirty.
       if dirty then throw not_synced
       else bind_act (modify_act (\<lambda>p. case pl_doc p of DictDoc \<Rightarrow> p | JsonMessage v \<Rightarrow> p\<lparr>pl_data := v\<rparr>))
              (\<lambda>_. gets pl_data))"

text \<open>\<open>Payload(Dict(v))\<close> and \<open>Payload(JsonMessage(json.dumps(v)))\<close>.\<close>

definition dict_payload :: "pyval \<Rightarrow> payload" where
  "dict_payload v = \<lparr>pl_doc = DictDoc, pl_data = v, pl_dirty = False\<rparr>"

definition json_payload :: "pyval \<Rightarrow> payload" where
  "json_payload v = \<lparr>pl_doc = JsonMessage v, pl_data = v, pl_dirty = False\<rparr>"

definition payload_dump :: "(payload, exn, unit) act" where
  "payload_dump = modify_act (\<lambda>p. p\<lparr>pl_doc := (case pl_doc p of DictDoc \<Rightarrow> DictDoc | JsonMessage _ \<Rightarrow> JsonMessage (pl_data p)),
     pl_dirty := False\<rparr>)"

function get_path :: "string \<Rightarrow> pyval \<Rightarrow> exn + pyval" where
  "get_path key data =
     (case split_once (CHR ''.'') key of (k, rest) \<Rightarrow>
        (case data of
           PDict d \<Rightarrow>
             (case dict_get d (PStr k) of
                None \<Rightarrow> Inr PNone
              | Some v \<Rightarrow> (case rest of None \<Rightarrow> Inr v | Some r \<Rightarrow> get_path r v))
         | _ \<Rightarrow> Inl AttributeError))"
  by pat_completeness auto
termination
  by (relation "measure (\<lambda>(key, _). length key)") (auto dest: split_once_shorter [OF sym])

definition payload_get :: "string \<Rightarrow> (payload, exn, pyval) act" where
  "payload_get key =
     bind_act (gets pl_data) (\<lambda>data.
       if data = PNone then throw (OtherException ''not initialized'') else of_sum (get_path key data))"

text \<open>\<open>_set\<close> on a dictionary; below the top it is always called on one.\<close>

function set_path :: "string \<Rightarrow> pyval \<Rightarrow> (pyval, pyval) dict \<Rightarrow> (pyval, pyval) dict" where
  "set_path key val d =
     (case split_once (CHR ''.'') key of
        (k, None) \<Rightarrow> dict_set (PStr k) val d
      | (k, Some r) \<Rightarrow>
          dict_set (PStr k)
            (PDict (set_path r val (case dict_get d (PStr k) of Some (PDict e) \<Rightarrow> e | _ \<Rightarrow> []))) d)"
  by pat_completeness auto
termination
  by (relation "measure (\<lambda>(key, _, _). length key)") (auto dest: split_once_shorter [OF sym])

declare get_path.simps [simp del] set_path.simps [simp del]

definition set_data :: "string \<Rightarrow> pyval \<Rightarrow> pyval \<Rightarrow> exn + pyval" where
  "set_data key val data =
     (case data of
        PDict d \<Rightarrow> Inr (PDict (set_path key val d))
      | _ \<Rightarrow> Inl (if snd (split_once (CHR ''.'') key) = None then TypeError else AttributeError))"

definition payload_set :: "string \<Rightarrow> pyval \<Rightarrow> (payload, exn, unit) act" where
  "payload_set key val =
     bind_act (gets pl_data) (\<lambda>data.
     bind_act (of_sum (set_data key val data)) (\<lambda>data'.
       modify_act (\<lambda>p. p\<lparr>pl_data := data', pl_dirty := True\<rparr>)))"

text \<open>\<open>container.pop(k, *defaultvalue)\<close> after the test \<open>k in container\<close>: the value, whether the key was
  there, and the container without it.\<close>

definition py_pop :: "pyval \<Rightarrow> string \<Rightarrow> pyval option \<Rightarrow> exn + pyval \<times> bool \<times> (pyval, pyval) dict" where
  "py_pop container k defaultvalue =
     (case container of
        PDict d \<Rightarrow>
          (case dict_get d (PStr k) of
             Some v \<Rightarrow> Inr (v, True, dict_pop (PStr k) d)
           | None \<Rightarrow> (case defaultvalue of Some v \<Rightarrow> Inr (v, False, d) | None \<Rightarrow> Inl KeyError))
      | PStr _ \<Rightarrow> Inl AttributeError
      | _ \<Rightarrow> Inl TypeError)"

text \<open>\<open>pop\<close>: of a dotted key only the first part is split off. When the inner dictionary becomes empty,
  the code calls \<open>self._data.pop(k, None)\<close> with the list \<open>k\<close>, which is not hashable; the entry is gone by
  then and the dirty mark is not written.\<close>

definition payload_pop :: "string \<Rightarrow> pyval option \<Rightarrow> (payload, exn, pyval) act" where
  "payload_pop key defaultvalue =
     bind_act (gets pl_data) (\<lambda>data.
       case split_once (CHR ''.'') key of
         (k, None) \<Rightarrow>
           bind_act (of_sum (py_pop data k defaultvalue)) (\<lambda>(v, dirty, d).
           bind_act (modify_act (\<lambda>p. p\<lparr>pl_data := PDict d, pl_dirty := dirty\<rparr>)) (\<lambda>_. ret v))
       | (k, Some r) \<Rightarrow>
           bind_act (of_sum (py_getitem data k)) (\<lambda>inner.
           bind_act (of_sum (py_pop inner r defaultvalue)) (\<lambda>(v, dirty, d).
           bind_act (modify_act (\<lambda>p. p\<lparr>pl_data := (case data of PDict e \<Rightarrow> PDict (dict_set (PStr k) (PDict d) e) | _ \<Rightarrow> data)\<rparr>)) (\<lambda>_.
             if dirty \<and> d = [] then throw TypeError
             else bind_act (modify_act (\<lambda>p. p\<lparr>pl_dirty := dirty\<rparr>)) (\<lambda>_. ret v)))))"

text \<open>\<open>source.convert(schema, payload)\<close> for two payloads. The values are copied here and shared in the
  program; the two agree as long as no target path extends another one.\<close>

fun convert_loop :: "(string, string) dict \<Rightarrow> payload \<Rightarrow> (payload, exn, unit) act" where
  "convert_loop [] source = ret ()"
| "convert_loop ((key, target) # schema) source =
     bind_act (of_sum (fst (payload_get key source))) (\<lambda>val.
     bind_act (payload_set target val) (\<lambda>_. convert_loop schema source))"

definition payload_convert :: "(string, string) dict \<Rightarrow> payload \<Rightarrow> (payload, exn, unit) act" where
  "payload_convert schema source = convert_loop schema source"


section \<open>Paths\<close>

abbreviation path_of :: "string \<Rightarrow> string list" where
  "path_of key \<equiv> split_on (CHR ''.'') key"

text \<open>The environment a value stands for.\<close>

fun lookup_path :: "pyval \<Rightarrow> string list \<Rightarrow> pyval option" where
  "lookup_path v [] = Some v"
| "lookup_path (PDict d) (k # ks) = Option.bind (dict_get d (PStr k)) (\<lambda>v. lookup_path v ks)"
| "lookup_path _ (k # ks) = None"

lemma path_cases:
  obtains (last) k where "split_once (CHR ''.'') key = (k, None)" "path_of key = [k]"
  | (more) k r where "split_once (CHR ''.'') key = (k, Some r)" "path_of key = k # path_of r" "length r < length key"
proof (cases "split_once (CHR ''.'') key")
  case (Pair k rest)
  with split_once_split_on [of "CHR ''.''" key] split_once_shorter [of "CHR ''.''" key k] show thesis
    by (cases rest) (auto intro: last more)
qed

lemma get_path_lookup: "lookup_path (PDict d) (path_of key) = Some v \<Longrightarrow> get_path key (PDict d) = Inr v"
proof (induction "length key" arbitrary: key d rule: less_induct)
  case less
  show ?case
  proof (cases key rule: path_cases)
    case (last k)
    with less.prems show ?thesis by (subst get_path.simps) (auto simp: bind_eq_Some_conv)
  next
    case (more k r)
    with less.prems obtain w where w: "dict_get d (PStr k) = Some w" "lookup_path w (path_of r) = Some v"
      by (auto simp: bind_eq_Some_conv)
    then obtain e where "w = PDict e" by (cases w) (auto simp: neq_Nil_conv elim: lookup_path.elims)
    with w less.hyps [OF more(3)] more show ?thesis by (subst get_path.simps) simp
  qed
qed

lemma get_path_missing: "lookup_path (PDict d) (path_of key) = None \<Longrightarrow> get_path key (PDict d) \<in> {Inr PNone, Inl AttributeError}"
proof (induction "length key" arbitrary: key d rule: less_induct)
  case less
  show ?case
  proof (cases key rule: path_cases)
    case (last k)
    with less.prems show ?thesis by (subst get_path.simps) (auto simp: bind_eq_None_conv split: option.splits)
  next
    case (more k r)
    show ?thesis
    proof (cases "dict_get d (PStr k)")
      case None
      with more show ?thesis by (subst get_path.simps) simp
    next
      case (Some w)
      with less.prems more have m: "lookup_path w (path_of r) = None" by simp
      have "get_path r w \<in> {Inr PNone, Inl AttributeError}"
      proof (cases w)
        case (PDict e)
        with less.hyps [OF more(3)] m show ?thesis by simp
      qed (subst get_path.simps, simp split: prod.split)+
      with more Some show ?thesis by (subst get_path.simps) simp
    qed
  qed
qed


text \<open>The equations for a given key.\<close>

lemma get_path_last: "split_once (CHR ''.'') key = (k, None) \<Longrightarrow> get_path key (PDict d) = Inr (dict_get_default d (PStr k) PNone)"
  by (subst get_path.simps) (simp add: dict_get_default_def split: option.split)

lemma get_path_more: "split_once (CHR ''.'') key = (k, Some r) \<Longrightarrow>
    get_path key (PDict d) = (case dict_get d (PStr k) of None \<Rightarrow> Inr PNone | Some v \<Rightarrow> get_path r v)"
  by (subst get_path.simps) (simp split: option.split)

lemma set_path_last: "split_once (CHR ''.'') key = (k, None) \<Longrightarrow> set_path key val d = dict_set (PStr k) val d"
  by (subst set_path.simps) simp

lemma set_path_more: "split_once (CHR ''.'') key = (k, Some r) \<Longrightarrow>
    set_path key val d = dict_set (PStr k) (PDict (set_path r val (case dict_get d (PStr k) of Some (PDict e) \<Rightarrow> e | _ \<Rightarrow> []))) d"
  by (subst set_path.simps) simp


section \<open>Writing\<close>

lemma lookup_set_below: "lookup_path (PDict (set_path key val d)) (path_of key @ q) = lookup_path val q"
proof (induction "length key" arbitrary: key d rule: less_induct)
  case less
  show ?case
  proof (cases key rule: path_cases)
    case (last k)
    then show ?thesis by (subst set_path.simps) simp
  next
    case (more k r)
    with less.hyps [OF more(3)] show ?thesis by (subst set_path.simps) simp
  qed
qed

lemma lookup_set_parallel:
  "path_of key \<parallel> q \<Longrightarrow> lookup_path (PDict (set_path key val d)) q = lookup_path (PDict d) q"
proof (induction "length key" arbitrary: key d q rule: less_induct)
  case less
  obtain x xs where q: "q = x # xs" using less.prems by (cases q) auto
  show ?case
  proof (cases key rule: path_cases)
    case (last k)
    with less.prems q have "x \<noteq> k" by (auto simp: parallel_def)
    with last q show ?thesis by (subst set_path.simps) simp
  next
    case (more k r)
    let ?e = "case dict_get d (PStr k) of Some (PDict e) \<Rightarrow> e | _ \<Rightarrow> []"
    show ?thesis
    proof (cases "x = k")
      case True
      with less.prems more q have par: "path_of r \<parallel> xs" by (auto simp: parallel_def)
      obtain y ys where xs: "xs = y # ys" using par by (cases xs) auto
      from less.hyps [OF more(3) par] have "lookup_path (PDict (set_path r val ?e)) xs = lookup_path (PDict ?e) xs" .
      also have "\<dots> = Option.bind (dict_get d (PStr k)) (\<lambda>v. lookup_path v xs)"
        unfolding xs by (cases "dict_get d (PStr k)") (auto split: pyval.splits)
      finally show ?thesis using more True q by (subst set_path.simps) simp
    next
      case False
      with more q show ?thesis by (subst set_path.simps) simp
    qed
  qed
qed

lemma get_path_set: "get_path key (PDict (set_path key val d)) = Inr val"
  by (rule get_path_lookup) (use lookup_set_below [of key val d "[]"] in simp)

text \<open>
  C20. A payload whose data is a dictionary implements an environment of paths. Writing a key succeeds,
  marks the payload dirty and changes exactly the paths on the way to and below that key: the key is
  then read back as the value, what lies below the key is what lies below the value, and every path
  that neither extends the key nor is extended by it is as before.
\<close>

theorem payload_refines_paths:
  assumes "pl_data p = PDict d"
  shows "\<exists>e. payload_set key val p = (Inr (), p\<lparr>pl_data := PDict e, pl_dirty := True\<rparr>)
     \<and> fst (payload_get key (p\<lparr>pl_data := PDict e, pl_dirty := True\<rparr>)) = Inr val
     \<and> (\<forall>q. lookup_path (PDict e) (path_of key @ q) = lookup_path val q)
     \<and> (\<forall>q. path_of key \<parallel> q \<longrightarrow> lookup_path (PDict e) q = lookup_path (PDict d) q)
     \<and> (\<forall>k. fst (payload_get k (p\<lparr>pl_data := PDict e, pl_dirty := True\<rparr>))
              \<in> (case lookup_path (PDict e) (path_of k) of Some v \<Rightarrow> {Inr v} | None \<Rightarrow> {Inr PNone, Inl AttributeError}))"
proof (intro exI conjI allI impI)
  let ?e = "set_path key val d"
  show "payload_set key val p = (Inr (), p\<lparr>pl_data := PDict ?e, pl_dirty := True\<rparr>)"
    using assms by (simp add: payload_set_def set_data_def act_simps)
  show "fst (payload_get key (p\<lparr>pl_data := PDict ?e, pl_dirty := True\<rparr>)) = Inr val"
    by (simp add: payload_get_def act_simps get_path_set)
  show "lookup_path (PDict ?e) (path_of key @ q) = lookup_path val q" for q
    by (rule lookup_set_below)
  show "lookup_path (PDict ?e) q = lookup_path (PDict d) q" if "path_of key \<parallel> q" for q
    by (rule lookup_set_parallel [OF that])
  show "fst (payload_get k (p\<lparr>pl_data := PDict ?e, pl_dirty := True\<rparr>))
      \<in> (case lookup_path (PDict ?e) (path_of k) of Some v \<Rightarrow> {Inr v} | None \<Rightarrow> {Inr PNone, Inl AttributeError})" for k
    using get_path_lookup [of ?e k] get_path_missing [of ?e k]
    by (auto simp: payload_get_def act_simps split: option.split)
qed

theorem payload_refines_paths_witness:
  "lookup_path (PDict [(PStr ''a'', PDict [(PStr ''b'', PInt 2)])]) [''a'', ''b''] = Some (PInt 2)
   \<and> payload_set ''a.b'' (PInt 2) (dict_payload (PDict [(PStr ''a'', PInt 1)]))
     = (Inr (), (dict_payload (PDict [(PStr ''a'', PDict [(PStr ''b'', PInt 2)])]))\<lparr>pl_dirty := True\<rparr>)"
proof -
  let ?p = "dict_payload (PDict [(PStr ''a'', PInt 1)])"
  have "pl_data (dict_payload (PDict [(PStr ''a'', PInt 1)])) = PDict [(PStr ''a'', PInt 1)]" by (simp add: dict_payload_def)
  from payload_refines_paths [OF this, of "''a.b''" "PInt 2"] obtain e where
    run: "payload_set ''a.b'' (PInt 2) ?p = (Inr (), ?p\<lparr>pl_data := PDict e, pl_dirty := True\<rparr>)" by blast
  have "set_path ''a.b'' (PInt 2) [(PStr ''a'', PInt 1)] = [(PStr ''a'', PDict [(PStr ''b'', PInt 2)])]"
    by (subst set_path.simps, simp, subst set_path.simps, simp)
  then have "payload_set ''a.b'' (PInt 2) ?p = (Inr (), ?p\<lparr>pl_data := PDict [(PStr ''a'', PDict [(PStr ''b'', PInt 2)])], pl_dirty := True\<rparr>)"
    by (simp add: payload_set_def set_data_def act_simps dict_payload_def)
  with run show ?thesis by (simp add: dict_payload_def)
qed


section \<open>Conversion\<close>

text \<open>No target path is, or extends, another one.\<close>

definition independent_targets :: "(string, string) dict \<Rightarrow> bool" where
  "independent_targets schema \<longleftrightarrow> sorted_wrt (\<lambda>a b. path_of (snd a) \<parallel> path_of (snd b)) schema"

lemma convert_loop_result:
  assumes "independent_targets schema" and "\<forall>(key, target) \<in> set schema. fst (payload_get key source) = Inr (value_of key)"
    and "pl_data p = PDict d"
  shows "\<exists>e b. convert_loop schema source p = (Inr (), p\<lparr>pl_data := PDict e, pl_dirty := b\<rparr>)
     \<and> (\<forall>(key, target) \<in> set schema. \<forall>q. lookup_path (PDict e) (path_of target @ q) = lookup_path (value_of key) q)
     \<and> (\<forall>q. (\<forall>(key, target) \<in> set schema. path_of target \<parallel> q) \<longrightarrow> lookup_path (PDict e) q = lookup_path (PDict d) q)"
  using assms
proof (induction schema arbitrary: p d)
  case Nil
  then have "p = p\<lparr>pl_data := PDict d, pl_dirty := pl_dirty p\<rparr>" by simp
  then show ?case by (intro exI [of _ d] exI [of _ "pl_dirty p"]) (simp add: act_simps)
next
  case (Cons kt schema)
  obtain key target where kt: "kt = (key, target)" by (cases kt)
  let ?d = "set_path target (value_of key) d" and ?p = "p\<lparr>pl_data := PDict (set_path target (value_of key) d), pl_dirty := True\<rparr>"
  have "independent_targets schema" and par: "\<And>k t. (k, t) \<in> set schema \<Longrightarrow> path_of target \<parallel> path_of t"
    using Cons.prems(1) unfolding kt independent_targets_def by auto
  moreover have "\<forall>(key, target) \<in> set schema. fst (payload_get key source) = Inr (value_of key)" "pl_data ?p = PDict ?d"
    using Cons.prems(2) by simp_all
  ultimately obtain e b where
    run: "convert_loop schema source ?p = (Inr (), ?p\<lparr>pl_data := PDict e, pl_dirty := b\<rparr>)"
    and hit: "\<And>k t q. (k, t) \<in> set schema \<Longrightarrow> lookup_path (PDict e) (path_of t @ q) = lookup_path (value_of k) q"
    and miss: "\<And>q. (\<forall>(k, t) \<in> set schema. path_of t \<parallel> q) \<Longrightarrow> lookup_path (PDict e) q = lookup_path (PDict ?d) q"
    using Cons.IH [of ?p ?d] by blast
  have "convert_loop (kt # schema) source p = (Inr (), p\<lparr>pl_data := PDict e, pl_dirty := b\<rparr>)"
    using Cons.prems(2,3) run by (simp add: kt act_simps payload_set_def set_data_def)
  moreover have "lookup_path (PDict e) (path_of target @ q) = lookup_path (value_of key) q" for q
  proof -
    have "\<forall>(k, t) \<in> set schema. path_of t \<parallel> path_of target @ q"
      using par parallel_append [where c = "[]" and d = q and b = "path_of target"] by (auto simp: parallel_commute)
    from miss [OF this] show ?thesis by (simp add: lookup_set_below)
  qed
  ultimately show ?case
    using hit miss lookup_set_parallel [of target _ "value_of key" d] unfolding kt by (intro exI conjI) auto
qed


text \<open>
  Conversion of one payload into another. When every source key can be read and no target path is or
  extends another, the conversion succeeds and each target holds what its source key holds (\<open>None\<close> for
  a missing key); paths that are apart from all targets are left alone.
\<close>

theorem convert_maps_keys:
  assumes "independent_targets schema"
    and "\<forall>(key, target) \<in> set schema. fst (payload_get key source) = Inr (value_of key)" and "pl_data p = PDict d"
  shows "\<exists>p'. payload_convert schema source p = (Inr (), p')
     \<and> (\<forall>(key, target) \<in> set schema. fst (payload_get target p') = Inr (value_of key))
     \<and> (\<forall>q. (\<forall>(key, target) \<in> set schema. path_of target \<parallel> q) \<longrightarrow> lookup_path (pl_data p') q = lookup_path (pl_data p) q)"
proof -
  from convert_loop_result [OF assms] obtain e b where
    run: "convert_loop schema source p = (Inr (), p\<lparr>pl_data := PDict e, pl_dirty := b\<rparr>)"
    and hit: "\<And>k t q. (k, t) \<in> set schema \<Longrightarrow> lookup_path (PDict e) (path_of t @ q) = lookup_path (value_of k) q"
    and miss: "\<And>q. (\<forall>(k, t) \<in> set schema. path_of t \<parallel> q) \<Longrightarrow> lookup_path (PDict e) q = lookup_path (PDict d) q"
    by blast
  have "fst (payload_get t (p\<lparr>pl_data := PDict e, pl_dirty := b\<rparr>)) = Inr (value_of k)" if "(k, t) \<in> set schema" for k t
    using get_path_lookup [of e t "value_of k"] hit [OF that, of "[]"] by (simp add: payload_get_def act_simps)
  with run miss assms(3) show ?thesis
    unfolding payload_convert_def by (intro exI [of _ "p\<lparr>pl_data := PDict e, pl_dirty := b\<rparr>"]) auto
qed

definition marker_schema :: "(string, string) dict" where
  "marker_schema = [(''keys'', ''users''), (''marker'', ''marker'')]"

theorem convert_maps_keys_witness:
  "\<exists>p'. payload_convert marker_schema (json_payload (PDict [(PStr ''keys'', PList [PStr ''u1''])])) (dict_payload (PDict [])) = (Inr (), p')
     \<and> fst (payload_get ''users'' p') = Inr (PList [PStr ''u1'']) \<and> fst (payload_get ''marker'' p') = Inr PNone"
proof -
  let ?v = "\<lambda>key. if key = ''keys'' then PList [PStr ''u1''] else PNone"
  have "independent_targets marker_schema" by (simp add: independent_targets_def marker_schema_def parallel_def)
  moreover have "\<forall>(key, target) \<in> set marker_schema. fst (payload_get key (json_payload (PDict [(PStr ''keys'', PList [PStr ''u1''])]))) = Inr (?v key)"
    by (simp add: marker_schema_def payload_get_def json_payload_def act_simps get_path.simps)
  moreover have "pl_data (dict_payload (PDict [])) = PDict []" by (simp add: dict_payload_def)
  ultimately show ?thesis using convert_maps_keys by (fastforce simp: marker_schema_def)
qed


section \<open>Removal\<close>

text \<open>
  Two faults of \<open>pop\<close>. Removing the last entry of an inner dictionary removes it and then raises
  \<open>TypeError\<close>, without a dirty mark, so the change can be lost silently. And a \<open>pop\<close> of an absent key with a
  default clears the mark earlier changes had set: the next \<open>load\<close> throws them away instead of
  refusing.
\<close>

theorem pop_faults:
  assumes "split_once (CHR ''.'') key = (k, Some r)" and "pl_data p = PDict d"
    and "dict_get d (PStr k) = Some (PDict [(PStr r, v)])" and "pl_dirty p = False"
    and "dict_get d (PStr absent) = None" and "CHR ''.'' \<notin> set absent" and "pl_doc p = JsonMessage stored"
  shows "payload_pop key dflt p = (Inl TypeError, p\<lparr>pl_data := PDict (dict_set (PStr k) (PDict []) d)\<rparr>)
     \<and> fst (payload_load (p\<lparr>pl_dirty := True\<rparr>)) = Inl not_synced
     \<and> fst (bind_act (payload_pop absent (Some PNone)) (\<lambda>_. payload_load) (p\<lparr>pl_dirty := True\<rparr>)) = Inr stored"
proof (intro conjI)
  show "payload_pop key dflt p = (Inl TypeError, p\<lparr>pl_data := PDict (dict_set (PStr k) (PDict []) d)\<rparr>)"
    using assms(1-4) by (simp add: payload_pop_def act_simps py_getitem_def py_pop_def)
  show "fst (payload_load (p\<lparr>pl_dirty := True\<rparr>)) = Inl not_synced"
    by (simp add: payload_load_def act_simps)
  have "split_once (CHR ''.'') absent = (absent, None)"
    using split_on_none [OF assms(6)] by (cases absent rule: path_cases) auto
  with assms(2,5,7) show "fst (bind_act (payload_pop absent (Some PNone)) (\<lambda>_. payload_load) (p\<lparr>pl_dirty := True\<rparr>)) = Inr stored"
    by (simp add: payload_pop_def payload_load_def act_simps py_pop_def)
qed

theorem pop_faults_witness:
  "fst (payload_pop ''db.host'' None (json_payload (PDict [(PStr ''db'', PDict [(PStr ''host'', PStr ''h1'')])]))) = Inl TypeError"
proof -
  let ?d = "[(PStr ''db'', PDict [(PStr ''host'', PStr ''h1'')])]"
  have "payload_pop ''db.host'' None (json_payload (PDict ?d))
      = (Inl TypeError, (json_payload (PDict ?d))\<lparr>pl_data := PDict (dict_set (PStr ''db'') (PDict []) ?d)\<rparr>)"
    using pop_faults [of "''db.host''" "''db''" "''host''" "json_payload (PDict ?d)" ?d "PStr ''h1''" "''port''" "PDict ?d" None]
    by (simp add: json_payload_def)
  then show ?thesis by simp
qed

end
