(* ===== verification/Rgw.thy ===== *)
theory Rgw
  imports Payloads
begin

text \<open>
  The S3 plugin: \<open>RGWPlugin\<close> of \<^verbatim>\<open>csm/plugins/cortx/rgw.py\<close>, the choice of the endpoint in
  \<^verbatim>\<open>csm/core/services/rgw/s3/utils.py\<close>, the enumeration of errors in \<^verbatim>\<open>csm/core/data/models/rgw.py\<close> and the three
  tables under \<^verbatim>\<open>schema\<close> the plugin loads. The client of \<^verbatim>\<open>cortx.utils\<close> is the parameter \<open>client\<close>, an action on
  a world of its own that answers with a status and a body or raises. Every exception type of the
  model is caught by \<open>except Exception\<close> (in Python 3.6 also \<open>CancelledError\<close>).
\<close>

section \<open>Configuration\<close>

record rgw_connection_config =
  rc_url :: "string option"
  rc_auth_user :: "string option"
  rc_access_key :: "string option"
  rc_secret_key :: "string option"

text \<open>The \<open>while\<close> loop over \<open>RGW>s3>endpoints[i]\<close>; \<open>Conf.get\<close> has no value beyond the last one. The inner
  option is the https endpoint found.\<close>

partial_function (option) https_endpoint :: "(nat \<Rightarrow> string option) \<Rightarrow> nat \<Rightarrow> string option option" where
  "https_endpoint endpoints ep_cnt =
     (case endpoints ep_cnt of
        None \<Rightarrow> Some None
      | Some ep \<Rightarrow> if prefix ''https'' (lower ep) then Some (Some ep) else https_endpoint endpoints (Suc ep_cnt))"

definition get_decrypted_secret_key :: "exn + string \<Rightarrow> exn + string option" where
  "get_decrypted_secret_key decrypted =
     (case decrypted of Inr key \<Rightarrow> Inr (Some key) | Inl (CipherInvalidToken _) \<Rightarrow> Inr None | Inl e \<Rightarrow> Inl e)"

definition get_rgw_connection_config ::
  "(nat \<Rightarrow> string option) \<Rightarrow> string option \<Rightarrow> string option \<Rightarrow> exn + string \<Rightarrow> (exn + rgw_connection_config) option" where
  "get_rgw_connection_config endpoints admin_user access_key decrypted =
     map_option (\<lambda>https.
       bind_sum (get_decrypted_secret_key decrypted) (\<lambda>secret.
         Inr \<lparr>rc_url = (case https of Some ep \<Rightarrow> Some ep | None \<Rightarrow> endpoints 0), rc_auth_user = admin_user,
              rc_access_key = access_key, rc_secret_key = secret\<rparr>))
       (https_endpoint endpoints 0)"


section \<open>Errors\<close>

definition RgwErrors :: "(string, string) dict" where
  "RgwErrors =
    [(''AccessDenied'', ''Access denied.''),
     (''InternalError'', ''Internal server error.''),
     (''NoSuchUser'', ''User does not exist.''),
     (''NoSuchBucket'', ''Bucket does not exist.''),
     (''NoSuchKey'', ''No such key.''),
     (''SignatureDoesNotMatch'', ''Signature Does Not Match.''),
     (''UnknownError'', ''Unknown Error from S3 service.''),
     (''InvalidArgument'', ''Invalid argument provided.''),
     (''RequestTimeout'', ''Request to S3 service is timed out.''),
     (''S3ServiceUnavailable'', ''Unable to connect to S3 service.''),
     (''UserAlreadyExists'', ''Attempt to create existing user.''),
     (''InvalidAccessKeyId'', ''Invalid access key specified.''),
     (''InvalidKeyType'', ''Invalid key type specified.''),
     (''InvalidSecretKey'', ''Invalid secret key specified.''),
     (''KeyExists'', ''Provided access key exists and belongs to another user.''),
     (''EmailExists'', ''Provided email address exists.''),
     (''InvalidCapability'', ''Attempt to grant invalid admin capability.''),
     (''InvalidTenantName'', ''Invalid tenant name provided.''),
     (''DeleteConflict'', ''Attempt to delete a resource that has attached subordinate entities.''),
     (''BucketAlreadyExists'', ''Attempt to delete a resource that has attached subordinate entities.'')]"

text \<open>\<open>E[name]\<close> of an \<open>Enum\<close>: the member with that value which was declared first; a later name for the same
  value is an alias of it. The result is the member's \<open>name\<close> and \<open>value\<close>.\<close>

definition enum_member :: "(string, string) dict \<Rightarrow> string \<Rightarrow> (string \<times> string) option" where
  "enum_member members name =
     (case dict_get members name of
        None \<Rightarrow> None
      | Some value \<Rightarrow> find (\<lambda>m. snd m = value) members)"

definition S3_CLIENT_ERROR_MSG :: string where "S3_CLIENT_ERROR_MSG = ''Unable to process the request''"

definition S3_CLIENT_ERROR_CODES :: "(int, pyval) dict" where
  "S3_CLIENT_ERROR_CODES =
    [(408, PDict [(PStr ''Code'', PStr ''RequestTimeout'')]),
     (503, PDict [(PStr ''Code'', PStr ''S3ServiceUnavailable'')])]"

definition unknown_error :: rgw_error where
  "unknown_error = \<lparr>http_status = 500, error_code = ''UnknownError'', error_message = S3_CLIENT_ERROR_MSG\<rparr>"

text \<open>\<open>_create_error\<close>. A body without the code raises \<open>KeyError\<close> again inside the handler, in the text of
  the log record; a list or dictionary as the code cannot be looked up.\<close>

definition create_error :: "int \<Rightarrow> pyval \<Rightarrow> exn + rgw_error" where
  "create_error status body =
     bind_sum (py_getitem body ''Code'') (\<lambda>code.
       case code of
         PStr c \<Rightarrow>
           (case enum_member RgwErrors c of
              Some (name, value) \<Rightarrow> Inr \<lparr>http_status = status, error_code = name, error_message = value\<rparr>
            | None \<Rightarrow> Inr unknown_error)
       | PList _ \<Rightarrow> Inl TypeError
       | PDict _ \<Rightarrow> Inl TypeError
       | _ \<Rightarrow> Inr unknown_error)"


section \<open>Requests and responses\<close>

record api_operation =
  ao_endpoint :: string
  ao_method :: string
  ao_request_body_schema :: "(string, string) dict"
  ao_success_code :: int

definition admin_op :: "string \<Rightarrow> string \<Rightarrow> (string, string) dict \<Rightarrow> api_operation" where
  "admin_op endpoint method schema =
     \<lparr>ao_endpoint = endpoint, ao_method = method, ao_request_body_schema = schema, ao_success_code = 200\<rparr>"

definition api_operations :: "(string, api_operation) dict" where
  "api_operations =
    [(''CREATE_USER'', admin_op ''/admin/user'' ''PUT''
        [(''uid'', ''uid''), (''display_name'', ''display-name''), (''email'', ''email''), (''key_type'', ''key-type''),
         (''access_key'', ''access-key''), (''secret_key'', ''secret-key''), (''user_caps'', ''user-caps''),
         (''generate_key'', ''generate-key''), (''max_buckets'', ''max-buckets''), (''suspended'', ''suspended''),
         (''tenant'', ''tenant'')]),
     (''GET_USER'', admin_op ''/admin/user'' ''GET'' [(''uid'', ''uid'')]),
     (''LIST_USERS'', admin_op ''/admin/user?list'' ''GET'' [(''max_entries'', ''max-entries''), (''marker'', ''marker'')]),
     (''DELETE_USER'', admin_op ''/admin/user'' ''DELETE'' [(''uid'', ''uid''), (''purge_data'', ''purge-data'')]),
     (''MODIFY_USER'', admin_op ''/admin/user'' ''POST''
        [(''uid'', ''uid''), (''display_name'', ''display-name''), (''email'', ''email''), (''generate_key'', ''generate-key''),
         (''access_key'', ''access-key''), (''secret_key'', ''secret-key''), (''key_type'', ''key-type''),
         (''user_caps'', ''user-caps''), (''max_buckets'', ''max-buckets''), (''suspended'', ''suspended''),
         (''op_mask'', ''op-mask'')]),
     (''CREATE_KEY'', admin_op ''/admin/user?key'' ''PUT''
        [(''uid'', ''uid''), (''key_type'', ''key-type''), (''access_key'', ''access-key''), (''secret_key'', ''secret-key''),
         (''generate_key'', ''generate-key'')]),
     (''REMOVE_KEY'', admin_op ''/admin/user?key'' ''DELETE''
        [(''access_key'', ''access-key''), (''uid'', ''uid''), (''key_type'', ''key-type'')]),
     (''LINK_BUCKET'', admin_op ''/admin/bucket'' ''PUT'' [(''uid'', ''uid''), (''bucket'', ''bucket''), (''bucket_id'', ''bucket-id'')]),
     (''UNLINK_BUCKET'', admin_op ''/admin/bucket'' ''POST'' [(''uid'', ''uid''), (''bucket'', ''bucket'')]),
     (''ADD_USER_CAPS'', admin_op ''/admin/user?caps'' ''PUT'' [(''uid'', ''uid''), (''user_caps'', ''user-caps'')]),
     (''REMOVE_USER_CAPS'', admin_op ''/admin/user?caps'' ''DELETE'' [(''uid'', ''uid''), (''user_caps'', ''user-caps'')]),
     (''SET_USER_LEVEL_QUOTA'', admin_op ''/admin/user?quota&quota-type=user'' ''PUT''
        [(''uid'', ''uid''), (''enabled'', ''enabled''), (''max_size'', ''max-size''), (''max_objects'', ''max-objects''),
         (''check_on_raw'', ''check-on-raw'')]),
     (''GET_USER_LEVEL_QUOTA'', admin_op ''/admin/user?quota&quota-type=user'' ''GET'' [(''uid'', ''uid'')]),
     (''GET_USER_CAPACITY'', admin_op ''/admin/user?stats'' ''GET'' [(''uid'', ''uid'')])]"

definition api_response_mapping_schema :: "(string, (string, string) dict) dict" where
  "api_response_mapping_schema =
    [(''LIST_USERS'', [(''keys'', ''users''), (''count'', ''count''), (''marker'', ''marker'')]),
     (''GET_USER_CAPACITY'',
        [(''tenant'', ''capacity.s3.users.tenant''), (''user_id'', ''capacity.s3.users.id''),
         (''stats.size'', ''capacity.s3.users.used''), (''stats.size_actual'', ''capacity.s3.users.used_rounded''),
         (''stats.num_objects'', ''capacity.s3.users.objects'')])]"

definition api_suppress_payload_schema :: "(string, string list) dict" where
  "api_suppress_payload_schema = [(''GET_USER'', [''secret_key''])]"

type_synonym kwargs = "(string, pyval) dict"

fun build_request :: "(string, string) dict \<Rightarrow> kwargs \<Rightarrow> kwargs \<Rightarrow> kwargs" where
  "build_request [] kw request_body = request_body"
| "build_request ((key, value) # schema) kw request_body =
     build_request schema kw
       (if dict_get_default kw key PNone \<noteq> PNone
        then dict_set value (dict_get_default kw key PNone) request_body else request_body)"

text \<open>\<open>_params_cleanup\<close> on the dictionary it is called with.\<close>

definition params_cleanup :: "pyval \<Rightarrow> exn + pyval" where
  "params_cleanup params =
     (case params of PDict d \<Rightarrow> Inr (PDict (filter (\<lambda>p. snd p \<noteq> PNone) d)) | _ \<Rightarrow> Inl AttributeError)"

definition build_response :: "string \<Rightarrow> pyval \<Rightarrow> exn + pyval" where
  "build_response operation response =
     (case dict_get api_response_mapping_schema operation of
        None \<Rightarrow> Inr response
      | Some mapping \<Rightarrow>
          bind_sum
            (fst (bind_act (payload_convert mapping (json_payload response)) (\<lambda>_.
                  bind_act payload_dump (\<lambda>_. payload_load)) (dict_payload (PDict []))))
            params_cleanup)"

definition suppress_response_keys :: "string \<Rightarrow> pyval \<Rightarrow> pyval" where
  "suppress_response_keys operation response =
     (case dict_get api_suppress_payload_schema operation of
        None \<Rightarrow> response
      | Some keys \<Rightarrow> fold (\<lambda>key v. remove_json_key v key) keys response)"

text \<open>The body of an answer: empty, text that is not JSON, or JSON.\<close>

datatype http_body = EmptyBody | GarbledBody | JsonText pyval

definition load_body :: "http_body \<Rightarrow> exn + pyval" where
  "load_body body =
     (case body of EmptyBody \<Rightarrow> Inr (PDict []) | GarbledBody \<Rightarrow> Inl JSONDecodeError | JsonText v \<Rightarrow> Inr v)"

type_synonym 'w rgw_client = "string \<Rightarrow> string \<Rightarrow> kwargs \<Rightarrow> ('w, exn, int \<times> http_body) act"

type_synonym plugin_response = "pyval service_result"

definition answer :: "api_operation \<Rightarrow> string \<Rightarrow> int \<times> http_body \<Rightarrow> exn + plugin_response" where
  "answer api_op operation = (\<lambda>(code, body).
     bind_sum (load_body body) (\<lambda>response_body.
       if code \<noteq> ao_success_code api_op
       then bind_sum (create_error code response_body) (\<lambda>e. Inr (RgwErr e))
       else bind_sum (build_response operation (suppress_response_keys operation response_body)) (\<lambda>v. Inr (Payload v))))"

definition client_error :: "int \<Rightarrow> exn + plugin_response" where
  "client_error status =
     (case dict_get S3_CLIENT_ERROR_CODES status of
        None \<Rightarrow> Inl KeyError
      | Some body \<Rightarrow> bind_sum (create_error status body) (\<lambda>e. Inr (RgwErr e)))"

definition rgw_process :: "'w rgw_client \<Rightarrow> api_operation \<Rightarrow> kwargs \<Rightarrow> string \<Rightarrow> ('w, exn, plugin_response) act" where
  "rgw_process client api_op request_body operation =
     catch_act (bind_act (client (ao_method api_op) (ao_endpoint api_op) request_body)
                  (\<lambda>reply. of_sum (answer api_op operation reply)))
       (\<lambda>e. case e of
          S3ClientException msg \<Rightarrow>
            if msg = ''Request timeout'' then of_sum (client_error 408)
            else if sublist ''Cannot connect to'' msg then of_sum (client_error 503)
            else throw (mk_CsmInternalError (Some S3_CLIENT_ERROR_MSG))
        | _ \<Rightarrow> throw (mk_CsmInternalError (Some S3_CLIENT_ERROR_MSG)))"

definition unavailable_503 :: "plugin_response \<Rightarrow> bool" where
  "unavailable_503 r \<longleftrightarrow> (case r of RgwErr e \<Rightarrow> http_status e = 503 | Payload _ \<Rightarrow> False)"

text \<open>The retry loop, with the local variable \<open>response\<close>, unbound before the first round.\<close>

fun rgw_retry :: "('w, exn, plugin_response) act \<Rightarrow> nat \<Rightarrow> plugin_response option \<Rightarrow> ('w, exn, plugin_response option) act" where
  "rgw_retry attempt 0 response = ret response"
| "rgw_retry attempt (Suc n) response =
     bind_act attempt (\<lambda>r. if unavailable_503 r then rgw_retry attempt n (Some r) else ret (Some r))"

definition rgw_execute :: "'w rgw_client \<Rightarrow> int \<Rightarrow> string \<Rightarrow> kwargs \<Rightarrow> ('w, exn, plugin_response) act" where
  "rgw_execute client max_retry_count operation kw =
     (case dict_get api_operations operation of
        None \<Rightarrow> throw TypeError
      | Some api_op \<Rightarrow>
          let request_body = build_request (ao_request_body_schema api_op) kw [] in
          bind_act (rgw_retry (rgw_process client api_op request_body operation) (nat max_retry_count) None)
            (\<lambda>response. case response of None \<Rightarrow> throw UnboundLocalError | Some r \<Rightarrow> ret r))"


section \<open>The endpoint\<close>

definition is_https :: "string \<Rightarrow> bool" where
  "is_https ep \<longleftrightarrow> prefix ''https'' (lower ep)"

definition conf_list :: "string list \<Rightarrow> nat \<Rightarrow> string option" where
  "conf_list eps i = (if i < length eps then Some (eps ! i) else None)"

lemma https_endpoint_list:
  assumes "m \<le> length eps"
  shows "https_endpoint (conf_list eps) m = Some (find is_https (drop m eps))"
  using assms
proof (induction "length eps - m" arbitrary: m)
  case 0
  then show ?case by (subst https_endpoint.simps) (simp add: conf_list_def)
next
  case (Suc n)
  then have m: "m < length eps" and IH: "https_endpoint (conf_list eps) (Suc m) = Some (find is_https (drop (Suc m) eps))" by auto
  from m have "drop m eps = eps ! m # drop (Suc m) eps" by (simp add: Cons_nth_drop_Suc)
  with m IH show ?case by (subst https_endpoint.simps) (simp add: conf_list_def is_https_def)
qed

text \<open>
  The search through the configured endpoints ends, and the connection uses the first https endpoint;
  without one, the first endpoint.
\<close>

theorem endpoint_choice:
  "get_rgw_connection_config (conf_list eps) admin_user access_key (Inr secret) =
     Some (Inr \<lparr>rc_url = (case find is_https eps of Some ep \<Rightarrow> Some ep | None \<Rightarrow> (case eps of [] \<Rightarrow> None | ep # _ \<Rightarrow> Some ep)),
                rc_auth_user = admin_user, rc_access_key = access_key, rc_secret_key = Some secret\<rparr>)"
  unfolding get_rgw_connection_config_def https_endpoint_list [OF le0]
  by (cases eps; cases "find is_https eps") (simp_all add: get_decrypted_secret_key_def conf_list_def)


section \<open>Requests\<close>

text \<open>Arguments that are absent or \<open>None\<close> are left out, the others are renamed by the table.\<close>

lemma build_request_keeps:
  "t \<notin> snd ` set schema \<Longrightarrow> dict_get (build_request schema kw body) t = dict_get body t"
  by (induction schema kw body rule: build_request.induct) auto

lemma build_request_spec:
  "distinct (map snd schema) \<Longrightarrow> dict_ok schema \<Longrightarrow> (k, t) \<in> set schema \<Longrightarrow> dict_get body t = None \<Longrightarrow>
   dict_get (build_request schema kw body) t =
     (case dict_get kw k of None \<Rightarrow> None | Some v \<Rightarrow> if v = PNone then None else Some v)"
proof (induction schema kw body rule: build_request.induct)
  case (2 key target schema kw body)
  show ?case
  proof (cases "(k, t) = (key, target)")
    case True
    with "2.prems" have "t \<notin> snd ` set schema" by auto
    with True "2.prems"(4) show ?thesis by (simp add: build_request_keeps dict_get_default_def split: option.split)
  next
    case False
    with "2.prems" have "(k, t) \<in> set schema" "t \<noteq> target" by (auto simp: rev_image_eqI)
    with "2.IH" "2.prems" show ?thesis by simp
  qed
qed simp


section \<open>Retries\<close>

text \<open>The world after \<open>j\<close> attempts that were all answered with status 503.\<close>

fun busy :: "('w, exn, plugin_response) act \<Rightarrow> nat \<Rightarrow> 'w \<Rightarrow> 'w option" where
  "busy attempt 0 w = Some w"
| "busy attempt (Suc j) w =
     (case attempt w of (Inr r, w') \<Rightarrow> if unavailable_503 r then busy attempt j w' else None | (Inl _, _) \<Rightarrow> None)"

lemma rgw_retry_outcome:
  "\<exists>j w' r u. j \<le> n \<and> busy attempt j w = Some w' \<and> attempt w' = (r, u)
     \<and> rgw_retry attempt (Suc n) response w = (map_sum (\<lambda>e. e) Some r, u)
     \<and> (j = n \<or> (\<forall>x. r = Inr x \<longrightarrow> \<not> unavailable_503 x))"
proof (induction n arbitrary: w response)
  case 0
  obtain r u where "attempt w = (r, u)" by (cases "attempt w")
  then show ?case by (cases r) (auto simp: act_simps)
next
  case (Suc n)
  obtain r u where a: "attempt w = (r, u)" by (cases "attempt w")
  show ?case
  proof (cases "\<exists>x. r = Inr x \<and> unavailable_503 x")
    case True
    then obtain x where x: "r = Inr x" "unavailable_503 x" by blast
    from Suc.IH [of u "Some x"] obtain j w' r' u' where
      j: "j \<le> n" "busy attempt j u = Some w'" "attempt w' = (r', u')"
         "rgw_retry attempt (Suc n) (Some x) u = (map_sum (\<lambda>e. e) Some r', u')"
         "j = n \<or> (\<forall>x. r' = Inr x \<longrightarrow> \<not> unavailable_503 x)" by blast
    have "busy attempt (Suc j) w = Some w'" using a x j(2) by simp
    moreover have "rgw_retry attempt (Suc (Suc n)) response w = (map_sum (\<lambda>e. e) Some r', u')"
      using a x j(4) by (simp add: bind_act_def)
    moreover have "Suc j \<le> Suc n" "Suc j = Suc n \<or> (\<forall>x. r' = Inr x \<longrightarrow> \<not> unavailable_503 x)" using j(1,5) by auto
    ultimately show ?thesis using j(3) by blast
  next
    case False
    with a show ?thesis
      by (intro exI [of _ 0] exI [of _ w] exI [of _ r] exI [of _ u]) (cases r; auto simp: act_simps)
  qed
qed

lemma rgw_execute_last:
  assumes op: "dict_get api_operations operation = Some api_op" and pos: "max_retry > 0"
    and attempt: "attempt = rgw_process client api_op (build_request (ao_request_body_schema api_op) kw []) operation"
  shows "\<exists>j w'. int j < max_retry \<and> busy attempt j w = Some w' \<and> rgw_execute client max_retry operation kw w = attempt w'
     \<and> (int j = max_retry - 1 \<or> (\<forall>x. fst (attempt w') = Inr x \<longrightarrow> \<not> unavailable_503 x))"
proof -
  obtain n where n: "nat max_retry = Suc n" using pos by (cases "nat max_retry") auto
  obtain j w' r u where j: "j \<le> n" "busy attempt j w = Some w'" "attempt w' = (r, u)"
    and run: "rgw_retry attempt (Suc n) None w = (map_sum (\<lambda>e. e) Some r, u)"
    and stop: "j = n \<or> (\<forall>x. r = Inr x \<longrightarrow> \<not> unavailable_503 x)"
    using rgw_retry_outcome [of n attempt w None] by blast
  have "rgw_execute client max_retry operation kw w = (r, u)"
    using run unfolding rgw_execute_def attempt op n Let_def
    by (cases r) (simp_all add: act_simps del: rgw_retry.simps)
  with j stop n pos show ?thesis by (intro exI [of _ j] exI [of _ w']) auto
qed

lemma rgw_execute_unbound:
  "dict_get api_operations operation = Some api_op \<Longrightarrow> max_retry \<le> 0 \<Longrightarrow>
   rgw_execute client max_retry operation kw w = (Inl UnboundLocalError, w)"
  by (simp add: rgw_execute_def act_simps)

text \<open>
  C23. Every call of the plugin for a known operation ends after at most the configured number of
  requests, if that is positive, and its result is the result of the last one: all requests before it
  were answered with status 503, and it was either the last one allowed or not answered with 503. (A count
  of zero or less ends in \<open>UnboundLocalError\<close> without a request.)
\<close>

theorem rgw_execute_outcome:
  fixes client :: "'w rgw_client" and kw :: kwargs
  assumes "dict_get api_operations operation = Some api_op"
  defines "attempt \<equiv> rgw_process client api_op (build_request (ao_request_body_schema api_op) kw []) operation"
  shows "(max_retry > 0 \<longrightarrow> (\<exists>j w'. int j < max_retry \<and> busy attempt j w = Some w'
        \<and> rgw_execute client max_retry operation kw w = attempt w'
        \<and> (int j = max_retry - 1 \<or> (\<forall>x. fst (attempt w') = Inr x \<longrightarrow> \<not> unavailable_503 x))))
     \<and> (max_retry \<le> 0 \<longrightarrow> rgw_execute client max_retry operation kw w = (Inl UnboundLocalError, w))"
  unfolding attempt_def by (intro conjI impI rgw_execute_last [OF assms(1) _ refl] rgw_execute_unbound [OF assms(1)])

text \<open>A gateway that cannot be reached for as many requests as the world counts, then knows no user.\<close>

definition slow_gateway :: "nat rgw_client" where
  "slow_gateway method endpoint request_body w =
     (if w > 0 then (Inl (S3ClientException ''Cannot connect to host''), w - 1)
      else (Inr (404, JsonText (PDict [(PStr ''Code'', PStr ''NoSuchUser'')])), 0))"


lemmas api_tables = api_operations_def admin_op_def

lemma create_error_known:
  "enum_member RgwErrors c = Some (name, value) \<Longrightarrow>
   create_error status (PDict [(PStr ''Code'', PStr c)]) = Inr \<lparr>http_status = status, error_code = name, error_message = value\<rparr>"
  by (simp add: create_error_def py_getitem_def)

lemma client_errors:
  "client_error 408 = Inr (RgwErr \<lparr>http_status = 408, error_code = ''RequestTimeout'', error_message = ''Request to S3 service is timed out.''\<rparr>)"
  "client_error 503 = Inr (RgwErr \<lparr>http_status = 503, error_code = ''S3ServiceUnavailable'', error_message = ''Unable to connect to S3 service.''\<rparr>)"
  by (simp_all add: client_error_def S3_CLIENT_ERROR_CODES_def create_error_def py_getitem_def enum_member_def RgwErrors_def)

theorem rgw_execute_outcome_witness:
  "rgw_execute slow_gateway 5 ''GET_USER'' [(''uid'', PStr ''u'')] 2
     = (Inr (RgwErr \<lparr>http_status = 404, error_code = ''NoSuchUser'', error_message = ''User does not exist.''\<rparr>), 0)"
proof -
  let ?op = "admin_op ''/admin/user'' ''GET'' [(''uid'', ''uid'')]"
  let ?attempt = "rgw_process slow_gateway ?op (build_request (ao_request_body_schema ?op) [(''uid'', PStr ''u'')] []) ''GET_USER''"
  have op: "dict_get api_operations ''GET_USER'' = Some ?op" by (simp add: api_operations_def)
  let ?down = "RgwErr \<lparr>http_status = 503, error_code = ''S3ServiceUnavailable'', error_message = ''Unable to connect to S3 service.''\<rparr>"
  let ?gone = "RgwErr \<lparr>http_status = 404, error_code = ''NoSuchUser'', error_message = ''User does not exist.''\<rparr>"
  have down: "?attempt (Suc w) = (Inr ?down, w)" for w
    by (simp add: rgw_process_def slow_gateway_def act_simps client_errors)
  have up: "?attempt 0 = (Inr ?gone, 0)"
    by (simp add: rgw_process_def slow_gateway_def act_simps answer_def load_body_def admin_op_def create_error_def py_getitem_def
        enum_member_def RgwErrors_def)
  obtain j w' where j: "int j < 5" "busy ?attempt j 2 = Some w'" "rgw_execute slow_gateway 5 ''GET_USER'' [(''uid'', PStr ''u'')] 2 = ?attempt w'"
    "int j = 5 - 1 \<or> (\<forall>x. fst (?attempt w') = Inr x \<longrightarrow> \<not> unavailable_503 x)"
    using rgw_execute_outcome [OF op, of 5 slow_gateway "[(''uid'', PStr ''u'')]" 2] by auto
  have "j = 2 \<and> w' = 0"
  proof -
    have b: "busy ?attempt 1 2 = Some 1" "busy ?attempt 2 2 = Some 0" "\<And>k. busy ?attempt (Suc (Suc (Suc k))) 2 = None"
      using down [of 1] down [of 0] up by (simp_all add: numeral_2_eq_2 unavailable_503_def)
    consider "j = 0" | "j = 1" | "j = 2" | k where "j = Suc (Suc (Suc k))" by (metis One_nat_def Suc_1 not0_implies_Suc)
    then show ?thesis
    proof cases
      case 1
      with j(2,4) down [of 1] show ?thesis by (auto simp: unavailable_503_def numeral_2_eq_2)
    next
      case 2
      with j(2,4) b down [of 0] show ?thesis by (auto simp: unavailable_503_def)
    qed (use j(2) b in auto)
  qed
  with j(3) up show ?thesis by simp
qed


section \<open>Responses\<close>

text \<open>A successful result comes from an answer with the code of success.\<close>

lemma rgw_process_payload:
  assumes "rgw_process client api_op body operation w = (Inr (Payload v), u)"
  shows "\<exists>b response. client (ao_method api_op) (ao_endpoint api_op) body w = (Inr (ao_success_code api_op, b), u)
     \<and> load_body b = Inr response \<and> build_response operation (suppress_response_keys operation response) = Inr v"
proof -
  obtain r u' where c: "client (ao_method api_op) (ao_endpoint api_op) body w = (r, u')"
    by (cases "client (ao_method api_op) (ao_endpoint api_op) body w")
  have none: "\<And>i. client_error i \<noteq> Inr (Payload v)"
    by (auto simp: client_error_def split: option.splits)
  show ?thesis
  proof (cases r)
    case (Inl e)
    with assms c none show ?thesis
      by (auto simp: rgw_process_def act_simps split: exn.splits if_splits)
  next
    case (Inr cb)
    obtain code b where cb: "cb = (code, b)" by (cases cb)
    have "answer api_op operation (code, b) = Inr (Payload v) \<and> u' = u"
    proof (cases "answer api_op operation (code, b)")
      case (Inl e)
      with assms c Inr cb none show ?thesis by (auto simp: rgw_process_def act_simps split: exn.splits if_splits)
    next
      case (Inr x)
      with assms c \<open>r = Inr cb\<close> cb show ?thesis by (auto simp: rgw_process_def act_simps)
    qed
    with c Inr cb show ?thesis by (auto simp: answer_def split: if_splits)
  qed
qed

lemma rgw_execute_payload:
  assumes "dict_get api_operations operation = Some api_op"
    and "rgw_execute client max_retry operation kw w = (Inr (Payload v), u)"
  shows "\<exists>response. build_response operation (suppress_response_keys operation response) = Inr v"
proof (cases "max_retry > 0")
  case True
  from rgw_execute_last [OF assms(1) this refl, of client kw w] assms(2) show ?thesis
    by (auto dest!: rgw_process_payload [OF sym])
next
  case False
  with rgw_execute_unbound [OF assms(1), of max_retry client kw w] assms(2) show ?thesis by simp
qed

end
