(* ===== verification/S3.thy ===== *)
theory S3
  imports Rgw
begin

text \<open>
  S3 users, keys, capabilities, quotas and buckets: the schemas and views of \<^verbatim>\<open>csm/core/controllers/rgw/s3\<close> over
  the services of \<^verbatim>\<open>csm/core/services/rgw/s3\<close>, down to the plugin. A schema is the list of its fields as
  declared; marshmallow, which applies it, is the parameter \<open>load\<close> with the locale \<open>marshmallow\<close> as its
  contract. The body of a request is empty, text that is not JSON, or JSON.
\<close>

section \<open>Schemas\<close>

datatype field_type = StrField | EmailField | BoolField | IntField | DictField

record schema_field =
  sf_name :: string
  sf_type :: field_type
  sf_required :: bool
  sf_valid :: "pyval \<Rightarrow> bool"

type_synonym schema = "schema_field list"

abbreviation field :: "string \<Rightarrow> field_type \<Rightarrow> bool \<Rightarrow> (pyval \<Rightarrow> bool) \<Rightarrow> schema_field" where
  "field name typ required valid \<equiv> \<lparr>sf_name = name, sf_type = typ, sf_required = required, sf_valid = valid\<rparr>"

abbreviation optional :: "string \<Rightarrow> field_type \<Rightarrow> schema_field" where
  "optional name typ \<equiv> field name typ False (\<lambda>_. True)"

abbreviation required :: "string \<Rightarrow> field_type \<Rightarrow> schema_field" where
  "required name typ \<equiv> field name typ True (\<lambda>_. True)"

text \<open>\<open>validate.OneOf\<close>\<close>

definition one_of_strings :: "string list \<Rightarrow> pyval \<Rightarrow> bool" where
  "one_of_strings choices v \<longleftrightarrow> v \<in> PStr ` set choices"

definition SUPPORTED_KEY_TYPES :: "string list" where "SUPPORTED_KEY_TYPES = [''s3'']"
definition SUPPORTED_OP_MASKS :: "string list" where "SUPPORTED_OP_MASKS = [''read'', ''write'', ''delete'', ''*'']"
definition SUPPORTED_BUCKET_OPERATIONS :: "string list" where "SUPPORTED_BUCKET_OPERATIONS = [''link'', ''unlink'']"

definition validate_op_mask :: "string \<Rightarrow> bool" where
  "validate_op_mask op_mask =
     (let mask = filter (\<lambda>c. c \<noteq> CHR '' '') op_mask in
      if mask = [] then True else set (split_on (CHR '','') mask) - set SUPPORTED_OP_MASKS = {})"

definition valid_op_mask :: "pyval \<Rightarrow> bool" where
  "valid_op_mask v \<longleftrightarrow> (case v of PStr s \<Rightarrow> validate_op_mask s | _ \<Rightarrow> False)"

definition at_least :: "int \<Rightarrow> pyval \<Rightarrow> bool" where
  "at_least n v \<longleftrightarrow> (case v of PInt i \<Rightarrow> i \<ge> n | _ \<Rightarrow> False)"

definition UserCreateSchema :: schema where
  "UserCreateSchema =
    [required ''uid'' StrField, required ''display_name'' StrField, optional ''email'' EmailField,
     field ''key_type'' StrField False (one_of_strings SUPPORTED_KEY_TYPES),
     optional ''access_key'' StrField, optional ''secret_key'' StrField, optional ''user_caps'' StrField,
     optional ''generate_key'' BoolField, optional ''max_buckets'' IntField, optional ''suspended'' BoolField,
     optional ''tenant'' StrField]"

definition UserModifySchema :: schema where
  "UserModifySchema =
    [optional ''display_name'' StrField, optional ''email'' EmailField, optional ''generate_key'' BoolField,
     optional ''access_key'' StrField, optional ''secret_key'' StrField,
     field ''key_type'' StrField False (one_of_strings SUPPORTED_KEY_TYPES),
     optional ''max_buckets'' IntField, optional ''suspended'' BoolField, field ''op_mask'' StrField False valid_op_mask]"

definition CreateKeySchema :: schema where
  "CreateKeySchema =
    [required ''uid'' StrField, field ''key_type'' StrField False (one_of_strings SUPPORTED_KEY_TYPES),
     optional ''access_key'' StrField, optional ''secret_key'' StrField, optional ''user_caps'' StrField,
     optional ''generate_key'' BoolField]"

definition RemoveKeySchema :: schema where
  "RemoveKeySchema =
    [required ''access_key'' StrField, optional ''uid'' StrField,
     field ''key_type'' StrField False (one_of_strings SUPPORTED_KEY_TYPES)]"

definition UserCapsSchema :: schema where
  "UserCapsSchema = [required ''user_caps'' StrField]"

definition SetUserQuotaSchema :: schema where
  "SetUserQuotaSchema =
    [optional ''enabled'' BoolField, optional ''max_size'' IntField, optional ''max_objects'' IntField,
     optional ''check_on_raw'' BoolField]"

definition ListAllUsersSchema :: schema where
  "ListAllUsersSchema = [field ''max_entries'' IntField False (at_least 1), optional ''marker'' StrField]"

definition BucketBaseSchema :: schema where
  "BucketBaseSchema =
    [field ''operation'' StrField True (one_of_strings SUPPORTED_BUCKET_OPERATIONS), required ''arguments'' DictField]"

definition LinkBucketSchema :: schema where
  "LinkBucketSchema = [required ''uid'' StrField, required ''bucket'' StrField, optional ''bucket_id'' StrField]"

definition UnlinkBucketSchema :: schema where
  "UnlinkBucketSchema = [required ''uid'' StrField, required ''bucket'' StrField]"

definition bucket_schema :: "string \<Rightarrow> exn + schema" where
  "bucket_schema operation =
     (case dict_get [(''link'', LinkBucketSchema), (''unlink'', UnlinkBucketSchema)] operation of
        None \<Rightarrow> Inl KeyError | Some s \<Rightarrow> Inr s)"


section \<open>Services\<close>

type_synonym 'w plugin = "string \<Rightarrow> kwargs \<Rightarrow> ('w, exn, plugin_response) act"

text \<open>An error response always makes \<open>ServiceError.create\<close> raise.\<close>

definition execute_request :: "'w plugin \<Rightarrow> string \<Rightarrow> kwargs \<Rightarrow> ('w, exn, pyval) act" where
  "execute_request plugin operation kw =
     bind_act (plugin operation kw) (\<lambda>plugin_response.
       case plugin_response of
         RgwErr _ \<Rightarrow> bind_act (of_sum (service_error_create plugin_response None)) (\<lambda>_. ret PNone)
       | Payload v \<Rightarrow> ret v)"

definition iam_create_user :: "'w plugin \<Rightarrow> kwargs \<Rightarrow> ('w, exn, pyval) act" where
  "iam_create_user plugin user_body = execute_request plugin ''CREATE_USER'' user_body"

definition iam_get_user :: "'w plugin \<Rightarrow> kwargs \<Rightarrow> ('w, exn, pyval) act" where
  "iam_get_user plugin request_body = execute_request plugin ''GET_USER'' request_body"

definition iam_get_all_users :: "'w plugin \<Rightarrow> kwargs \<Rightarrow> ('w, exn, pyval) act" where
  "iam_get_all_users plugin request_body = execute_request plugin ''LIST_USERS'' request_body"

definition iam_delete_user :: "'w plugin \<Rightarrow> kwargs \<Rightarrow> ('w, exn, pyval) act" where
  "iam_delete_user plugin request_body = execute_request plugin ''DELETE_USER'' request_body"

definition iam_modify_user :: "'w plugin \<Rightarrow> kwargs \<Rightarrow> ('w, exn, pyval) act" where
  "iam_modify_user plugin request_body = execute_request plugin ''MODIFY_USER'' request_body"

definition iam_create_key :: "'w plugin \<Rightarrow> kwargs \<Rightarrow> ('w, exn, pyval) act" where
  "iam_create_key plugin create_key_body = execute_request plugin ''CREATE_KEY'' create_key_body"

definition iam_remove_key :: "'w plugin \<Rightarrow> kwargs \<Rightarrow> ('w, exn, pyval) act" where
  "iam_remove_key plugin remove_key_body = execute_request plugin ''REMOVE_KEY'' remove_key_body"

definition iam_add_user_caps :: "'w plugin \<Rightarrow> kwargs \<Rightarrow> ('w, exn, pyval) act" where
  "iam_add_user_caps plugin request_body = execute_request plugin ''ADD_USER_CAPS'' request_body"

definition iam_remove_user_caps :: "'w plugin \<Rightarrow> kwargs \<Rightarrow> ('w, exn, pyval) act" where
  "iam_remove_user_caps plugin request_body = execute_request plugin ''REMOVE_USER_CAPS'' request_body"

definition iam_get_user_quota :: "'w plugin \<Rightarrow> kwargs \<Rightarrow> ('w, exn, pyval) act" where
  "iam_get_user_quota plugin request_body = execute_request plugin ''GET_USER_LEVEL_QUOTA'' request_body"

definition iam_set_user_quota :: "'w plugin \<Rightarrow> kwargs \<Rightarrow> ('w, exn, pyval) act" where
  "iam_set_user_quota plugin request_body = execute_request plugin ''SET_USER_LEVEL_QUOTA'' request_body"

definition link_bucket :: "'w plugin \<Rightarrow> kwargs \<Rightarrow> ('w, exn, pyval) act" where
  "link_bucket plugin request_body = execute_request plugin ''LINK_BUCKET'' request_body"

definition unlink_bucket :: "'w plugin \<Rightarrow> kwargs \<Rightarrow> ('w, exn, pyval) act" where
  "unlink_bucket plugin request_body = execute_request plugin ''UNLINK_BUCKET'' request_body"

definition bucket_execute :: "'w plugin \<Rightarrow> string \<Rightarrow> kwargs \<Rightarrow> ('w, exn, pyval) act" where
  "bucket_execute plugin operation request_body =
     (case dict_get [(''link'', link_bucket), (''unlink'', unlink_bucket)] operation of
        None \<Rightarrow> throw KeyError
      | Some service \<Rightarrow> service plugin request_body)"

lemmas service_defs = iam_create_user_def iam_get_user_def iam_get_all_users_def iam_delete_user_def iam_modify_user_def
  iam_create_key_def iam_remove_key_def iam_add_user_caps_def iam_remove_user_caps_def iam_get_user_quota_def
  iam_set_user_quota_def link_bucket_def unlink_bucket_def


section \<open>Views\<close>

record 'w s3_env =
  se_plugin :: "'w plugin"
  se_load :: "schema \<Rightarrow> pyval \<Rightarrow> string + kwargs"
  se_privileged_user :: "string option"

definition is_iam_privileged_user :: "'w s3_env \<Rightarrow> pyval \<Rightarrow> bool" where
  "is_iam_privileged_user E uid \<longleftrightarrow> uid = (case se_privileged_user E of None \<Rightarrow> PNone | Some u \<Rightarrow> PStr u)"

definition privileged_denied :: exn where
  "privileged_denied = mk_CsmPermissionDenied None ''PermissionDenied'' None"

text \<open>\<open>schema.load(v)\<close> with the clause for \<open>ValidationError\<close>, and \<open>schema.load(await self.request.json())\<close> with
  both clauses.\<close>

definition load_value :: "'w s3_env \<Rightarrow> schema \<Rightarrow> pyval \<Rightarrow> exn + kwargs" where
  "load_value E s v = (case se_load E s v of Inl msg \<Rightarrow> Inl (invalid_request msg) | Inr kw \<Rightarrow> Inr kw)"

definition load_json :: "'w s3_env \<Rightarrow> schema \<Rightarrow> http_body \<Rightarrow> exn + kwargs" where
  "load_json E s body =
     (case body of
        JsonText v \<Rightarrow> load_value E s v
      | _ \<Rightarrow> Inl (invalid_request ''Could not parse request body, invalid JSON received.''))"

text \<open>\<open>{**d, **e}\<close>\<close>

definition dict_merge :: "('k, 'v) dict \<Rightarrow> ('k, 'v) dict \<Rightarrow> ('k, 'v) dict" where
  "dict_merge d e = fold (\<lambda>(k, v). dict_set k v) e d"

type_synonym 'w s3_action = "('w, exn, pyval \<times> int) act"

definition csm_response :: "int \<Rightarrow> ('w, exn, pyval) act \<Rightarrow> 'w s3_action" where
  "csm_response status service = guard_service (bind_act service (\<lambda>response. ret (response, status)))"

definition iam_users_post :: "'w s3_env \<Rightarrow> http_body \<Rightarrow> 'w s3_action" where
  "iam_users_post E body =
     bind_act (of_sum (load_json E UserCreateSchema body)) (\<lambda>user_body.
       csm_response 201 (iam_create_user (se_plugin E) user_body))"

definition iam_users_get :: "'w s3_env \<Rightarrow> pyval \<Rightarrow> 'w s3_action" where
  "iam_users_get E query =
     bind_act (of_sum (load_value E ListAllUsersSchema query)) (\<lambda>request_parameters.
       csm_response 200 (iam_get_all_users (se_plugin E) request_parameters))"

definition iam_user_get :: "'w s3_env \<Rightarrow> string \<Rightarrow> 'w s3_action" where
  "iam_user_get E uid = csm_response 200 (iam_get_user (se_plugin E) [(''uid'', PStr uid)])"

definition iam_user_delete :: "'w s3_env \<Rightarrow> string \<Rightarrow> 'w s3_action" where
  "iam_user_delete E uid =
     (if is_iam_privileged_user E (PStr uid) then throw privileged_denied
      else csm_response 200 (iam_delete_user (se_plugin E) [(''uid'', PStr uid)]))"

definition iam_user_patch :: "'w s3_env \<Rightarrow> string \<Rightarrow> http_body \<Rightarrow> 'w s3_action" where
  "iam_user_patch E uid body =
     (if is_iam_privileged_user E (PStr uid) then throw privileged_denied
      else bind_act (of_sum (if body \<noteq> EmptyBody then load_json E UserModifySchema body else Inr [])) (\<lambda>params.
             csm_response 200 (iam_modify_user (se_plugin E) (dict_merge [(''uid'', PStr uid)] params))))"

definition iam_keys_put :: "'w s3_env \<Rightarrow> http_body \<Rightarrow> 'w s3_action" where
  "iam_keys_put E body =
     bind_act (of_sum (load_json E CreateKeySchema body)) (\<lambda>create_key_body.
       if is_iam_privileged_user E (dict_get_default create_key_body ''uid'' PNone) then throw privileged_denied
       else csm_response 200 (iam_create_key (se_plugin E) create_key_body))"

definition iam_keys_delete :: "'w s3_env \<Rightarrow> http_body \<Rightarrow> 'w s3_action" where
  "iam_keys_delete E body =
     bind_act (of_sum (load_json E RemoveKeySchema body)) (\<lambda>remove_key_body.
       if is_iam_privileged_user E (dict_get_default remove_key_body ''uid'' PNone) then throw privileged_denied
       else csm_response 200 (iam_remove_key (se_plugin E) remove_key_body))"

definition create_caps_request_body :: "'w s3_env \<Rightarrow> string \<Rightarrow> http_body \<Rightarrow> exn + kwargs" where
  "create_caps_request_body E uid body =
     (if is_iam_privileged_user E (PStr uid) then Inl privileged_denied
      else bind_sum (load_json E UserCapsSchema body) (\<lambda>user_caps_body.
             Inr (dict_merge [(''uid'', PStr uid)] user_caps_body)))"

definition iam_caps_put :: "'w s3_env \<Rightarrow> string \<Rightarrow> http_body \<Rightarrow> 'w s3_action" where
  "iam_caps_put E uid body =
     bind_act (of_sum (create_caps_request_body E uid body)) (\<lambda>request_body.
       csm_response 200 (iam_add_user_caps (se_plugin E) request_body))"

definition iam_caps_delete :: "'w s3_env \<Rightarrow> string \<Rightarrow> http_body \<Rightarrow> 'w s3_action" where
  "iam_caps_delete E uid body =
     bind_act (of_sum (create_caps_request_body E uid body)) (\<lambda>request_body.
       csm_response 200 (iam_remove_user_caps (se_plugin E) request_body))"

definition iam_quota_get :: "'w s3_env \<Rightarrow> string \<Rightarrow> 'w s3_action" where
  "iam_quota_get E uid = csm_response 200 (iam_get_user_quota (se_plugin E) [(''uid'', PStr uid)])"

definition iam_quota_put :: "'w s3_env \<Rightarrow> string \<Rightarrow> http_body \<Rightarrow> 'w s3_action" where
  "iam_quota_put E uid body =
     (if is_iam_privileged_user E (PStr uid) then throw privileged_denied
      else bind_act (of_sum (if body \<noteq> EmptyBody then load_json E SetUserQuotaSchema body else Inr [])) (\<lambda>params.
             csm_response 200 (iam_set_user_quota (se_plugin E) (dict_merge [(''uid'', PStr uid)] params))))"

text \<open>The operation of a bucket request, loaded in two steps.\<close>

definition bucket_request :: "'w s3_env \<Rightarrow> http_body \<Rightarrow> exn + string \<times> kwargs" where
  "bucket_request E body =
     bind_sum (load_json E BucketBaseSchema body) (\<lambda>request_body.
       case dict_get_default request_body ''operation'' PNone of
         PStr operation \<Rightarrow>
           bind_sum (bucket_schema operation) (\<lambda>s.
           bind_sum (load_value E s (dict_get_default request_body ''arguments'' PNone)) (\<lambda>arguments.
             let uid = dict_get_default arguments ''uid'' PNone in
             if uid \<noteq> PNone \<and> is_iam_privileged_user E uid then Inl privileged_denied
             else Inr (operation, arguments)))
       | _ \<Rightarrow> Inl KeyError)"

definition bucket_put :: "'w s3_env \<Rightarrow> http_body \<Rightarrow> 'w s3_action" where
  "bucket_put E body =
     bind_act (of_sum (bucket_request E body)) (\<lambda>(operation, arguments).
       csm_response 200 (bucket_execute (se_plugin E) operation arguments))"


section \<open>The contract of the loader\<close>

definition of_type :: "field_type \<Rightarrow> pyval \<Rightarrow> bool" where
  "of_type t v \<longleftrightarrow>
     (case v of
        PStr _ \<Rightarrow> t = StrField \<or> t = EmailField
      | PBool _ \<Rightarrow> t = BoolField
      | PInt _ \<Rightarrow> t = IntField
      | PDict _ \<Rightarrow> t = DictField
      | _ \<Rightarrow> False)"

definition field_ok :: "schema_field \<Rightarrow> pyval \<Rightarrow> bool" where
  "field_ok f v \<longleftrightarrow> (if v = PNone then \<not> sf_required f else of_type (sf_type f) v \<and> sf_valid f v)"

text \<open>What is relied on of marshmallow: a loaded body has exactly the fields of the schema (unknown keys are
  refused, missing optional ones are \<open>None\<close>), each of its type and accepted by its validators.\<close>

locale marshmallow =
  fixes load :: "schema \<Rightarrow> pyval \<Rightarrow> string + kwargs"
  assumes load_keys: "load s v = Inr kw \<Longrightarrow> dict_ok kw \<and> set (dict_keys kw) = sf_name ` set s"
    and load_fields: "load s v = Inr kw \<Longrightarrow> f \<in> set s \<Longrightarrow> dict_get kw (sf_name f) = Some x \<Longrightarrow> field_ok f x"
begin

lemma load_other_key: "load s v = Inr kw \<Longrightarrow> k \<notin> sf_name ` set s \<Longrightarrow> dict_get kw k = None"
  using load_keys by (simp add: dict_get_None_iff)

lemma load_required:
  assumes "load s v = Inr kw" and "f \<in> set s" and "sf_required f" and "sf_type f = StrField"
  shows "\<exists>t. dict_get kw (sf_name f) = Some (PStr t)"
proof -
  have "sf_name f \<in> set (dict_keys kw)" using load_keys [OF assms(1)] assms(2) by simp
  then obtain x where x: "dict_get kw (sf_name f) = Some x" using dict_get_None_iff [of kw "sf_name f"] by auto
  from load_fields [OF assms(1,2) x] assms(3,4) have "x \<noteq> PNone" "of_type StrField x"
    by (auto simp: field_ok_def split: if_splits)
  then show ?thesis using x by (cases x) (auto simp: of_type_def)
qed

end

text \<open>A loader that follows the contract: it goes through the fields and refuses what they do not name.\<close>

definition load_field :: "schema_field \<Rightarrow> (pyval, pyval) dict \<Rightarrow> string + pyval" where
  "load_field f d =
     (case dict_get d (PStr (sf_name f)) of
        None \<Rightarrow> if sf_required f then Inl (''Missing data for '' @ sf_name f) else Inr PNone
      | Some x \<Rightarrow> if x = PNone \<or> \<not> field_ok f x then Inl (''Invalid value for '' @ sf_name f) else Inr x)"

primrec load_each :: "schema \<Rightarrow> (pyval, pyval) dict \<Rightarrow> string + kwargs" where
  "load_each [] d = Inr []"
| "load_each (f # fs) d =
     bind_sum (load_field f d) (\<lambda>x. bind_sum (load_each fs d) (\<lambda>kw. Inr ((sf_name f, x) # kw)))"

definition strict_load :: "schema \<Rightarrow> pyval \<Rightarrow> string + kwargs" where
  "strict_load s v =
     (if \<not> distinct (map sf_name s) then Inl ''schema''
      else case v of
        PDict d \<Rightarrow> if set (dict_keys d) \<subseteq> PStr ` sf_name ` set s then load_each s d else Inl ''Unknown field.''
      | _ \<Rightarrow> Inl ''Invalid input type.'')"

lemma load_each_keys: "load_each s d = Inr kw \<Longrightarrow> dict_keys kw = map sf_name s"
  by (induction s arbitrary: kw) auto

lemma load_field_ok: "load_field f d = Inr x \<Longrightarrow> field_ok f x"
  by (auto simp: load_field_def field_ok_def split: option.splits if_splits)

lemma load_each_fields:
  "load_each s d = Inr kw \<Longrightarrow> distinct (map sf_name s) \<Longrightarrow> f \<in> set s \<Longrightarrow> dict_get kw (sf_name f) = Some x \<Longrightarrow> field_ok f x"
proof (induction s arbitrary: kw)
  case (Cons g s)
  then obtain y kw' where g: "load_field g d = Inr y" and kw: "load_each s d = Inr kw'" "kw = (sf_name g, y) # kw'" by auto
  show ?case
  proof (cases "f = g")
    case True
    with Cons.prems(4) kw g show ?thesis by (simp add: load_field_ok)
  next
    case False
    with Cons.prems(2,3) have "f \<in> set s" "sf_name f \<noteq> sf_name g" by (auto simp: image_iff)
    with Cons kw show ?thesis by simp
  qed
qed simp

lemma strict_load_Inr:
  assumes "strict_load s v = Inr kw"
  obtains d where "v = PDict d" "distinct (map sf_name s)" "load_each s d = Inr kw"
  using assms by (cases v) (auto simp: strict_load_def split: if_splits)

interpretation sl: marshmallow strict_load
proof unfold_locales
  fix s v kw assume run: "strict_load s v = Inr kw"
  then obtain d where d: "distinct (map sf_name s)" "load_each s d = Inr kw" by (rule strict_load_Inr)
  then show "dict_ok kw \<and> set (dict_keys kw) = sf_name ` set s" by (simp add: load_each_keys)
  fix f x assume "f \<in> set s" "dict_get kw (sf_name f) = Some x"
  with d show "field_ok f x" by (metis load_each_fields)
qed


section \<open>The privileged user\<close>

datatype s3_request =
    PostUser http_body | GetUsers pyval | GetUser string | DeleteUser string | PatchUser string http_body
  | PutKey http_body | DeleteKey http_body | PutCaps string http_body | DeleteCaps string http_body
  | GetQuota string | PutQuota string http_body | PutBucket http_body

fun s3_view :: "'w s3_env \<Rightarrow> s3_request \<Rightarrow> 'w s3_action" where
  "s3_view E (PostUser body) = iam_users_post E body"
| "s3_view E (GetUsers query) = iam_users_get E query"
| "s3_view E (GetUser uid) = iam_user_get E uid"
| "s3_view E (DeleteUser uid) = iam_user_delete E uid"
| "s3_view E (PatchUser uid body) = iam_user_patch E uid body"
| "s3_view E (PutKey body) = iam_keys_put E body"
| "s3_view E (DeleteKey body) = iam_keys_delete E body"
| "s3_view E (PutCaps uid body) = iam_caps_put E uid body"
| "s3_view E (DeleteCaps uid body) = iam_caps_delete E uid body"
| "s3_view E (GetQuota uid) = iam_quota_get E uid"
| "s3_view E (PutQuota uid body) = iam_quota_put E uid body"
| "s3_view E (PutBucket body) = bucket_put E body"

text \<open>The operations that change an existing user or what belongs to one.\<close>

definition modifying_operations :: "string list" where
  "modifying_operations =
    [''DELETE_USER'', ''MODIFY_USER'', ''CREATE_KEY'', ''REMOVE_KEY'', ''ADD_USER_CAPS'', ''REMOVE_USER_CAPS'',
     ''SET_USER_LEVEL_QUOTA'', ''LINK_BUCKET'', ''UNLINK_BUCKET'']"

definition touches :: "string \<Rightarrow> string \<Rightarrow> kwargs \<Rightarrow> bool" where
  "touches a operation kw \<longleftrightarrow> operation \<in> set modifying_operations \<and> dict_get kw ''uid'' = Some (PStr a)"

lemma dict_get_merge_other: "dict_get e k = None \<Longrightarrow> dict_get (dict_merge d e) k = dict_get d k"
  unfolding dict_merge_def by (induction e arbitrary: d) (auto split: if_splits)

lemma keeps_execute_request: "keeps I (plugin operation kw) \<Longrightarrow> keeps I (execute_request plugin operation kw)"
  unfolding execute_request_def by (intro keeps_bind) (auto intro: keeps_intros split: service_result.split)

lemma keeps_csm_response: "keeps I m \<Longrightarrow> keeps I (csm_response status m)"
  unfolding csm_response_def by (intro keeps_intros)

lemma keeps_of_sum_bind: "(\<And>x. r = Inr x \<Longrightarrow> keeps I (f x)) \<Longrightarrow> keeps I (bind_act (of_sum r) f)"
  by (cases r) (auto simp: keeps_def act_simps)

text \<open>A call that leaves the privileged user alone, for each shape of the arguments.\<close>

lemma path_uid_safe:
  assumes "marshmallow (se_load E)" and "load_json E s body = Inr params" and "''uid'' \<notin> sf_name ` set s" and "uid \<noteq> a"
  shows "\<not> touches a operation (dict_merge [(''uid'', PStr uid)] params)"
proof -
  from assms(2) obtain v where "se_load E s v = Inr params"
    by (auto simp: load_json_def load_value_def split: http_body.splits sum.splits)
  from marshmallow.load_other_key [OF assms(1) this assms(3)] assms(4) show ?thesis
    by (simp add: touches_def dict_get_merge_other)
qed

lemma body_uid_safe: "dict_get_default kw ''uid'' PNone \<noteq> PStr a \<Longrightarrow> \<not> touches a operation kw"
  by (auto simp: touches_def dict_get_default_def)

lemma path_only_safe: "uid \<noteq> a \<Longrightarrow> \<not> touches a operation [(''uid'', PStr uid)]"
  by (simp add: touches_def)

lemma reading_safe: "operation \<notin> set modifying_operations \<Longrightarrow> \<not> touches a operation kw"
  by (simp add: touches_def)

lemmas view_defs = iam_users_post_def iam_users_get_def iam_user_get_def iam_user_delete_def iam_user_patch_def
  iam_keys_put_def iam_keys_delete_def iam_caps_put_def iam_caps_delete_def iam_quota_get_def iam_quota_put_def bucket_put_def

lemmas schema_defs = UserCreateSchema_def UserModifySchema_def CreateKeySchema_def RemoveKeySchema_def UserCapsSchema_def
  SetUserQuotaSchema_def ListAllUsersSchema_def BucketBaseSchema_def LinkBucketSchema_def UnlinkBucketSchema_def

lemma is_privileged: "se_privileged_user E = Some a \<Longrightarrow> is_iam_privileged_user E v \<longleftrightarrow> v = PStr a"
  by (simp add: is_iam_privileged_user_def)

lemma optional_body_safe:
  assumes "marshmallow (se_load E)" and "(if body \<noteq> EmptyBody then load_json E s body else Inr []) = Inr params"
    and "''uid'' \<notin> sf_name ` set s" and "uid \<noteq> a"
  shows "\<not> touches a operation (dict_merge [(''uid'', PStr uid)] params)"
proof (cases "body = EmptyBody")
  case True
  with assms(2,4) show ?thesis by (simp add: touches_def dict_merge_def)
next
  case False
  with assms path_uid_safe show ?thesis by simp
qed

lemma caps_body_safe:
  assumes "marshmallow (se_load E)" and "se_privileged_user E = Some a" and "create_caps_request_body E uid body = Inr kw"
  shows "\<not> touches a operation kw"
proof -
  from assms(2,3) obtain params where params: "load_json E UserCapsSchema body = Inr params" "uid \<noteq> a"
    and kw: "kw = dict_merge [(''uid'', PStr uid)] params"
    by (auto simp: create_caps_request_body_def is_privileged split: if_splits)
  show ?thesis unfolding kw
    by (rule path_uid_safe [OF assms(1) params(1)]) (use params in \<open>auto simp: UserCapsSchema_def\<close>)
qed

lemma bucket_arguments_safe:
  assumes "se_privileged_user E = Some a" and "bucket_request E body = Inr (operation, arguments)"
  shows "\<not> touches a op arguments"
proof -
  from assms(2) obtain rb where rb: "load_json E BucketBaseSchema body = Inr rb"
    by (auto simp: bucket_request_def)
  show ?thesis
  proof (cases "dict_get_default rb ''operation'' PNone")
    case (PStr x)
    with assms rb have "dict_get_default arguments ''uid'' PNone \<noteq> PStr a"
      by (auto simp: bucket_request_def is_privileged Let_def split: if_splits)
    then show ?thesis by (rule body_uid_safe)
  qed (use assms(2) rb in \<open>simp_all add: bucket_request_def\<close>)
qed

lemma keeps_path_body:
  assumes "marshmallow (se_load E)" and "''uid'' \<notin> sf_name ` set s" and "uid \<noteq> a"
    and I: "\<And>operation kw. \<not> touches a operation kw \<Longrightarrow> keeps I (se_plugin E operation kw)"
  shows "keeps I (bind_act (of_sum (if body \<noteq> EmptyBody then load_json E s body else Inr [])) (\<lambda>params.
     csm_response status (execute_request (se_plugin E) operation (dict_merge [(''uid'', PStr uid)] params))))"
proof (rule keeps_of_sum_bind)
  fix params assume "(if body \<noteq> EmptyBody then load_json E s body else Inr []) = Inr params"
  from optional_body_safe [OF assms(1) this assms(2,3)]
  show "keeps I (csm_response status (execute_request (se_plugin E) operation (dict_merge [(''uid'', PStr uid)] params)))"
    by (intro keeps_csm_response keeps_execute_request I)
qed

lemma bucket_execute_cases:
  obtains service where "bucket_execute plugin operation = execute_request plugin service"
  | "bucket_execute plugin operation = (\<lambda>_. throw KeyError)"
  by (cases "operation = ''link''"; cases "operation = ''unlink''")
     (auto simp: bucket_execute_def link_bucket_def unlink_bucket_def fun_eq_iff)

text \<open>
  C18. The API protects the privileged user of the S3 service. Whatever holds of the S3 service and is kept by
  every call of the plugin other than a modifying one that names the privileged user, is kept by every
  request to every S3 view: no request deletes or changes that user, or adds or removes its keys,
  capabilities, quota or buckets, under its name, not even by a \<open>uid\<close> hidden in the body, since the
  schemas behind a \<open>uid\<close> in the path have no such field.
\<close>

theorem privileged_user_protected:
  assumes m: "marshmallow (se_load E)" and a: "se_privileged_user E = Some a"
    and I: "\<And>operation kw. \<not> touches a operation kw \<Longrightarrow> keeps I (se_plugin E operation kw)"
  shows "keeps I (s3_view E rq)"
proof -
  have safe: "keeps I (csm_response status (execute_request (se_plugin E) operation kw))"
    if "\<not> touches a operation kw" for status operation kw
    by (intro keeps_csm_response keeps_execute_request I that)
  note intros = keeps_throw keeps_of_sum_bind safe
  show ?thesis
  proof (cases rq)
    case (PatchUser uid body)
    with keeps_path_body [OF m _ _ I, where s = UserModifySchema and body = body and status = 200] show ?thesis
      by (auto simp: iam_user_patch_def iam_modify_user_def is_privileged [OF a] UserModifySchema_def intro: keeps_throw)
  next
    case (PutQuota uid body)
    with keeps_path_body [OF m _ _ I, where s = SetUserQuotaSchema and body = body and status = 200] show ?thesis
      by (auto simp: iam_quota_put_def iam_set_user_quota_def is_privileged [OF a] SetUserQuotaSchema_def intro: keeps_throw)
  next
    case (PutBucket body)
    show ?thesis unfolding PutBucket s3_view.simps bucket_put_def
    proof (rule keeps_of_sum_bind, clarify)
      fix operation arguments assume run: "bucket_request E body = Inr (operation, arguments)"
      show "keeps I (csm_response 200 (bucket_execute (se_plugin E) operation arguments))"
        by (rule bucket_execute_cases [of "se_plugin E" operation])
           (simp_all add: safe [OF bucket_arguments_safe [OF a run]] keeps_csm_response [OF keeps_throw])
    qed
  qed (auto simp: view_defs service_defs is_privileged [OF a] modifying_operations_def path_only_safe body_uid_safe reading_safe
      intro!: intros dest: caps_body_safe [OF m a])
qed

text \<open>A plugin that records its calls, and a request that hides the name of the privileged user in the body.\<close>

definition recording_env :: "(string \<times> kwargs) list s3_env" where
  "recording_env = \<lparr>se_plugin = (\<lambda>operation kw w. (Inr (Payload PNone), w @ [(operation, kw)])), se_load = strict_load,
     se_privileged_user = Some ''root''\<rparr>"

theorem privileged_user_protected_witness:
  "filter (\<lambda>c. touches ''root'' (fst c) (snd c))
     (snd (s3_view recording_env (PatchUser ''bob'' (JsonText (PDict [(PStr ''uid'', PStr ''root'')]))) [])) = []"
proof -
  let ?I = "\<lambda>w. \<forall>c \<in> set w. \<not> touches ''root'' (fst c) (snd c)"
  have "keeps ?I (s3_view recording_env (PatchUser ''bob'' (JsonText (PDict [(PStr ''uid'', PStr ''root'')]))))"
  proof (rule privileged_user_protected)
    show "marshmallow (se_load recording_env)" by (simp add: recording_env_def sl.marshmallow_axioms)
    show "se_privileged_user recording_env = Some ''root''" by (simp add: recording_env_def)
    show "keeps ?I (se_plugin recording_env operation kw)" if "\<not> touches ''root'' operation kw" for operation kw
      using that by (auto simp: recording_env_def keeps_def)
  qed
  from keepsD [OF this, of "[]"] show ?thesis by (simp add: filter_empty_conv)
qed

text \<open>
  A way around this protection: a request to remove an access key need not name a user. Without one it
  passes the check, and the plugin asks the gateway to remove the key with nothing but its id, so that
  also a key of the privileged user is removed by whoever may remove keys.
\<close>

theorem remove_key_without_user:
  assumes "se_privileged_user E = Some a" and "se_plugin E = rgw_execute client n"
    and "se_load E RemoveKeySchema v = Inr kw"
    and "dict_get kw ''uid'' = Some PNone" and "dict_get kw ''access_key'' = Some (PStr k)"
  shows "iam_keys_delete E (JsonText v) = csm_response 200 (execute_request (rgw_execute client n) ''REMOVE_KEY'' kw)
     \<and> (\<exists>api_op. dict_get api_operations ''REMOVE_KEY'' = Some api_op \<and> ao_method api_op = ''DELETE''
          \<and> dict_get (build_request (ao_request_body_schema api_op) kw []) ''access-key'' = Some (PStr k)
          \<and> dict_get (build_request (ao_request_body_schema api_op) kw []) ''uid'' = None)"
proof (intro conjI exI)
  show "iam_keys_delete E (JsonText v) = csm_response 200 (execute_request (rgw_execute client n) ''REMOVE_KEY'' kw)"
    using assms by (intro ext) (simp add: iam_keys_delete_def load_json_def load_value_def act_simps is_iam_privileged_user_def iam_remove_key_def)
  show "dict_get api_operations ''REMOVE_KEY'' = Some (admin_op ''/admin/user?key'' ''DELETE''
      [(''access_key'', ''access-key''), (''uid'', ''uid''), (''key_type'', ''key-type'')])"
    by (simp add: api_operations_def)
qed (use assms(4,5) in \<open>simp_all add: admin_op_def\<close>)

theorem remove_key_without_user_witness:
  "fst (iam_keys_delete \<lparr>se_plugin = rgw_execute slow_gateway 1, se_load = strict_load, se_privileged_user = Some ''root''\<rparr>
      (JsonText (PDict [(PStr ''access_key'', PStr ''AK1'')])) 0)
   = Inl (CsmHttpException 404 S3_SERVICE_ERROR ''NoSuchUser'' ''User does not exist.'' None)"
proof -
  let ?E = "\<lparr>se_plugin = rgw_execute slow_gateway 1, se_load = strict_load, se_privileged_user = Some ''root''\<rparr>"
  let ?kw = "[(''access_key'', PStr ''AK1''), (''uid'', PNone), (''key_type'', PNone)]"
  have "strict_load RemoveKeySchema (PDict [(PStr ''access_key'', PStr ''AK1'')]) = Inr ?kw"
    by (simp add: strict_load_def RemoveKeySchema_def load_field_def field_ok_def of_type_def)
  with remove_key_without_user [of ?E "''root''" slow_gateway 1 "PDict [(PStr ''access_key'', PStr ''AK1'')]" ?kw "''AK1''"]
  have "iam_keys_delete ?E (JsonText (PDict [(PStr ''access_key'', PStr ''AK1'')]))
      = csm_response 200 (execute_request (rgw_execute slow_gateway 1) ''REMOVE_KEY'' ?kw)" by simp
  then show ?thesis
    by (simp add: csm_response_def guard_service_def execute_request_def rgw_execute_def api_operations_def rgw_process_def
        slow_gateway_def act_simps answer_def load_body_def admin_op_def create_error_def py_getitem_def enum_member_def
        RgwErrors_def unavailable_503_def service_error_create_def Let_def)
qed


section \<open>Errors and secrets\<close>

lemma first_answer:
  assumes "dict_get api_operations operation = Some api_op" and "n > 0"
    and "rgw_process client api_op (build_request (ao_request_body_schema api_op) kw []) operation w = (Inr (RgwErr e), u)"
    and "http_status e \<noteq> 503"
  shows "rgw_execute client n operation kw w = (Inr (RgwErr e), u)"
proof -
  obtain k where "nat n = Suc k" using assms(2) by (cases "nat n") auto
  with assms show ?thesis by (simp add: rgw_execute_def act_simps unavailable_503_def Let_def)
qed


definition taken_gateway :: "unit rgw_client" where
  "taken_gateway method endpoint request_body w = (Inr (409, JsonText (PDict [(PStr ''Code'', PStr ''BucketAlreadyExists'')])), w)"


text \<open>
  C33. The view that shows an S3 user never discloses a secret key: whatever the gateway answers, in a
  successful reply no dictionary at any depth has the key \<open>secret_key\<close>.
\<close>

theorem get_user_hides_secret:
  assumes "se_plugin E = rgw_execute client n" and "iam_user_get E uid w = (Inr (v, status), u)"
  shows "\<not> mentions ''secret_key'' v"
proof -
  obtain api_op where op: "dict_get api_operations ''GET_USER'' = Some api_op" by (simp add: api_operations_def)
  from assms obtain u' where run: "rgw_execute client n ''GET_USER'' [(''uid'', PStr uid)] w = (Inr (Payload v), u')"
    by (auto simp: iam_user_get_def csm_response_def guard_service_def iam_get_user_def execute_request_def act_simps
        service_error_create_def split: prod.splits sum.splits service_result.splits exn.splits)
  from rgw_execute_payload [OF op run] obtain response
    where "build_response ''GET_USER'' (suppress_response_keys ''GET_USER'' response) = Inr v" by blast
  then have "v = remove_json_key response ''secret_key''"
    by (simp add: build_response_def api_response_mapping_schema_def suppress_response_keys_def api_suppress_payload_schema_def)
  then show ?thesis by (simp add: remove_json_key_gone)
qed

definition leaky_gateway :: "unit rgw_client" where
  "leaky_gateway method endpoint request_body w =
     (Inr (200, JsonText (PDict [(PStr ''user_id'', PStr ''bob''),
        (PStr ''keys'', PList [PDict [(PStr ''access_key'', PStr ''AK''), (PStr ''secret_key'', PStr ''SK'')]])])), w)"

theorem get_user_hides_secret_witness:
  "\<exists>v. iam_user_get \<lparr>se_plugin = rgw_execute leaky_gateway 2, se_load = strict_load, se_privileged_user = None\<rparr> ''bob'' () = (Inr (v, 200), ())
     \<and> \<not> mentions ''secret_key'' v"
proof -
  let ?E = "\<lparr>se_plugin = rgw_execute leaky_gateway 2, se_load = strict_load, se_privileged_user = None\<rparr>"
  obtain v where run: "iam_user_get ?E ''bob'' () = (Inr (v, 200), ())"
    by (simp add: iam_user_get_def csm_response_def guard_service_def iam_get_user_def execute_request_def rgw_execute_def
        api_operations_def admin_op_def rgw_process_def leaky_gateway_def act_simps answer_def load_body_def build_response_def
        api_response_mapping_schema_def suppress_response_keys_def api_suppress_payload_schema_def unavailable_503_def
        numeral_2_eq_2 Let_def)
  with get_user_hides_secret [OF _ run] show ?thesis by simp
qed

end
