(* ===== verification/Capacity.thy ===== *)
theory Capacity
  imports S3
begin

text \<open>
  Storage capacity: \<open>StorageCapacityService\<close> and \<open>S3CapacityService\<close> of
  \<^verbatim>\<open>csm/core/services/storage_capacity.py\<close> with their views in \<^verbatim>\<open>csm/core/controllers/storage_capacity.py\<close>. The
  service keeps one error object that its failing requests share; the result of a failed request is a
  reference to that object, read by the view later. The HTTP client is the parameter \<open>http\<close> on a
  world of its own. The conversion of units in floating point has no caller and is left out.
\<close>

section \<open>Status of the cluster\<close>

record capacity_error =
  ce_http_status :: int
  ce_message_id :: string
  ce_message :: string

record 'w capacity_service =
  cap_error :: "capacity_error option"
  cap_world :: 'w

datatype capacity_reply = SharedCapacityError | CapacityData pyval

record http_answer =
  ha_status :: int
  ha_reason :: string
  ha_body :: http_body

type_synonym 'w capacity_http = "string \<Rightarrow> string \<Rightarrow> ('w, exn, http_answer) act"

definition create_capacity_error :: "int \<Rightarrow> string \<Rightarrow> ('w capacity_service, exn, unit) act" where
  "create_capacity_error status reason =
     modify_act (\<lambda>c. c\<lparr>cap_error := Some \<lparr>ce_http_status = status, ce_message_id = reason, ce_message = reason\<rparr>\<rparr>)"

definition on_http :: "('w, exn, 'a) act \<Rightarrow> ('w capacity_service, exn, 'a) act" where
  "on_http = within cap_world (\<lambda>w c. c\<lparr>cap_world := w\<rparr>)"

definition capacity_request ::
  "'w capacity_http \<Rightarrow> string \<Rightarrow> string \<Rightarrow> int \<Rightarrow> ('w capacity_service, exn, capacity_reply) act" where
  "capacity_request http method url expected_success_code =
     bind_act (on_http (http method url)) (\<lambda>resp.
       if ha_status resp \<noteq> expected_success_code
       then bind_act (create_capacity_error (ha_status resp) (ha_reason resp)) (\<lambda>_. ret SharedCapacityError)
       else (case ha_body resp of JsonText v \<Rightarrow> ret (CapacityData v) | _ \<Rightarrow> throw JSONDecodeError))"

text \<open>The retry loop, by the rounds left.\<close>

fun cluster_data_loop ::
  "('w capacity_service, exn, capacity_reply) act \<Rightarrow> nat \<Rightarrow> ('w capacity_service, exn, capacity_reply) act" where
  "cluster_data_loop request 0 = throw UnboundLocalError"
| "cluster_data_loop request (Suc k) =
     catch_act request (\<lambda>e.
       case e of
         ClientConnectorError _ \<Rightarrow>
           if k = 0 then bind_act (create_capacity_error 503 ''Unable to connect to the service'') (\<lambda>_. ret SharedCapacityError)
           else cluster_data_loop request k
       | _ \<Rightarrow> throw (mk_CsmInternalError (Some ''Error in obtaining response'')))"

definition get_cluster_data ::
  "'w capacity_http \<Rightarrow> string \<Rightarrow> int \<Rightarrow> string option \<Rightarrow> ('w capacity_service, exn, capacity_reply) act" where
  "get_cluster_data http base_url max_retry_count data_filter =
     (let url = (case data_filter of None \<Rightarrow> base_url | Some f \<Rightarrow> if f = [] then base_url else base_url @ ''/'' @ f) in
      cluster_data_loop (capacity_request http ''GET'' url 200) (nat max_retry_count))"

definition CAPACITY_SERVICE_ERROR :: int where "CAPACITY_SERVICE_ERROR = 0x3010"

text \<open>What the views do with the result.\<close>

definition capacity_view :: "capacity_reply \<Rightarrow> ('w capacity_service, exn, pyval) act" where
  "capacity_view resp =
     (case resp of
        CapacityData v \<Rightarrow> ret v
      | SharedCapacityError \<Rightarrow>
          bind_act (gets cap_error) (\<lambda>err.
            case err of
              None \<Rightarrow> throw AttributeError
            | Some e \<Rightarrow> throw (CsmHttpException (ce_http_status e) CAPACITY_SERVICE_ERROR (ce_message_id e) (ce_message e) None)))"

definition capacity_status_get :: "'w capacity_http \<Rightarrow> string \<Rightarrow> int \<Rightarrow> ('w capacity_service, exn, pyval) act" where
  "capacity_status_get http base_url n = bind_act (get_cluster_data http base_url n None) capacity_view"

definition capacity_resource_get :: "'w capacity_http \<Rightarrow> string \<Rightarrow> int \<Rightarrow> string \<Rightarrow> ('w capacity_service, exn, pyval) act" where
  "capacity_resource_get http base_url n capacity_resource =
     bind_act (get_cluster_data http base_url n (Some capacity_resource)) capacity_view"


section \<open>Usage of an S3 user\<close>

definition py_copy :: "pyval \<Rightarrow> exn + pyval" where
  "py_copy v = (case v of PDict _ \<Rightarrow> Inr v | PList _ \<Rightarrow> Inr v | _ \<Rightarrow> Inl AttributeError)"

text \<open>\<open>v[k] = x\<close> for a dictionary \<open>v\<close>.\<close>

definition py_setitem :: "pyval \<Rightarrow> string \<Rightarrow> pyval \<Rightarrow> exn + pyval" where
  "py_setitem v k x = (case v of PDict d \<Rightarrow> Inr (PDict (dict_set (PStr k) x d)) | _ \<Rightarrow> Inl TypeError)"

definition users_as_list :: "pyval \<Rightarrow> exn + pyval" where
  "users_as_list plugin_response =
     bind_sum (py_getitem plugin_response ''capacity'') (\<lambda>capacity.
     bind_sum (py_getitem capacity ''s3'') (\<lambda>s3.
     bind_sum (py_getitem s3 ''users'') (\<lambda>users_dict.
     bind_sum (py_copy users_dict) (\<lambda>users.
     bind_sum (py_setitem s3 ''users'' (PList [users])) (\<lambda>s3'.
     bind_sum (py_setitem capacity ''s3'' s3') (\<lambda>capacity'.
       py_setitem plugin_response ''capacity'' capacity'))))))"

definition get_user_usage :: "'w plugin \<Rightarrow> kwargs \<Rightarrow> ('w, exn, pyval) act" where
  "get_user_usage plugin request_body =
     bind_act (execute_request plugin ''GET_USER_CAPACITY'' request_body) (\<lambda>plugin_response.
       of_sum (users_as_list plugin_response))"

definition get_usage :: "'w plugin \<Rightarrow> string \<Rightarrow> string \<Rightarrow> ('w, exn, pyval) act" where
  "get_usage plugin resource resource_id =
     (if resource = ''user'' then get_user_usage plugin [(''uid'', PStr resource_id)]
      else if resource = ''bucket'' then ret (PDict [])
      else if resource = ''account'' then ret (PDict [])
      else ret PNone)"

definition SUPPORTED_RESOURCE_TYPES :: "string list" where "SUPPORTED_RESOURCE_TYPES = [''user'']"

definition S3CapacitySchema :: schema where
  "S3CapacitySchema = [field ''resource'' StrField True (one_of_strings SUPPORTED_RESOURCE_TYPES)]"

definition s3_capacity_get :: "'w s3_env \<Rightarrow> string \<Rightarrow> string \<Rightarrow> 'w s3_action" where
  "s3_capacity_get E resource resource_id =
     bind_act (of_sum (load_value E S3CapacitySchema (PDict [(PStr ''resource'', PStr resource)]))) (\<lambda>_.
       csm_response 200 (get_usage (se_plugin E) resource resource_id))"

definition s3_capacity_tenant_get :: "'w s3_env \<Rightarrow> string \<Rightarrow> string \<Rightarrow> string \<Rightarrow> 'w s3_action" where
  "s3_capacity_tenant_get E tenant resource resource_id = s3_capacity_get E resource (tenant @ ''$'' @ resource_id)"


section \<open>The shared error object\<close>

lemma request_failed:
  assumes "http ''GET'' url (cap_world c) = (Inr r, w)" and "ha_status r \<noteq> 200"
  shows "capacity_request http ''GET'' url 200 c
     = (Inr SharedCapacityError, \<lparr>cap_error = Some \<lparr>ce_http_status = ha_status r, ce_message_id = ha_reason r, ce_message = ha_reason r\<rparr>,
          cap_world = w\<rparr>)"
  using assms by (simp add: capacity_request_def on_http_def create_capacity_error_def act_simps)

lemma get_cluster_data_failed:
  assumes "http ''GET'' (base @ ''/'' @ f) (cap_world c) = (Inr r, w)" and "ha_status r \<noteq> 200" and "n > 0" and "f \<noteq> []"
  shows "get_cluster_data http base n (Some f) c
     = (Inr SharedCapacityError, \<lparr>cap_error = Some \<lparr>ce_http_status = ha_status r, ce_message_id = ha_reason r, ce_message = ha_reason r\<rparr>,
          cap_world = w\<rparr>)"
proof -
  obtain k where "nat n = Suc k" using assms(3) by (cases "nat n") auto
  with request_failed [of http "base @ ''/'' @ f" c, OF assms(1,2)] assms(4) show ?thesis by (simp add: get_cluster_data_def catch_act_def Let_def)
qed

text \<open>
  A failed request for the status of a resource is reported with the status and reason of its own
  answer if no other request comes between. But the service has one error object for all requests: when a
  second request fails after the first one has its result and before the view has read it (both the
  response and the client session are closed in between, which can switch to the other request), the
  first one is reported with the second one's error.
\<close>

theorem capacity_error_race:
  assumes "f1 \<noteq> []" "f2 \<noteq> []" and "n > 0" and "ha_status r1 \<noteq> 200" "ha_status r2 \<noteq> 200"
    and "http ''GET'' (base @ ''/'' @ f1) (cap_world c) = (Inr r1, w1)"
    and "http ''GET'' (base @ ''/'' @ f2) w1 = (Inr r2, w2)"
  shows "fst (capacity_resource_get http base n f1 c)
           = Inl (CsmHttpException (ha_status r1) CAPACITY_SERVICE_ERROR (ha_reason r1) (ha_reason r1) None)
     \<and> (\<exists>resp1 c1 resp2 c2. get_cluster_data http base n (Some f1) c = (Inr resp1, c1)
          \<and> get_cluster_data http base n (Some f2) c1 = (Inr resp2, c2)
          \<and> fst (capacity_view resp1 c2)
              = Inl (CsmHttpException (ha_status r2) CAPACITY_SERVICE_ERROR (ha_reason r2) (ha_reason r2) None))"
proof -
  let ?e = "\<lambda>r. Some \<lparr>ce_http_status = ha_status r, ce_message_id = ha_reason r, ce_message = ha_reason r\<rparr>"
  have g1: "get_cluster_data http base n (Some f1) c = (Inr SharedCapacityError, \<lparr>cap_error = ?e r1, cap_world = w1\<rparr>)"
    by (rule get_cluster_data_failed) (use assms in simp_all)
  have g2: "get_cluster_data http base n (Some f2) \<lparr>cap_error = ?e r1, cap_world = w1\<rparr>
      = (Inr SharedCapacityError, \<lparr>cap_error = ?e r2, cap_world = w2\<rparr>)"
    by (rule get_cluster_data_failed) (use assms in simp_all)
  from g1 g2 show ?thesis by (simp add: capacity_resource_get_def capacity_view_def act_simps)
qed

definition answers :: "http_answer list capacity_http" where
  "answers method url w = (Inr (hd w), tl w)"

theorem capacity_error_race_witness:
  "\<exists>resp1 c1 resp2 c2. get_cluster_data answers ''http://hax'' 3 (Some ''gold'')
       \<lparr>cap_error = None, cap_world = [\<lparr>ha_status = 404, ha_reason = ''Not Found'', ha_body = EmptyBody\<rparr>,
          \<lparr>ha_status = 500, ha_reason = ''Internal Server Error'', ha_body = EmptyBody\<rparr>]\<rparr> = (Inr resp1, c1)
     \<and> get_cluster_data answers ''http://hax'' 3 (Some ''bytecount'') c1 = (Inr resp2, c2)
     \<and> fst (capacity_view resp1 c2)
         = Inl (CsmHttpException 500 CAPACITY_SERVICE_ERROR ''Internal Server Error'' ''Internal Server Error'' None)"
proof -
  let ?r1 = "\<lparr>ha_status = 404, ha_reason = ''Not Found'', ha_body = EmptyBody\<rparr>"
  let ?r2 = "\<lparr>ha_status = 500, ha_reason = ''Internal Server Error'', ha_body = EmptyBody\<rparr>"
  from capacity_error_race [of "''gold''" "''bytecount''" 3 ?r1 ?r2 answers "''http://hax''"
      "\<lparr>cap_error = None, cap_world = [?r1, ?r2]\<rparr>" "[?r2]" "[]"]
  show ?thesis by (simp add: answers_def)
qed


section \<open>The reply for a user\<close>

definition user_capacity :: "(pyval, pyval) dict \<Rightarrow> (pyval, pyval) dict \<Rightarrow> pyval" where
  "user_capacity body stats =
     PDict [(PStr ''tenant'', dict_get_default body (PStr ''tenant'') PNone), (PStr ''id'', dict_get_default body (PStr ''user_id'') PNone),
       (PStr ''used'', dict_get_default stats (PStr ''size'') PNone),
       (PStr ''used_rounded'', dict_get_default stats (PStr ''size_actual'') PNone),
       (PStr ''objects'', dict_get_default stats (PStr ''num_objects'') PNone)]"

definition under_users :: "pyval \<Rightarrow> pyval" where
  "under_users v = PDict [(PStr ''capacity'', PDict [(PStr ''s3'', PDict [(PStr ''users'', v)])])]"

lemma build_capacity_response:
  assumes "dict_get body (PStr ''stats'') = Some (PDict stats)"
  shows "build_response ''GET_USER_CAPACITY'' (PDict body) = Inr (under_users (user_capacity body stats))"
  using assms
  by (simp add: build_response_def api_response_mapping_schema_def payload_convert_def payload_get_def payload_set_def set_data_def
      payload_dump_def payload_load_def json_payload_def dict_payload_def act_simps get_path_last get_path_more set_path_last set_path_more
      params_cleanup_def user_capacity_def under_users_def)

text \<open>
  The usage of an S3 user, through view, service, plugin, conversion and gateway: when the gateway answers
  the request for statistics with success and a body whose \<open>stats\<close> are an object, the reply is the single
  entry of that user with the tenant, the id, the size, the rounded size and the number of objects of
  the answer (\<open>None\<close> for those it lacks).
\<close>

theorem capacity_usage_reply:
  assumes "se_plugin E = rgw_execute client n" and "n > 0"
    and "se_load E S3CapacitySchema (PDict [(PStr ''resource'', PStr ''user'')]) = Inr kw"
    and "client ''GET'' ''/admin/user?stats'' [(''uid'', PStr resource_id)] w = (Inr (200, JsonText (PDict body)), u)"
    and "dict_get body (PStr ''stats'') = Some (PDict stats)"
  shows "s3_capacity_get E ''user'' resource_id w = (Inr (under_users (PList [user_capacity body stats]), 200), u)"
proof -
  obtain k where k: "nat n = Suc k" using assms(2) by (cases "nat n") auto
  have "rgw_execute client n ''GET_USER_CAPACITY'' [(''uid'', PStr resource_id)] w
      = (Inr (Payload (under_users (user_capacity body stats))), u)"
    using assms(4) k build_capacity_response [OF assms(5)]
    by (simp add: rgw_execute_def api_operations_def admin_op_def rgw_process_def act_simps answer_def load_body_def
        suppress_response_keys_def api_suppress_payload_schema_def unavailable_503_def Let_def)
  then have "execute_request (rgw_execute client n) ''GET_USER_CAPACITY'' [(''uid'', PStr resource_id)] w
      = (Inr (under_users (user_capacity body stats)), u)"
    by (simp add: execute_request_def act_simps)
  then show ?thesis
    using assms(1,3)
    by (simp add: s3_capacity_get_def load_value_def csm_response_def guard_service_def get_usage_def get_user_usage_def act_simps
        users_as_list_def py_getitem_def py_copy_def py_setitem_def under_users_def user_capacity_def)
qed

definition stats_gateway :: "unit rgw_client" where
  "stats_gateway method endpoint request_body w =
     (Inr (200, JsonText (PDict [(PStr ''user_id'', PStr ''bob''), (PStr ''stats'', PDict [(PStr ''size'', PInt 10)])])), w)"

theorem capacity_usage_reply_witness:
  "s3_capacity_get \<lparr>se_plugin = rgw_execute stats_gateway 2, se_load = strict_load, se_privileged_user = None\<rparr> ''user'' ''bob'' ()
     = (Inr (under_users (PList [PDict [(PStr ''tenant'', PNone), (PStr ''id'', PStr ''bob''), (PStr ''used'', PInt 10),
          (PStr ''used_rounded'', PNone), (PStr ''objects'', PNone)]]), 200), ())"
proof -
  let ?E = "\<lparr>se_plugin = rgw_execute stats_gateway 2, se_load = strict_load, se_privileged_user = None\<rparr>"
  have "strict_load S3CapacitySchema (PDict [(PStr ''resource'', PStr ''user'')]) = Inr [(''resource'', PStr ''user'')]"
    by (simp add: strict_load_def S3CapacitySchema_def load_field_def field_ok_def of_type_def one_of_strings_def SUPPORTED_RESOURCE_TYPES_def)
  with capacity_usage_reply [of ?E stats_gateway 2 "[(''resource'', PStr ''user'')]" "''bob''" "()"
      "[(PStr ''user_id'', PStr ''bob''), (PStr ''stats'', PDict [(PStr ''size'', PInt 10)])]" "()" "[(PStr ''size'', PInt 10)]"]
  show ?thesis by (simp add: stats_gateway_def user_capacity_def)
qed

end
