(* ===== verification/Deployment.thy ===== *)
theory Deployment
  imports Json_Values "HOL-Library.Sublist"
begin

text \<open>
  Information about the deployment: \<open>CortxTopology\<close> and its factory in
  \<^verbatim>\<open>csm/core/services/query_deployment/topology_factory.py\<close>, the certificate details of \<^verbatim>\<open>csm/common/certificate.py\<close>, the
  queries of \<^verbatim>\<open>csm/core/services/information.py\<close> and the views of \<^verbatim>\<open>csm/core/controllers/information.py\<close>. The configuration
  store and the X.509 library are parameters: \<open>conf\<close> gives the three sections of the copied topology
  or raises, \<open>load_cert\<close> the parsed certificate of a path or raises; \<open>show\<close> is how a value prints in an f-string.
\<close>

section \<open>The topology\<close>

text \<open>\<open>v.get(k)\<close>\<close>

abbreviation py_get1 :: "pyval \<Rightarrow> string \<Rightarrow> exn + pyval" where
  "py_get1 v k \<equiv> py_get v k PNone"

text \<open>A loop or comprehension over a list, stopped by the first exception.\<close>

fun map_sum_list :: "('a \<Rightarrow> exn + 'b) \<Rightarrow> 'a list \<Rightarrow> exn + 'b list" where
  "map_sum_list f [] = Inr []"
| "map_sum_list f (x # xs) = bind_sum (f x) (\<lambda>y. bind_sum (map_sum_list f xs) (\<lambda>ys. Inr (y # ys)))"

definition get_services :: "pyval \<Rightarrow> exn + pyval list" where
  "get_services components =
     bind_sum (py_iter components) (\<lambda>cs.
     bind_sum (map_sum_list (\<lambda>component.
         bind_sum (py_get1 component ''services'') (\<lambda>services.
           if truthy services then py_iter services else Inr [])) cs)
       (\<lambda>parts. Inr (concat parts)))"

text \<open>The counters of a volume group, entries with \<open>num_\<close> in their name, are dropped from its devices.\<close>

definition is_counter :: "pyval \<Rightarrow> exn + bool" where
  "is_counter key = (case key of PStr s \<Rightarrow> Inr (sublist ''num_'' s) | _ \<Rightarrow> Inl TypeError)"

definition clean_devices :: "pyval \<Rightarrow> exn + pyval" where
  "clean_devices devices =
     (case devices of
        PDict d \<Rightarrow>
          bind_sum (map_sum_list (\<lambda>p. bind_sum (is_counter (fst p)) (\<lambda>b. Inr (b, p))) d) (\<lambda>marked.
            Inr (PDict (map snd (filter (\<lambda>m. \<not> fst m) marked))))
      | _ \<Rightarrow> Inl AttributeError)"

definition clean_cvg :: "pyval \<Rightarrow> exn + pyval" where
  "clean_cvg cvg =
     bind_sum (py_getitem cvg ''devices'') (\<lambda>devices.
     bind_sum (clean_devices devices) (\<lambda>devices'.
       case cvg of PDict d \<Rightarrow> Inr (PDict (dict_set (PStr ''devices'') devices' d)) | _ \<Rightarrow> Inl TypeError))"

definition create_node_payload :: "pyval \<Rightarrow> pyval \<Rightarrow> exn + pyval" where
  "create_node_payload node_id node =
     bind_sum (py_get1 node ''provisioning'') (\<lambda>provisioning.
     bind_sum (if truthy provisioning then bind_sum (py_get1 provisioning ''version'') (\<lambda>v. Inr [(PStr ''version'', v)]) else Inr [])
       (\<lambda>version.
     bind_sum (py_getitem node ''components'') (\<lambda>components.
     bind_sum (get_services components) (\<lambda>services.
     bind_sum (py_get1 node ''type'') (\<lambda>typ.
     bind_sum (py_get1 node ''storage_set'') (\<lambda>storage_set.
     bind_sum (if truthy provisioning then bind_sum (py_get1 provisioning ''time'') (\<lambda>v. Inr [(PStr ''deployment_time'', v)]) else Inr [])
       (\<lambda>time.
     bind_sum (py_get1 node ''hostname'') (\<lambda>hostname.
     bind_sum (py_get1 node ''cvg'') (\<lambda>cvg.
     bind_sum (if truthy cvg
               then bind_sum (py_iter cvg) (\<lambda>cvgs. bind_sum (map_sum_list clean_cvg cvgs) (\<lambda>cs. Inr [(PStr ''storage'', PList cs)]))
               else Inr [])
       (\<lambda>storage.
       Inr (PDict ([(PStr ''id'', node_id)] @ version
         @ (if services \<noteq> [] then [(PStr ''services'', PList services)] else [])
         @ [(PStr ''type'', typ), (PStr ''storage_set'', storage_set)] @ time @ [(PStr ''hostname'', hostname)] @ storage))))))))))))"

definition get_nodes :: "pyval \<Rightarrow> exn + pyval" where
  "get_nodes nodes =
     (case nodes of
        PDict d \<Rightarrow> bind_sum (map_sum_list (\<lambda>(node_id, node). create_node_payload node_id node) d) (\<lambda>ns. Inr (PList ns))
      | _ \<Rightarrow> Inl AttributeError)"

definition durability_text :: "(pyval \<Rightarrow> string) \<Rightarrow> pyval \<Rightarrow> exn + pyval" where
  "durability_text show v =
     bind_sum (py_get1 v ''data'') (\<lambda>data. bind_sum (py_get1 v ''parity'') (\<lambda>parity. bind_sum (py_get1 v ''spare'') (\<lambda>spare.
       Inr (PStr (show data @ ''+'' @ show parity @ ''+'' @ show spare)))))"

definition get_durability :: "(pyval \<Rightarrow> string) \<Rightarrow> pyval \<Rightarrow> exn + pyval" where
  "get_durability show payload =
     bind_sum (py_get1 payload ''dix'') (\<lambda>dix. bind_sum (py_get1 payload ''sns'') (\<lambda>sns.
     bind_sum (durability_text show sns) (\<lambda>data. bind_sum (durability_text show dix) (\<lambda>metadata.
       Inr (PDict [(PStr ''data'', data), (PStr ''metadata'', metadata)])))))"

definition get_storage_set :: "(pyval \<Rightarrow> string) \<Rightarrow> pyval \<Rightarrow> exn + pyval" where
  "get_storage_set show payload =
     bind_sum (py_iter payload) (\<lambda>sets.
     bind_sum (map_sum_list (\<lambda>storage_set.
         bind_sum (py_getitem storage_set ''name'') (\<lambda>name.
         bind_sum (py_getitem storage_set ''durability'') (\<lambda>durability.
         bind_sum (get_durability show durability) (\<lambda>text.
           Inr (PDict [(PStr ''id'', name), (PStr ''durability'', text)]))))) sets)
       (\<lambda>ss. Inr (PList ss)))"

text \<open>The attributes of a loaded certificate \<open>get_certificate_details\<close> reads, printed.\<close>

record x509 =
  x_subject :: "(pyval, pyval) dict"
  x_issuer :: "(pyval, pyval) dict"
  x_not_valid_after :: string
  x_not_valid_before :: string
  x_serial_number :: int
  x_version :: string

definition certificate_details :: "x509 \<Rightarrow> (pyval, pyval) dict" where
  "certificate_details cert =
    [(PStr ''subject'', PDict (x_subject cert)), (PStr ''issuer'', PDict (x_issuer cert)),
     (PStr ''not_valid_after'', PStr (x_not_valid_after cert)), (PStr ''not_valid_before'', PStr (x_not_valid_before cert)),
     (PStr ''serial_number'', PInt (x_serial_number cert)), (PStr ''version'', PStr (x_version cert))]"

text \<open>\<open>Path(path).name\<close>: the last component of the path.\<close>

definition path_name :: "string \<Rightarrow> string" where
  "path_name path = (case filter (\<lambda>c. c \<noteq> [] \<and> c \<noteq> ''.'') (split_on (CHR ''/'') path) of [] \<Rightarrow> [] | cs \<Rightarrow> last cs)"

definition get_certificate_details :: "(pyval \<Rightarrow> exn + x509) \<Rightarrow> pyval \<Rightarrow> exn + pyval" where
  "get_certificate_details load_cert cortx =
     bind_sum (py_get1 cortx ''common'') (\<lambda>common. bind_sum (py_get1 common ''security'') (\<lambda>security.
     bind_sum (py_get1 security ''ssl_certificate'') (\<lambda>path.
     bind_sum (load_cert path) (\<lambda>cert.
       case path of
         PStr p \<Rightarrow> Inr (PList [PDict (dict_set (PStr ''type'') (PStr ''SSL Certificate'')
                                   (dict_set (PStr ''name'') (PStr (path_name p)) (certificate_details cert)))])
       | _ \<Rightarrow> Inl TypeError))))"

record topology_env =
  te_conf :: "exn + pyval \<times> pyval \<times> pyval"
  te_show :: "pyval \<Rightarrow> string"
  te_load_cert :: "pyval \<Rightarrow> exn + x509"

definition create_resource_payload :: "topology_env \<Rightarrow> pyval \<Rightarrow> pyval \<Rightarrow> pyval \<Rightarrow> exn + (pyval, pyval) dict" where
  "create_resource_payload T cluster cortx node =
     bind_sum (py_get1 cluster ''id'') (\<lambda>cluster_id.
     bind_sum (py_get1 cortx ''common'') (\<lambda>common. bind_sum (py_get1 common ''release'') (\<lambda>release.
     bind_sum (py_get1 release ''version'') (\<lambda>version.
     bind_sum (get_nodes node) (\<lambda>nodes.
     bind_sum (py_getitem cluster ''storage_set'') (\<lambda>sets.
     bind_sum (get_storage_set (te_show T) sets) (\<lambda>storage_sets.
     bind_sum (get_certificate_details (te_load_cert T) cortx) (\<lambda>certificates.
       Inr [(PStr ''cluster_id'', cluster_id), (PStr ''version'', version), (PStr ''nodes'', nodes),
            (PStr ''storage_sets'', storage_sets), (PStr ''certificates'', certificates)]))))))))"

definition topology_failure :: exn where
  "topology_failure = mk_CsmInternalError (Some ''Unable to fetch topology information.'')"

text \<open>\<open>CortxTopology.get\<close>: the three \<open>except\<close> clauses together catch every exception and raise the same.\<close>

definition cortx_topology_get :: "topology_env \<Rightarrow> exn + (pyval, pyval) dict" where
  "cortx_topology_get T =
     (case bind_sum (te_conf T) (\<lambda>(cluster, cortx, node). create_resource_payload T cluster cortx node) of
        Inl _ \<Rightarrow> Inl topology_failure
      | Inr payload \<Rightarrow> Inr payload)"

definition topology_get_instance :: "string \<Rightarrow> exn + (topology_env \<Rightarrow> exn + (pyval, pyval) dict)" where
  "topology_get_instance name = (if lower name = ''cortx'' then Inr cortx_topology_get else Inl KeyError)"


section \<open>The queries\<close>

text \<open>A response is \<open>{'topology': payload}\<close>; the functions give the payload.\<close>

definition get_topology :: "topology_env \<Rightarrow> string \<Rightarrow> exn + (pyval, pyval) dict" where
  "get_topology T name = bind_sum (topology_get_instance name) (\<lambda>get. get T)"

definition get_resource :: "topology_env \<Rightarrow> string \<Rightarrow> string \<Rightarrow> exn + (pyval, pyval) dict" where
  "get_resource T name resource =
     bind_sum (get_topology T name) (\<lambda>payload.
     bind_sum (py_getitem (PDict payload) ''cluster_id'') (\<lambda>cluster_id.
     bind_sum (py_getitem (PDict payload) resource) (\<lambda>v.
       Inr (dict_set (PStr resource) v [(PStr ''cluster_id'', cluster_id)]))))"

definition invalid_resource_id :: "string \<Rightarrow> exn" where
  "invalid_resource_id resource_id = mk_CsmNotFoundError (Some (''Invalid resource_id: '' @ resource_id)) ''NotFoundError''"

definition invalid_resource :: "string \<Rightarrow> exn" where
  "invalid_resource resource = mk_CsmNotFoundError (Some (''Invalid resource: '' @ resource)) ''NotFoundError''"

definition get_specific_resource :: "topology_env \<Rightarrow> string \<Rightarrow> string \<Rightarrow> string \<Rightarrow> exn + (pyval, pyval) dict" where
  "get_specific_resource T name resource resource_id =
     bind_sum (get_resource T name resource) (\<lambda>response.
       case dict_get_default response (PStr resource) PNone of
         PList items \<Rightarrow>
           bind_sum (map_sum_list (\<lambda>item. bind_sum (py_get1 item ''id'') (\<lambda>i. Inr (i = PStr resource_id, item))) items) (\<lambda>marked.
             let found = map snd (filter fst marked) in
             if length found < 1 then Inl (invalid_resource_id resource_id)
             else Inr (dict_set (PStr resource) (PList found) response))
       | _ \<Rightarrow> Inr response)"

definition TOPOLOGY_RESOURCES :: "string list" where
  "TOPOLOGY_RESOURCES = [''nodes'', ''storage_sets'', ''certificates'']"

definition other_failures :: "exn + 'a \<Rightarrow> exn + 'a" where
  "other_failures r =
     (case r of
        Inr x \<Rightarrow> Inr x
      | Inl e \<Rightarrow> if is_csm CsmInternalError e then Inl e else Inl topology_failure)"

definition topology_view :: "topology_env \<Rightarrow> string \<Rightarrow> exn + (pyval, pyval) dict" where
  "topology_view T name = other_failures (get_topology T name)"

definition resource_topology_view :: "topology_env \<Rightarrow> string \<Rightarrow> string \<Rightarrow> exn + (pyval, pyval) dict" where
  "resource_topology_view T name resource =
     (if resource \<notin> set TOPOLOGY_RESOURCES then Inl (invalid_resource resource)
      else other_failures (get_resource T name resource))"

definition subresource_topology_view :: "topology_env \<Rightarrow> string \<Rightarrow> string \<Rightarrow> string \<Rightarrow> exn + (pyval, pyval) dict" where
  "subresource_topology_view T name resource resource_id =
     (if resource \<notin> set TOPOLOGY_RESOURCES then Inl (invalid_resource resource)
      else case get_specific_resource T name resource resource_id of
             Inr x \<Rightarrow> Inr x
           | Inl e \<Rightarrow> if is_csm CsmNotFoundError e then Inl e else other_failures (Inl e))"


section \<open>Exactness of the queries\<close>

lemma map_sum_list_dicts:
  assumes "map_sum_list f xs = Inr ys" and "\<And>x y. f x = Inr y \<Longrightarrow> \<exists>d. y = PDict d"
  shows "\<exists>items. ys = map PDict items"
proof -
  have "\<forall>y \<in> set ys. \<exists>d. y = PDict d"
    using assms(1) by (induction xs arbitrary: ys) (auto dest: assms(2))
  then show ?thesis by (induction ys) (auto simp: Cons_eq_map_conv)
qed

lemma create_node_payload_dict: "create_node_payload node_id node = Inr y \<Longrightarrow> \<exists>d. y = PDict d"
  by (auto simp: create_node_payload_def)

lemma certificate_shape:
  assumes "get_certificate_details load_cert cortx = Inr cs"
  shows "\<exists>p cert. cs = PList [PDict (dict_set (PStr ''type'') (PStr ''SSL Certificate'')
     (dict_set (PStr ''name'') (PStr (path_name p)) (certificate_details cert)))]"
proof -
  from assms obtain path cert where run: "(case path of
         PStr p \<Rightarrow> Inr (PList [PDict (dict_set (PStr ''type'') (PStr ''SSL Certificate'')
                                   (dict_set (PStr ''name'') (PStr (path_name p)) (certificate_details cert)))])
       | _ \<Rightarrow> Inl TypeError) = (Inr cs :: exn + pyval)"
    by (auto simp: get_certificate_details_def)
  then show ?thesis by (cases path) auto
qed

lemma topology_payload:
  assumes "get_topology T name = Inr payload"
  obtains cluster_id version nodes sets cert p where
    "payload = [(PStr ''cluster_id'', cluster_id), (PStr ''version'', version), (PStr ''nodes'', PList (map PDict nodes)),
       (PStr ''storage_sets'', PList (map PDict sets)),
       (PStr ''certificates'', PList [PDict (dict_set (PStr ''type'') (PStr ''SSL Certificate'')
          (dict_set (PStr ''name'') (PStr (path_name p)) (certificate_details cert)))])]"
proof -
  from assms obtain cluster cortx node where run: "create_resource_payload T cluster cortx node = Inr payload"
    by (auto simp: get_topology_def topology_get_instance_def cortx_topology_get_def split: if_splits sum.splits)
  from run obtain cluster_id version ns ss cs sets where
    payload: "payload = [(PStr ''cluster_id'', cluster_id), (PStr ''version'', version), (PStr ''nodes'', ns),
       (PStr ''storage_sets'', ss), (PStr ''certificates'', cs)]"
    and ns: "get_nodes node = Inr ns" and ss: "get_storage_set (te_show T) sets = Inr ss"
    and cs: "get_certificate_details (te_load_cert T) cortx = Inr cs"
    by (auto simp: create_resource_payload_def)
  from ns obtain d ns' where "map_sum_list (\<lambda>(node_id, node). create_node_payload node_id node) d = Inr ns'" "ns = PList ns'"
    by (auto simp: get_nodes_def split: pyval.splits)
  with map_sum_list_dicts [of "\<lambda>(node_id, node). create_node_payload node_id node" d ns'] obtain nodes
    where nodes: "ns = PList (map PDict nodes)" by (auto dest: create_node_payload_dict)
  from ss obtain ss' xs where "map_sum_list (\<lambda>storage_set.
         bind_sum (py_getitem storage_set ''name'') (\<lambda>name.
         bind_sum (py_getitem storage_set ''durability'') (\<lambda>durability.
         bind_sum (get_durability (te_show T) durability) (\<lambda>text.
           Inr (PDict [(PStr ''id'', name), (PStr ''durability'', text)]))))) xs = Inr ss'" "ss = PList ss'"
    by (auto simp: get_storage_set_def)
  from map_sum_list_dicts [OF this(1)] this(2) obtain sets' where sets': "ss = PList (map PDict sets')" by auto
  with payload nodes certificate_shape [OF cs] that show thesis by blast
qed

lemma mark_items:
  "map_sum_list (\<lambda>item. bind_sum (py_get1 item ''id'') (\<lambda>i. Inr (i = PStr rid, item))) (map PDict items)
     = Inr (map (\<lambda>d. (dict_get d (PStr ''id'') = Some (PStr rid), PDict d)) items)"
  by (induction items) (auto simp: py_get_def dict_get_default_def split: option.splits)

lemma subresource_list:
  assumes "get_topology T name = Inr payload" and "resource \<in> set TOPOLOGY_RESOURCES"
    and "dict_get payload (PStr resource) = Some (PList (map PDict items))"
    and "dict_get payload (PStr ''cluster_id'') = Some cluster_id"
  shows "subresource_topology_view T name resource rid =
     (let found = filter (\<lambda>d. dict_get d (PStr ''id'') = Some (PStr rid)) items in
      if found = [] then Inl (invalid_resource_id rid)
      else Inr [(PStr ''cluster_id'', cluster_id), (PStr resource, PList (map PDict found))])"
proof -
  have ne: "resource \<noteq> ''cluster_id''" using assms(2) by (auto simp: TOPOLOGY_RESOURCES_def)
  let ?r = "[(PStr ''cluster_id'', cluster_id), (PStr resource, PList (map PDict items))]"
  let ?found = "filter (\<lambda>d. dict_get d (PStr ''id'') = Some (PStr rid)) items"
  have "get_resource T name resource = Inr ?r"
    using assms(1,3,4) ne by (simp add: get_resource_def py_getitem_def)
  moreover have "filter fst (map (\<lambda>d. (dict_get d (PStr ''id'') = Some (PStr rid), PDict d)) items) = map (\<lambda>d. (True, PDict d)) ?found"
    by (induction items) auto
  ultimately have "get_specific_resource T name resource rid =
      (if ?found = [] then Inl (invalid_resource_id rid) else Inr [(PStr ''cluster_id'', cluster_id), (PStr resource, PList (map PDict ?found))])"
    using ne by (simp add: get_specific_resource_def mark_items Let_def dict_get_default_def comp_def)
  then show ?thesis
    using assms(2) by (simp add: subresource_topology_view_def Let_def invalid_resource_id_def mk_CsmNotFoundError_def mk_csm_def is_subclass_of_def)
qed

text \<open>
  C34. A query for one resource of the deployment by its id. When the topology can be built, each of the three
  kinds of resources is a list of objects, and the reply has the id of the cluster and exactly those
  objects of the kind whose \<open>id\<close> is the one asked for, in their order, or is the error that there is none.
  When the topology cannot be built, whatever went wrong, the query ends in the same internal error.
\<close>

theorem topology_query_exact:
  assumes "resource \<in> set TOPOLOGY_RESOURCES"
  shows "case get_topology T name of
      Inl e \<Rightarrow> subresource_topology_view T name resource rid = Inl topology_failure
    | Inr payload \<Rightarrow> \<exists>items cluster_id. dict_get payload (PStr resource) = Some (PList (map PDict items))
        \<and> dict_get payload (PStr ''cluster_id'') = Some cluster_id
        \<and> subresource_topology_view T name resource rid =
            (let found = filter (\<lambda>d. dict_get d (PStr ''id'') = Some (PStr rid)) items in
             if found = [] then Inl (invalid_resource_id rid)
             else Inr [(PStr ''cluster_id'', cluster_id), (PStr resource, PList (map PDict found))])"
proof (cases "get_topology T name")
  case (Inl e)
  then have "e = topology_failure \<or> e = KeyError"
    by (auto simp: get_topology_def topology_get_instance_def cortx_topology_get_def split: if_splits sum.splits)
  with Inl assms show ?thesis
    by (auto simp: subresource_topology_view_def get_specific_resource_def get_resource_def other_failures_def topology_failure_def
        mk_CsmInternalError_def mk_csm_def is_csm_def is_subclass_of_def)
next
  case (Inr payload)
  obtain items cluster_id where "dict_get payload (PStr resource) = Some (PList (map PDict items))"
    "dict_get payload (PStr ''cluster_id'') = Some cluster_id"
    by (rule topology_payload [OF Inr]) (use assms in \<open>auto simp: TOPOLOGY_RESOURCES_def intro: that(1) [of "[_]"]\<close>)
  with subresource_list [OF Inr assms this] Inr show ?thesis by (auto simp: Let_def)
qed

text \<open>
  The certificate of the deployment cannot be asked for by any id: the entry \<open>_get_certificate_details\<close> builds has
  no \<open>id\<close>, so that the query with any id, also the name the list of certificates shows, ends in the error
  for an invalid id.
\<close>

theorem certificate_by_id_fails:
  assumes "get_topology T name = Inr payload"
  shows "subresource_topology_view T name ''certificates'' rid = Inl (invalid_resource_id rid)
     \<and> (\<exists>cluster_id cert. resource_topology_view T name ''certificates'' = Inr [(PStr ''cluster_id'', cluster_id), (PStr ''certificates'', PList [PDict cert])])"
proof -
  obtain cluster_id version nodes sets cert p where
    payload: "payload = [(PStr ''cluster_id'', cluster_id), (PStr ''version'', version), (PStr ''nodes'', PList (map PDict nodes)),
       (PStr ''storage_sets'', PList (map PDict sets)),
       (PStr ''certificates'', PList [PDict (dict_set (PStr ''type'') (PStr ''SSL Certificate'')
          (dict_set (PStr ''name'') (PStr (path_name p)) (certificate_details cert)))])]"
    by (rule topology_payload [OF assms])
  let ?cert = "dict_set (PStr ''type'') (PStr ''SSL Certificate'') (dict_set (PStr ''name'') (PStr (path_name p)) (certificate_details cert))"
  have "dict_get payload (PStr ''certificates'') = Some (PList (map PDict [?cert]))" by (simp add: payload)
  from subresource_list [OF assms _ this, of cluster_id rid]
  have "subresource_topology_view T name ''certificates'' rid = Inl (invalid_resource_id rid)"
    by (simp add: payload TOPOLOGY_RESOURCES_def certificate_details_def)
  moreover have "resource_topology_view T name ''certificates'' = Inr [(PStr ''cluster_id'', cluster_id), (PStr ''certificates'', PList [PDict ?cert])]"
    using assms by (simp add: resource_topology_view_def TOPOLOGY_RESOURCES_def other_failures_def get_resource_def payload py_getitem_def)
  ultimately show ?thesis by blast
qed

text \<open>A cluster of one node.\<close>

definition one_node :: topology_env where
  "one_node =
     \<lparr>te_conf = Inr
        (PDict [(PStr ''id'', PStr ''c1''), (PStr ''storage_set'', PList [])],
         PDict [(PStr ''common'', PDict [(PStr ''release'', PDict [(PStr ''version'', PStr ''2.0'')]),
            (PStr ''security'', PDict [(PStr ''ssl_certificate'', PStr ''/etc/ssl/s3.pem'')])])],
         PDict [(PStr ''n1'', PDict [(PStr ''components'', PList []), (PStr ''hostname'', PStr ''h1'')])]),
      te_show = (\<lambda>_. ''''),
      te_load_cert = (\<lambda>_. Inr \<lparr>x_subject = [], x_issuer = [], x_not_valid_after = '''', x_not_valid_before = '''', x_serial_number = 1, x_version = ''v3''\<rparr>)\<rparr>"

definition node_entry :: pyval where
  "node_entry = PDict [(PStr ''id'', PStr ''n1''), (PStr ''type'', PNone), (PStr ''storage_set'', PNone), (PStr ''hostname'', PStr ''h1'')]"

lemma one_node_topology: "\<exists>payload. get_topology one_node ''cortx'' = Inr payload \<and> dict_get payload (PStr ''nodes'') = Some (PList [node_entry])
    \<and> dict_get payload (PStr ''cluster_id'') = Some (PStr ''c1'')"
  by (simp add: get_topology_def topology_get_instance_def cortx_topology_get_def one_node_def create_resource_payload_def lower_def
      lower_char_def py_get_def dict_get_default_def get_nodes_def create_node_payload_def py_getitem_def get_services_def py_iter_def
      get_storage_set_def get_certificate_details_def node_entry_def)

theorem topology_query_exact_witness:
  "subresource_topology_view one_node ''cortx'' ''nodes'' ''n1'' = Inr [(PStr ''cluster_id'', PStr ''c1''), (PStr ''nodes'', PList [node_entry])]"
proof -
  from one_node_topology obtain payload where payload: "get_topology one_node ''cortx'' = Inr payload"
    "dict_get payload (PStr ''nodes'') = Some (PList [node_entry])" "dict_get payload (PStr ''cluster_id'') = Some (PStr ''c1'')" by blast
  have "''nodes'' \<in> set TOPOLOGY_RESOURCES" by (simp add: TOPOLOGY_RESOURCES_def)
  from topology_query_exact [OF this, of one_node "''cortx''" "''n1''"] payload show ?thesis
    by (auto simp: Let_def node_entry_def Cons_eq_map_conv)
qed

theorem certificate_by_id_fails_witness:
  "subresource_topology_view one_node ''cortx'' ''certificates'' ''s3.pem'' = Inl (invalid_resource_id ''s3.pem'')"
  using one_node_topology certificate_by_id_fails by blast

end
