(* ===== verification/System_Status.thy ===== *)
theory System_Status
  imports Json_Values
begin

text \<open>
  The status of the database services: \<open>SystemStatusService\<close> of \<^verbatim>\<open>csm/core/services/system_status.py\<close> and its public
  views in \<^verbatim>\<open>csm/core/controllers/system_status.py\<close>. The validator of \<^verbatim>\<open>cortx.utils\<close>, called for a randomly
  chosen host, is the parameter \<open>validated\<close>: nothing, or the exception it raises.
\<close>

definition SYSTEM_STATUS_SUCCESS :: string where "SYSTEM_STATUS_SUCCESS = ''success''"
definition CONSUL :: string where "CONSUL = ''consul''"

definition get_consul_status :: "exn + unit \<Rightarrow> exn + string" where
  "get_consul_status validated = bind_sum validated (\<lambda>_. Inr SYSTEM_STATUS_SUCCESS)"

definition action_map :: "exn + unit \<Rightarrow> (string, exn + string) dict" where
  "action_map validated = [(CONSUL, get_consul_status validated)]"

text \<open>The loop over the resources. A resource without an action makes the call of \<open>None\<close> fail.\<close>

fun check_each :: "exn + unit \<Rightarrow> string list \<Rightarrow> (string, pyval) dict \<Rightarrow> exn + (string, pyval) dict" where
  "check_each validated [] resp = Inr resp"
| "check_each validated (each_resource # resources) resp =
     (case dict_get (action_map validated) each_resource of
        None \<Rightarrow> Inl TypeError
      | Some (Inr status) \<Rightarrow> check_each validated resources (dict_set each_resource (PStr status) resp)
      | Some (Inl (VError desc)) \<Rightarrow>
          check_each validated resources
            (dict_set SYSTEM_STATUS_SUCCESS (PBool False) (dict_set each_resource (PStr desc) resp))
      | Some (Inl e) \<Rightarrow> Inl e)"

definition check_status :: "exn + unit \<Rightarrow> string list \<Rightarrow> exn + (string, pyval) dict" where
  "check_status validated resources = check_each validated resources [(SYSTEM_STATUS_SUCCESS, PBool True)]"

definition status_reply :: "(string, pyval) dict \<Rightarrow> exn + (string, pyval) dict \<times> int" where
  "status_reply resp =
     (case dict_get resp SYSTEM_STATUS_SUCCESS of
        None \<Rightarrow> Inl KeyError
      | Some ok \<Rightarrow> Inr (resp, if truthy ok then 200 else 503))"

definition system_status_all_get :: "exn + unit \<Rightarrow> exn + (string, pyval) dict \<times> int" where
  "system_status_all_get validated = bind_sum (check_status validated [CONSUL]) status_reply"

text \<open>\<open>GetSystemStatusSchema\<close> accepts exactly the names with an action; \<open>val_err\<close> is the formatted error.\<close>

definition system_status_get :: "exn + unit \<Rightarrow> string \<Rightarrow> string \<Rightarrow> exn + (string, pyval) dict \<times> int" where
  "system_status_get validated val_err db_name =
     (if db_name \<notin> set [CONSUL] then Inl (invalid_request val_err)
      else bind_sum (check_status validated [db_name]) status_reply)"


section \<open>The replies\<close>

text \<open>
  The status view answers with 200 exactly when the validator accepts the service, with 503 and the
  description when it reports a validation error, and passes every other exception on; it never
  fails for lack of an action, since the names the schema accepts all have one.
\<close>

theorem system_status_replies:
  "system_status_all_get validated =
     (case validated of
        Inr _ \<Rightarrow> Inr ([(''success'', PBool True), (''consul'', PStr ''success'')], 200)
      | Inl (VError desc) \<Rightarrow> Inr ([(''success'', PBool False), (''consul'', PStr desc)], 503)
      | Inl e \<Rightarrow> Inl e)
   \<and> (db_name = ''consul'' \<longrightarrow> system_status_get validated val_err db_name = system_status_all_get validated)"
proof -
  note defs = system_status_all_get_def check_status_def status_reply_def action_map_def get_consul_status_def CONSUL_def
    SYSTEM_STATUS_SUCCESS_def system_status_get_def
  show ?thesis
  proof (cases validated)
    case (Inl e)
    then show ?thesis by (cases e) (simp_all add: defs)
  qed (simp add: defs)
qed

end
