(* ===== verification/Statistics.thy ===== *)
theory Statistics
  imports Json_Values
begin

text \<open>
  Requests for statistics: \<open>StatsAppService\<close> of \<^verbatim>\<open>csm/core/services/stats.py\<close> and the views of
  \<^verbatim>\<open>csm/core/controllers/stats.py\<close>. The provider (a plugin in front of the time series store) is the parameter \<open>provider\<close>,
  an action on a world of its own. Aggregation inside the provider is floating point and stays outside, as
  do the metrics read from a file and passed through the message bus.
\<close>

section \<open>The service\<close>

text \<open>The parameters of a request all panels share.\<close>

record stats_query =
  sq_id :: "string option"
  sq_from :: "string option"
  sq_to :: "string option"
  sq_interval :: string
  sq_total_sample :: string
  sq_output_format :: string

text \<open>\<open>metric_list\<close>, \<open>unit\<close> and \<open>query\<close> of the request for one panel: empty strings, lists of metrics and units
  with an empty query, or a list of metrics with one unit and a query.\<close>

datatype stats_selector = NoSelector | Selector "string list" "string list" | Single "string list" string string

record 'w stats_provider =
  sp_process :: "stats_query \<Rightarrow> string \<Rightarrow> stats_selector \<Rightarrow> ('w, exn, pyval) act"
  sp_panels :: "('w, exn, pyval list) act"
  sp_metrics :: "('w, exn, pyval list) act"
  sp_units :: "('w, exn, pyval list) act"
  sp_labels :: "string \<Rightarrow> ('w, exn, pyval list) act"
  sp_axis :: "string \<Rightarrow> ('w, exn, pyval) act"

definition list_of_panel :: "pyval \<Rightarrow> exn + pyval list" where
  "list_of_panel panel_data =
     bind_sum (py_getitem panel_data ''list'') py_iter"

definition stats_output :: "stats_query \<Rightarrow> pyval \<Rightarrow> pyval" where
  "stats_output q metrics =
     PDict ((case sq_id q of Some i \<Rightarrow> if i \<noteq> [] then [(PStr ''id'', PStr i)] else [] | None \<Rightarrow> [])
            @ [(PStr ''metrics'', metrics)])"

definition stats_get :: "'w stats_provider \<Rightarrow> stats_query \<Rightarrow> string \<Rightarrow> string list \<Rightarrow> string \<Rightarrow> string \<Rightarrow> ('w, exn, pyval) act" where
  "stats_get sp q panel metric_list unit query =
     bind_act (sp_process sp q panel (Single metric_list (lower unit) query)) (\<lambda>panel_data.
     bind_act (of_sum (py_getitem panel_data ''list'')) (\<lambda>metrics. ret (stats_output q metrics)))"

definition stats_get_labels :: "'w stats_provider \<Rightarrow> string \<Rightarrow> ('w, exn, pyval) act" where
  "stats_get_labels sp panel =
     bind_act (sp_labels sp panel) (\<lambda>labels. ret (PDict [(PStr ''label_list'', PList labels)]))"

definition stats_get_axis :: "'w stats_provider \<Rightarrow> string \<Rightarrow> ('w, exn, pyval) act" where
  "stats_get_axis sp panel = bind_act (sp_axis sp panel) (\<lambda>axis. ret (PDict [(PStr ''axis_unit'', axis)]))"

text \<open>The view of one panel: the option \<open>get\<close> of the query selects labels, the unit of the axis, or the data.\<close>

definition stats_view ::
  "'w stats_provider \<Rightarrow> stats_query \<Rightarrow> string option \<Rightarrow> string \<Rightarrow> string list \<Rightarrow> string \<Rightarrow> string \<Rightarrow> ('w, exn, pyval) act" where
  "stats_view sp q getopt panel metric_list unit query =
     (if getopt = Some ''label'' then stats_get_labels sp panel
      else if getopt = Some ''axis_unit'' then stats_get_axis sp panel
      else stats_get sp q panel metric_list unit query)"

text \<open>The loop over the panels, which collects their lists.\<close>

fun collect_panels ::
  "'w stats_provider \<Rightarrow> stats_query \<Rightarrow> (string \<times> stats_selector) list \<Rightarrow> pyval list \<Rightarrow> ('w, exn, pyval list) act" where
  "collect_panels sp q [] data_list = ret data_list"
| "collect_panels sp q ((panel, selector) # panels) data_list =
     bind_act (sp_process sp q panel selector) (\<lambda>panel_data.
     bind_act (of_sum (list_of_panel panel_data)) (\<lambda>xs.
       collect_panels sp q panels (data_list @ xs)))"

definition stats_get_panels :: "'w stats_provider \<Rightarrow> stats_query \<Rightarrow> string list \<Rightarrow> ('w, exn, pyval) act" where
  "stats_get_panels sp q panels_list =
     bind_act (collect_panels sp q (map (\<lambda>p. (p, NoSelector)) panels_list) []) (\<lambda>xs. ret (stats_output q (PList xs)))"

text \<open>The loop that sorts \<open>panel.metric\<close> and \<open>panel.metric.unit\<close> by panel: a name without a dot has no second
  part, which raises \<open>IndexError\<close>. A panel maps to its metrics and units.\<close>

fun group_metrics ::
  "string list \<Rightarrow> (string, string list \<times> string list) dict \<Rightarrow> (string, string list \<times> string list) dict option" where
  "group_metrics [] panels = Some panels"
| "group_metrics (metric # metrics_list) panels =
     (case split_on (CHR ''.'') metric of
        panel # name # rest \<Rightarrow>
          (let (ms, us) = dict_get_default panels panel ([], []);
               unit = (case rest of [] \<Rightarrow> '''' | u # _ \<Rightarrow> u) in
           group_metrics metrics_list (dict_set panel (ms @ [name], us @ [unit]) panels))
      | _ \<Rightarrow> None)"

definition invalid_metrics :: "(string list \<Rightarrow> string) \<Rightarrow> string list \<Rightarrow> exn" where
  "invalid_metrics show_list metrics_list = invalid_request (''Invalid metric list for Stats '' @ show_list metrics_list)"

definition stats_get_metrics ::
  "'w stats_provider \<Rightarrow> (string list \<Rightarrow> string) \<Rightarrow> stats_query \<Rightarrow> string list \<Rightarrow> ('w, exn, pyval) act" where
  "stats_get_metrics sp show_list q metrics_list =
     (case group_metrics metrics_list [] of
        None \<Rightarrow> throw (invalid_metrics show_list metrics_list)
      | Some panels \<Rightarrow>
          bind_act (collect_panels sp q (map (\<lambda>(p, ms, us). (p, Selector ms us)) panels) []) (\<lambda>xs. ret (stats_output q (PList xs))))"

definition stats_get_panel_list :: "'w stats_provider \<Rightarrow> ('w, exn, pyval) act" where
  "stats_get_panel_list sp =
     bind_act (sp_panels sp) (\<lambda>panels. bind_act (sp_metrics sp) (\<lambda>metrics. bind_act (sp_units sp) (\<lambda>units.
       ret (PDict [(PStr ''panel_list'', PList panels), (PStr ''metric_list'', PList metrics), (PStr ''unit_list'', PList units)]))))"

text \<open>The view of the list: panels come first, then metrics, then the list of panels.\<close>

definition stats_list_view ::
  "'w stats_provider \<Rightarrow> (string list \<Rightarrow> string) \<Rightarrow> stats_query \<Rightarrow> string list \<Rightarrow> string list \<Rightarrow> ('w, exn, pyval) act" where
  "stats_list_view sp show_list q panelsopt metricsopt =
     (if panelsopt \<noteq> [] then stats_get_panels sp q panelsopt
      else if metricsopt \<noteq> [] then stats_get_metrics sp show_list q metricsopt
      else stats_get_panel_list sp)"


section \<open>Grouping\<close>

text \<open>A metric as requested: panel, name and unit.\<close>

definition parse_metric :: "string \<Rightarrow> (string \<times> string \<times> string) option" where
  "parse_metric metric =
     (case split_on (CHR ''.'') metric of
        panel # name # rest \<Rightarrow> Some (panel, name, case rest of [] \<Rightarrow> '''' | u # _ \<Rightarrow> u)
      | _ \<Rightarrow> None)"

lemma parse_metric_None: "parse_metric metric = None \<longleftrightarrow> CHR ''.'' \<notin> set metric"
proof -
  have "split_on (CHR ''.'') metric = [w] \<Longrightarrow> CHR ''.'' \<notin> set metric" for w
    using split_on_join [of "CHR ''.''" metric w "[]"] split_on_parts_free [of w "CHR ''.''" metric] by simp
  moreover have "CHR ''.'' \<notin> set metric \<Longrightarrow> split_on (CHR ''.'') metric = [metric]" by (rule split_on_none)
  ultimately show ?thesis
    unfolding parse_metric_def
    by (cases "split_on (CHR ''.'') metric"; cases "tl (split_on (CHR ''.'') metric)") auto
qed

definition for_panel :: "string \<Rightarrow> (string \<times> string \<times> string) list \<Rightarrow> (string \<times> string) list" where
  "for_panel panel parsed = map snd (filter (\<lambda>m. fst m = panel) parsed)"

definition entries :: "(string, string list \<times> string list) dict \<Rightarrow> string \<Rightarrow> (string \<times> string) list" where
  "entries panels panel = (case dict_get panels panel of None \<Rightarrow> [] | Some (ms, us) \<Rightarrow> zip ms us)"

definition balanced :: "(string, string list \<times> string list) dict \<Rightarrow> bool" where
  "balanced panels \<longleftrightarrow> dict_ok panels \<and> (\<forall>(p, ms, us) \<in> set panels. length ms = length us \<and> ms \<noteq> [])"

lemma balanced_get: "balanced panels \<Longrightarrow> dict_get panels p = Some (ms, us) \<Longrightarrow> length ms = length us"
  by (auto simp: balanced_def dest!: map_of_SomeD)

lemma balanced_add:
  assumes "balanced panels" and "dict_get_default panels p ([], []) = (ms, us)"
  shows "balanced (dict_set p (ms @ [n], us @ [u]) panels)
    \<and> entries (dict_set p (ms @ [n], us @ [u]) panels) = (entries panels)(p := entries panels p @ [(n, u)])"
proof -
  have len: "length ms = length us"
    using assms balanced_get [OF assms(1), of p ms us] by (auto simp: dict_get_default_def split: option.splits)
  then have "entries panels p = zip ms us"
    using assms(2) by (auto simp: entries_def dict_get_default_def split: option.splits)
  with len have "entries (dict_set p (ms @ [n], us @ [u]) panels) = (entries panels)(p := entries panels p @ [(n, u)])"
    by (auto simp: entries_def fun_eq_iff)
  moreover have "balanced (dict_set p (ms @ [n], us @ [u]) panels)"
    using assms(1) len by (auto simp: balanced_def set_dict_set)
  ultimately show ?thesis by blast
qed

lemma group_metrics_spec:
  assumes "balanced panels"
  shows "case those (map parse_metric metrics) of
      None \<Rightarrow> group_metrics metrics panels = None
    | Some parsed \<Rightarrow> \<exists>panels'. group_metrics metrics panels = Some panels' \<and> balanced panels'
        \<and> entries panels' = (\<lambda>p. entries panels p @ for_panel p parsed)"
  using assms
proof (induction metrics arbitrary: panels)
  case Nil
  then show ?case by (simp add: for_panel_def)
next
  case (Cons metric metrics)
  show ?case
  proof (cases "parse_metric metric")
    case None
    then have "group_metrics (metric # metrics) panels = None" by (auto simp: parse_metric_def split: list.splits)
    with None show ?thesis by simp
  next
    case (Some m)
    then obtain p n u where m: "m = (p, n, u)" by (cases m)
    obtain ms us where g: "dict_get_default panels p ([], []) = (ms, us)" by fastforce
    let ?panels = "dict_set p (ms @ [n], us @ [u]) panels"
    have step: "group_metrics (metric # metrics) panels = group_metrics metrics ?panels"
      using Some m g by (auto simp: parse_metric_def Let_def split: list.splits)
    have b: "balanced ?panels" and e: "entries ?panels = (entries panels)(p := entries panels p @ [(n, u)])"
      using balanced_add [OF Cons.prems g] by blast+
    show ?thesis
    proof (cases "those (map parse_metric metrics)")
      case None
      with Cons.IH [OF b] step Some show ?thesis by simp
    next
      case parsed: (Some parsed)
      with Cons.IH [OF b] obtain panels' where "group_metrics metrics ?panels = Some panels'" "balanced panels'"
        "entries panels' = (\<lambda>q. entries ?panels q @ for_panel q parsed)" by auto
      with step Some m parsed e show ?thesis by (auto simp: for_panel_def fun_eq_iff)
    qed
  qed
qed


text \<open>Reading of the parse: a name is refused exactly when it has no dot.\<close>

lemma those_None: "those xs = None \<longleftrightarrow> None \<in> set xs"
  by (induction xs) (auto split: option.split)

lemma metrics_refused: "those (map parse_metric metrics) = None \<longleftrightarrow> (\<exists>m \<in> set metrics. CHR ''.'' \<notin> set m)"
  unfolding those_None parse_metric_None [symmetric] by (force simp: image_iff)

definition echo_provider :: "unit stats_provider" where
  "echo_provider = \<lparr>sp_process = (\<lambda>q panel selector. ret (PDict [(PStr ''list'', PList [PStr panel])])),
     sp_panels = ret [], sp_metrics = ret [], sp_units = ret [],
     sp_labels = (\<lambda>panel. ret []), sp_axis = (\<lambda>panel. ret PNone)\<rparr>"

definition last_hour :: stats_query where
  "last_hour = \<lparr>sq_id = None, sq_from = None, sq_to = None, sq_interval = ''10'', sq_total_sample = [], sq_output_format = ''gui''\<rparr>"


end
