(* ===== verification/Ha.thy ===== *)
theory Ha
  imports Cluster Health S3
begin

text \<open>
  The HA framework \<open>CortxHAFramework\<close> of \<^verbatim>\<open>csm/common/ha_framework.py\<close>, the node operations of
  \<^verbatim>\<open>csm/common/ha/cluster_management/operations.py\<close> with the validation of their arguments, and the rest of the
  plugin and service of cluster management. The package \<open>ha\<close> (its cluster manager, node controller and list of
  cluster elements) is the parameter \<open>ha_lib\<close>, whose calls act on a world of their own. Operations run
  in an executor: \<open>process\<close> leaves a job, which runs later.
\<close>

section \<open>The framework\<close>

text \<open>What the package \<open>ha\<close> provides: creating the manager tells whether it has \<open>get_system_health\<close>; a health or
  feasibility answer is the decoded JSON text, or nothing for a text that is not JSON. \<open>hl_text\<close> and
  \<open>hl_show\<close> are the texts of an exception and of a value.\<close>

record 'w ha_lib =
  hl_import :: "('w, exn, unit) act"
  hl_create :: "('w, exn, bool) act"
  hl_elements :: "string list"
  hl_health :: "string \<Rightarrow> int \<Rightarrow> string option \<Rightarrow> ('w, exn, pyval option) act"
  hl_feasibility :: "string \<Rightarrow> ('w, exn, pyval option) act"
  hl_node_start :: "pyval \<Rightarrow> (string, pyval) dict \<Rightarrow> ('w, exn, unit) act"
  hl_node_stop :: "pyval \<Rightarrow> int \<Rightarrow> (string, pyval) dict \<Rightarrow> ('w, exn, unit) act"
  hl_text :: "exn \<Rightarrow> string"
  hl_show :: "pyval \<Rightarrow> string"

text \<open>A job of the executor: the operation, whether it got a cluster manager, and its arguments.\<close>

datatype ha_job = HaJob operation bool kwargs

text \<open>\<open>_cluster_manager\<close> (\<open>Some has\<close> for an object that has \<open>get_system_health\<close> or not), \<open>_cluster_elements\<close>,
  the jobs handed to executors, and the world.\<close>

record 'w ha_framework =
  ha_manager :: "bool option"
  ha_elements :: "string list option"
  ha_jobs :: "ha_job list"
  ha_world :: 'w

definition on_ha :: "('w, exn, 'a) act \<Rightarrow> ('w ha_framework, exn, 'a) act" where
  "on_ha m = within ha_world (\<lambda>w h. h\<lparr>ha_world := w\<rparr>) m"

text \<open>Only the instantiation is guarded; its failure is logged and the attributes stay as they are.\<close>

definition init_cluster_manager :: "'w ha_lib \<Rightarrow> ('w ha_framework, exn, unit) act" where
  "init_cluster_manager L =
     bind_act (on_ha (hl_import L)) (\<lambda>_.
     catch_act
       (bind_act (on_ha (hl_create L)) (\<lambda>has_health.
        modify_act (\<lambda>h. h\<lparr>ha_manager := Some has_health, ha_elements := Some (hl_elements L)\<rparr>)))
       (\<lambda>_. ret ()))"

definition ensure_manager :: "'w ha_lib \<Rightarrow> ('w ha_framework, exn, unit) act" where
  "ensure_manager L =
     bind_act (gets ha_manager) (\<lambda>m. if m \<noteq> Some True then init_cluster_manager L else ret ())"

definition ha_not_found :: "string \<Rightarrow> exn" where
  "ha_not_found resource = mk_CsmNotFoundError (Some (''Resource '' @ resource @ '' not found.'')) ''NotFoundError''"

definition validate_resource :: "string \<Rightarrow> ('w ha_framework, exn, unit) act" where
  "validate_resource resource =
     bind_act (gets ha_elements) (\<lambda>es. case es of
       None \<Rightarrow> throw TypeError
     | Some elements \<Rightarrow> if resource \<in> set elements then ret () else throw (ha_not_found resource))"

definition HEALTH_FETCH_ERR_MSG :: string where "HEALTH_FETCH_ERR_MSG = ''Error fetching health from ha.''"
definition STATUS_SUCCEEDED :: string where "STATUS_SUCCEEDED = ''Succeeded''"
definition STATUS_FAILED :: string where "STATUS_FAILED = ''Failed''"
definition CLUSTER_STATUS_ERR_MSG :: string where "CLUSTER_STATUS_ERR_MSG = ''Error getting cluster status.''"
definition CLUSTER_STATUS_OK_MSG :: string where
  "CLUSTER_STATUS_OK_MSG = ''Stopping the node will not bring the cluster offline.''"
definition CLUSTER_STATUS_WARN_MSG :: string where
  "CLUSTER_STATUS_WARN_MSG = ''Stopping the node will bring the cluster offline.''"

text \<open>A call of the manager followed by the decoding of its answer. Without a manager, or without the method,
  the attribute lookup fails.\<close>

definition ask_manager :: "bool \<Rightarrow> ('w, exn, pyval option) act \<Rightarrow> ('w ha_framework, exn, pyval) act" where
  "ask_manager present call =
     (if \<not> present then throw AttributeError
      else bind_act (on_ha call) (\<lambda>answer. case answer of None \<Rightarrow> throw JSONDecodeError | Some v \<Rightarrow> ret v))"

definition validate_system_health_response :: "'w ha_lib \<Rightarrow> pyval \<Rightarrow> exn + unit" where
  "validate_system_health_response L system_health =
     (if system_health = PNone then Inl (OtherException HEALTH_FETCH_ERR_MSG)
      else bind_sum (py_getitem system_health ''status'') (\<lambda>status.
        if status = PStr STATUS_FAILED
        then bind_sum (py_getitem system_health ''error'') (\<lambda>msg. Inl (invalid_request (hl_show L msg)))
        else Inr ()))"

definition get_system_health ::
  "'w ha_lib \<Rightarrow> string \<Rightarrow> int \<Rightarrow> string option \<Rightarrow> ('w ha_framework, exn, pyval) act" where
  "get_system_health L element depth resource_id =
     bind_act (ensure_manager L) (\<lambda>_.
     bind_act (validate_resource element) (\<lambda>_.
     bind_act (gets ha_manager) (\<lambda>m.
     bind_act
       (catch_act (ask_manager (m = Some True) (hl_health L element depth resource_id))
          (\<lambda>e. throw (OtherException (HEALTH_FETCH_ERR_MSG @ '' : '' @ hl_text L e)))) (\<lambda>parsed.
     bind_act (of_sum (validate_system_health_response L parsed)) (\<lambda>_.
       of_sum (py_getitem parsed ''output''))))))"

definition cluster_status_result :: "pyval \<Rightarrow> pyval" where
  "cluster_status_result status =
     (if status = PStr STATUS_FAILED
      then PDict [(PStr ''status'', PStr ''warning''), (PStr ''message'', PStr CLUSTER_STATUS_WARN_MSG)]
      else if status = PStr STATUS_SUCCEEDED
      then PDict [(PStr ''status'', PStr ''ok''), (PStr ''message'', PStr CLUSTER_STATUS_OK_MSG)]
      else PNone)"

definition get_cluster_status :: "'w ha_lib \<Rightarrow> string \<Rightarrow> ('w ha_framework, exn, pyval) act" where
  "get_cluster_status L node_id =
     bind_act (ensure_manager L) (\<lambda>_.
     bind_act (gets ha_manager) (\<lambda>m.
     bind_act
       (catch_act (ask_manager (m \<noteq> None) (hl_feasibility L node_id))
          (\<lambda>_. throw (OtherException CLUSTER_STATUS_ERR_MSG))) (\<lambda>resp.
     bind_act (of_sum (py_getitem resp ''status'')) (\<lambda>status.
       ret (cluster_status_result status)))))"


section \<open>Operations\<close>

text \<open>\<open>Schema.validate\<close> gives the messages of each faulty field.\<close>

type_synonym validator = "schema \<Rightarrow> kwargs \<Rightarrow> (string, string list) dict"

definition not_blank :: "pyval \<Rightarrow> bool" where
  "not_blank v \<longleftrightarrow> (case v of PStr s \<Rightarrow> length s \<ge> 1 | _ \<Rightarrow> False)"

definition NodeStartSchema :: schema where
  "NodeStartSchema = [field ''resource_id'' StrField True not_blank]"

definition NodeStopSchema :: schema where
  "NodeStopSchema = [field ''resource_id'' StrField True not_blank, optional ''force'' BoolField]"

definition NodePoweroffSchema :: schema where
  "NodePoweroffSchema =
     [field ''resource_id'' StrField True not_blank, optional ''force'' BoolField, optional ''storageoff'' BoolField]"

definition UNKNOWN_FIELD_ERR_MSG :: string where "UNKNOWN_FIELD_ERR_MSG = ''Unknown field.''"
definition ARG_NOT_SUPPORTED_ERR_MSG :: string where
  "ARG_NOT_SUPPORTED_ERR_MSG = ''Not supported for specified operation.''"

definition error_line :: "string \<times> string list \<Rightarrow> exn + string" where
  "error_line = (\<lambda>(key, messages).
     case messages of
       [] \<Rightarrow> Inl (OtherException ''IndexError'')
     | m # _ \<Rightarrow>
         Inr (key @ '': '' @ (if m = UNKNOWN_FIELD_ERR_MSG then ARG_NOT_SUPPORTED_ERR_MSG else concat messages)))"

text \<open>\<open>'\n'.join\<close>\<close>

fun join_lines :: "string list \<Rightarrow> string" where
  "join_lines [] = []"
| "join_lines [l] = l"
| "join_lines (l # ls) = l @ [CHR 0x0A] @ join_lines ls"

fun error_lines :: "(string, string list) dict \<Rightarrow> exn + string list" where
  "error_lines [] = Inr []"
| "error_lines (p # errors) = bind_sum (error_line p) (\<lambda>l. bind_sum (error_lines errors) (\<lambda>ls. Inr (l # ls)))"

definition parse_errors :: "(string, string list) dict \<Rightarrow> exn + unit" where
  "parse_errors errors =
     bind_sum (error_lines errors) (\<lambda>ls. if length ls > 0 then Inl (invalid_request (join_lines ls)) else Inr ())"

fun validate_arguments :: "validator \<Rightarrow> operation \<Rightarrow> kwargs \<Rightarrow> exn + unit" where
  "validate_arguments V NodeStartOperation kw = parse_errors (V NodeStartSchema kw)"
| "validate_arguments V NodeStopOperation kw = parse_errors (V NodeStopSchema kw)"
| "validate_arguments V NodePoweroffOperation kw = parse_errors (V NodePoweroffSchema kw)"
| "validate_arguments V _ kw = Inr ()"

text \<open>\<open>process\<close>: the arguments are validated, then the call of \<open>execute\<close> with the same arguments goes to the
  executor.\<close>

definition process_operation :: "validator \<Rightarrow> operation \<Rightarrow> kwargs \<Rightarrow> ('w ha_framework, exn, unit) act" where
  "process_operation V op kw =
     bind_act (of_sum (validate_arguments V op kw)) (\<lambda>_.
     bind_act (gets ha_manager) (\<lambda>m.
       modify_act (\<lambda>h. h\<lparr>ha_jobs := ha_jobs h @ [HaJob op (m \<noteq> None) kw]\<rparr>)))"

text \<open>\<open>execute\<close> of each operation, run by the executor; every exception of the node controller is logged.
  (The executor keeps what \<open>ClusterShutdownSignal\<close> raises in a future nobody reads.)\<close>

definition node_stop_args :: "kwargs \<Rightarrow> (string, pyval) dict" where
  "node_stop_args kw = [(''check_cluster'', PBool (\<not> truthy (dict_get_default kw ''force'' (PBool False))))]"

fun run_job :: "'w ha_lib \<Rightarrow> ha_job \<Rightarrow> ('w, exn, unit) act" where
  "run_job L (HaJob op False kw) = ret ()"
| "run_job L (HaJob NodeStartOperation True kw) =
     catch_act (hl_node_start L (dict_get_default kw ''resource_id'' (PStr '''')) [(''poweron'', PBool True)]) (\<lambda>_. ret ())"
| "run_job L (HaJob NodeStopOperation True kw) =
     catch_act (hl_node_stop L (dict_get_default kw ''resource_id'' (PStr '''')) (-1) (node_stop_args kw)) (\<lambda>_. ret ())"
| "run_job L (HaJob NodePoweroffOperation True kw) =
     catch_act (hl_node_stop L (dict_get_default kw ''resource_id'' (PStr '''')) (-1)
        (node_stop_args kw @ [(''poweroff'', PBool True), (''storageoff'', dict_get_default kw ''storageoff'' (PBool False))]))
       (\<lambda>_. ret ())"
| "run_job L (HaJob _ True kw) = ret ()"

text \<open>\<open>str.capitalize\<close> on the letters of ASCII.\<close>

definition upper_char :: "char \<Rightarrow> char" where
  "upper_char c = (let n = of_char c :: nat in if 97 \<le> n \<and> n \<le> 122 then char_of (n - 32) else c)"

fun capitalize :: "string \<Rightarrow> string" where
  "capitalize [] = []"
| "capitalize (c # cs) = upper_char c # lower cs"

definition process_cluster_operation ::
  "'w ha_lib \<Rightarrow> validator \<Rightarrow> string \<Rightarrow> string \<Rightarrow> kwargs \<Rightarrow> ('w ha_framework, exn, (string, string) dict) act" where
  "process_cluster_operation L V resource operation arguments =
     bind_act (ensure_manager L) (\<lambda>_.
     bind_act (validate_resource resource) (\<lambda>_.
     bind_act (of_sum (bind_sum (get_operations_by_resource resource) (\<lambda>ro. get_operation ro operation))) (\<lambda>op.
     bind_act (process_operation V op arguments) (\<lambda>_.
       ret [(''message'', capitalize operation @ '' request for '' @ resource @ '' is placed successfully.'')]))))"

text \<open>The plugin behind the service and the two views. The state of the framework is a part of the world of the
  cluster service; \<open>**arguments\<close> are the entries of the dictionary.\<close>

fun keyword_arguments :: "pyval \<Rightarrow> kwargs" where
  "keyword_arguments (PDict d) = List.map_filter (\<lambda>(k, v). case k of PStr s \<Rightarrow> Some (s, v) | _ \<Rightarrow> None) d"
| "keyword_arguments _ = []"

definition plugin_cluster_operation ::
  "'w ha_lib \<Rightarrow> validator \<Rightarrow> string \<Rightarrow> string \<Rightarrow> pyval \<Rightarrow> (('b \<times> 'w ha_framework) cluster, exn, (string, string) dict) act" where
  "plugin_cluster_operation L V resource operation arguments =
     on_world (within snd (\<lambda>h (b, _). (b, h))
       (process_cluster_operation L V resource operation (keyword_arguments arguments)))"

definition cluster_status_view :: "'w ha_lib \<Rightarrow> string \<Rightarrow> (('b \<times> 'w ha_framework) cluster, exn, pyval) act" where
  "cluster_status_view L node_id = on_world (within snd (\<lambda>h (b, _). (b, h)) (get_cluster_status L node_id))"


section \<open>What is relied on of the validation\<close>

text \<open>An input a field of the type accepts: \<open>Bool\<close> takes the documented texts and numbers beside the two truth
  values. Absent \<open>allow_none\<close>, \<open>None\<close> is refused.\<close>

definition bool_inputs :: "pyval list" where
  "bool_inputs = [PBool True, PBool False, PInt 0, PInt 1] @ map PStr
     [''t'', ''T'', ''true'', ''True'', ''TRUE'', ''on'', ''On'', ''ON'', ''y'', ''Y'', ''yes'', ''Yes'', ''YES'', ''1'',
      ''f'', ''F'', ''false'', ''False'', ''FALSE'', ''off'', ''Off'', ''OFF'', ''n'', ''N'', ''no'', ''No'', ''NO'', ''0'']"

definition input_ok :: "schema_field \<Rightarrow> pyval \<Rightarrow> bool" where
  "input_ok f v \<longleftrightarrow> (if sf_type f = BoolField then v \<in> set bool_inputs else of_type (sf_type f) v) \<and> sf_valid f v"

locale arguments_validator =
  fixes V :: validator
  assumes accepted_keys: "V s kw = [] \<Longrightarrow> set (dict_keys kw) \<subseteq> sf_name ` set s"
    and accepted_field: "V s kw = [] \<Longrightarrow> f \<in> set s \<Longrightarrow> dict_get kw (sf_name f) = Some x \<Longrightarrow> input_ok f x"
    and accepted_required: "V s kw = [] \<Longrightarrow> f \<in> set s \<Longrightarrow> sf_required f \<Longrightarrow> dict_get kw (sf_name f) \<noteq> None"
begin

lemma accepted_name:
  assumes "V s kw = []" and "field ''resource_id'' StrField True not_blank \<in> set s"
  shows "\<exists>i. i \<noteq> [] \<and> dict_get kw ''resource_id'' = Some (PStr i)"
proof -
  from accepted_required [OF assms] obtain x where x: "dict_get kw ''resource_id'' = Some x" by auto
  with accepted_field [OF assms] show ?thesis by (cases x) (auto simp: input_ok_def of_type_def not_blank_def)
qed

end

text \<open>A validator that follows it.\<close>

definition field_errors :: "kwargs \<Rightarrow> schema_field \<Rightarrow> (string \<times> string list) list" where
  "field_errors kw f =
     (case dict_get kw (sf_name f) of
        None \<Rightarrow> if sf_required f then [(sf_name f, [''Missing data for required field.''])] else []
      | Some x \<Rightarrow> if input_ok f x then [] else [(sf_name f, [''Not a valid value.''])])"

definition strict_errors :: validator where
  "strict_errors s kw =
     concat (map (field_errors kw) s)
     @ map (\<lambda>k. (k, [UNKNOWN_FIELD_ERR_MSG])) (filter (\<lambda>k. k \<notin> sf_name ` set s) (dict_keys kw))"

interpretation se: arguments_validator strict_errors
proof unfold_locales
  fix s kw assume ok: "strict_errors s kw = []"
  then show "set (dict_keys kw) \<subseteq> sf_name ` set s" by (auto simp: strict_errors_def filter_empty_conv)
  fix f assume "f \<in> set s"
  with ok have "field_errors kw f = []" by (auto simp: strict_errors_def)
  then show "dict_get kw (sf_name f) = Some x \<Longrightarrow> input_ok f x" for x by (auto simp: field_errors_def split: if_splits)
  from \<open>field_errors kw f = []\<close> show "sf_required f \<Longrightarrow> dict_get kw (sf_name f) \<noteq> None"
    by (auto simp: field_errors_def split: option.splits)
qed


section \<open>The manager\<close>

text \<open>The two attributes are set together, and a manager that answers is never replaced.\<close>

definition ha_ok :: "'w ha_framework \<Rightarrow> bool" where
  "ha_ok h \<longleftrightarrow> (ha_manager h = None \<longleftrightarrow> ha_elements h = None)"

lemma keeps_on_ha: "(\<And>h w. I h \<Longrightarrow> I (h\<lparr>ha_world := w\<rparr>)) \<Longrightarrow> keeps I (on_ha m)"
  by (simp add: keeps_def on_ha_def within_def split: prod.splits)

lemma ha_ok_world [simp]: "ha_ok (h\<lparr>ha_world := w\<rparr>) = ha_ok h"
  by (simp add: ha_ok_def)

lemma ha_ok_jobs [simp]: "ha_ok (h\<lparr>ha_jobs := js\<rparr>) = ha_ok h"
  by (simp add: ha_ok_def)

lemma keeps_ensure_manager:
  assumes "\<And>h w. I h \<Longrightarrow> I (h\<lparr>ha_world := w\<rparr>)"
    and "\<And>h m. I h \<Longrightarrow> ha_manager h \<noteq> Some True \<Longrightarrow> I (h\<lparr>ha_manager := Some m, ha_elements := Some (hl_elements L)\<rparr>)"
  shows "keeps I (ensure_manager L)"
proof (unfold keeps_def, intro allI impI)
  fix h assume I: "I h"
  show "I (snd (ensure_manager L h))"
  proof (cases "ha_manager h = Some True")
    case True
    then show ?thesis using I by (simp add: ensure_manager_def act_simps)
  next
    case False
    then show ?thesis using I assms
      by (auto simp: ensure_manager_def init_cluster_manager_def on_ha_def act_simps split: prod.splits sum.splits)
  qed
qed

lemma keeps_validate_resource [keeps_intros]: "keeps I (validate_resource resource)"
  unfolding validate_resource_def by (intro keeps_intros)

lemma keeps_ask_manager: "(\<And>h w. I h \<Longrightarrow> I (h\<lparr>ha_world := w\<rparr>)) \<Longrightarrow> keeps I (ask_manager present call)"
  unfolding ask_manager_def by (intro keeps_intros keeps_on_ha)

lemmas framework_defs = get_system_health_def get_cluster_status_def process_cluster_operation_def process_operation_def

lemma framework_keeps:
  assumes "\<And>h w. I h \<Longrightarrow> I (h\<lparr>ha_world := w\<rparr>)"
    and "\<And>h m. I h \<Longrightarrow> ha_manager h \<noteq> Some True \<Longrightarrow> I (h\<lparr>ha_manager := Some m, ha_elements := Some (hl_elements L)\<rparr>)"
  shows "keeps I (get_system_health L element depth i)" and "keeps I (get_cluster_status L node_id)"
    and "(\<And>h js. I h \<Longrightarrow> I (h\<lparr>ha_jobs := js\<rparr>)) \<Longrightarrow> keeps I (process_cluster_operation L V resource operation kw)"
  unfolding framework_defs
  by (intro keeps_intros keeps_ensure_manager keeps_ask_manager keeps_modify assms; assumption)+

lemma framework_ok:
  "keeps ha_ok (get_system_health L element depth i)" "keeps ha_ok (get_cluster_status L node_id)"
  "keeps ha_ok (process_cluster_operation L V resource operation kw)"
  by (rule framework_keeps; simp add: ha_ok_def)+

lemma healthy_manager_kept:
  "keeps (\<lambda>h. ha_manager h = Some True \<and> ha_elements h = es) (get_system_health L element depth i)"
  "keeps (\<lambda>h. ha_manager h = Some True \<and> ha_elements h = es) (get_cluster_status L node_id)"
  "keeps (\<lambda>h. ha_manager h = Some True \<and> ha_elements h = es) (process_cluster_operation L V resource operation kw)"
  by (rule framework_keeps; simp)+

lemma health_keeps_jobs: "keeps (\<lambda>h. ha_jobs h = js) (get_system_health L element depth i)"
  "keeps (\<lambda>h. ha_jobs h = js) (get_cluster_status L node_id)"
  by (rule framework_keeps; simp)+

lemma ensure_manager_jobs: "ha_jobs (snd (ensure_manager L h)) = ha_jobs h"
  by (auto simp: ensure_manager_def init_cluster_manager_def on_ha_def act_simps split: prod.splits sum.splits)


section \<open>Operations on nodes\<close>

text \<open>The call of the node controller an accepted operation stands for.\<close>

definition node_call :: "'w ha_lib \<Rightarrow> string \<Rightarrow> string \<Rightarrow> bool \<Rightarrow> pyval \<Rightarrow> ('w, exn, unit) act" where
  "node_call L operation node_id force storageoff =
     (if operation = ''start'' then hl_node_start L (PStr node_id) [(''poweron'', PBool True)]
      else if operation = ''stop'' then hl_node_stop L (PStr node_id) (-1) [(''check_cluster'', PBool (\<not> force))]
      else hl_node_stop L (PStr node_id) (-1)
        [(''check_cluster'', PBool (\<not> force)), (''poweroff'', PBool True), (''storageoff'', storageoff)])"

lemma parse_errors_Inr: "parse_errors errors = Inr () \<longleftrightarrow> errors = []"
proof (cases errors)
  case (Cons p ps)
  have "error_lines (p # ps) = Inr ls \<Longrightarrow> ls \<noteq> []" for ls by auto
  with Cons show ?thesis by (auto simp: parse_errors_def)
qed (simp add: parse_errors_def)

lemma placed_operation:
  assumes "process_cluster_operation L V resource operation kw h = (Inr reply, h')" and "ha_ok h"
  obtains ro op elements where "get_operations_by_resource resource = Inr ro" "get_operation ro operation = Inr op"
    "validate_arguments V op kw = Inr ()" "ha_elements h' = Some elements" "resource \<in> set elements"
    "ha_jobs h' = ha_jobs h @ [HaJob op True kw]"
    "reply = [(''message'', capitalize operation @ '' request for '' @ resource @ '' is placed successfully.'')]"
proof -
  obtain r1 h1 where e: "ensure_manager L h = (r1, h1)" by (cases "ensure_manager L h")
  have ok: "ha_ok h1" using keepsD [OF keeps_ensure_manager, of ha_ok L h] assms(2) e by (simp add: ha_ok_def)
  have jobs: "ha_jobs h1 = ha_jobs h" using ensure_manager_jobs [of L h] e by simp
  from assms(1) e have "r1 = Inr ()"
    by (cases r1) (auto simp: process_cluster_operation_def bind_act_def)
  with assms(1) e have run: "bind_act (validate_resource resource) (\<lambda>_.
     bind_act (of_sum (bind_sum (get_operations_by_resource resource) (\<lambda>ro. get_operation ro operation))) (\<lambda>op.
     bind_act (process_operation V op kw) (\<lambda>_.
       ret [(''message'', capitalize operation @ '' request for '' @ resource @ '' is placed successfully.'')]))) h1 = (Inr reply, h')"
    by (simp add: process_cluster_operation_def bind_act_def)
  then obtain elements where el: "ha_elements h1 = Some elements" "resource \<in> set elements"
    by (auto simp: validate_resource_def act_simps split: option.splits if_splits)
  with ok have "ha_manager h1 \<noteq> None" by (auto simp: ha_ok_def)
  with run el jobs that show thesis
    by (auto simp: validate_resource_def process_operation_def act_simps split: sum.splits prod.splits)
qed

lemma refused_operation:
  assumes "process_cluster_operation L V resource operation kw h = (Inl e, h')"
  shows "ha_jobs h' = ha_jobs h"
proof -
  obtain r1 h1 where e: "ensure_manager L h = (r1, h1)" by (cases "ensure_manager L h")
  have "ha_jobs h1 = ha_jobs h" using ensure_manager_jobs [of L h] e by simp
  with assms e show ?thesis
    by (auto simp: process_cluster_operation_def validate_resource_def process_operation_def act_simps
        split: sum.splits option.splits if_splits)
qed

lemma node_operation:
  "get_operations_by_resource ''node'' = Inr ro \<Longrightarrow> get_operation ro operation = Inr op \<Longrightarrow>
     operation = ''start'' \<and> op = NodeStartOperation \<or> operation = ''stop'' \<and> op = NodeStopOperation
     \<or> operation = ''poweroff'' \<and> op = NodePoweroffOperation"
  by (auto simp: get_operations_by_resource_def get_operation_def split: if_splits)


text \<open>A package \<open>ha\<close> that records the calls of its controller, and one whose manager cannot be created at
  first.\<close>

definition recording_ha :: "(string \<times> pyval \<times> (string, pyval) dict) list ha_lib" where
  "recording_ha = \<lparr>hl_import = ret (), hl_create = ret True, hl_elements = [''cluster'', ''node''],
     hl_health = (\<lambda>_ _ _. ret None), hl_feasibility = (\<lambda>_. ret None),
     hl_node_start = (\<lambda>n args. modify_act (\<lambda>w. w @ [(''start'', n, args)])),
     hl_node_stop = (\<lambda>n _ args. modify_act (\<lambda>w. w @ [(''stop'', n, args)])),
     hl_text = (\<lambda>_. ''error''), hl_show = (\<lambda>_. ''value'')\<rparr>"

definition new_framework :: "'w \<Rightarrow> 'w ha_framework" where
  "new_framework w = \<lparr>ha_manager = None, ha_elements = None, ha_jobs = [], ha_world = w\<rparr>"


text \<open>
  A cluster manager that cannot be created. The failure is logged and forgotten: a health query or an operation
  then ends in \<open>TypeError\<close>, the loop over the missing list of elements, which the middleware reports as status 500, and the query for the
  cluster status in its general error. Nothing is left to run, and no failure is remembered: the framework is as before, so
  the next request tries again and, once HA is there, is answered as by a new framework.
\<close>

theorem ha_start_failure:
  assumes "hl_import L (ha_world h) = (Inr (), w1)" and "hl_create L w1 = (Inl e, w2)"
    and "ha_manager h = None" and "ha_elements h = None"
  shows "get_system_health L element depth i h = (Inl TypeError, h\<lparr>ha_world := w2\<rparr>)
     \<and> process_cluster_operation L V resource operation kw h = (Inl TypeError, h\<lparr>ha_world := w2\<rparr>)
     \<and> get_cluster_status L node_id h = (Inl (OtherException CLUSTER_STATUS_ERR_MSG), h\<lparr>ha_world := w2\<rparr>)"
proof -
  have "ensure_manager L h = (Inr (), h\<lparr>ha_world := w2\<rparr>)"
    using assms by (simp add: ensure_manager_def init_cluster_manager_def on_ha_def act_simps)
  then show ?thesis using assms by (simp add: framework_defs validate_resource_def ask_manager_def act_simps)
qed

theorem ha_start_failure_witness:
  "get_system_health (recording_ha\<lparr>hl_create := throw RuntimeError\<rparr>) ''node'' 1 None (new_framework []) = (Inl TypeError, new_framework [])"
  using ha_start_failure [where L = "recording_ha\<lparr>hl_create := throw RuntimeError\<rparr>" and h = "new_framework []"
      and ?w1.0 = "[]" and ?w2.0 = "[]" and e = RuntimeError]
  by (simp add: recording_ha_def new_framework_def act_simps)

text \<open>The health view over this framework: with a manager that answers, a failure HA reports is an
  invalid request with its message, every other answer is paged and flattened as its \<open>output\<close>.\<close>

theorem health_through_ha:
  fixes reply :: "(pyval, pyval) dict"
  assumes "ha_manager h = Some True" and "ha_elements h = Some elements" and "resource \<in> set elements"
    and "hl_health L resource 0 None (ha_world h) = (Inr (Some (PDict reply)), w')"
    and "dict_get reply (PStr ''status'') = Some status" and "offset \<ge> 1" and "0 \<le> limit"
  shows "health_get (\<lambda>r d i. fst (get_system_health L r d i h)) val_err resource (page_query offset limit) =
     (if status = PStr STATUS_FAILED
      then bind_sum (py_getitem (PDict reply) ''error'') (\<lambda>msg. Inl (invalid_request (hl_show L msg)))
      else bind_sum (py_getitem (PDict reply) ''output'') (\<lambda>rh.
        health_get (\<lambda>_ _ _. Inr rh) val_err resource (page_query offset limit)))"
proof -
  have "fst (get_system_health L resource 0 None h) =
     (if status = PStr STATUS_FAILED
      then bind_sum (py_getitem (PDict reply) ''error'') (\<lambda>msg. Inl (invalid_request (hl_show L msg)))
      else py_getitem (PDict reply) ''output'')"
    using assms(1-5) by (auto simp: get_system_health_def ensure_manager_def validate_resource_def ask_manager_def on_ha_def
        validate_system_health_response_def py_getitem_def act_simps split: option.splits)
  moreover have "health_query_ok (page_query offset limit)"
    using assms(6,7) by (simp add: health_query_ok_def page_query_def enum_validator_def)
  ultimately show ?thesis
    by (auto simp: health_get_def fetch_resources_health_def process_request_def fetch_resource_health_def Let_def
        build_request_parameters_def page_query_def or_default_def build_args_to_get_system_health_def bind_sum_def split: sum.splits)
qed

text \<open>No request to the view of operations reaches the node operations: its schema knows the shutdown signal
  alone, which the plugin does not pass to the framework.\<close>

theorem node_operations_unreachable: "cluster_post L ha endpoints n resource req s = cluster_post L ha' endpoints n resource req s"
  unfolding cluster_post_def request_operation_def
  by (intro arg_cong [where f = "bind_act _"] ext) (simp add: act_simps split: cluster_request.splits sum.splits)

end
