(* ===== verification/Uploads.thy ===== *)
theory Uploads
  imports Json_Values "HOL-Library.Word" "HOL-Library.Sublist"
begin

text \<open>
  Uploaded and downloaded files: \<open>FileCache\<close>, \<open>FileRef\<close> and \<open>DownloadFileManager\<close> of
  \<^verbatim>\<open>csm/core/services/file_transfer.py\<close>, and the parser of multipart requests of \<^verbatim>\<open>csm/core/controllers/view.py\<close>
  that fills the cache. The file system is a map from paths to bytes with a list of directories; its faults, the
  decoding of bytes and the generated names are parameters. A written chunk is in the file at
  once: the theorems look at files whose stream is closed, so that buffering does not show.
\<close>

section \<open>The file system\<close>

type_synonym bytes = "8 word list"

record fs =
  fs_files :: "string \<Rightarrow> bytes option"
  fs_dirs :: "string list"

text \<open>The faults of the operating system: what \<open>makedirs\<close>, \<open>open\<close>, \<open>write\<close> and \<open>copyfile\<close> raise, if they do.\<close>

record os_env =
  os_makedirs :: "string \<Rightarrow> exn option"
  os_open :: "string \<Rightarrow> exn option"
  os_write :: "string \<Rightarrow> bytes \<Rightarrow> exn option"
  os_copy :: "string \<Rightarrow> string \<Rightarrow> exn option"
  os_decode :: "bytes \<Rightarrow> string option"
  os_text :: "exn \<Rightarrow> string"

definition path_exists :: "string \<Rightarrow> fs \<Rightarrow> bool" where
  "path_exists p d \<longleftrightarrow> fs_files d p \<noteq> None \<or> p \<in> set (fs_dirs d)"

text \<open>\<open>os.path.join\<close>: an absolute second path replaces the first.\<close>

definition path_join :: "string \<Rightarrow> string \<Rightarrow> string" where
  "path_join a b =
     (if prefix ''/'' b then b else if a = [] \<or> last a = CHR ''/'' then a @ b else a @ ''/'' @ b)"

definition CSM_TMP_FILE_CACHE_DIR :: string where "CSM_TMP_FILE_CACHE_DIR = ''/opt/seagate/cortx/csm/csm_temp/file_cache/transfer''"
definition CSM_ETC_DIR :: string where "CSM_ETC_DIR = ''/etc/csm''"
definition DEFAULT_SUPPORT_BUNDLE_ROOT :: string where "DEFAULT_SUPPORT_BUNDLE_ROOT = ''/opt/seagate/cortx/bundle''"
definition AUDIT_LOG :: string where "AUDIT_LOG = ''/opt/seagate/cortx/csm/csm_temp/auditlogs/''"


section \<open>The cache\<close>

text \<open>\<open>fc_supply\<close> gives the names \<open>uuid4().hex\<close> will return, \<open>fc_used\<close> counts those taken.\<close>

record file_cache =
  fc_uuids :: "string list"
  fc_writing_uuid :: "string option"
  fc_stream :: "string option"
  fc_disk :: fs
  fc_supply :: "nat \<Rightarrow> string"
  fc_used :: nat

type_synonym 'a fc_act = "(file_cache, exn, 'a) act"

definition internal :: "string \<Rightarrow> exn" where
  "internal msg = mk_CsmInternalError (Some msg)"

definition cache_path :: "string \<Rightarrow> string" where
  "cache_path uuid = path_join CSM_TMP_FILE_CACHE_DIR uuid"

definition set_files :: "((string \<Rightarrow> bytes option) \<Rightarrow> string \<Rightarrow> bytes option) \<Rightarrow> file_cache \<Rightarrow> file_cache" where
  "set_files f c = c\<lparr>fc_disk := (fc_disk c)\<lparr>fs_files := f (fs_files (fc_disk c))\<rparr>\<rparr>"

definition file_cache_init :: "unit fc_act" where
  "file_cache_init = modify_act (\<lambda>c. c\<lparr>fc_uuids := [], fc_writing_uuid := None, fc_stream := None\<rparr>)"

definition cached_name :: "string \<Rightarrow> string \<Rightarrow> string" where
  "cached_name uuid extension = (if extension \<noteq> [] then uuid @ ''.'' @ extension else uuid)"

definition cache_new_file :: "os_env \<Rightarrow> string \<Rightarrow> string fc_act" where
  "cache_new_file E extension =
     bind_act (gets fc_stream) (\<lambda>stream.
     if stream \<noteq> None then throw (internal ''Trying to open new file stream for caching while another file is writing'')
     else
     bind_act (gets (\<lambda>c. cached_name (fc_supply c (fc_used c)) extension)) (\<lambda>file_uuid.
     bind_act (modify_act (\<lambda>c. c\<lparr>fc_used := Suc (fc_used c)\<rparr>)) (\<lambda>_.
     case os_open E (cache_path file_uuid) of
       Some e \<Rightarrow> throw e
     | None \<Rightarrow>
         bind_act (modify_act (set_files (\<lambda>fs. fs(cache_path file_uuid := Some [])))) (\<lambda>_.
         bind_act (modify_act (\<lambda>c. c\<lparr>fc_uuids := fc_uuids c @ [file_uuid], fc_writing_uuid := Some file_uuid,
                                     fc_stream := Some (cache_path file_uuid)\<rparr>)) (\<lambda>_.
           ret file_uuid)))))"

definition check_file_uuid :: "string \<Rightarrow> unit fc_act" where
  "check_file_uuid file_uuid =
     bind_act (gets fc_writing_uuid) (\<lambda>u.
       if u \<noteq> None \<and> u \<noteq> Some file_uuid
       then throw (internal ''Trying to write file to cache while another file is writing'') else ret ())"

definition write_chunck :: "os_env \<Rightarrow> string \<Rightarrow> bytes \<Rightarrow> unit fc_act" where
  "write_chunck E file_uuid chunk =
     bind_act (check_file_uuid file_uuid) (\<lambda>_.
     bind_act (gets fc_stream) (\<lambda>stream.
     case stream of
       None \<Rightarrow> throw AttributeError
     | Some p \<Rightarrow>
         if chunk \<noteq> [] then
           (case os_write E p chunk of
              Some e \<Rightarrow> throw e
            | None \<Rightarrow> modify_act (set_files (\<lambda>fs. fs(p := map_option (\<lambda>b. b @ chunk) (fs p)))))
         else modify_act (\<lambda>c. c\<lparr>fc_stream := None, fc_writing_uuid := None\<rparr>)))"

text \<open>\<open>__exit__\<close>: every file of this cache that is still there is removed.\<close>

definition file_cache_exit :: "unit fc_act" where
  "file_cache_exit =
     bind_act (gets fc_uuids) (for_each (\<lambda>u. modify_act (set_files (\<lambda>fs. fs(cache_path u := None)))))"

text \<open>\<open>with FileCache() as cache: body\<close>\<close>

definition with_file_cache :: "'a fc_act \<Rightarrow> 'a fc_act" where
  "with_file_cache body =
     bind_act file_cache_init (\<lambda>_.
     bind_act (catch_act (bind_act body (\<lambda>x. ret (Inr x))) (\<lambda>e. ret (Inl e))) (\<lambda>r.
     bind_act file_cache_exit (\<lambda>_. of_sum r)))"


section \<open>Files outside the cache\<close>

definition get_file_path :: "string \<Rightarrow> string fc_act" where
  "get_file_path file_uuid =
     bind_act (gets fc_disk) (\<lambda>d.
       if \<not> path_exists (cache_path file_uuid) d
       then throw (internal ''File was removed from cache. Ensure that you are calling save_file in scope of FileCache context manager.'')
       else ret (cache_path file_uuid))"

definition permission_error :: exn where "permission_error = OtherException ''PermissionError''"

definition system_error :: "string \<Rightarrow> string \<Rightarrow> string" where
  "system_error dir e =
     ''System error during directory creation for path='' @ [CHR 0x27] @ dir @ [CHR 0x27] @ '': '' @ e"

definition make_directory :: "os_env \<Rightarrow> string \<Rightarrow> unit fc_act" where
  "make_directory E dir =
     bind_act (gets fc_disk) (\<lambda>d.
       if path_exists dir d then ret ()
       else case os_makedirs E dir of
              Some e \<Rightarrow> throw (internal (system_error dir (os_text E e)))
            | None \<Rightarrow> modify_act (\<lambda>c. c\<lparr>fc_disk := (fc_disk c)\<lparr>fs_dirs := dir # fs_dirs (fc_disk c)\<rparr>\<rparr>))"

definition save_file :: "os_env \<Rightarrow> string \<Rightarrow> string \<Rightarrow> string \<Rightarrow> bool \<Rightarrow> string fc_act" where
  "save_file E file_uuid dir_to_save filename overwrite =
     bind_act (make_directory E dir_to_save) (\<lambda>_.
     bind_act (get_file_path file_uuid) (\<lambda>cached.
     bind_act (gets fc_disk) (\<lambda>d.
     let target = path_join dir_to_save filename in
     if path_exists target d \<and> \<not> overwrite
     then throw (internal (''File '' @ [CHR 0x22] @ target @ [CHR 0x22] @ '' already exists. Change '' @ [CHR 0x22] @ ''overwrite''
            @ [CHR 0x22] @ '' argument if you want to overwrite file''))
     else case os_copy E cached target of
            Some e \<Rightarrow> throw (if e = permission_error then internal (''Incorrect permissions for '' @ dir_to_save) else e)
          | None \<Rightarrow>
              bind_act (modify_act (set_files (\<lambda>fs. fs(target := fs cached)))) (\<lambda>_. ret target))))"

datatype file_type = SUPPORT_BUNDLE | ETC_CSM | AUDIT_LOG_FILES

definition directory_map :: "file_type \<Rightarrow> string" where
  "directory_map t = (case t of SUPPORT_BUNDLE \<Rightarrow> DEFAULT_SUPPORT_BUNDLE_ROOT | ETC_CSM \<Rightarrow> CSM_ETC_DIR | AUDIT_LOG_FILES \<Rightarrow> AUDIT_LOG)"

definition get_file_response :: "fs \<Rightarrow> file_type \<Rightarrow> string \<Rightarrow> exn + string \<times> string" where
  "get_file_response d ftype filename =
     (let path_to_file = path_join (directory_map ftype) filename in
      if fs_files d path_to_file = None then Inl (internal ''Attempt to get non existing file'')
      else Inr (filename, path_to_file))"


section \<open>Multipart requests\<close>

text \<open>A part: its two headers and what reading it gives, chunk by chunk (an exception when the connection breaks). The
  reader ends with an empty chunk.\<close>

record part =
  pt_disposition :: "string option"
  pt_content_type :: "string option"
  pt_chunks :: "(exn + bytes) list"

text \<open>\<open>str.isalnum()\<close> on the code points 0 to 255.\<close>

definition py_alnum_char :: "char \<Rightarrow> bool" where
  "py_alnum_char c \<longleftrightarrow> (let n = of_char c :: nat in
     (48 \<le> n \<and> n \<le> 57) \<or> (65 \<le> n \<and> n \<le> 90) \<or> (97 \<le> n \<and> n \<le> 122) \<or> n \<in> {170, 178, 179, 181, 185, 186, 188, 189, 190}
     \<or> (192 \<le> n \<and> n \<noteq> 215 \<and> n \<noteq> 247))"

definition py_isalnum :: "string \<Rightarrow> bool" where
  "py_isalnum s \<longleftrightarrow> s \<noteq> [] \<and> list_all py_alnum_char s"

definition get_extension :: "string \<Rightarrow> string" where
  "get_extension filename =
     (let parts = split_on (CHR ''.'') filename in if length parts > 1 then last parts else [])"

definition directive :: "string \<Rightarrow> string \<Rightarrow> string option" where
  "directive name value =
     (case split_on (CHR ''='') value of
        [n, v] \<Rightarrow> if strip_chars py_space n = name \<and> v \<noteq> [] then Some (strip_chars (\<lambda>c. c = CHR 0x22) v) else None
      | _ \<Rightarrow> None)"

text \<open>\<open>__parse_multipart_part\<close>: the name of the field and the name of the file.\<close>

definition part_error :: "string \<Rightarrow> exn + 'a" where
  "part_error msg = Inl (invalid_request msg)"

definition parse_multipart_part :: "part \<Rightarrow> exn + string \<times> string option" where
  "parse_multipart_part field =
     (case pt_disposition field of
        None \<Rightarrow> part_error ''Content-Disposition is absent in one of multipart request parts''
      | Some cd \<Rightarrow>
     if cd = [] then part_error ''Content-Disposition is absent in one of multipart request parts''
     else let cd_values = split_on (CHR '';'') cd in
     if hd cd_values \<noteq> ''form-data''
     then part_error (CHR 0x22 # ''form-data'' @ CHR 0x22 # '' is absent in one of multipart request parts'')
     else if length cd_values < 2 \<or> cd_values ! 1 = []
     then part_error ''Fieldname is absent in one of multipart request parts''
     else case directive ''name'' (cd_values ! 1) of
       None \<Rightarrow> part_error ''Incorrect fieldname directive in Content-Disposition header''
     | Some fieldname \<Rightarrow>
     bind_sum (if length cd_values > 2
               then (case directive ''filename'' (cd_values ! 2) of
                       None \<Rightarrow> part_error ''Incorrect filename directive in Content-Disposition header''
                     | Some f \<Rightarrow> Inr (Some f))
               else Inr None) (\<lambda>filename.
     if pt_content_type field = None \<or> pt_content_type field = Some []
     then part_error ''Content-Type is absent in one of multipart request parts''
     else Inr (fieldname, filename)))"

datatype parsed_field =
    CachedFile string string string
  | TextContent string string

definition too_big :: "string \<Rightarrow> string \<Rightarrow> nat \<Rightarrow> exn" where
  "too_big kind name limit =
     invalid_request (kind @ CHR '' '' # CHR 0x22 # name @ CHR 0x22 # '' is bigger than permissible limit. Max size = '' @ str_int (int limit) @ '' bytes'')"

text \<open>The loop over the chunks of a file: the size is checked before a chunk is written.\<close>

fun cache_chunks :: "os_env \<Rightarrow> string \<Rightarrow> string \<Rightarrow> nat \<Rightarrow> nat \<Rightarrow> (exn + bytes) list \<Rightarrow> unit fc_act" where
  "cache_chunks E file_uuid filename limit sz [] = write_chunck E file_uuid []"
| "cache_chunks E file_uuid filename limit sz (Inl e # chunks) = throw e"
| "cache_chunks E file_uuid filename limit sz (Inr chunk # chunks) =
     (let sz' = sz + length chunk in
      if sz' > limit
      then throw (too_big ''File'' filename limit)
      else bind_act (write_chunck E file_uuid chunk) (\<lambda>_.
             if chunk = [] then ret () else cache_chunks E file_uuid filename limit sz' chunks))"

text \<open>The loop over the chunks of another field: the check comes before the chunk is counted, the last one
  for the empty chunk at the end.\<close>

fun collect_chunks :: "string \<Rightarrow> nat \<Rightarrow> nat \<Rightarrow> bytes \<Rightarrow> (exn + bytes) list \<Rightarrow> exn + bytes" where
  "collect_chunks fieldname limit sz content [] =
     (if sz > limit then Inl (too_big ''Field'' fieldname limit) else Inr content)"
| "collect_chunks fieldname limit sz content (Inl e # chunks) = Inl e"
| "collect_chunks fieldname limit sz content (Inr chunk # chunks) =
     (if sz > limit then Inl (too_big ''Field'' fieldname limit)
      else if chunk = [] then Inr content
      else collect_chunks fieldname limit (sz + length chunk) (content @ chunk) chunks)"

definition safe_extension :: "string \<Rightarrow> string" where
  "safe_extension filename =
     (let extension = get_extension filename in
      if length extension > 10 \<or> \<not> py_isalnum extension then [] else extension)"

definition parse_field ::
  "os_env \<Rightarrow> string \<Rightarrow> nat \<Rightarrow> nat \<Rightarrow> (string, parsed_field) dict \<Rightarrow> part \<Rightarrow> (string \<times> parsed_field) fc_act" where
  "parse_field E ct content_limit file_limit parse_results field =
     bind_act (of_sum (parse_multipart_part field)) (\<lambda>(fieldname, filename).
     if dict_get parse_results fieldname \<noteq> None
     then throw (invalid_request ''Repeated fieldname in multipart request. Multiple attribute are not supported for now.'')
     else case filename of
       Some (c # cs) \<Rightarrow>
         bind_act (cache_new_file E (safe_extension (c # cs))) (\<lambda>file_uuid.
         bind_act (cache_chunks E file_uuid (c # cs) file_limit 0 (pt_chunks field)) (\<lambda>_.
           ret (fieldname, CachedFile ct (c # cs) file_uuid)))
     | _ \<Rightarrow>
         bind_act (of_sum (collect_chunks fieldname content_limit 0 [] (pt_chunks field))) (\<lambda>content.
         case os_decode E content of
           None \<Rightarrow> throw (ValueError ''utf-8'')
         | Some text \<Rightarrow> ret (fieldname, TextContent ct text)))"

fun parse_fields ::
  "os_env \<Rightarrow> string \<Rightarrow> nat \<Rightarrow> nat \<Rightarrow> (string, parsed_field) dict \<Rightarrow> part list \<Rightarrow> (string, parsed_field) dict fc_act" where
  "parse_fields E ct content_limit file_limit parse_results [] = ret parse_results"
| "parse_fields E ct content_limit file_limit parse_results (field # rest) =
     bind_act (parse_field E ct content_limit file_limit parse_results field) (\<lambda>(fieldname, parsed).
       parse_fields E ct content_limit file_limit (dict_set fieldname parsed parse_results) rest)"

definition parse_multipart_request ::
  "os_env \<Rightarrow> nat \<Rightarrow> nat \<Rightarrow> string option \<Rightarrow> exn + part list \<Rightarrow> (string, parsed_field) dict fc_act" where
  "parse_multipart_request E content_limit file_limit content_type reader =
     (case content_type of
        None \<Rightarrow> throw (invalid_request (CHR 0x22 # ''multipart'' @ CHR 0x22 # '' header is absent''))
      | Some ct \<Rightarrow>
          if \<not> sublist ''multipart/form-data;'' ct
          then throw (invalid_request (CHR 0x22 # ''multipart'' @ CHR 0x22 # '' header is absent''))
          else
          bind_act (of_sum reader) (\<lambda>parts.
          bind_act (make_directory E CSM_TMP_FILE_CACHE_DIR) (\<lambda>_.
            parse_fields E ct content_limit file_limit [] parts)))"


section \<open>No file is left behind\<close>

text \<open>Only files of the cache differ from the file system \<open>F\<close> at the start, where they were absent.\<close>

definition only_cached :: "(string \<Rightarrow> bytes option) \<Rightarrow> file_cache \<Rightarrow> bool" where
  "only_cached F c \<longleftrightarrow>
     (\<forall>p. fs_files (fc_disk c) p \<noteq> F p \<longrightarrow> p \<in> cache_path ` set (fc_uuids c)) \<and> (\<forall>u \<in> set (fc_uuids c). F (cache_path u) = None)
     \<and> (\<forall>p. fc_stream c = Some p \<longrightarrow> p \<in> cache_path ` set (fc_uuids c))"

definition fresh_names :: "(string \<Rightarrow> bytes option) \<Rightarrow> (nat \<Rightarrow> string) \<Rightarrow> bool" where
  "fresh_names F supply \<longleftrightarrow> (\<forall>k ext. F (cache_path (cached_name (supply k) ext)) = None)"

definition cache_inv :: "(string \<Rightarrow> bytes option) \<Rightarrow> (nat \<Rightarrow> string) \<Rightarrow> file_cache \<Rightarrow> bool" where
  "cache_inv F supply c \<longleftrightarrow> only_cached F c \<and> fc_supply c = supply"

lemma keeps_new_file: "fresh_names F supply \<Longrightarrow> keeps (cache_inv F supply) (cache_new_file E ext)"
  by (auto simp: keeps_def cache_inv_def only_cached_def fresh_names_def cache_new_file_def act_simps set_files_def
      split: option.splits if_splits)

lemma keeps_write: "keeps (cache_inv F supply) (write_chunck E u chunk)"
  by (auto simp: keeps_def cache_inv_def only_cached_def write_chunck_def check_file_uuid_def act_simps set_files_def
      split: option.splits if_splits)

lemma keeps_cache_chunks: "keeps (cache_inv F supply) (cache_chunks E u filename limit n chunks)"
proof (induction chunks arbitrary: n)
  case (Cons c chunks)
  then show ?case
    by (cases c) (auto simp: Let_def intro!: keeps_intros keeps_write)
qed (simp add: keeps_write)

lemma keeps_make_directory: "keeps (cache_inv F supply) (make_directory E dir)"
  by (auto simp: keeps_def cache_inv_def only_cached_def make_directory_def act_simps split: option.splits)

lemma keeps_parse_field: "fresh_names F supply \<Longrightarrow> keeps (cache_inv F supply) (parse_field E ct m n results field)"
  unfolding parse_field_def
  by (auto intro!: keeps_intros keeps_new_file keeps_cache_chunks split: prod.split option.split list.split)

lemma keeps_parse_fields: "fresh_names F supply \<Longrightarrow> keeps (cache_inv F supply) (parse_fields E ct m n results parts)"
proof (induction parts arbitrary: results)
  case (Cons field rest)
  then show ?case by (auto intro!: keeps_intros keeps_parse_field split: prod.split)
qed (auto intro: keeps_intros)

lemma keeps_parse_request:
  "fresh_names F supply \<Longrightarrow> keeps (cache_inv F supply) (parse_multipart_request E m n content_type reader)"
  unfolding parse_multipart_request_def by (intro keeps_intros keeps_make_directory keeps_parse_fields)

lemma exit_restores:
  assumes "only_cached F c"
  shows "fs_files (fc_disk (snd (file_cache_exit c))) = F"
proof -
  define remove where "remove = for_each (\<lambda>u. modify_act (set_files (\<lambda>fs. fs(cache_path u := None))) :: unit fc_act)"
  have files: "fs_files (fc_disk (snd (remove us c)))
      = (\<lambda>p. if p \<in> cache_path ` set us then None else fs_files (fc_disk c) p)" for us and c
    by (induction us arbitrary: c) (auto simp: remove_def act_simps set_files_def)
  have "file_cache_exit c = remove (fc_uuids c) c" by (simp add: file_cache_exit_def remove_def act_simps)
  with assms files [of "fc_uuids c" c] show ?thesis by (auto simp: only_cached_def fun_eq_iff)
qed

lemma with_file_cache_restores:
  assumes "keeps (cache_inv (fs_files (fc_disk c)) (fc_supply c)) body"
  shows "fs_files (fc_disk (snd (with_file_cache body c))) = fs_files (fc_disk c)"
proof -
  let ?c = "c\<lparr>fc_uuids := [], fc_writing_uuid := None, fc_stream := None\<rparr>"
  have "cache_inv (fs_files (fc_disk c)) (fc_supply c) ?c" by (simp add: cache_inv_def only_cached_def)
  from keepsD [OF assms this] have "only_cached (fs_files (fc_disk c)) (snd (body ?c))" by (simp add: cache_inv_def)
  from exit_restores [OF this] show ?thesis
    by (cases "body ?c"; cases "fst (body ?c)")
      (auto simp: with_file_cache_def file_cache_init_def act_simps split: prod.splits sum.splits)
qed



section \<open>What is stored\<close>

text \<open>The bytes of a part, up to its end.\<close>

fun received :: "(exn + bytes) list \<Rightarrow> bytes" where
  "received (Inr chunk # chunks) = (if chunk = [] then [] else chunk @ received chunks)"
| "received _ = []"

definition distinct_names :: "(nat \<Rightarrow> string) \<Rightarrow> bool" where
  "distinct_names supply \<longleftrightarrow>
     (\<forall>j k ext ext'. j \<noteq> k \<longrightarrow> cache_path (cached_name (supply j) ext) \<noteq> cache_path (cached_name (supply k) ext'))"

definition part_stored :: "os_env \<Rightarrow> nat \<Rightarrow> nat \<Rightarrow> file_cache \<Rightarrow> part \<Rightarrow> string \<times> parsed_field \<Rightarrow> bool" where
  "part_stored E content_limit file_limit c field = (\<lambda>(fieldname, parsed).
     case parsed of
       CachedFile ct filename u \<Rightarrow>
         parse_multipart_part field = Inr (fieldname, Some filename) \<and> length (received (pt_chunks field)) \<le> file_limit
         \<and> fs_files (fc_disk c) (cache_path u) = Some (received (pt_chunks field))
         \<and> (\<exists>k ext. k < fc_used c \<and> u = cached_name (fc_supply c k) ext)
     | TextContent ct text \<Rightarrow>
         (\<exists>filename \<in> {None, Some []}. parse_multipart_part field = Inr (fieldname, filename))
         \<and> length (received (pt_chunks field)) \<le> content_limit \<and> os_decode E (received (pt_chunks field)) = Some text)"

lemma collect_chunks_received:
  "collect_chunks fieldname limit n content chunks = Inr content' \<Longrightarrow>
     content' = content @ received chunks \<and> n + length (received chunks) \<le> limit"
  by (induction fieldname limit n content chunks rule: collect_chunks.induct) (auto split: if_splits)

lemma write_chunk_open:
  assumes "fc_stream c = Some (cache_path u)" and "fc_writing_uuid c = Some u"
    and "fs_files (fc_disk c) (cache_path u) = Some b" and "write_chunck E u chunk c = (Inr (), c')"
  shows "c' = (if chunk = [] then c\<lparr>fc_stream := None, fc_writing_uuid := None\<rparr>
     else set_files (\<lambda>fs. fs(cache_path u := Some (b @ chunk))) c)"
  using assms by (auto simp: write_chunck_def check_file_uuid_def act_simps set_files_def split: option.splits if_splits)

lemma set_files_simps [simp]:
  "fc_stream (set_files f c) = fc_stream c" "fc_writing_uuid (set_files f c) = fc_writing_uuid c"
  "fs_files (fc_disk (set_files f c)) = f (fs_files (fc_disk c))" "fc_supply (set_files f c) = fc_supply c"
  "fc_used (set_files f c) = fc_used c" "fc_uuids (set_files f c) = fc_uuids c"
  by (simp_all add: set_files_def)

lemma cache_chunks_received:
  assumes "cache_chunks E u filename limit n chunks c = (Inr (), c')" and "n \<le> limit"
    and "fc_stream c = Some (cache_path u)" "fc_writing_uuid c = Some u" "fs_files (fc_disk c) (cache_path u) = Some b"
  shows "fs_files (fc_disk c') = (fs_files (fc_disk c))(cache_path u := Some (b @ received chunks))
     \<and> n + length (received chunks) \<le> limit \<and> fc_stream c' = None
     \<and> fc_supply c' = fc_supply c \<and> fc_used c' = fc_used c"
  using assms
proof (induction chunks arbitrary: n c b)
  case Nil
  from write_chunk_open [OF Nil.prems(3-5)] Nil.prems(1,2,5) have "c' = c\<lparr>fc_stream := None, fc_writing_uuid := None\<rparr>"
    by fastforce
  with Nil.prems(2,5) show ?case by (simp add: fun_upd_idem)
next
  case (Cons r chunks)
  from Cons.prems(1) obtain chunk where r: "r = Inr chunk" by (cases r) (auto simp: act_simps)
  with Cons.prems(1) have limit: "n + length chunk \<le> limit" by (auto simp: Let_def act_simps split: if_splits)
  with Cons.prems(1) r obtain c1 where w: "write_chunck E u chunk c = (Inr (), c1)"
    and rest: "(if chunk = [] then ret () else cache_chunks E u filename limit (n + length chunk) chunks) c1 = (Inr (), c')"
    by (auto simp: Let_def elim!: bind_act_InrE)
  note c1 = write_chunk_open [OF Cons.prems(3-5) w]
  show ?case
  proof (cases "chunk = []")
    case True
    with c1 rest r limit Cons.prems(2,5) show ?thesis by (auto simp: act_simps fun_upd_idem)
  next
    case False
    with c1 have c1: "c1 = set_files (\<lambda>fs. fs(cache_path u := Some (b @ chunk))) c" by simp
    have "fc_stream c1 = Some (cache_path u)" "fc_writing_uuid c1 = Some u"
      "fs_files (fc_disk c1) (cache_path u) = Some (b @ chunk)" using c1 Cons.prems by simp_all
    from Cons.IH [OF _ limit this] rest False c1 r show ?thesis by (auto simp: add.assoc fun_eq_iff)
  qed
qed

lemma cache_new_file_state:
  assumes "cache_new_file E ext c = (Inr u, c')"
  shows "u = cached_name (fc_supply c (fc_used c)) ext
    \<and> fs_files (fc_disk c') = (fs_files (fc_disk c))(cache_path u := Some []) \<and> fc_stream c' = Some (cache_path u)
    \<and> fc_writing_uuid c' = Some u \<and> fc_supply c' = fc_supply c \<and> fc_used c' = Suc (fc_used c)"
  using assms by (auto simp: cache_new_file_def act_simps set_files_def split: option.splits if_splits)

text \<open>One field: what it adds, and that nothing already in the cache changes.\<close>

lemma parse_field_stored:
  assumes "parse_field E ct content_limit file_limit results field c = (Inr (fieldname, parsed), c')"
    and "distinct_names (fc_supply c)"
  shows "part_stored E content_limit file_limit c' field (fieldname, parsed) \<and> fieldname \<notin> set (dict_keys results)
    \<and> fc_supply c' = fc_supply c \<and> fc_used c \<le> fc_used c'
    \<and> (\<forall>k < fc_used c. \<forall>ext. fs_files (fc_disk c') (cache_path (cached_name (fc_supply c k) ext))
          = fs_files (fc_disk c) (cache_path (cached_name (fc_supply c k) ext)))"
proof -
  from assms(1) obtain filename where p: "parse_multipart_part field = Inr (fieldname, filename)"
    by (auto simp: parse_field_def act_simps split: sum.splits if_splits prod.splits option.splits list.splits)
  with assms(1) have new: "fieldname \<notin> set (dict_keys results)"
    by (auto simp: parse_field_def act_simps dict_get_None_iff split: if_splits)
  show ?thesis
  proof (cases "filename \<in> {None, Some []}")
    case True
    with assms(1) p new show ?thesis
      by (auto simp: parse_field_def act_simps part_stored_def dict_get_None_iff dest!: collect_chunks_received
          split: sum.splits option.splits)
  next
    case False
    then obtain h t where f: "filename = Some (h # t)" by (cases filename; cases "the filename") auto
    with assms(1) p new obtain u c1 where u: "cache_new_file E (safe_extension (h # t)) c = (Inr u, c1)"
      and w: "cache_chunks E u (h # t) file_limit 0 (pt_chunks field) c1 = (Inr (), c')"
      and parsed: "parsed = CachedFile ct (h # t) u"
      by (auto simp: parse_field_def act_simps dict_get_None_iff split: sum.splits prod.splits if_splits)
    note c1 = cache_new_file_state [OF u]
    from cache_chunks_received [OF w] c1 have c': "fs_files (fc_disk c') = (fs_files (fc_disk c))(cache_path u := Some (received (pt_chunks field)))"
      "length (received (pt_chunks field)) \<le> file_limit" "fc_supply c' = fc_supply c" "fc_used c' = Suc (fc_used c)" by auto
    have "cache_path (cached_name (fc_supply c k) ext) \<noteq> cache_path u" if "k < fc_used c" for k ext
      using assms(2) c1 that by (auto simp: distinct_names_def)
    with c' c1 p f parsed new show ?thesis by (auto simp: part_stored_def)
  qed
qed

lemma part_stored_later:
  assumes "part_stored E m n c field x" and "fc_supply c' = fc_supply c" and "fc_used c \<le> fc_used c'"
    and "\<forall>k < fc_used c. \<forall>ext. fs_files (fc_disk c') (cache_path (cached_name (fc_supply c k) ext))
          = fs_files (fc_disk c) (cache_path (cached_name (fc_supply c k) ext))"
  shows "part_stored E m n c' field x"
  using assms by (cases x; cases "snd x") (auto simp: part_stored_def intro: less_le_trans)

lemma parse_fields_stored:
  assumes "parse_fields E ct m n results parts c = (Inr results', c')" and "distinct_names (fc_supply c)"
    and "list_all2 (part_stored E m n c) seen results" and "distinct (dict_keys results)"
  shows "list_all2 (part_stored E m n c') (seen @ parts) results' \<and> distinct (dict_keys results')"
  using assms
proof (induction parts arbitrary: results c seen)
  case Nil
  then show ?case by (simp add: act_simps)
next
  case (Cons field rest)
  from Cons.prems(1) obtain fieldname parsed c1 where
    f: "parse_field E ct m n results field c = (Inr (fieldname, parsed), c1)"
    and r: "parse_fields E ct m n (dict_set fieldname parsed results) rest c1 = (Inr results', c')"
    by (auto elim!: bind_act_InrE)
  note s = parse_field_stored [OF f Cons.prems(2)]
  have "list_all2 (part_stored E m n c1) seen results"
    using Cons.prems(3) s by (auto intro: list_all2_mono part_stored_later)
  moreover have "dict_set fieldname parsed results = results @ [(fieldname, parsed)]" using s by (simp add: dict_set_new)
  ultimately show ?case
    using Cons.IH [OF r, of "seen @ [field]"] s Cons.prems(2,4) by (simp add: list_all2_appendI)
qed

text \<open>
  C26. An accepted multipart request is stored exactly: the result has one entry for each part, in their order,
  under different names. A part with a file name is a file of the cache with the bytes received, not more
  than the limit for files; another part is the text its bytes decode to, not more than the limit for
  fields. Saving such a file copies these bytes to the path of the name in the directory and nothing else.
\<close>

theorem upload_stored:
  assumes "distinct_names (fc_supply c)"
    and "parse_multipart_request E content_limit file_limit content_type (Inr parts) c = (Inr results, c')"
  shows "list_all2 (part_stored E content_limit file_limit c') parts results \<and> distinct (dict_keys results)
     \<and> (\<forall>u dir filename overwrite path c''. save_file E u dir filename overwrite c' = (Inr path, c'')
          \<longrightarrow> path = path_join dir filename
            \<and> fs_files (fc_disk c'') = (fs_files (fc_disk c'))(path := fs_files (fc_disk c') (cache_path u)))"
proof -
  have made: "fc_supply (snd (make_directory E d x)) = fc_supply x" for d x
    by (auto simp: make_directory_def act_simps split: option.splits)
  from assms(2) obtain ct c1 where "parse_fields E ct content_limit file_limit [] parts c1 = (Inr results, c')"
    and "(Inr (), c1) = make_directory E CSM_TMP_FILE_CACHE_DIR c"
    by (auto simp: parse_multipart_request_def act_simps split: option.splits if_splits sum.splits prod.splits)
  moreover from this(2) made [of CSM_TMP_FILE_CACHE_DIR c] assms(1) have "distinct_names (fc_supply c1)" by (metis snd_conv)
  ultimately have "list_all2 (part_stored E content_limit file_limit c') parts results \<and> distinct (dict_keys results)"
    using parse_fields_stored [where results = "[]" and c = c1 and seen = "[]"] by fastforce
  then show ?thesis
    by (auto simp: save_file_def make_directory_def get_file_path_def Let_def act_simps split: option.splits if_splits)
qed

text \<open>A system without faults, and a request with a file that is larger than the limit allows.\<close>

definition calm_os :: os_env where
  "calm_os = \<lparr>os_makedirs = (\<lambda>_. None), os_open = (\<lambda>_. None), os_write = (\<lambda>_ _. None), os_copy = (\<lambda>_ _. None),
     os_decode = (\<lambda>b. Some (map (\<lambda>w. char_of (unat w)) b)), os_text = (\<lambda>_. ''error'')\<rparr>"

definition file_part :: part where
  "file_part = \<lparr>pt_disposition = Some (''form-data; name=image; filename=a.txt''), pt_content_type = Some ''text/plain'',
     pt_chunks = [Inr [1, 2, 3], Inr [4], Inr []]\<rparr>"

definition text_part :: part where
  "text_part = \<lparr>pt_disposition = Some (''form-data; name=note''), pt_content_type = Some ''text/plain'',
     pt_chunks = [Inr [104, 105], Inr []]\<rparr>"

definition letters :: "nat \<Rightarrow> string" where
  "letters k = replicate k (CHR ''a'')"

definition empty_cache :: file_cache where
  "empty_cache = \<lparr>fc_uuids = [], fc_writing_uuid = None, fc_stream = None,
     fc_disk = \<lparr>fs_files = (\<lambda>_. None), fs_dirs = []\<rparr>, fc_supply = letters, fc_used = 0\<rparr>"

lemma file_part_names: "parse_multipart_part file_part = Inr (''image'', Some ''a.txt'')"
  by (simp add: parse_multipart_part_def file_part_def directive_def strip_chars_def py_space_def)

lemma text_part_names: "parse_multipart_part text_part = Inr (''note'', None)"
  by (simp add: parse_multipart_part_def text_part_def directive_def strip_chars_def py_space_def)

lemma letters_distinct: "distinct_names letters"
proof -
  have path: "cache_path (cached_name (letters k) ext) = CSM_TMP_FILE_CACHE_DIR @ ''/'' @ cached_name (letters k) ext" for k ext
    by (cases k) (auto simp: cache_path_def path_join_def cached_name_def letters_def CSM_TMP_FILE_CACHE_DIR_def)
  have "length (takeWhile (\<lambda>c. c = CHR ''a'') (cached_name (letters k) ext)) = k" for k ext
    by (simp add: cached_name_def letters_def takeWhile_append2 takeWhile_tail)
  then show ?thesis unfolding distinct_names_def path by (metis same_append_eq)
qed

lemmas upload_eval = parse_multipart_request_def parse_field_def cache_new_file_def make_directory_def write_chunck_def
  check_file_uuid_def safe_extension_def get_extension_def py_isalnum_def py_alnum_char_def act_simps




theorem upload_stored_witness:
  "\<exists>results c'. parse_multipart_request calm_os 9 9 (Some ''multipart/form-data; boundary=b'') (Inr [text_part, file_part]) empty_cache
       = (Inr results, c')
     \<and> list_all2 (part_stored calm_os 9 9 c') [text_part, file_part] results
     \<and> dict_keys results = [''note'', ''image''] \<and> received (pt_chunks file_part) = [1, 2, 3, 4]"
proof -
  let ?run = "parse_multipart_request calm_os 9 9 (Some ''multipart/form-data; boundary=b'') (Inr [text_part, file_part]) empty_cache"
  have "\<exists>results. fst ?run = Inr results \<and> dict_keys results = [''note'', ''image'']"
    by (simp add: upload_eval file_part_names text_part_names calm_os_def empty_cache_def path_exists_def set_files_def)
      (simp add: file_part_def text_part_def sublist_code upload_eval set_files_def)
  then obtain results c' where run: "?run = (Inr results, c')" and keys: "dict_keys results = [''note'', ''image'']"
    by (cases ?run) auto
  have "distinct_names (fc_supply empty_cache)" by (simp add: empty_cache_def letters_distinct)
  from upload_stored [OF this run] run keys show ?thesis by (auto simp: file_part_def)
qed

text \<open>The name a client gives to a file is not checked: an absolute name leaves the directory, for a saved as for
  a downloaded file.\<close>

lemma name_leaves_directory: "prefix ''/'' filename \<Longrightarrow> path_join dir filename = filename"
  by (simp add: path_join_def)

theorem download_anywhere:
  "prefix ''/'' filename \<Longrightarrow> fs_files d filename \<noteq> None \<Longrightarrow> get_file_response d ftype filename = Inr (filename, filename)"
  by (simp add: get_file_response_def name_leaves_directory)

end
