(* ===== verification/Cli.thy ===== *)
theory Cli
  imports Api_Correct
begin

text \<open>
  The command line: \<open>CsmRestClient\<close> with its two kinds of requests (\<^verbatim>\<open>csm/cli/csm_client.py\<close>) and the
  interactive shell \<open>CortxCli\<close> (\<^verbatim>\<open>csm/cli/cortxcli.py\<close>), with the loop of Python's \<open>cmd.Cmd\<close> and the part of
  \<open>shlex.split\<close> it uses. What the packages outside provide is the record \<open>cli_env\<close>: \<open>aiohttp\<close>, the decoder of
  JSON, and from \<open>cortx.utils\<close> the factory of commands, the question to the user, and the client for commands that
  need no server. At the end the shell is composed with the agent of the other theories.
\<close>

section \<open>Requests\<close>

text \<open>What ends a piece of code: an \<open>Exception\<close>, the exit of the interpreter, or Ctrl-C.\<close>

datatype shell_exn = Raised exn | SystemExit | KeyboardInterrupt

type_synonym json_object = "(pyval \<times> pyval) list"
type_synonym options = "(string, pyval) dict"

record rest_request =
  rr_method :: string
  rr_url :: string
  rr_headers :: "(string \<times> string) list"
  rr_params :: json_object
  rr_json :: json_object

record rest_reply =
  rp_text :: string
  rp_headers :: "(string \<times> string) list"
  rp_status :: int

text \<open>A command as the factory builds it. Its target is a format string, given as its literal texts and
  the names of its replacement fields.\<close>

datatype format_piece = Literal string | Replacement string

record command =
  cmd_name :: string
  cmd_sub_command_name :: string
  cmd_method :: string
  cmd_target :: "format_piece list"
  cmd_options :: options
  cmd_comm :: options
  cmd_need_confirmation :: bool
  cmd_process_response :: "int \<Rightarrow> pyval \<Rightarrow> shell_exn + string"

text \<open>The environment. \<open>ce_send\<close> and \<open>ce_direct\<close> wait for somebody else; \<open>None\<close> is the user's Ctrl-C while they
  do. \<open>ce_loads\<close> is \<open>json.loads\<close>, with \<open>None\<close> for a \<open>ValueError\<close>, and \<open>ce_str\<close> the text of a value that is not a
  string.\<close>

record 'w cli_env =
  ce_url :: string
  ce_address :: string
  ce_send :: "rest_request \<Rightarrow> ('w, exn option, rest_reply) act"
  ce_loads :: "string \<Rightarrow> pyval option"
  ce_str :: "pyval \<Rightarrow> string"
  ce_get_command :: "string list \<Rightarrow> json_object \<Rightarrow> shell_exn + command"
  ce_confirm :: "string \<Rightarrow> shell_exn + bool"
  ce_direct :: "command \<Rightarrow> ('w, exn option, (int \<times> pyval) option) act"
  ce_alert :: string
  ce_help :: "string \<Rightarrow> string"

definition waiting :: "('w, exn option, 'a) act \<Rightarrow> ('w, shell_exn, 'a) act" where
  "waiting m w =
     (case m w of
        (Inl None, w') \<Rightarrow> (Inl KeyboardInterrupt, w')
      | (Inl (Some e), w') \<Rightarrow> (Inl (Raised e), w')
      | (Inr x, w') \<Rightarrow> (Inr x, w'))"

text \<open>\<open>except E\<close> for a class of \<^verbatim>\<open>errors.py\<close>.\<close>

definition is_raised :: "csm_class \<Rightarrow> shell_exn \<Rightarrow> bool" where
  "is_raised c x = (case x of Raised e \<Rightarrow> is_csm c e | _ \<Rightarrow> False)"

text \<open>The clause for \<open>ClientConnectionError\<close>. Of its subclasses only \<open>ClientConnectorError\<close> has the attributes \<open>host\<close>
  and \<open>port\<close>. The code of the error is passed in the place of the description (here its text), the description
  in the place of the message id.\<close>

definition connection_error :: "'w cli_env \<Rightarrow> shell_exn \<Rightarrow> shell_exn" where
  "connection_error E x =
     (case x of
        Raised (ClientConnectorError _) \<Rightarrow>
          Raised (mk_csm CsmServiceNotAvailable CSM_SERVICE_NOT_AVAILABLE (Some ''4100'')
            (Some (''Cannot connect to csm agent's host '' @ ce_address E)) None)
      | Raised ServerDisconnectedError \<Rightarrow> Raised AttributeError
      | Raised ClientOSError \<Rightarrow> Raised AttributeError
      | _ \<Rightarrow> x)"

definition send_request :: "'w cli_env \<Rightarrow> rest_request \<Rightarrow> ('w, shell_exn, rest_reply) act" where
  "send_request E rq = catch_act (waiting (ce_send E rq)) (\<lambda>x. throw (connection_error E x))"

text \<open>\<open>RestRequest.format\<close>: the keys of the template with the values of the options, where there are any. The
  template is subscripted for every key, so anything but a dictionary fails unless it is empty.\<close>

definition format_section :: "options \<Rightarrow> options \<Rightarrow> string \<Rightarrow> exn + json_object" where
  "format_section given rest key =
     (case dict_get rest key of
        None \<Rightarrow> Inr []
      | Some (PDict d) \<Rightarrow>
          Inr (map (\<lambda>(k, v). (k, case k of PStr s \<Rightarrow> dict_get_default given s v | _ \<Rightarrow> v)) d)
      | Some v \<Rightarrow> if v = PList [] \<or> v = PStr [] then Inr [] else Inl TypeError)"

definition without_none :: "json_object \<Rightarrow> json_object" where
  "without_none d = filter (\<lambda>(k, v). v \<noteq> PNone) d"

fun format_pieces :: "'w cli_env \<Rightarrow> options \<Rightarrow> format_piece list \<Rightarrow> exn + string" where
  "format_pieces E kw [] = Inr []"
| "format_pieces E kw (Literal s # ps) = bind_sum (format_pieces E kw ps) (\<lambda>t. Inr (s @ t))"
| "format_pieces E kw (Replacement k # ps) =
     (case dict_get kw k of
        None \<Rightarrow> Inl KeyError
      | Some v \<Rightarrow> bind_sum (format_pieces E kw ps)
          (\<lambda>t. Inr ((case v of PStr s \<Rightarrow> s | _ \<Rightarrow> ce_str E v) @ t)))"

text \<open>\<open>url.format(**rest, **options)\<close>: a key in both is a \<open>TypeError\<close>.\<close>

definition format_url :: "'w cli_env \<Rightarrow> command \<Rightarrow> exn + string" where
  "format_url E cmd =
     (if list_ex (\<lambda>k. k \<in> set (dict_keys (cmd_options cmd))) (dict_keys (cmd_comm cmd)) then Inl TypeError
      else bind_sum (format_pieces E (cmd_comm cmd @ cmd_options cmd) (cmd_target cmd)) (\<lambda>t. Inr (ce_url E @ t)))"

definition rest_request_of :: "'w cli_env \<Rightarrow> (string \<times> string) list \<Rightarrow> command \<Rightarrow> exn + rest_request" where
  "rest_request_of E headers cmd =
     bind_sum (format_section (cmd_options cmd) (cmd_comm cmd) ''params'') (\<lambda>params.
     bind_sum (format_section (cmd_options cmd) (cmd_comm cmd) ''json'') (\<lambda>body.
     bind_sum (format_url E cmd) (\<lambda>url.
     Inr \<lparr>rr_method = cmd_method cmd, rr_url = url, rr_headers = headers,
          rr_params = without_none params, rr_json = without_none body\<rparr>)))"


section \<open>The REST client\<close>

definition not_authorized :: shell_exn where
  "not_authorized = Raised (mk_csm CsmUnauthorizedError CSM_UNAUTHORIZED_ERROR (Some ''13'')
     (Some ''You are not authorized to run cli commands.'') None)"

definition could_not_parse :: shell_exn where
  "could_not_parse = Raised (mk_CsmError 22 (Some ''Could not parse the response''))"

text \<open>The reading of a reply, common to both kinds of requests.\<close>

definition read_reply :: "'w cli_env \<Rightarrow> rest_reply \<Rightarrow> shell_exn + (int \<times> pyval) \<times> (string \<times> string) list" where
  "read_reply E r =
     (if rp_status r = 401 then Inl not_authorized
      else case ce_loads E (rp_text r) of
             None \<Rightarrow> Inl could_not_parse
           | Some data \<Rightarrow> Inr ((rp_status r, data), rp_headers r))"

definition process_direct_request ::
  "'w cli_env \<Rightarrow> string \<Rightarrow> (string \<times> string) list \<Rightarrow> string \<Rightarrow> json_object \<Rightarrow> json_object
     \<Rightarrow> ('w, shell_exn, (int \<times> pyval) \<times> (string \<times> string) list) act" where
  "process_direct_request E url headers meth params body =
     bind_act (send_request E \<lparr>rr_method = meth, rr_url = ce_url E @ url, rr_headers = headers,
                               rr_params = params, rr_json = body\<rparr>) (\<lambda>r.
     of_sum (read_reply E r))"

definition client_call ::
  "'w cli_env \<Rightarrow> command \<Rightarrow> (string \<times> string) list \<Rightarrow> ('w, shell_exn, (int \<times> pyval) \<times> (string \<times> string) list) act" where
  "client_call E cmd headers =
     bind_act (of_sum (case rest_request_of E headers cmd of Inl e \<Rightarrow> Inl (Raised e) | Inr rq \<Rightarrow> Inr rq)) (\<lambda>rq.
     bind_act (send_request E rq) (\<lambda>r. of_sum (read_reply E r)))"

definition response_failed :: "int \<Rightarrow> bool" where
  "response_failed rc \<longleftrightarrow> rc \<notin> {200, 201}"

text \<open>The token of a reply to a login, \<open>None\<close> for \<open>False\<close>.\<close>

definition login_token :: "int \<Rightarrow> (string \<times> string) list \<Rightarrow> shell_exn + string option" where
  "login_token rc headers =
     (let token = split_on (CHR '' '') (case headers_get headers ''Authorization'' of None \<Rightarrow> [] | Some h \<Rightarrow> h) in
      if response_failed rc \<and> length token \<noteq> 2 \<and> token ! 0 \<noteq> ''Bearer'' then Inr None
      else if length token < 2 then Inl (Raised (OtherException ''IndexError''))
      else Inr (Some (token ! 1)))"

definition client_login :: "'w cli_env \<Rightarrow> string \<Rightarrow> string \<Rightarrow> ('w, shell_exn, string option) act" where
  "client_login E username password =
     bind_act
       (catch_act
          (bind_act (process_direct_request E ''/v1/login'' [] ''POST'' []
             [(PStr ''username'', PStr username), (PStr ''password'', PStr password)]) (\<lambda>r. ret (Some r)))
          (\<lambda>x. if is_raised CsmError x then ret None else throw x))
       (\<lambda>r. case r of None \<Rightarrow> ret None | Some (response, headers) \<Rightarrow> of_sum (login_token (fst response) headers))"

definition client_logout :: "'w cli_env \<Rightarrow> (string \<times> string) list \<Rightarrow> ('w, shell_exn, bool) act" where
  "client_logout E headers =
     bind_act
       (catch_act
          (bind_act (process_direct_request E ''/v1/logout'' headers ''POST'' [] []) (\<lambda>_. ret ()))
          (\<lambda>x. case x of Raised _ \<Rightarrow> ret () | _ \<Rightarrow> throw x))
       (\<lambda>_. ret True)"

definition client_permissions :: "'w cli_env \<Rightarrow> (string \<times> string) list \<Rightarrow> ('w, shell_exn, pyval) act" where
  "client_permissions E headers =
     bind_act (process_direct_request E ''/v1/permissions'' headers ''GET'' [] []) (\<lambda>(response, _).
     if response_failed (fst response)
     then throw (Raised (mk_CsmError 13 (Some ''Could not get permissions from server, check session'')))
     else of_sum (case py_getitem (snd response) ''permissions'' of Inl e \<Rightarrow> Inl (Raised e) | Inr v \<Rightarrow> Inr v))"


section \<open>Splitting of lines\<close>

text \<open>\<open>shlex.split\<close> (POSIX mode, no comments): blanks separate words, quotes group, a backslash escapes the next
  character; within double quotes only a backslash and the quote itself. The mode after an escape is its argument.\<close>

datatype shlex_mode = Blank | Word | Quoted char | Escaped shlex_mode

definition shlex_space :: "char \<Rightarrow> bool" where
  "shlex_space c \<longleftrightarrow> c \<in> {CHR '' '', CHR 0x09, CHR 0x0A, CHR 0x0D}"

definition shlex_quote :: "char \<Rightarrow> bool" where
  "shlex_quote c \<longleftrightarrow> c = CHR 0x27 \<or> c = CHR 0x22"

text \<open>\<open>quoted\<close> tells whether a quote was seen in the word \<open>token\<close>: an empty word counts only with quotes.\<close>

fun shlex_words :: "shlex_mode \<Rightarrow> bool \<Rightarrow> string \<Rightarrow> string \<Rightarrow> exn + string list" where
  "shlex_words (Quoted q) quoted token [] = Inl (ValueError ''No closing quotation'')"
| "shlex_words (Escaped m) quoted token [] = Inl (ValueError ''No escaped character'')"
| "shlex_words Blank quoted token [] = Inr (if token \<noteq> [] \<or> quoted then [token] else [])"
| "shlex_words Word quoted token [] = Inr (if token \<noteq> [] \<or> quoted then [token] else [])"
| "shlex_words (Quoted q) quoted token (c # cs) =
     (if c = q then shlex_words Word True token cs
      else if c = CHR 0x5C \<and> q = CHR 0x22 then shlex_words (Escaped (Quoted q)) True token cs
      else shlex_words (Quoted q) True (token @ [c]) cs)"
| "shlex_words (Escaped m) quoted token (c # cs) =
     (case m of
        Quoted q \<Rightarrow> shlex_words m quoted (if c \<noteq> CHR 0x5C \<and> c \<noteq> q then token @ [CHR 0x5C, c] else token @ [c]) cs
      | _ \<Rightarrow> shlex_words m quoted (token @ [c]) cs)"
| "shlex_words m quoted token (c # cs) =
     (if shlex_space c
      then (if token \<noteq> [] \<or> quoted
            then bind_sum (shlex_words Blank False [] cs) (\<lambda>ws. Inr (token # ws))
            else shlex_words Blank quoted token cs)
      else if c = CHR 0x5C then shlex_words (Escaped Word) quoted token cs
      else if shlex_quote c then shlex_words (Quoted c) quoted token cs
      else shlex_words Word quoted (token @ [c]) cs)"

definition shlex_split :: "string \<Rightarrow> exn + string list" where
  "shlex_split line = shlex_words Blank False [] line"


section \<open>The shell\<close>

record 'w shell =
  sh_args :: "string list"
  sh_username :: string
  sh_token :: "string option"
  sh_headers :: "(string \<times> string) list"
  sh_permissions :: json_object
  sh_out :: string
  sh_err :: string
  sh_world :: 'w

type_synonym ('w, 'a) shell_act = "('w shell, shell_exn, 'a) act"

text \<open>\<open>loop.run_until_complete\<close>: the client works on the world outside.\<close>

definition run_until_complete :: "('w, shell_exn, 'a) act \<Rightarrow> ('w, 'a) shell_act" where
  "run_until_complete m = within sh_world (\<lambda>w s. s\<lparr>sh_world := w\<rparr>) m"

definition write_out :: "string \<Rightarrow> ('w, unit) shell_act" where
  "write_out out = modify_act (\<lambda>s. s\<lparr>sh_out := sh_out s @ out\<rparr>)"

definition newline :: string where "newline = [CHR 0x0A]"

definition has_token :: "'w shell \<Rightarrow> bool" where
  "has_token s \<longleftrightarrow> sh_token s \<noteq> None \<and> sh_token s \<noteq> Some []"

definition do_exit :: "'w cli_env \<Rightarrow> string \<Rightarrow> ('w, 'a) shell_act" where
  "do_exit E args =
     bind_act (if args \<noteq> [] then write_out (args @ newline) else ret ()) (\<lambda>_.
     bind_act (gets has_token) (\<lambda>logged_in.
     bind_act (if logged_in
               then bind_act (gets sh_headers) (\<lambda>headers.
                    bind_act (run_until_complete (client_logout E headers)) (\<lambda>is_logged_out.
                    bind_act (modify_act (\<lambda>s. s\<lparr>sh_headers := []\<rparr>)) (\<lambda>_.
                    write_out (ce_alert E))))
               else ret ()) (\<lambda>_.
     throw SystemExit)))"

definition some_error_occured :: string where
  "some_error_occured = ''Some error occurred.'' @ newline @ ''Please try login again.'' @ newline"

definition session_expired_error :: string where
  "session_expired_error = ''Session expired.'' @ newline @ ''Please try login again.'' @ newline"

definition server_down :: string where
  "server_down = ''CSM service is not found.'' @ newline @ ''Please check whether CSM is running.'' @ newline"

text \<open>\<open>dict.update\<close> with a decoded value: a dictionary, or an iterable of pairs. The pairs added before a failure
  are not kept here; the shell ends then.\<close>

definition hashable :: "pyval \<Rightarrow> bool" where
  "hashable v \<longleftrightarrow> (case v of PList _ \<Rightarrow> False | PDict _ \<Rightarrow> False | _ \<Rightarrow> True)"

fun update_pairs :: "json_object \<Rightarrow> pyval list \<Rightarrow> exn + json_object" where
  "update_pairs d [] = Inr d"
| "update_pairs d (x # xs) =
     bind_sum (py_iter x) (\<lambda>kv.
       case kv of
         [k, v] \<Rightarrow> if hashable k then update_pairs (dict_set k v d) xs else Inl TypeError
       | _ \<Rightarrow> Inl (ValueError ''dictionary update sequence element''))"

definition dict_update :: "json_object \<Rightarrow> pyval \<Rightarrow> exn + json_object" where
  "dict_update d v =
     (case v of
        PDict new \<Rightarrow> Inr (fold (\<lambda>(k, x). dict_set k x) new d)
      | _ \<Rightarrow> bind_sum (py_iter v) (update_pairs d))"

definition update_permissions :: "pyval \<Rightarrow> ('w, unit) shell_act" where
  "update_permissions response =
     (if truthy response
      then bind_act (gets sh_permissions) (\<lambda>d.
           bind_act (of_sum (case dict_update d response of Inl e \<Rightarrow> Inl (Raised e) | Inr d' \<Rightarrow> Inr d')) (\<lambda>d'.
           modify_act (\<lambda>s. s\<lparr>sh_permissions := d'\<rparr>)))
      else ret ())"

definition bearer_header :: "string \<Rightarrow> (string \<times> string) list" where
  "bearer_header token = [(''Authorization'', ''Bearer '' @ token)]"

text \<open>\<open>login\<close>, with what the user types at the two prompts (Ctrl-C and the end of the input are exceptions). An
  error of the server after the login only goes to the log.\<close>

definition shell_login :: "'w cli_env \<Rightarrow> shell_exn + string \<Rightarrow> shell_exn + string \<Rightarrow> ('w, unit) shell_act" where
  "shell_login E name_typed password_typed =
     catch_act
       (bind_act (of_sum name_typed) (\<lambda>name.
        bind_act (modify_act (\<lambda>s. s\<lparr>sh_username := strip_chars py_space name\<rparr>)) (\<lambda>_.
        if strip_chars py_space name \<noteq> []
        then bind_act (of_sum password_typed) (\<lambda>password.
             bind_act (run_until_complete (client_login E (strip_chars py_space name) password)) (\<lambda>token.
             bind_act (modify_act (\<lambda>s. s\<lparr>sh_token := token\<rparr>)) (\<lambda>_.
             bind_act (gets has_token) (\<lambda>logged_in.
             bind_act (if \<not> logged_in then do_exit E ''Server authentication check failed.'' else ret ()) (\<lambda>_.
             bind_act (modify_act (\<lambda>s. s\<lparr>sh_headers := bearer_header (case token of None \<Rightarrow> [] | Some t \<Rightarrow> t)\<rparr>)) (\<lambda>_.
             bind_act (gets sh_headers) (\<lambda>headers.
             bind_act (run_until_complete (client_permissions E headers)) (\<lambda>response.
             update_permissions response))))))))
        else do_exit E ''Username wasn't provided.'')))
       (\<lambda>x. case x of
              Raised e \<Rightarrow> if is_csm CsmError e then ret () else do_exit E some_error_occured
            | KeyboardInterrupt \<Rightarrow> do_exit E []
            | SystemExit \<Rightarrow> throw SystemExit)"

text \<open>The reply of a command goes to the terminal.\<close>

definition show_response :: "command \<Rightarrow> int \<times> pyval \<Rightarrow> ('w, unit) shell_act" where
  "show_response cmd response =
     bind_act (of_sum (cmd_process_response cmd (fst response) (snd response))) write_out"

definition process_direct_command :: "'w cli_env \<Rightarrow> command \<Rightarrow> ('w, unit) shell_act" where
  "process_direct_command E cmd =
     bind_act (run_until_complete (waiting (ce_direct E cmd))) (\<lambda>response.
       case response of None \<Rightarrow> ret () | Some r \<Rightarrow> show_response cmd r)"

definition process_rest_command :: "'w cli_env \<Rightarrow> command \<Rightarrow> ('w, unit) shell_act" where
  "process_rest_command E cmd =
     bind_act (gets sh_headers) (\<lambda>headers.
     bind_act (run_until_complete (client_call E cmd headers)) (\<lambda>(response, _). show_response cmd response))"

definition protocol :: "'w cli_env \<Rightarrow> command \<Rightarrow> string" where
  "protocol E cmd =
     (case dict_get (cmd_comm cmd) ''type'' of None \<Rightarrow> [] | Some (PStr t) \<Rightarrow> t | Some v \<Rightarrow> ce_str E v)"

text \<open>The body of the \<open>try\<close> of \<open>default\<close>. The message about an unknown protocol does not end it: the attribute is
  looked up again.\<close>

definition run_command :: "'w cli_env \<Rightarrow> ('w, unit) shell_act" where
  "run_command E =
     bind_act (gets (\<lambda>s. ce_get_command E (sh_args s) (sh_permissions s))) (\<lambda>found. bind_act (of_sum found) (\<lambda>cmd.
     bind_act (if cmd_need_confirmation cmd
               then of_sum (ce_confirm E (cmd_name cmd @ '' '' @ cmd_sub_command_name cmd)) else ret True) (\<lambda>res.
     if \<not> res then ret ()
     else if protocol E cmd = ''direct'' then process_direct_command E cmd
     else if protocol E cmd = ''rest'' then process_rest_command E cmd
     else bind_act (modify_act (\<lambda>s. s\<lparr>sh_err := sh_err s @ ''Invalid communication protocol '' @ protocol E cmd @ '' selected.''\<rparr>))
            (\<lambda>_. throw (Raised AttributeError)))))"

definition default_command :: "'w cli_env \<Rightarrow> ('w, unit) shell_act" where
  "default_command E =
     catch_act (run_command E) (\<lambda>x.
       case x of
         Raised e \<Rightarrow>
           if is_csm CsmUnauthorizedError e
           then bind_act (modify_act (\<lambda>s. s\<lparr>sh_token := None\<rparr>)) (\<lambda>_. do_exit E session_expired_error)
           else if is_csm CsmServiceNotAvailable e
           then bind_act (modify_act (\<lambda>s. s\<lparr>sh_token := None\<rparr>)) (\<lambda>_. do_exit E server_down)
           else if is_csm CsmError e then ret ()
           else (case e of
                   VError desc \<Rightarrow> write_out (desc @ newline)
                 | _ \<Rightarrow> do_exit E some_error_occured)
       | SystemExit \<Rightarrow> ret ()
       | KeyboardInterrupt \<Rightarrow> do_exit E [])"

definition NO_AUTH_COMMANDS :: "string list" where
  "NO_AUTH_COMMANDS = [''support_bundle'', ''bundle_generate'', ''csm_bundle_generate'', ''-h'', ''--help'', ''system'']"

text \<open>The constructor and \<open>check_auth_required\<close>. Without arguments \<open>args\<close> is the text \<open>help\<close>, a sequence of its
  letters. \<open>defaults\<close> are the default permissions.\<close>

definition shell_init :: "string list \<Rightarrow> json_object \<Rightarrow> 'w \<Rightarrow> 'w shell" where
  "shell_init argv defaults w =
     \<lparr>sh_args = (if length argv > 1 then tl argv else map (\<lambda>c. [c]) ''help''), sh_username = [], sh_token = None,
      sh_headers = [], sh_permissions = defaults, sh_out = [], sh_err = [], sh_world = w\<rparr>"

definition check_auth_required :: "'w cli_env \<Rightarrow> shell_exn + string \<Rightarrow> shell_exn + string \<Rightarrow> ('w, unit) shell_act" where
  "check_auth_required E name_typed password_typed =
     bind_act (gets sh_args) (\<lambda>args.
       case args of
         [] \<Rightarrow> throw (Raised (OtherException ''IndexError''))
       | a # _ \<Rightarrow>
           if a \<notin> set NO_AUTH_COMMANDS then shell_login E name_typed password_typed
           else bind_act (default_command E) (\<lambda>_. do_exit E []))"

text \<open>One round of \<open>cmdloop\<close>: \<open>precmd\<close>, and the dispatch of \<open>cmd.Cmd.onecmd\<close> to the methods \<open>do_exit\<close> and \<open>do_help\<close>,
  the only ones of the shell; every other line goes to \<open>default\<close>.\<close>

datatype prompt = Line string | EndOfInput | Interrupt

definition precmd :: "string \<Rightarrow> ('w, unit) shell_act" where
  "precmd line =
     (if strip_chars py_space line = [] then ret ()
      else bind_act (of_sum (case shlex_split line of Inl e \<Rightarrow> Inl (Raised e) | Inr args \<Rightarrow> Inr args)) (\<lambda>args.
           modify_act (\<lambda>s. s\<lparr>sh_args := args\<rparr>)))"

definition identchar :: "char \<Rightarrow> bool" where
  "identchar c \<longleftrightarrow> (let n = of_char c :: nat in
     (48 \<le> n \<and> n \<le> 57) \<or> (65 \<le> n \<and> n \<le> 90) \<or> (97 \<le> n \<and> n \<le> 122) \<or> n = 95)"

definition onecmd :: "'w cli_env \<Rightarrow> string \<Rightarrow> ('w, unit) shell_act" where
  "onecmd E line =
     (let stripped = strip_chars py_space line;
          l = (case stripped of [] \<Rightarrow> [] | c # cs \<Rightarrow> if c = CHR ''?'' then ''help '' @ cs else stripped);
          cmd = takeWhile identchar l;
          arg = strip_chars py_space (dropWhile identchar l)
      in if l = [] then ret ()
         else if cmd = ''exit'' then do_exit E arg
         else if cmd = ''help'' then write_out (ce_help E arg)
         else default_command E)"

definition prompt_line :: "prompt \<Rightarrow> shell_exn + string" where
  "prompt_line p = (case p of Line l \<Rightarrow> Inr l | EndOfInput \<Rightarrow> Inr ''EOF'' | Interrupt \<Rightarrow> Inl KeyboardInterrupt)"

definition shell_round :: "'w cli_env \<Rightarrow> prompt \<Rightarrow> ('w, unit) shell_act" where
  "shell_round E p =
     bind_act (of_sum (prompt_line p)) (\<lambda>line.
     bind_act (precmd line) (\<lambda>_.
     onecmd E line))"

text \<open>\<open>cmdloop\<close>, for what the user does at the prompt: it returns only when the list is used up, and the shell
  still runs then.\<close>

definition cmdloop :: "'w cli_env \<Rightarrow> shell_exn + string \<Rightarrow> shell_exn + string \<Rightarrow> prompt list \<Rightarrow> ('w, unit) shell_act" where
  "cmdloop E name_typed password_typed ps =
     bind_act (check_auth_required E name_typed password_typed) (\<lambda>_. for_each (shell_round E) ps)"

text \<open>The main program: what the user sees when the loop ends, and whether Python shows a traceback.\<close>

definition main_program ::
  "'w cli_env \<Rightarrow> string list \<Rightarrow> json_object \<Rightarrow> shell_exn + string \<Rightarrow> shell_exn + string \<Rightarrow> prompt list
     \<Rightarrow> ('w, unit) shell_act" where
  "main_program E argv defaults name_typed password_typed ps =
     catch_act (cmdloop E name_typed password_typed ps) (\<lambda>x.
       case x of
         KeyboardInterrupt \<Rightarrow> write_out newline
       | Raised e \<Rightarrow>
           if is_csm InvalidRequest e then throw (Raised e)
           else modify_act (\<lambda>s. s\<lparr>sh_err := sh_err s @ some_error_occured\<rparr>)
       | SystemExit \<Rightarrow> throw SystemExit)"


section \<open>Tokens and lines\<close>

lemma login_token_no_blank:
  assumes "login_token rc headers = Inr (Some t)"
  shows "CHR '' '' \<notin> set t"
proof -
  let ?token = "split_on (CHR '' '') (case headers_get headers ''Authorization'' of None \<Rightarrow> [] | Some h \<Rightarrow> h)"
  from assms have "\<not> length ?token < 2" and t: "t = ?token ! 1"
    by (simp_all add: login_token_def Let_def split: if_splits)
  then have "t \<in> set ?token" by (simp add: nth_mem)
  then show ?thesis by (rule split_on_parts_free)
qed

lemma client_login_no_blank:
  assumes "client_login E username password w = (Inr (Some t), w')"
  shows "CHR '' '' \<notin> set t"
proof -
  from assms obtain rc headers where "login_token rc headers = Inr (Some t)"
    unfolding client_login_def by (elim bind_act_InrE) (auto simp: act_simps split: option.splits prod.splits)
  then show ?thesis by (rule login_token_no_blank)
qed

lemma shlex_error: "shlex_words m quoted token line = Inl e \<Longrightarrow> \<exists>msg. e = ValueError msg"
  by (induction m quoted token line rule: shlex_words.induct)
    (auto split: if_splits shlex_mode.splits)

text \<open>A line of plain words is split at its blanks.\<close>

definition plain_word :: "string \<Rightarrow> bool" where
  "plain_word w \<longleftrightarrow> w \<noteq> [] \<and> list_all (\<lambda>c. \<not> shlex_space c \<and> \<not> shlex_quote c \<and> c \<noteq> CHR 0x5C) w"

fun blank_separated :: "string list \<Rightarrow> string" where
  "blank_separated [] = []"
| "blank_separated [w] = w"
| "blank_separated (w # ws) = w @ CHR '' '' # blank_separated ws"

lemma shlex_word:
  "list_all (\<lambda>c. \<not> shlex_space c \<and> \<not> shlex_quote c \<and> c \<noteq> CHR 0x5C) w \<Longrightarrow>
     shlex_words Word quoted token (w @ cs) = shlex_words Word quoted (token @ w) cs"
  by (induction w arbitrary: token) auto

lemma shlex_first:
  assumes "plain_word w"
  shows "shlex_words Blank False [] (w @ cs) = shlex_words Word False w cs"
proof -
  from assms obtain c v where "w = c # v" "\<not> shlex_space c" "\<not> shlex_quote c" "c \<noteq> CHR 0x5C"
    "list_all (\<lambda>c. \<not> shlex_space c \<and> \<not> shlex_quote c \<and> c \<noteq> CHR 0x5C) v"
    by (cases w) (auto simp: plain_word_def)
  then show ?thesis using shlex_word [of v False "[c]" cs] by simp
qed

theorem shlex_round_trip: "list_all plain_word ws \<Longrightarrow> shlex_split (blank_separated ws) = Inr ws"
proof (induction ws rule: blank_separated.induct)
  case (2 w)
  then have "plain_word w" by simp
  from shlex_first [OF this, of "[]"] this show ?case by (simp add: shlex_split_def plain_word_def)
next
  case (3 w v ws)
  then have w: "plain_word w" "shlex_words Blank False [] (blank_separated (v # ws)) = Inr (v # ws)"
    by (simp_all add: shlex_split_def)
  from shlex_first [OF w(1), of "CHR '' '' # blank_separated (v # ws)"] w show ?case
    by (simp add: shlex_split_def plain_word_def shlex_space_def)
qed (simp add: shlex_split_def)

text \<open>The token of a login is taken although the reply failed, when the header has two parts, because the three
  tests are joined by \<open>and\<close>; and a success without the header is an \<open>IndexError\<close>.\<close>

theorem login_token_faults:
  "CHR '' '' \<notin> set t \<Longrightarrow> login_token 500 (bearer_header t) = Inr (Some t)"
  "login_token 200 [] = Inl (Raised (OtherException ''IndexError''))"
proof -
  assume "CHR '' '' \<notin> set t"
  then have "split_on (CHR '' '') (''Bearer'' @ CHR '' '' # t) = [''Bearer'', t]"
    by (subst split_on_append) (simp_all add: split_on_none)
  then show "login_token 500 (bearer_header t) = Inr (Some t)"
    by (simp add: login_token_def bearer_header_def headers_get_def)
qed (simp add: login_token_def headers_get_def response_failed_def)

text \<open>A command with an unknown protocol ends the shell: after the message the missing attribute is asked for.\<close>

theorem unknown_protocol_exits:
  assumes "ce_get_command E (sh_args s) (sh_permissions s) = Inr cmd" and "\<not> cmd_need_confirmation cmd"
    and "protocol E cmd \<notin> {''direct'', ''rest''}"
  shows "default_command E s = do_exit E some_error_occured
     (s\<lparr>sh_err := sh_err s @ ''Invalid communication protocol '' @ protocol E cmd @ '' selected.''\<rparr>)"
  using assms by (simp add: default_command_def run_command_def is_csm_def act_simps)


section \<open>What the shell keeps\<close>

text \<open>The interface of the shell to what it talks to: an invariant of the world that every request keeps,
  whatever comes of it.\<close>

locale shell_world =
  fixes E :: "'w cli_env" and I :: "'w \<Rightarrow> bool"
  assumes send_keeps: "keeps I (ce_send E rq)" and direct_keeps: "keeps I (ce_direct E cmd)"
begin

text \<open>A call of the client keeps the invariant and never ends the interpreter.\<close>

definition client_action :: "('w, shell_exn, 'a) act \<Rightarrow> bool" where
  "client_action m \<longleftrightarrow> spec I m (\<lambda>_. I) (\<lambda>x w. x \<noteq> SystemExit \<and> I w)"

lemma client_bind: "client_action m \<Longrightarrow> (\<And>x. client_action (f x)) \<Longrightarrow> client_action (bind_act m f)"
  unfolding client_action_def by (rule spec_bind)

lemma client_catch: "client_action m \<Longrightarrow> (\<And>x. x \<noteq> SystemExit \<Longrightarrow> client_action (h x)) \<Longrightarrow> client_action (catch_act m h)"
  unfolding client_action_def by (rule spec_catch, assumption) (auto simp: spec_def)

lemma client_ret: "client_action (ret x)"
  by (simp add: client_action_def spec_ret)

lemma client_throw: "x \<noteq> SystemExit \<Longrightarrow> client_action (throw x)"
  by (simp add: client_action_def spec_throw)

lemma client_of_sum: "r \<noteq> Inl SystemExit \<Longrightarrow> client_action (of_sum r)"
  unfolding client_action_def by (rule spec_of_sum) auto

lemma client_waiting: "keeps I m \<Longrightarrow> client_action (waiting m)"
  by (auto simp: client_action_def spec_def waiting_def dest: keepsD split: prod.splits sum.splits option.splits)

lemma connection_error_no_exit: "x \<noteq> SystemExit \<Longrightarrow> connection_error E x \<noteq> SystemExit"
  by (simp add: connection_error_def split: shell_exn.splits exn.splits)

lemmas client_rules = client_bind client_catch client_ret client_throw client_of_sum

lemma client_send: "client_action (send_request E rq)"
  unfolding send_request_def
  by (intro client_catch client_waiting send_keeps client_throw connection_error_no_exit)

lemma read_reply_no_exit: "read_reply E r \<noteq> Inl SystemExit"
  by (simp add: read_reply_def not_authorized_def could_not_parse_def split: option.splits)

lemma client_direct_request: "client_action (process_direct_request E url headers meth params body)"
  unfolding process_direct_request_def by (intro client_bind client_send client_of_sum read_reply_no_exit)

lemma client_operations:
  "client_action (client_login E username password)" "client_action (client_logout E headers)"
  "client_action (client_permissions E headers)" "client_action (client_call E cmd headers)"
proof -
  show "client_action (client_login E username password)"
    unfolding client_login_def
    by (intro client_rules client_direct_request)
      (auto intro!: client_rules simp: login_token_def Let_def split: option.splits)
  show "client_action (client_logout E headers)"
    unfolding client_logout_def
    by (intro client_rules client_direct_request) (auto intro!: client_rules split: shell_exn.splits)
  show "client_action (client_permissions E headers)"
    unfolding client_permissions_def
    by (intro client_rules client_direct_request) (auto intro!: client_rules split: sum.splits)
  show "client_action (client_call E cmd headers)"
    unfolding client_call_def
    by (intro client_rules client_send read_reply_no_exit) (auto split: sum.splits)
qed

text \<open>A token is in the header of every request; an exit with a token has logged out in the very last request.\<close>

definition shell_ok :: "'w shell \<Rightarrow> bool" where
  "shell_ok s \<longleftrightarrow> I (sh_world s) \<and>
     (\<forall>t. sh_token s = Some t \<longrightarrow> t \<noteq> [] \<longrightarrow> sh_headers s = bearer_header t \<and> CHR '' '' \<notin> set t)"

definition logged_out :: "'w shell \<Rightarrow> bool" where
  "logged_out s \<longleftrightarrow> (\<forall>t. sh_token s = Some t \<longrightarrow> t \<noteq> [] \<longrightarrow> CHR '' '' \<notin> set t \<and>
     (\<exists>w. I w \<and> sh_world s = snd (client_logout E (bearer_header t) w)))"

definition exit_ok :: "shell_exn \<Rightarrow> 'w shell \<Rightarrow> bool" where
  "exit_ok x s \<longleftrightarrow> x = SystemExit \<and> logged_out s \<or> x = KeyboardInterrupt"

lemma run_client:
  assumes "client_action m" and "\<And>s w. P s \<Longrightarrow> I w \<Longrightarrow> P (s\<lparr>sh_world := w\<rparr>)" and "\<And>s. P s \<Longrightarrow> I (sh_world s)"
  shows "spec P (run_until_complete m) (\<lambda>_. P) (\<lambda>x s. x \<noteq> SystemExit \<and> P s)"
  using assms unfolding spec_def client_action_def run_until_complete_def within_def
  by (auto split: prod.splits sum.splits) fastforce+

lemma shell_ok_world: "shell_ok s \<Longrightarrow> I w \<Longrightarrow> shell_ok (s\<lparr>sh_world := w\<rparr>)"
  by (simp add: shell_ok_def)

lemma shell_ok_I: "shell_ok s \<Longrightarrow> I (sh_world s)"
  by (simp add: shell_ok_def)

lemmas run_shell_client = run_client [where P = shell_ok, OF _ shell_ok_world shell_ok_I]

lemma logout_raises_nothing:
  assumes "client_logout E headers w = (Inl x, w')"
  shows "x \<noteq> Raised e"
proof -
  obtain r w1 where run: "process_direct_request E ''/v1/logout'' headers ''POST'' [] [] w = (r, w1)"
    by (cases "process_direct_request E ''/v1/logout'' headers ''POST'' [] [] w")
  show ?thesis
  proof (cases r)
    case (Inl y)
    with run assms show ?thesis by (cases y) (simp_all add: client_logout_def act_simps)
  next
    case (Inr y)
    with run assms show ?thesis by (simp add: client_logout_def act_simps)
  qed
qed

text \<open>The last steps of the shell as one state: what it wrote, and the world after the logout.\<close>

lemma do_exit_run:
  "\<exists>out. do_exit E args s =
     (if has_token s
      then (case client_logout E (sh_headers s) (sh_world s) of
              (Inl x, w) \<Rightarrow> (Inl x, s\<lparr>sh_out := out, sh_world := w\<rparr>)
            | (Inr _, w) \<Rightarrow> (Inl SystemExit, s\<lparr>sh_out := out @ ce_alert E, sh_world := w, sh_headers := []\<rparr>))
      else (Inl SystemExit, s\<lparr>sh_out := out\<rparr>))"
  by (rule exI [of _ "sh_out s @ (if args \<noteq> [] then args @ newline else [])"])
    (cases "client_logout E (sh_headers s) (sh_world s)";
      simp add: do_exit_def run_until_complete_def write_out_def has_token_def act_simps split: sum.split)

lemma do_exit_logout:
  assumes "has_token s" and "client_logout E (sh_headers s) (sh_world s) = (Inr b, w)"
  shows "\<exists>out. do_exit E args s = (Inl SystemExit, s\<lparr>sh_out := out, sh_world := w, sh_headers := []\<rparr>)"
  using do_exit_run [of args s] assms by auto

lemma do_exit_spec: "spec shell_ok (do_exit E args) Q exit_ok"
proof (rule specI)
  fix s s' and r :: "shell_exn + 'a" assume s: "shell_ok s" and run: "do_exit E args s = (r, s')"
  obtain out where eq: "(r, s') =
     (if has_token s
      then (case client_logout E (sh_headers s) (sh_world s) of
              (Inl x, w) \<Rightarrow> (Inl x, s\<lparr>sh_out := out, sh_world := w\<rparr>)
            | (Inr _, w) \<Rightarrow> (Inl SystemExit, s\<lparr>sh_out := out @ ce_alert E, sh_world := w, sh_headers := []\<rparr>))
      else (Inl SystemExit, s\<lparr>sh_out := out\<rparr>))"
    unfolding run [symmetric] using do_exit_run [of args s] by blast
  show "case r of Inr x \<Rightarrow> Q x s' | Inl x \<Rightarrow> exit_ok x s'"
  proof (cases "has_token s")
    case False
    with eq show ?thesis by (auto simp: exit_ok_def logged_out_def has_token_def)
  next
    case True
    then obtain t where t: "sh_token s = Some t" "t \<noteq> []" by (auto simp: has_token_def)
    with s have h: "sh_headers s = bearer_header t" "CHR '' '' \<notin> set t" and i: "I (sh_world s)"
      by (simp_all add: shell_ok_def)
    obtain r1 w where lo: "client_logout E (bearer_header t) (sh_world s) = (r1, w)"
      by (cases "client_logout E (bearer_header t) (sh_world s)")
    show ?thesis
    proof (cases r1)
      case (Inl x)
      from specD [OF client_operations(2) [unfolded client_action_def] i lo] Inl have "x \<noteq> SystemExit" by simp
      moreover have "\<And>e. x \<noteq> Raised e" using logout_raises_nothing lo Inl by simp
      ultimately have "x = KeyboardInterrupt" by (cases x) auto
      with eq True h lo Inl show ?thesis by (auto simp: exit_ok_def)
    next
      case (Inr x)
      with eq True h lo have s': "r = Inl SystemExit" "sh_world s' = w" "sh_token s' = sh_token s" by simp_all
      have "\<exists>v. I v \<and> w = snd (client_logout E (bearer_header t) v)"
        using i lo by (intro exI [of _ "sh_world s"]) simp
      with s' t h(2) show ?thesis by (simp add: exit_ok_def logged_out_def)
    qed
  qed
qed

lemma shell_ok_other [simp]:
  "shell_ok (s\<lparr>sh_out := out\<rparr>) = shell_ok s" "shell_ok (s\<lparr>sh_err := out\<rparr>) = shell_ok s"
  "shell_ok (s\<lparr>sh_args := args\<rparr>) = shell_ok s" "shell_ok (s\<lparr>sh_permissions := d\<rparr>) = shell_ok s"
  "shell_ok (s\<lparr>sh_username := name\<rparr>) = shell_ok s"
  by (simp_all add: shell_ok_def)

text \<open>Inside the \<open>try\<close> of a command any exception may occur, but the state stays in order.\<close>

abbreviation trying :: "('w, 'b) shell_act \<Rightarrow> bool" where
  "trying m \<equiv> spec shell_ok m (\<lambda>_. shell_ok) (\<lambda>_. shell_ok)"

lemma trying_bind: "trying m \<Longrightarrow> (\<And>x. trying (f x)) \<Longrightarrow> trying (bind_act m f)"
  by (rule spec_bind)

lemma trying_gets: "(\<And>x. trying (g x)) \<Longrightarrow> trying (bind_act (gets f) g)"
  by (rule spec_gets_bind) (auto intro: spec_pre)

lemma trying_modify: "(\<And>s. shell_ok s \<Longrightarrow> shell_ok (f s)) \<Longrightarrow> trying (modify_act f)"
  by (rule spec_modify)

lemma trying_of_sum: "trying (of_sum r)"
  by (rule spec_of_sum) auto

lemma trying_client: "client_action m \<Longrightarrow> trying (run_until_complete m)"
  by (rule spec_conseq [OF run_shell_client]) auto

lemma trying_ret: "trying (ret x)" and trying_throw: "trying (throw e)"
  by (auto intro: spec_ret spec_throw)

lemmas trying_rules = trying_gets trying_bind trying_modify trying_of_sum trying_ret trying_throw trying_client spec_if

lemma trying_write: "trying (write_out out)"
  unfolding write_out_def by (rule trying_modify) simp

lemma trying_show: "trying (show_response cmd response)"
  unfolding show_response_def by (intro trying_rules trying_write)

lemma trying_channels: "trying (process_direct_command E cmd)" "trying (process_rest_command E cmd)"
  unfolding process_direct_command_def process_rest_command_def
  by (auto intro!: trying_rules client_waiting direct_keeps client_operations trying_show spec_option)

lemma trying_command: "trying (run_command E)"
  unfolding run_command_def by (intro trying_rules trying_channels) simp

lemma trying_permissions: "trying (update_permissions response)"
  unfolding update_permissions_def by (intro trying_rules) simp

lemma default_spec: "spec shell_ok (default_command E) (\<lambda>_. shell_ok) exit_ok"
proof (unfold default_command_def, rule spec_catch [OF trying_command])
  fix x
  have forget: "spec shell_ok (bind_act (modify_act (\<lambda>s. s\<lparr>sh_token := None\<rparr>)) (\<lambda>_. do_exit E args))
      (\<lambda>_. shell_ok) exit_ok" for args
    by (rule spec_bind [where R = "\<lambda>_. shell_ok"])
      (auto intro!: spec_modify do_exit_spec simp: shell_ok_def)
  have out: "spec shell_ok (write_out out) (\<lambda>_. shell_ok) exit_ok" for out
    unfolding write_out_def by (rule spec_modify) simp
  show "spec shell_ok
     (case x of
         Raised e \<Rightarrow>
           if is_csm CsmUnauthorizedError e
           then bind_act (modify_act (\<lambda>s. s\<lparr>sh_token := None\<rparr>)) (\<lambda>_. do_exit E session_expired_error)
           else if is_csm CsmServiceNotAvailable e
           then bind_act (modify_act (\<lambda>s. s\<lparr>sh_token := None\<rparr>)) (\<lambda>_. do_exit E server_down)
           else if is_csm CsmError e then ret ()
           else (case e of
                   VError desc \<Rightarrow> write_out (desc @ newline)
                 | _ \<Rightarrow> do_exit E some_error_occured)
       | SystemExit \<Rightarrow> ret ()
       | KeyboardInterrupt \<Rightarrow> do_exit E []) (\<lambda>_. shell_ok) exit_ok"
    by (auto intro: forget out do_exit_spec spec_ret split: shell_exn.split exn.split)
qed

text \<open>Before the login there is no token. In the body of \<open>login\<close> an exit has nothing to log out from.\<close>

definition fresh_shell :: "'w shell \<Rightarrow> bool" where
  "fresh_shell s \<longleftrightarrow> I (sh_world s) \<and> sh_token s = None"

definition logging_in :: "shell_exn \<Rightarrow> 'w shell \<Rightarrow> bool" where
  "logging_in x s \<longleftrightarrow> (if x = SystemExit then logged_out s else shell_ok s)"

lemma exit_without_token: "spec (\<lambda>s. \<not> has_token s) (do_exit E args) Q logging_in"
proof (rule specI)
  fix s s' and r :: "shell_exn + 'a" assume "\<not> has_token s" and run: "do_exit E args s = (r, s')"
  with do_exit_run [of args s] obtain out where "(r, s') = (Inl SystemExit, s\<lparr>sh_out := out\<rparr>)"
    unfolding run [symmetric] by auto
  with \<open>\<not> has_token s\<close> show "case r of Inr x \<Rightarrow> Q x s' | Inl x \<Rightarrow> logging_in x s'"
    by (auto simp: logging_in_def logged_out_def has_token_def)
qed

lemma typed_spec:
  "(\<And>x. r = Inr x \<Longrightarrow> spec fresh_shell (f x) Q logging_in) \<Longrightarrow> spec fresh_shell (bind_act (of_sum r) f) Q logging_in"
  by (rule spec_bind_sum) (auto simp: fresh_shell_def logging_in_def logged_out_def shell_ok_def)

lemma server_login_spec:
  "spec fresh_shell (run_until_complete (client_login E name password))
     (\<lambda>token s. fresh_shell s \<and> (\<forall>t. token = Some t \<longrightarrow> CHR '' '' \<notin> set t)) logging_in"
proof -
  have "spec fresh_shell (run_until_complete (client_login E name password)) (\<lambda>_. fresh_shell) logging_in"
    by (rule spec_conseq [OF run_client [OF client_operations(1)]])
      (auto simp: fresh_shell_def logging_in_def shell_ok_def)
  then show ?thesis
    using client_login_no_blank
    by (fastforce simp: spec_def run_until_complete_def within_def split: prod.splits sum.splits)
qed

text \<open>From a received token to the permissions.\<close>

lemma after_login_spec:
  "spec (\<lambda>s. fresh_shell s \<and> (\<forall>t. token = Some t \<longrightarrow> CHR '' '' \<notin> set t))
     (bind_act (modify_act (\<lambda>s. s\<lparr>sh_token := token\<rparr>)) (\<lambda>_.
      bind_act (gets has_token) (\<lambda>logged_in.
      bind_act (if \<not> logged_in then do_exit E msg else ret ()) (\<lambda>_.
      bind_act (modify_act (\<lambda>s. s\<lparr>sh_headers := bearer_header (case token of None \<Rightarrow> [] | Some t \<Rightarrow> t)\<rparr>)) (\<lambda>_.
      bind_act (gets sh_headers) (\<lambda>headers.
      bind_act (run_until_complete (client_permissions E headers)) update_permissions))))))
     (\<lambda>_. shell_ok) logging_in"
proof -
  let ?R = "\<lambda>s. I (sh_world s) \<and> sh_token s = token \<and> (\<forall>t. token = Some t \<longrightarrow> CHR '' '' \<notin> set t)"
  have rest: "spec shell_ok (bind_act (gets sh_headers) (\<lambda>headers.
      bind_act (run_until_complete (client_permissions E headers)) update_permissions)) (\<lambda>_. shell_ok) logging_in"
  proof (rule spec_gets_bind, rule spec_bind)
    fix h
    show "spec (\<lambda>s. shell_ok s \<and> sh_headers s = h) (run_until_complete (client_permissions E h)) (\<lambda>_. shell_ok) logging_in"
      by (rule spec_pre, rule spec_conseq [OF run_shell_client [OF client_operations(3)]])
        (auto simp: logging_in_def)
    show "spec shell_ok (update_permissions v) (\<lambda>_. shell_ok) logging_in" for v
      by (rule specI) (auto simp: update_permissions_def logging_in_def act_simps split: sum.splits if_splits)
  qed
  have header: "spec (\<lambda>s. ?R s \<and> has_token s) (bind_act
      (modify_act (\<lambda>s. s\<lparr>sh_headers := bearer_header (case token of None \<Rightarrow> [] | Some t \<Rightarrow> t)\<rparr>)) (\<lambda>_.
      bind_act (gets sh_headers) (\<lambda>headers.
      bind_act (run_until_complete (client_permissions E headers)) update_permissions))) (\<lambda>_. shell_ok) logging_in"
    by (rule spec_bind [OF spec_modify rest]) (auto simp: shell_ok_def)
  have guard: "spec (\<lambda>s. ?R s \<and> has_token s = b) (if \<not> b then do_exit E msg else ret ())
      (\<lambda>_ s. ?R s \<and> has_token s) logging_in" for b
    by (rule spec_if; cases b) (auto intro: spec_ret spec_pre [OF exit_without_token])
  show ?thesis
    by (rule spec_bind [where R = "\<lambda>_. ?R"], rule spec_modify, simp add: fresh_shell_def,
        rule spec_gets_bind, rule spec_bind [OF guard header])
qed

lemma login_spec: "spec fresh_shell (shell_login E name_typed password_typed) (\<lambda>_. shell_ok) exit_ok"
  unfolding shell_login_def
proof (rule spec_catch [where Y = logging_in])
  have named: "spec fresh_shell (modify_act (\<lambda>s. s\<lparr>sh_username := u\<rparr>)) (\<lambda>_. fresh_shell) logging_in" for u
    by (rule spec_modify) (simp add: fresh_shell_def)
  have no_name: "spec fresh_shell (do_exit E msg) (\<lambda>_. shell_ok) logging_in" for msg
    by (rule spec_pre [OF exit_without_token]) (simp add: fresh_shell_def has_token_def)
  show "spec fresh_shell
       (bind_act (of_sum name_typed) (\<lambda>name.
        bind_act (modify_act (\<lambda>s. s\<lparr>sh_username := strip_chars py_space name\<rparr>)) (\<lambda>_.
        if strip_chars py_space name \<noteq> []
        then bind_act (of_sum password_typed) (\<lambda>password.
             bind_act (run_until_complete (client_login E (strip_chars py_space name) password)) (\<lambda>token.
             bind_act (modify_act (\<lambda>s. s\<lparr>sh_token := token\<rparr>)) (\<lambda>_.
             bind_act (gets has_token) (\<lambda>logged_in.
             bind_act (if \<not> logged_in then do_exit E ''Server authentication check failed.'' else ret ()) (\<lambda>_.
             bind_act (modify_act (\<lambda>s. s\<lparr>sh_headers := bearer_header (case token of None \<Rightarrow> [] | Some t \<Rightarrow> t)\<rparr>)) (\<lambda>_.
             bind_act (gets sh_headers) (\<lambda>headers.
             bind_act (run_until_complete (client_permissions E headers)) (\<lambda>response.
             update_permissions response))))))))
        else do_exit E ''Username wasn't provided.''))) (\<lambda>_. shell_ok) logging_in"
    by (rule typed_spec, rule spec_bind [OF named], rule spec_if, rule typed_spec,
        rule spec_bind [OF server_login_spec after_login_spec], rule no_name)
  fix x
  show "spec (logging_in x)
     (case x of
        Raised e \<Rightarrow> if is_csm CsmError e then ret () else do_exit E some_error_occured
      | KeyboardInterrupt \<Rightarrow> do_exit E []
      | SystemExit \<Rightarrow> throw SystemExit) (\<lambda>_. shell_ok) exit_ok"
  proof (cases x)
    case SystemExit
    then show ?thesis by (auto intro!: spec_throw simp: logging_in_def exit_ok_def)
  qed (auto intro: spec_pre [OF do_exit_spec] spec_ret simp: logging_in_def)
qed

text \<open>The whole loop. Beside the exits of the interpreter and Ctrl-C only the failure to split a line gets out.\<close>

definition ended :: "shell_exn \<Rightarrow> 'w shell \<Rightarrow> bool" where
  "ended x s \<longleftrightarrow> exit_ok x s \<or> (\<exists>msg. x = Raised (ValueError msg))"

lemma spec_ended: "spec P m Q exit_ok \<Longrightarrow> spec P m Q ended"
  by (erule spec_conseq) (auto simp: ended_def)

lemma round_spec: "spec shell_ok (shell_round E p) (\<lambda>_. shell_ok) ended"
proof -
  have line: "spec shell_ok (precmd l) (\<lambda>_. shell_ok) ended" for l
    by (rule specI) (auto simp: precmd_def act_simps ended_def shlex_split_def dest!: shlex_error split: if_splits sum.splits)
  have out: "spec shell_ok (write_out out) (\<lambda>_. shell_ok) ended" for out
    unfolding write_out_def by (rule spec_modify) simp
  have one: "spec shell_ok (onecmd E l) (\<lambda>_. shell_ok) ended" for l
    unfolding onecmd_def Let_def by (intro spec_if spec_ret out spec_ended [OF do_exit_spec] spec_ended [OF default_spec])
  show ?thesis
    unfolding shell_round_def
    by (rule spec_bind_sum, rule spec_bind [OF line one])
      (auto simp: prompt_line_def ended_def exit_ok_def split: prompt.splits)
qed

lemma cmdloop_spec:
  "spec (\<lambda>s. fresh_shell s \<and> sh_args s \<noteq> []) (cmdloop E name_typed password_typed ps) (\<lambda>_. shell_ok) ended"
proof -
  have pre: "fresh_shell s \<Longrightarrow> shell_ok s" for s by (simp add: fresh_shell_def shell_ok_def)
  have direct: "spec fresh_shell (bind_act (default_command E) (\<lambda>_. do_exit E [])) (\<lambda>_. shell_ok) exit_ok"
    by (rule spec_pre [OF spec_bind [OF default_spec do_exit_spec] pre])
  have auth: "spec (\<lambda>s. fresh_shell s \<and> sh_args s \<noteq> []) (check_auth_required E name_typed password_typed)
      (\<lambda>_. shell_ok) ended"
  proof (unfold check_auth_required_def, rule spec_gets_bind, rule spec_ended)
    fix args
    show "spec (\<lambda>s. (fresh_shell s \<and> sh_args s \<noteq> []) \<and> sh_args s = args)
      (case args of
         [] \<Rightarrow> throw (Raised (OtherException ''IndexError''))
       | a # _ \<Rightarrow>
           if a \<notin> set NO_AUTH_COMMANDS then shell_login E name_typed password_typed
           else bind_act (default_command E) (\<lambda>_. do_exit E [])) (\<lambda>_. shell_ok) exit_ok"
    proof (cases args)
      case Nil
      then show ?thesis by (auto intro: spec_throw)
    next
      case (Cons a as)
      have "spec fresh_shell (if a \<notin> set NO_AUTH_COMMANDS then shell_login E name_typed password_typed
           else bind_act (default_command E) (\<lambda>_. do_exit E [])) (\<lambda>_. shell_ok) exit_ok"
        by (rule spec_if [OF login_spec direct])
      then show ?thesis unfolding Cons list.case by (rule spec_pre) simp
    qed
  qed
  show ?thesis
    unfolding cmdloop_def by (rule spec_bind [OF auth spec_for_each [OF round_spec]])
qed

end

end
