(* ===== verification/Cli_Agent.thy ===== *)
theory Cli_Agent
  imports Cli
begin

text \<open>
  The shell and the agent together: the requests of the client reach the middlewares and the login views of the
  other theories, with the sessions in memory. What a request other than login and logout does is an argument.
\<close>

section \<open>The agent as the world of the shell\<close>

text \<open>\<open>ag_clock\<close> and \<open>ag_ids\<close> give the time of each request and the session id a login would take, \<open>ag_dumps\<close> is
  \<open>json.dumps\<close>.\<close>

type_synonym 'db agent_world = "('db, stg) csm_state \<times> nat"

record 'db csm_agent =
  ag_users :: "'db users_env"
  ag_roles :: role_manager
  ag_api :: api_env
  ag_conf :: session_conf
  ag_clock :: "nat \<Rightarrow> int"
  ag_ids :: "nat \<Rightarrow> string"
  ag_origin :: string
  ag_dumps :: "pyval \<Rightarrow> string"
  ag_other :: "int \<Rightarrow> request \<Rightarrow> (('db, stg) csm_state, exn, rest_reply handler_value) act"

definition http_request :: "string \<Rightarrow> rest_request \<Rightarrow> request" where
  "http_request origin rq =
     \<lparr>rq_method = rr_method rq, rq_path = drop (length origin) (rr_url rq), rq_query = [],
      rq_headers = rr_headers rq, rq_body = JsonBody (PDict (rr_json rq))\<rparr>"

definition login_request_of :: "json_object \<Rightarrow> login_request" where
  "login_request_of body =
     (case (dict_get body (PStr ''username''), dict_get body (PStr ''password'')) of
        (Some (PStr username), Some (PStr password)) \<Rightarrow> LoginRequest username password
      | _ \<Rightarrow> SchemaError ''Missing data for required field.'')"

definition json_reply :: "'db csm_agent \<Rightarrow> pyval \<Rightarrow> int \<Rightarrow> (string \<times> string) list \<Rightarrow> rest_reply" where
  "json_reply G v status headers = \<lparr>rp_text = ag_dumps G v, rp_headers = headers, rp_status = status\<rparr>"

definition agent_handler ::
  "'db csm_agent \<Rightarrow> nat \<Rightarrow> request \<Rightarrow> json_object \<Rightarrow> (('db, stg) csm_state, exn, rest_reply handler_value) act" where
  "agent_handler G n rq body =
     (if rq_method rq = ''POST'' \<and> rq_path rq = ''/api/v1/login''
      then bind_act (login_post (ag_users G) (ag_roles G) in_memory (ag_conf G) (ag_clock G n) (ag_ids G n)
                       (login_request_of body)) (\<lambda>resp.
           ret (HStream (json_reply G (PDict [(PStr ''reset_password'', case rsp_body resp of None \<Rightarrow> PNone | Some b \<Rightarrow> PBool b)])
                           200 (rsp_headers resp))))
      else if rq_method rq = ''POST'' \<and> rq_path rq = ''/api/v1/logout''
      then on_sessions (guarded (ag_api G) in_memory (ag_conf G) (ag_clock G n) rq (\<lambda>session.
             case session of
               None \<Rightarrow> throw AttributeError
             | Some s \<Rightarrow> bind_act (logout_post in_memory s) (\<lambda>_. ret (HStream (json_reply G (PDict []) 200 [])))))
      else ag_other G (ag_clock G n) rq)"

text \<open>An exception that leaves the middleware is answered by \<open>aiohttp\<close> with status 500 and a plain text.\<close>

definition http_answer_of :: "'db csm_agent \<Rightarrow> exn + rest_reply http_reply \<Rightarrow> rest_reply" where
  "http_answer_of G r =
     (case r of
        Inr (RStream reply) \<Rightarrow> reply
      | Inr (RJson v status) \<Rightarrow> json_reply G v status []
      | Inr (RFile path headers) \<Rightarrow> \<lparr>rp_text = [], rp_headers = headers, rp_status = 200\<rparr>
      | Inl _ \<Rightarrow> \<lparr>rp_text = ''500 Internal Server Error'', rp_headers = [], rp_status = 500\<rparr>)"

definition agent_send :: "'db csm_agent \<Rightarrow> rest_request \<Rightarrow> ('db agent_world, exn option, rest_reply) act" where
  "agent_send G rq w =
     (case rest_middleware (ag_api G) False (http_request (ag_origin G) rq)
             (agent_handler G (snd w) (http_request (ag_origin G) rq) (rr_json rq)) (fst w) of
        (r, c) \<Rightarrow> (Inr (http_answer_of G r), (c, Suc (snd w))))"

text \<open>\<open>LogoutView\<close> has no decorator: a session is required, and no permission.\<close>

definition LogoutView :: handler_info where
  "LogoutView = \<lparr>h_attrs = \<lparr>at_public = False, at_hybrid = False, at_permissions = None\<rparr>, h_is_view = True,
     h_methods = [(''post'', \<lparr>at_public = False, at_hybrid = False, at_permissions = None\<rparr>)]\<rparr>"

definition sessions_keyed :: "'db agent_world \<Rightarrow> bool" where
  "sessions_keyed w \<longleftrightarrow> im_ok (qs_store (cs_sessions (fst w)))"


section \<open>Every request keeps the store in order\<close>

abbreviation keyed :: "stg qsm \<Rightarrow> bool" where
  "keyed q \<equiv> im_ok (qs_store q)"

lemma keyed_store: "keeps im_ok m \<Longrightarrow> keeps keyed (on_store m)"
  by (simp add: keeps_def on_store_def within_def case_prod_beta)

lemma keyed_modify: "(\<And>q. qs_store (f q) = qs_store q) \<Longrightarrow> keeps keyed (modify_act f)"
  by (rule keeps_modify) simp

lemma in_memory_keeps:
  "keeps im_ok (be_get in_memory sid)" "keeps im_ok (be_get_all in_memory)"
  "keeps im_ok (be_store in_memory s)" "keeps im_ok (be_delete in_memory sid)"
  by (auto simp: keeps_def im_defs im_ok_set im_ok_pop)

lemma keyed_assign: "keeps keyed (assign_expiry in_memory s x)"
  unfolding assign_expiry_def
  by (rule keeps_modify) (auto simp: in_memory_def im_assign_expiry_def intro!: im_ok_set
      dest: im_ok_map_of split: option.splits)

lemma keyed_delete: "keeps keyed (q_delete in_memory sid)"
  unfolding q_delete_def by (intro keeps_intros keyed_store in_memory_keeps keyed_modify) simp

lemma keyed_get: "keeps keyed (q_get in_memory sid)" and keyed_get_all: "keeps keyed (q_get_all in_memory)"
  unfolding q_get_def q_get_all_def by (intro keyed_store in_memory_keeps)+

lemma keyed_remove_expired: "keeps keyed (q_remove_expired_sessions in_memory now)"
  unfolding q_remove_expired_sessions_def by (intro keeps_intros keyed_get_all keyed_delete)

lemma keyed_count: "keeps keyed (count_active_user in_memory C now uid)"
  unfolding count_active_user_def Let_def by (intro keeps_intros keyed_remove_expired keyed_modify) simp

lemma keyed_create: "keeps keyed (q_create in_memory C now sid creds perms)"
  unfolding q_create_def add_active_user_with_quota_def restore_active_users_def sm_create_def Let_def
  by (intro keeps_intros keyed_store in_memory_keeps keyed_count keyed_get_all keyed_delete keyed_modify) simp

lemma keyed_valid_session: "keeps keyed (valid_session_loop in_memory C now uid ss)"
  by (induction ss) (auto intro!: keeps_intros keyed_delete keyed_assign keyed_store in_memory_keeps
      simp: update_session_expiry_time_def q_update_def)

lemma keyed_auth: "keeps keyed (auth_session in_memory C now sid)"
  unfolding auth_session_def by (intro keeps_intros keyed_get keyed_delete keyed_assign)

definition agent_keyed :: "('db, stg) csm_state \<Rightarrow> bool" where
  "agent_keyed c \<longleftrightarrow> keyed (cs_sessions c)"

lemma agent_sessions: "keeps keyed m \<Longrightarrow> keeps agent_keyed (on_sessions m)"
  by (simp add: keeps_def on_sessions_def within_def agent_keyed_def case_prod_beta)

lemma agent_users: "keeps agent_keyed (on_users m)"
  by (simp add: keeps_def on_users_def within_def agent_keyed_def case_prod_beta)

lemma agent_login: "keeps agent_keyed (login_post E RM in_memory C now sid req)"
proof -
  have "keeps agent_keyed (login E RM in_memory C now sid uid password)" for uid password
    unfolding login_def is_valid_session_exists_def
    by (intro keeps_intros agent_sessions agent_users keyed_get_all keyed_valid_session keyed_create)
  then show ?thesis
    unfolding login_post_def by (cases req) (auto intro!: keeps_intros split: option.splits)
qed

lemma agent_logout:
  "keeps agent_keyed (on_sessions (guarded A in_memory C now rq (\<lambda>session.
      case session of None \<Rightarrow> throw AttributeError | Some s \<Rightarrow> bind_act (logout_post in_memory s) (\<lambda>_. ret v))))"
  unfolding guarded_def session_middleware_def permission_middleware_def validate_bearer_def logout_post_def
    logout_def Let_def
  by (intro agent_sessions keeps_intros keyed_auth keyed_delete) (simp add: keeps_throw split: exn.split)

lemma middleware_keeps: "keeps J handler \<Longrightarrow> keeps J (rest_middleware A down rq handler)"
  unfolding rest_middleware_def by (intro keeps_intros)

lemma agent_send_keeps:
  assumes "\<And>now rq. keeps agent_keyed (ag_other G now rq)"
  shows "keeps sessions_keyed (agent_send G rq)"
proof -
  have "keeps agent_keyed (agent_handler G n hrq body)" for n hrq body
    unfolding agent_handler_def by (intro keeps_if keeps_bind agent_login agent_logout keeps_ret assms)
  then have "keeps agent_keyed (rest_middleware (ag_api G) False hrq (agent_handler G n hrq body))" for n hrq body
    by (rule middleware_keeps)
  then show ?thesis
    by (simp add: keeps_def agent_send_def sessions_keyed_def agent_keyed_def case_prod_beta)
qed


section \<open>Logging out\<close>

lemma logout_world:
  "snd (client_logout E headers w) =
     snd (ce_send E \<lparr>rr_method = ''POST'', rr_url = ce_url E @ ''/v1/logout'', rr_headers = headers,
                     rr_params = [], rr_json = []\<rparr> w)"
  by (simp add: client_logout_def process_direct_request_def send_request_def waiting_def act_simps case_prod_beta
      split: sum.split option.split shell_exn.split)

lemma logout_returns:
  assumes "ce_send E \<lparr>rr_method = ''POST'', rr_url = ce_url E @ ''/v1/logout'', rr_headers = headers,
                     rr_params = [], rr_json = []\<rparr> w = (Inr reply, w')"
  shows "client_logout E headers w = (Inr True, w')"
  using assms
  by (simp add: client_logout_def process_direct_request_def send_request_def waiting_def read_reply_def
      not_authorized_def could_not_parse_def act_simps split: option.split)

lemma middleware_world:
  "logged_body rq = Inr b \<Longrightarrow> snd (rest_middleware A False rq handler c) = snd (handler c)"
  by (simp add: rest_middleware_def act_simps case_prod_beta split: sum.split option.split)

lemma bearer_read:
  assumes "CHR '' '' \<notin> set t"
  shows "extract_bearer (bearer_header t) = Inr t"
proof -
  have "split_on (CHR '' '') (''Bearer'' @ CHR '' '' # t) = [''Bearer'', t]"
    using assms by (subst split_on_append) (simp_all add: split_on_none)
  then show ?thesis by (simp add: extract_bearer_def headers_get_def bearer_header_def HDR_def AUTH_TYPE_def)
qed

lemma present_key: "dict_get d k = Some v \<Longrightarrow> k \<in> set (dict_keys d)"
  by (rule ccontr) (simp add: dict_get_None_iff [symmetric] del: set_map)

lemma delete_in_memory:
  assumes "dict_get (qs_store q) t = Some s"
  shows "fst (q_delete in_memory t q) = Inr ()" and "dict_get (qs_store (snd (q_delete in_memory t q))) t = None"
  using assms present_key [OF assms] by (simp_all add: q_delete_def on_store_def act_simps im_defs del: set_map)

lemma auth_in_memory:
  assumes ok: "im_ok (qs_store q)" and run: "auth_session in_memory C now t q = (r, q')"
  shows "(case r of Inl e \<Rightarrow> dict_get (qs_store q') t = None
     | Inr s \<Rightarrow> session_id s = t \<and> (\<exists>s'. dict_get (qs_store q') t = Some s'))"
proof (cases "dict_get (qs_store q) t")
  case None
  with run show ?thesis by (auto simp: auth_session_def q_get_def on_store_def act_simps im_defs)
next
  case (Some s)
  note id = im_ok_map_of [OF ok Some]
  have get: "q_get in_memory t q = (Inr (Some s), q)" using Some by (simp add: q_get_def on_store_def act_simps im_defs)
  show ?thesis
  proof (cases "now > expiry_time s")
    case True
    obtain q1 where del: "q_delete in_memory t q = (Inr (), q1)" "dict_get (qs_store q1) t = None"
      using delete_in_memory [OF Some] by (cases "q_delete in_memory t q") simp
    with get True run show ?thesis by (auto simp: auth_session_def bind_act_def throw_app)
  next
    case False
    with get run Some id show ?thesis
      by (auto simp: auth_session_def bind_act_def ret_app assign_expiry_def modify_app in_memory_def im_assign_expiry_def)
  qed
qed

lemma guarded_logout:
  assumes "im_ok (qs_store q)" and "request_is_public A rq = Inr False" and "extract_bearer (rq_headers rq) = Inr t"
    and "required_permissions A rq = []"
  shows "dict_get (qs_store (snd (guarded A in_memory C now rq (\<lambda>session.
      case session of None \<Rightarrow> throw AttributeError | Some s \<Rightarrow> bind_act (logout_post in_memory s) (\<lambda>_. ret v)) q))) t = None"
proof -
  obtain r q' where auth: "auth_session in_memory C now t q = (r, q')" by (cases "auth_session in_memory C now t q")
  show ?thesis
  proof (cases r)
    case (Inl e)
    with auth_in_memory [OF assms(1) auth] auth show ?thesis unfolding guarded_token [OF assms(2,3)] by simp
  next
    case (Inr s)
    with auth_in_memory [OF assms(1) auth] obtain s' where s: "session_id s = t" "dict_get (qs_store q') t = Some s'"
      by auto
    have "perm_eq (perm_and (session_permissions s) []) []" by (simp add: perm_eq_def perm_and_def)
    with Inr auth s(1) delete_in_memory [OF s(2)] show ?thesis
      unfolding guarded_token [OF assms(2,3)]
      by (simp add: permission_middleware_def assms(4) logout_post_def logout_def act_simps case_prod_beta
          split: sum.split)
  qed
qed

lemma agent_logout_removes:
  assumes "sessions_keyed w" and "CHR '' '' \<notin> set t" and "ce_send E = agent_send G" and "ce_url E = ag_origin G @ ''/api''"
    and "ae_resolve (ag_api G) ''POST'' ''/api/v1/logout'' = LogoutView"
  shows "dict_get (qs_store (cs_sessions (fst (snd (client_logout E (bearer_header t) w))))) t = None"
proof -
  let ?rr = "\<lparr>rr_method = ''POST'', rr_url = ag_origin G @ ''/api/v1/logout'', rr_headers = bearer_header t,
              rr_params = [], rr_json = []\<rparr>"
  let ?rq = "http_request (ag_origin G) ?rr" and ?n = "snd w"
  let ?h = "\<lambda>session. case session of
               None \<Rightarrow> throw AttributeError
             | Some s \<Rightarrow> bind_act (logout_post in_memory s) (\<lambda>_. ret (HStream (json_reply G (PDict []) 200 [])))"
  have rq: "rq_method ?rq = ''POST''" "rq_path ?rq = ''/api/v1/logout''" "rq_headers ?rq = bearer_header t"
    by (simp_all add: http_request_def)
  have view: "resolve_handler (ag_api G) ?rq = LogoutView" by (simp add: resolve_handler_def rq assms(5))
  have public: "request_is_public (ag_api G) ?rq = Inr False"
    by (simp add: request_is_public_def is_hybrid_def is_public_def view_is_hybrid_def view_is_public_def view rq
        LogoutView_def get_method_handler_def auth_is_hybrid_def auth_is_public_def SWAGGER_UI_URL_def
        SWAGGER_UI_STATICS_URL_def split: option.split)
  have perms: "required_permissions (ag_api G) ?rq = []"
    by (simp add: required_permissions_def view_get_permissions_def view LogoutView_def get_method_handler_def
        auth_get_permissions_def mk_permission_set_def rq split: option.split)
  have "logged_body ?rq = Inr (PDict [])" by (simp add: logged_body_def sanitize_body_def http_request_def)
  from middleware_world [OF this]
  have "fst (snd (agent_send G ?rr w)) = snd (agent_handler G ?n ?rq [] (fst w))"
    by (simp add: agent_send_def case_prod_beta)
  also have "agent_handler G ?n ?rq [] =
      on_sessions (guarded (ag_api G) in_memory (ag_conf G) (ag_clock G ?n) ?rq ?h)"
    by (simp add: agent_handler_def rq)
  finally have world: "cs_sessions (fst (snd (agent_send G ?rr w))) =
      snd (guarded (ag_api G) in_memory (ag_conf G) (ag_clock G ?n) ?rq ?h (cs_sessions (fst w)))"
    by (simp add: on_sessions_def within_def case_prod_beta)
  have "im_ok (qs_store (cs_sessions (fst w)))" using assms(1) by (simp add: sessions_keyed_def)
  from guarded_logout [OF this public _ perms, of t] bearer_read [OF assms(2)] rq(3)
  show ?thesis by (simp add: logout_world assms(3,4) world)
qed

text \<open>The agent is a world the shell can run in.\<close>

lemma agent_shell_world:
  assumes "ce_send E = agent_send G" and "\<And>cmd. keeps sessions_keyed (ce_direct E cmd)"
    and "\<And>now rq. keeps agent_keyed (ag_other G now rq)"
  shows "shell_world E sessions_keyed"
  by unfold_locales (simp_all add: assms agent_send_keeps)



section \<open>Logging in\<close>

text \<open>The client's reading of a reply.\<close>

definition login_result :: "'w cli_env \<Rightarrow> rest_reply \<Rightarrow> shell_exn + string option" where
  "login_result E reply =
     (case read_reply E reply of
        Inl x \<Rightarrow> if is_raised CsmError x then Inr None else Inl x
      | Inr (response, headers) \<Rightarrow> login_token (fst response) headers)"

lemma client_login_reply:
  assumes "ce_send E \<lparr>rr_method = ''POST'', rr_url = ce_url E @ ''/v1/login'', rr_headers = [], rr_params = [],
      rr_json = [(PStr ''username'', PStr u), (PStr ''password'', PStr p)]\<rparr> w = (Inr reply, w')"
  shows "client_login E u p w = (login_result E reply, w')"
  using assms
  by (simp add: client_login_def process_direct_request_def send_request_def waiting_def login_result_def act_simps
      case_prod_beta split: sum.split)

lemma refused_reply:
  assumes "response_failed (rp_status reply)" and "rp_headers reply = []"
  shows "login_result E reply = Inr None"
  using assms
  by (simp add: login_result_def read_reply_def not_authorized_def could_not_parse_def login_token_def headers_get_def
      is_raised_def mk_error_defs is_subclass_of_def mk_CsmError_def split: option.split)

lemma accepted_reply:
  assumes "CHR '' '' \<notin> set t" and "ce_loads E body = Some v"
  shows "login_result E \<lparr>rp_text = body, rp_headers = [(''Authorization'', ''Bearer '' @ t)], rp_status = 200\<rparr> = Inr (Some t)"
proof -
  have "split_on (CHR '' '') (''Bearer'' @ CHR '' '' # t) = [''Bearer'', t]"
    using assms(1) by (subst split_on_append) (simp_all add: split_on_none)
  then show ?thesis
    using assms(2) by (simp add: login_result_def read_reply_def login_token_def headers_get_def response_failed_def)
qed

text \<open>What the agent answers to a login.\<close>

lemma agent_login_reply:
  fixes G :: "'db csm_agent" and w :: "'db agent_world"
  assumes "rr = \<lparr>rr_method = ''POST'', rr_url = ag_origin G @ ''/api/v1/login'', rr_headers = [], rr_params = [],
      rr_json = [(PStr ''username'', PStr u), (PStr ''password'', PStr p)]\<rparr>"
    and run: "login_post (ag_users G) (ag_roles G) in_memory (ag_conf G) (ag_clock G (snd w)) (ag_ids G (snd w))
      (LoginRequest u p) (fst w) = (r, c)"
  shows "case r of
       Inr resp \<Rightarrow> agent_send G rr w = (Inr (json_reply G (PDict [(PStr ''reset_password'',
           case rsp_body resp of None \<Rightarrow> PNone | Some b \<Rightarrow> PBool b)]) 200 (rsp_headers resp)), (c, Suc (snd w)))
     | Inl e \<Rightarrow> \<exists>reply. agent_send G rr w = (Inr reply, (c, Suc (snd w))) \<and> rp_headers reply = []
          \<and> (rp_status reply = 500 \<or> status_of e = Some (rp_status reply))"
proof -
  let ?rq = "http_request (ag_origin G) rr"
  obtain b where body: "logged_body ?rq = Inr b"
    by (simp add: logged_body_def sanitize_body_def http_request_def assms(1))
  have handler: "agent_handler G (snd w) ?rq (rr_json rr) = bind_act (login_post (ag_users G) (ag_roles G) in_memory
      (ag_conf G) (ag_clock G (snd w)) (ag_ids G (snd w)) (LoginRequest u p)) (\<lambda>resp.
      ret (HStream (json_reply G (PDict [(PStr ''reset_password'', case rsp_body resp of None \<Rightarrow> PNone | Some b \<Rightarrow> PBool b)])
                           200 (rsp_headers resp))))"
    by (simp add: agent_handler_def http_request_def assms(1) login_request_of_def)
  show ?thesis
  proof (cases r)
    case (Inr resp)
    with run body show ?thesis
      by (simp add: agent_send_def handler rest_middleware_def act_simps http_answer_of_def reply_of_def)
  next
    case (Inl e)
    with run body show ?thesis
      by (auto simp: agent_send_def handler rest_middleware_def act_simps http_answer_of_def json_reply_def
          split: option.split sum.split)
  qed
qed

lemma client_login_token:
  assumes "ce_send E = agent_send G" and "ce_url E = ag_origin G @ ''/api''"
    and "\<And>v. ce_loads E (ag_dumps G v) \<noteq> None"
    and "login (ag_users G) (ag_roles G) in_memory (ag_conf G) (ag_clock G (snd w)) (ag_ids G (snd w)) u p (fst w)
      = (Inr (Some (t, reset)), c)" and t: "t \<noteq> []" "CHR '' '' \<notin> set t"
  shows "client_login E u p w = (Inr (Some t), (c, Suc (snd w)))"
proof -
  have post: "login_post (ag_users G) (ag_roles G) in_memory (ag_conf G) (ag_clock G (snd w)) (ag_ids G (snd w))
      (LoginRequest u p) (fst w) = (Inr \<lparr>rsp_body = reset, rsp_headers = [(''Authorization'', ''Bearer '' @ t)]\<rparr>, c)"
    using assms(4) t(1) by (simp add: login_post_def act_simps)
  obtain v where "ce_loads E (ag_dumps G (PDict [(PStr ''reset_password'',
      case reset of None \<Rightarrow> PNone | Some b \<Rightarrow> PBool b)])) = Some v" using assms(3) by fast
  from accepted_reply [OF t(2) this] agent_login_reply [OF refl post] client_login_reply [of E u p w] assms(1,2)
  show ?thesis by (simp add: json_reply_def)
qed


text \<open>
  A running shell that is interrupted at its prompt, or given a line with an unbalanced quote, ends at once:
  nothing is sent to the server, so that the session stays there until it expires.
\<close>

theorem prompt_leaves_session:
  assumes "cmdloop E name_typed password_typed ps s0 = (Inr (), s)"
  shows "cmdloop E name_typed password_typed (ps @ [Interrupt]) s0 = (Inl KeyboardInterrupt, s) \<and>
     (shlex_split line = Inl e \<longrightarrow> strip_chars py_space line \<noteq> [] \<longrightarrow>
        cmdloop E name_typed password_typed (ps @ [Line line]) s0 = (Inl (Raised e), s))"
proof -
  obtain s1 where auth: "check_auth_required E name_typed password_typed s0 = (Inr (), s1)"
    and loop: "for_each (shell_round E) ps s1 = (Inr (), s)"
    using assms unfolding cmdloop_def by (elim bind_act_InrE) simp
  have "cmdloop E name_typed password_typed (ps @ [p]) s0 =
      bind_act (shell_round E p) ret s" for p
    by (simp add: cmdloop_def bind_act_def auth for_each_append loop ret_def)
  then show ?thesis
    by (simp add: shell_round_def prompt_line_def precmd_def act_simps)
qed


section \<open>A run\<close>

text \<open>The agent of the concrete runs, with requests after login and logout answered by an empty object, and the
  environment of a shell in front of it.\<close>

definition office :: "users_db csm_agent" where
  "office = \<lparr>ag_users = outage_env 10, ag_roles = two_roles,
     ag_api = sample_env\<lparr>ae_resolve := (\<lambda>m p. LogoutView)\<rparr>, ag_conf = quota_one,
     ag_clock = (\<lambda>n. 5 + int n), ag_ids = (\<lambda>n. if n = 0 then ''t1'' else ''t2''), ag_origin = ''http://csm:8101'',
     ag_dumps = (\<lambda>v. ''{}''), ag_other = (\<lambda>now rq. ret (HObject (PDict [])))\<rparr>"

definition office_cli :: "users_db agent_world cli_env" where
  "office_cli = \<lparr>ce_url = ''http://csm:8101/api'', ce_address = ''csm:8101'', ce_send = agent_send office,
     ce_loads = (\<lambda>s. Some (PDict [(PStr ''permissions'', PDict [])])), ce_str = (\<lambda>v. []),
     ce_get_command = (\<lambda>args perms. Inl SystemExit), ce_confirm = (\<lambda>q. Inr True), ce_direct = (\<lambda>cmd. ret None),
     ce_alert = [], ce_help = (\<lambda>arg. [])\<rparr>"

lemma office_laws:
  "ce_send office_cli = agent_send office" "ce_url office_cli = ag_origin office @ ''/api''"
  "keeps sessions_keyed (ce_direct office_cli cmd)" "keeps agent_keyed (ag_other office now rq)"
  "ae_resolve (ag_api office) ''POST'' ''/api/v1/logout'' = LogoutView" "ce_loads office_cli (ag_dumps office v) \<noteq> None"
  "sessions_keyed (start_state, 0)"
  by (simp_all add: office_def office_cli_def keeps_ret sessions_keyed_def start_state_def init_qsm_def im_ok_def)

interpretation oc: shell_world office_cli sessions_keyed
  by (rule agent_shell_world [OF office_laws(1,3,4)])

lemma office_login:
  "\<exists>c. client_login office_cli ''alice'' ''secret'' (start_state, 0) = (Inr (Some ''t1''), (c, 1))
     \<and> dict_get (qs_store (cs_sessions c)) ''t1'' \<noteq> None"
proof -
  obtain c where "login (outage_env 10) two_roles in_memory quota_one 5 ''t1'' ''alice'' ''secret'' start_state
      = (Inr (Some (''t1'', Some False)), c)" and c: "dict_get (qs_store (cs_sessions c)) ''t1'' \<noteq> None"
    by (simp add: login_run_defs)
  then have "login (ag_users office) (ag_roles office) in_memory (ag_conf office) (ag_clock office (snd (start_state, 0)))
      (ag_ids office (snd (start_state, 0))) ''alice'' ''secret'' (fst (start_state, 0)) = (Inr (Some (''t1'', Some False)), c)"
    by (simp add: office_def)
  from client_login_token [OF office_laws(1,2,6) this] c show ?thesis by simp
qed

abbreviation alice_shell :: "users_db agent_world shell" where
  "alice_shell \<equiv> shell_init [''cortxcli''] [] (start_state, 0)"

lemma office_permissions:
  "client_permissions office_cli headers (c, n) = (Inr (PDict []), (c, Suc n))"
  by (simp add: client_permissions_def process_direct_request_def send_request_def waiting_def office_cli_def agent_send_def
      office_def agent_handler_def http_request_def rest_middleware_def logged_body_def sanitize_body_def reply_of_def
      http_answer_of_def json_reply_def read_reply_def response_failed_def py_getitem_def act_simps)

lemma office_running:
  "\<exists>s. cmdloop office_cli (Inr ''alice'') (Inr ''secret'') [] alice_shell = (Inr (), s) \<and> sh_token s = Some ''t1''
     \<and> sh_headers s = bearer_header ''t1'' \<and> dict_get (qs_store (cs_sessions (fst (sh_world s)))) ''t1'' \<noteq> None"
proof -
  from office_login obtain c where run: "client_login office_cli ''alice'' ''secret'' (start_state, 0) = (Inr (Some ''t1''), (c, 1))"
    and c: "dict_get (qs_store (cs_sessions c)) ''t1'' \<noteq> None" by blast
  have name: "strip_chars py_space ''alice'' = ''alice''" by (simp add: strip_chars_def py_space_def)
  show ?thesis
    using c
    by (simp add: cmdloop_def check_auth_required_def shell_init_def NO_AUTH_COMMANDS_def shell_login_def name
        run_until_complete_def run office_permissions has_token_def update_permissions_def act_simps)
qed

theorem prompt_leaves_session_witness:
  "\<exists>s. cmdloop office_cli (Inr ''alice'') (Inr ''secret'') [Line [CHR 0x22]] alice_shell
      = (Inl (Raised (ValueError ''No closing quotation'')), s)
    \<and> dict_get (qs_store (cs_sessions (fst (sh_world s)))) ''t1'' \<noteq> None"
proof -
  from office_running obtain s where run: "cmdloop office_cli (Inr ''alice'') (Inr ''secret'') [] alice_shell = (Inr (), s)"
    and kept: "dict_get (qs_store (cs_sessions (fst (sh_world s)))) ''t1'' \<noteq> None" by blast
  have "shlex_split [CHR 0x22] = Inl (ValueError ''No closing quotation'')"
    by (simp add: shlex_split_def shlex_space_def shlex_quote_def)
  moreover have "strip_chars py_space [CHR 0x22] \<noteq> []" by (simp add: strip_chars_def py_space_def)
  ultimately show ?thesis
    using prompt_leaves_session [OF run, of "[CHR 0x22]"] kept by auto
qed



end
