(* ===== verification/Activities.thy ===== *)
theory Activities
  imports Api
begin

text \<open>
  Long-running activities (\<^verbatim>\<open>csm/core/services/activities.py\<close>, \<^verbatim>\<open>csm/core/controllers/activities.py\<close>): the service in
  front of the activity tracker of \<^verbatim>\<open>cortx.utils\<close>, which is the record \<open>activity_lib\<close>. An activity object is its
  decoded payload; a call that changes the object returns it as it is then.
\<close>

section \<open>The service\<close>

text \<open>\<open>al_error\<close> is the text of an \<open>ActivityError\<close>, and \<open>None\<close> for any other exception.\<close>

record 'w activity_lib =
  al_init :: "('w, exn, unit) act"
  al_create :: "pyval \<Rightarrow> pyval \<Rightarrow> pyval \<Rightarrow> ('w, exn, pyval) act"
  al_get :: "pyval \<Rightarrow> ('w, exn, pyval) act"
  al_is_complete :: "pyval \<Rightarrow> bool"
  al_update :: "pyval \<Rightarrow> pyval \<Rightarrow> pyval \<Rightarrow> ('w, exn, pyval) act"
  al_finish :: "pyval \<Rightarrow> pyval \<Rightarrow> pyval \<Rightarrow> ('w, exn, pyval) act"
  al_suspend :: "pyval \<Rightarrow> pyval \<Rightarrow> ('w, exn, pyval) act"
  al_error :: "exn \<Rightarrow> string option"
  al_str :: "pyval \<Rightarrow> string"

record 'w activity_service =
  as_initialized :: bool
  as_world :: 'w

type_synonym activity_body = "(string, pyval) dict"
type_synonym ('w, 'a) activity_act = "('w activity_service, exn, 'a) act"

definition on_tracker :: "('w, exn, 'a) act \<Rightarrow> ('w, 'a) activity_act" where
  "on_tracker m = within as_world (\<lambda>w s. s\<lparr>as_world := w\<rparr>) m"

definition body_get :: "activity_body \<Rightarrow> string \<Rightarrow> pyval" where
  "body_get body k = dict_get_default body k PNone"

definition PCT_PROGRESS :: string where "PCT_PROGRESS = ''pct_progress''"
definition STATUS_DESC :: string where "STATUS_DESC = ''status_description''"
definition RESULT_CODE :: string where "RESULT_CODE = ''result_code''"
definition ACTIVITY_ERROR :: string where "ACTIVITY_ERROR = ''Unable to process the request''"
definition ACTIVITY_NOT_FOUND :: string where "ACTIVITY_NOT_FOUND = ''ActivityNotFound''"

definition activity_init :: "'w activity_lib \<Rightarrow> ('w, unit) activity_act" where
  "activity_init L =
     bind_act (gets as_initialized) (\<lambda>initialized.
       if initialized then ret ()
       else bind_act (on_tracker (al_init L)) (\<lambda>_. modify_act (\<lambda>s. s\<lparr>as_initialized := True\<rparr>)))"

definition create_activity :: "'w activity_lib \<Rightarrow> activity_body \<Rightarrow> ('w, pyval) activity_act" where
  "create_activity L body =
     catch_act
       (bind_act (activity_init L) (\<lambda>_.
        on_tracker (al_create L (body_get body ''name'') (body_get body ''resource_path'') (body_get body ''description''))))
       (\<lambda>e. case al_error L e of None \<Rightarrow> throw e | Some _ \<Rightarrow> throw (mk_CsmInternalError (Some ACTIVITY_ERROR)))"

text \<open>The clause for \<open>ActivityError\<close>: an unknown id is told apart by the text.\<close>

definition activity_failure :: "'w activity_lib \<Rightarrow> string \<Rightarrow> exn \<Rightarrow> exn" where
  "activity_failure L missing e =
     (case al_error L e of
        None \<Rightarrow> e
      | Some msg \<Rightarrow>
          if sublist ''get(): invalid activity id'' msg then mk_CsmNotFoundError (Some missing) ACTIVITY_NOT_FOUND
          else mk_CsmInternalError (Some ACTIVITY_ERROR))"

definition get_by_id :: "'w activity_lib \<Rightarrow> string \<Rightarrow> ('w, pyval) activity_act" where
  "get_by_id L activity_id =
     catch_act (bind_act (activity_init L) (\<lambda>_. on_tracker (al_get L (PStr activity_id))))
       (\<lambda>e. throw (activity_failure L
              (''Activity with id= '' @ activity_id @ '' does '' @ replicate 20 (CHR '' '') @ ''not exist'') e))"

text \<open>\<open>a < b\<close> on numbers, which is what progress is in the schemas; \<open>None\<close> and other values are not comparable with a
  number.\<close>

definition number_of :: "pyval \<Rightarrow> int option" where
  "number_of v = (case v of PInt i \<Rightarrow> Some i | PBool b \<Rightarrow> Some (if b then 1 else 0) | _ \<Rightarrow> None)"

definition py_less :: "pyval \<Rightarrow> pyval \<Rightarrow> exn + bool" where
  "py_less a b = (case (number_of a, number_of b) of (Some i, Some j) \<Rightarrow> Inr (i < j) | _ \<Rightarrow> Inl TypeError)"

definition set_progress :: "'w activity_lib \<Rightarrow> pyval \<Rightarrow> activity_body \<Rightarrow> ('w, pyval) activity_act" where
  "set_progress L activity body =
     (let pct_progress = body_get body PCT_PROGRESS in
      if al_is_complete L activity then throw (invalid_request ''COMPLETED activity can not be updated'')
      else bind_act (of_sum (py_get activity PCT_PROGRESS PNone)) (\<lambda>old.
           bind_act (of_sum (py_less pct_progress old)) (\<lambda>less.
             if less
             then throw (invalid_request (''pct_progress can not be less than the '' @ replicate 16 (CHR '' '') @ ''previously updated value''))
             else on_tracker (al_update L activity pct_progress (body_get body STATUS_DESC)))))"

definition finish_activity :: "'w activity_lib \<Rightarrow> pyval \<Rightarrow> activity_body \<Rightarrow> ('w, pyval) activity_act" where
  "finish_activity L activity body =
     (if al_is_complete L activity then throw (invalid_request ''COMPLETED activity can not be updated'')
      else on_tracker (al_finish L activity (body_get body RESULT_CODE) (body_get body STATUS_DESC)))"

definition suspend_activity :: "'w activity_lib \<Rightarrow> pyval \<Rightarrow> activity_body \<Rightarrow> ('w, pyval) activity_act" where
  "suspend_activity L activity body =
     (if al_is_complete L activity then throw (invalid_request ''COMPLETED activity can not be suspended'')
      else on_tracker (al_suspend L activity (body_get body STATUS_DESC)))"

definition status_service_map :: "'w activity_lib \<Rightarrow> (string, pyval \<Rightarrow> activity_body \<Rightarrow> ('w, pyval) activity_act) dict" where
  "status_service_map L =
     [(''IN_PROGRESS'', set_progress L), (''COMPLETED'', finish_activity L), (''SUSPENDED'', suspend_activity L)]"

definition update_by_id :: "'w activity_lib \<Rightarrow> activity_body \<Rightarrow> ('w, pyval) activity_act" where
  "update_by_id L body =
     (let aid = body_get body ''id''; status = body_get body ''status'' in
      catch_act
        (bind_act (activity_init L) (\<lambda>_.
         bind_act (on_tracker (al_get L aid)) (\<lambda>activity.
           case status of
             PStr st \<Rightarrow> (case dict_get (status_service_map L) st of None \<Rightarrow> throw KeyError | Some f \<Rightarrow> f activity body)
           | PList _ \<Rightarrow> throw TypeError
           | PDict _ \<Rightarrow> throw TypeError
           | _ \<Rightarrow> throw KeyError)))
        (\<lambda>e. throw (activity_failure L (''Activity does not exist: '' @ al_str L aid) e)))"

text \<open>The view.\<close>

definition activities_view_get :: "'w activity_lib \<Rightarrow> string \<Rightarrow> ('w, pyval) activity_act" where
  "activities_view_get L activity_id = get_by_id L activity_id"


section \<open>What the service relies on\<close>

text \<open>
  The tracker keeps activities by their ids. Reading returns the stored payload; a change of an activity that
  returns or fails leaves every other activity as it was, and the changed one, if it was changed, with the given progress
  (update), the old progress (suspend), or complete (finish). Creating takes a new id.
\<close>

locale activity_tracker =
  fixes L :: "'w activity_lib" and contents :: "'w \<Rightarrow> pyval \<Rightarrow> pyval option"
  assumes init_law: "al_init L w = (ru, w') \<Longrightarrow> contents w' = contents w"
    and create_law: "al_create L name path desc w = (r, w') \<Longrightarrow> contents w i = Some e \<Longrightarrow> contents w' i = Some e"
    and get_law: "al_get L i w = (r, w') \<Longrightarrow> contents w' = contents w \<and> (\<forall>e. r = Inr e \<longrightarrow> contents w i = Some e)"
    and update_law: "al_update L e p desc w = (r, w') \<Longrightarrow> contents w j = Some a \<Longrightarrow>
        contents w' j = Some a \<or> a = e \<and> (\<exists>b. contents w' j = Some b \<and> py_get b PCT_PROGRESS PNone = Inr p)"
    and finish_law: "al_finish L e code desc w = (r, w') \<Longrightarrow> contents w j = Some a \<Longrightarrow>
        contents w' j = Some a \<or> a = e \<and> (\<exists>b. contents w' j = Some b \<and> al_is_complete L b)"
    and suspend_law: "al_suspend L e desc w = (r, w') \<Longrightarrow> contents w j = Some a \<Longrightarrow>
        contents w' j = Some a \<or> a = e \<and> (\<exists>b. contents w' j = Some b \<and> py_get b PCT_PROGRESS PNone = py_get a PCT_PROGRESS PNone)"

text \<open>How an activity may change: a complete one not at all, another one to completion or without losing progress.\<close>

definition progress :: "pyval \<Rightarrow> int option" where
  "progress e = (case py_get e PCT_PROGRESS PNone of Inr v \<Rightarrow> number_of v | Inl _ \<Rightarrow> None)"

definition advanced :: "'w activity_lib \<Rightarrow> pyval \<Rightarrow> pyval \<Rightarrow> bool" where
  "advanced L a b \<longleftrightarrow> b = a \<or> \<not> al_is_complete L a \<and>
     (al_is_complete L b \<or> progress b = progress a \<or> (\<exists>m n. progress a = Some m \<and> progress b = Some n \<and> m \<le> n))"

lemma advanced_trans: "advanced L a b \<Longrightarrow> advanced L b c \<Longrightarrow> advanced L a c"
  unfolding advanced_def by auto

text \<open>The invariant of one activity, relative to what it once was.\<close>

definition kept :: "'w activity_lib \<Rightarrow> ('w \<Rightarrow> pyval \<Rightarrow> pyval option) \<Rightarrow> pyval \<Rightarrow> pyval \<Rightarrow> 'w activity_service \<Rightarrow> bool" where
  "kept L contents i a s \<longleftrightarrow> (\<exists>b. contents (as_world s) i = Some b \<and> advanced L a b)"

context activity_tracker
begin

lemma keeps_tracker:
  assumes "\<And>w r w' b. m w = (r, w') \<Longrightarrow> contents w i = Some b \<Longrightarrow> \<exists>c. contents w' i = Some c \<and> advanced L b c"
  shows "keeps (kept L contents i a) (on_tracker m)"
  unfolding keeps_def
proof (intro allI impI)
  fix s assume "kept L contents i a s"
  then obtain b where b: "contents (as_world s) i = Some b" "advanced L a b" by (auto simp: kept_def)
  obtain r w' where run: "m (as_world s) = (r, w')" by (cases "m (as_world s)")
  from assms [OF run b(1)] obtain c where "contents w' i = Some c" "advanced L b c" by blast
  with run b(2) show "kept L contents i a (snd (on_tracker m s))"
    by (auto simp: kept_def on_tracker_def within_def intro: advanced_trans)
qed

lemma keeps_activity_init: "keeps (kept L contents i a) (activity_init L)"
proof -
  have "keeps (kept L contents i a) (on_tracker (al_init L))"
    by (rule keeps_tracker) (auto dest: init_law simp: advanced_def)
  then show ?thesis
    unfolding activity_init_def by (intro keeps_intros keeps_modify) (simp_all add: kept_def)
qed

lemma keeps_activity_get: "keeps (kept L contents i a) (on_tracker (al_get L j))"
  by (rule keeps_tracker) (auto dest: get_law simp: advanced_def)

lemma keeps_activity_create: "keeps (kept L contents i a) (create_activity L body)"
proof -
  have "keeps (kept L contents i a) (on_tracker (al_create L name path desc))" for name path desc
    by (rule keeps_tracker) (auto dest: create_law simp: advanced_def)
  then show ?thesis unfolding create_activity_def by (intro keeps_intros keeps_activity_init)
qed

text \<open>The three updates check the activity they were given.\<close>

lemma advanced_update:
  assumes "\<not> al_is_complete L e" and "py_get e PCT_PROGRESS PNone = Inr old" and "py_less p old = Inr False"
    and "al_update L e p desc w = (r, w')" and "contents w i = Some b"
  shows "\<exists>c. contents w' i = Some c \<and> advanced L b c"
  using update_law [OF assms(4,5)] assms(1-3)
  by (auto simp: advanced_def progress_def py_less_def split: option.splits)

lemma keeps_set_progress: "keeps (kept L contents i a) (set_progress L e body)"
proof (cases "al_is_complete L e")
  case True
  then show ?thesis by (simp add: set_progress_def Let_def keeps_throw)
next
  case False
  let ?p = "body_get body PCT_PROGRESS"
  have changed: "keeps (kept L contents i a) (on_tracker (al_update L e ?p desc))"
    if "py_get e PCT_PROGRESS PNone = Inr old" "py_less ?p old = Inr False" for desc old
    by (rule keeps_tracker) (rule advanced_update [OF False that])
  show ?thesis
  proof (cases "bind_sum (py_get e PCT_PROGRESS PNone) (py_less ?p)")
    case (Inl x)
    with False have "set_progress L e body = throw x"
      by (auto simp: set_progress_def Let_def fun_eq_iff act_simps)
    then show ?thesis by (simp add: keeps_throw)
  next
    case (Inr less)
    then obtain old where old: "py_get e PCT_PROGRESS PNone = Inr old" "py_less ?p old = Inr less" by auto
    with False have "set_progress L e body =
        (if less then throw (invalid_request (''pct_progress can not be less than the '' @ replicate 16 (CHR '' '') @ ''previously updated value''))
         else on_tracker (al_update L e ?p (body_get body STATUS_DESC)))"
      by (auto simp: set_progress_def Let_def fun_eq_iff bind_act_def of_sum_def)
    with old changed show ?thesis by (cases less) (auto intro: keeps_throw)
  qed
qed

lemma keeps_finish: "keeps (kept L contents i a) (finish_activity L e body)"
  unfolding finish_activity_def
  by (auto intro!: keeps_throw keeps_tracker dest!: finish_law simp: advanced_def)

lemma keeps_suspend: "keeps (kept L contents i a) (suspend_activity L e body)"
  unfolding suspend_activity_def
  by (auto intro!: keeps_throw keeps_tracker dest!: suspend_law simp: advanced_def progress_def)

lemma keeps_update_by_id: "keeps (kept L contents i a) (update_by_id L body)"
  unfolding update_by_id_def Let_def
  by (intro keeps_catch keeps_bind keeps_activity_init keeps_activity_get keeps_throw)
    (auto simp: status_service_map_def keeps_throw keeps_set_progress keeps_finish keeps_suspend
      split: pyval.split)

lemma keeps_get_by_id: "keeps (kept L contents i a) (get_by_id L j)"
  unfolding get_by_id_def by (intro keeps_catch keeps_bind keeps_activity_init keeps_activity_get keeps_throw)

end


section \<open>Progress is never lost\<close>

datatype activity_op = Create activity_body | Fetch string | Update activity_body

fun run_activity_op :: "'w activity_lib \<Rightarrow> activity_op \<Rightarrow> 'w activity_service \<Rightarrow> 'w activity_service" where
  "run_activity_op L (Create body) s = snd (create_activity L body s)"
| "run_activity_op L (Fetch i) s = snd (get_by_id L i s)"
| "run_activity_op L (Update body) s = snd (update_by_id L body s)"

context activity_tracker
begin

lemma run_kept: "kept L contents i a s \<Longrightarrow> kept L contents i a (fold (run_activity_op L) ops s)"
proof (induction ops arbitrary: s)
  case (Cons op ops)
  have "kept L contents i a (run_activity_op L op s)"
    using keepsD [OF keeps_activity_create Cons.prems] keepsD [OF keeps_get_by_id Cons.prems]
      keepsD [OF keeps_update_by_id Cons.prems] by (cases op) simp_all
  with Cons.IH show ?case by simp
qed simp

end

text \<open>
  C17. Over any sequence of requests to create, read and update activities, with any failures of the tracker: an
  activity that is complete stays exactly as it is, and any other keeps or raises its progress until it is
  complete.
\<close>

theorem activity_never_regresses:
  assumes "activity_tracker L contents" and "contents (as_world s) i = Some a"
  shows "\<exists>b. contents (as_world (fold (run_activity_op L) ops s)) i = Some b \<and>
     (al_is_complete L a \<longrightarrow> b = a) \<and>
     (\<not> al_is_complete L b \<longrightarrow> progress b = progress a \<or>
        (\<exists>m n. progress a = Some m \<and> progress b = Some n \<and> m \<le> n))"
  using activity_tracker.run_kept [OF assms(1), of i a s ops] assms(2) by (auto simp: kept_def advanced_def)

text \<open>A tracker that keeps its activities in a list and fails to read an unknown id.\<close>

definition shelf_set :: "pyval \<Rightarrow> (string \<times> pyval) list \<Rightarrow> (pyval, pyval) dict \<Rightarrow> (exn + pyval) \<times> (pyval, pyval) dict" where
  "shelf_set e new shelf =
     (case e of
        PDict d \<Rightarrow>
          let e' = PDict (fold (\<lambda>(k, v). dict_set (PStr k) v) new d)
          in (Inr e', map (\<lambda>(i, a). (i, if a = e then e' else a)) shelf)
      | _ \<Rightarrow> (Inl AttributeError, shelf))"

definition shelf_tracker :: "(pyval, pyval) dict activity_lib" where
  "shelf_tracker = \<lparr>al_init = ret (), al_create = (\<lambda>name path desc shelf.
       let i = PInt (int (length shelf)) in
       (if dict_get shelf i \<noteq> None then (Inl (OtherException ''ActivityError''), shelf)
        else (Inr (PDict [(PStr ''id'', i), (PStr ''pct_progress'', PInt 0)]),
              shelf @ [(i, PDict [(PStr ''id'', i), (PStr ''pct_progress'', PInt 0)])]))),
     al_get = (\<lambda>i shelf. (case dict_get shelf i of None \<Rightarrow> Inl (OtherException ''get(): invalid activity id'') | Some e \<Rightarrow> Inr e, shelf)),
     al_is_complete = (\<lambda>e. py_get e ''status'' PNone = Inr (PStr ''COMPLETED'')),
     al_update = (\<lambda>e p desc. shelf_set e [(''pct_progress'', p)]),
     al_finish = (\<lambda>e code desc. shelf_set e [(''status'', PStr ''COMPLETED'')]),
     al_suspend = (\<lambda>e desc. shelf_set e [(''status'', PStr ''SUSPENDED'')]),
     al_error = (\<lambda>e. case e of OtherException msg \<Rightarrow> Some msg | _ \<Rightarrow> None), al_str = (\<lambda>v. [])\<rparr>"

lemma map_of_map_entries: "map_of (map (\<lambda>(i, a). (i, f a)) d) j = map_option f (map_of d j)"
  by (induction d) auto

lemma shelf_set_law:
  assumes "shelf_set e new shelf = (r, shelf')" and "dict_get shelf j = Some a"
  shows "dict_get shelf' j = Some a \<or> a = e \<and> (\<exists>d. e = PDict d \<and>
    dict_get shelf' j = Some (PDict (fold (\<lambda>(k, v). dict_set (PStr k) v) new d)))"
  using assms by (auto simp: shelf_set_def Let_def map_of_map_entries split: pyval.splits if_splits)

interpretation sh: activity_tracker shelf_tracker map_of
  by unfold_locales (auto simp: shelf_tracker_def ret_app Let_def PCT_PROGRESS_def py_get_def dict_get_default_def
      dest: shelf_set_law split: option.splits if_splits)

definition half_done :: pyval where
  "half_done = PDict [(PStr ''id'', PStr ''a''), (PStr ''pct_progress'', PInt 50)]"

definition shelf_start :: "(pyval, pyval) dict activity_service" where
  "shelf_start = \<lparr>as_initialized = False, as_world = [(PStr ''a'', half_done)]\<rparr>"

definition report :: "int \<Rightarrow> activity_op" where
  "report n = Update [(''id'', PStr ''a''), (''status'', PStr ''IN_PROGRESS''), (PCT_PROGRESS, PInt n)]"

theorem activity_never_regresses_witness:
  "\<exists>b n. dict_get (as_world (fold (run_activity_op shelf_tracker) [report 70, report 60] shelf_start)) (PStr ''a'') = Some b
     \<and> progress b = Some n \<and> 50 \<le> n"
proof -
  let ?s = "fold (run_activity_op shelf_tracker) [report 70, report 60] shelf_start"
  have a: "dict_get (as_world shelf_start) (PStr ''a'') = Some half_done" by (simp add: shelf_start_def)
  from activity_never_regresses [OF sh.activity_tracker_axioms a, of "[report 70, report 60]"]
  obtain b where b: "dict_get (as_world ?s) (PStr ''a'') = Some b"
    and up: "\<not> al_is_complete shelf_tracker b \<longrightarrow> progress b = progress half_done \<or>
        (\<exists>m n. progress half_done = Some m \<and> progress b = Some n \<and> m \<le> n)" by blast
  have "dict_get (as_world ?s) (PStr ''a'') = Some (PDict [(PStr ''id'', PStr ''a''), (PStr ''pct_progress'', PInt 70)])"
    by (simp add: report_def shelf_start_def half_done_def update_by_id_def activity_init_def on_tracker_def
        status_service_map_def set_progress_def body_get_def PCT_PROGRESS_def STATUS_DESC_def shelf_tracker_def
        shelf_set_def py_get_def py_less_def number_of_def dict_get_default_def Let_def act_simps)
  with b have "\<not> al_is_complete shelf_tracker b" by (simp add: shelf_tracker_def py_get_def dict_get_default_def)
  moreover have "progress half_done = Some 50"
    by (simp add: progress_def half_done_def py_get_def PCT_PROGRESS_def dict_get_default_def number_of_def)
  ultimately show ?thesis using b up by auto
qed

end
