(* ===== verification/Versions.thy ===== *)
theory Versions
  imports S3
begin

text \<open>
  The check of version compatibility: \<open>InformationService.check_compatibility\<close> of \<^verbatim>\<open>csm/core/services/information.py\<close> and
  its view in \<^verbatim>\<open>csm/core/controllers/information.py\<close>. The comparison itself is \<open>Release\<close> of \<^verbatim>\<open>cortx.utils\<close>, a parameter
  like the loading through the schema; \<open>vl_setup_rc\<close> is the code of a \<open>SetupError\<close>, \<open>None\<close> for another exception.
\<close>

record version_lib =
  vl_load :: "pyval \<Rightarrow> string + kwargs"
  vl_is_version_compatible :: "pyval \<Rightarrow> pyval \<Rightarrow> pyval \<Rightarrow> exn + pyval \<times> pyval"
  vl_setup_rc :: "exn \<Rightarrow> int option"
  vl_text :: "exn \<Rightarrow> string"

definition VERSION_RESOURCES :: "string list" where "VERSION_RESOURCES = [''node'']"

text \<open>\<open>request_body[k]\<close>\<close>

definition body_item :: "kwargs \<Rightarrow> string \<Rightarrow> exn + pyval" where
  "body_item body k = (case dict_get body k of None \<Rightarrow> Inl KeyError | Some v \<Rightarrow> Inr v)"

definition check_compatibility :: "version_lib \<Rightarrow> kwargs \<Rightarrow> exn + pyval" where
  "check_compatibility V body =
     bind_sum (body_item body ''resource'') (\<lambda>resource.
     bind_sum (body_item body ''resource_id'') (\<lambda>resource_id.
     bind_sum (body_item body ''requires'') (\<lambda>release.
     bind_sum (vl_is_version_compatible V resource resource_id release) (\<lambda>(status, reason).
     Inr (PDict [(PStr ''node_id'', dict_get_default body ''resource_id'' PNone), (PStr ''compatible'', status),
                 (PStr ''reason'', reason)])))))"

definition compatibility_body :: "version_lib \<Rightarrow> http_body \<Rightarrow> exn + kwargs" where
  "compatibility_body V body =
     (case body of
        JsonText v \<Rightarrow> (case vl_load V v of Inl msg \<Rightarrow> Inl (invalid_request msg) | Inr kw \<Rightarrow> Inr kw)
      | _ \<Rightarrow> Inl (invalid_request ''Could not parse request body, invalid JSON received.''))"

text \<open>The \<open>except\<close> clauses around the service; 22 is \<open>EINVAL\<close>.\<close>

definition compatibility_error :: "version_lib \<Rightarrow> exn \<Rightarrow> exn" where
  "compatibility_error V e =
     (if vl_setup_rc V e = Some 22 then invalid_request (vl_text V e) else mk_CsmInternalError (Some (vl_text V e)))"

definition version_post :: "version_lib \<Rightarrow> string \<Rightarrow> string \<Rightarrow> http_body \<Rightarrow> exn + pyval" where
  "version_post V resource resource_id body =
     (if resource \<notin> set VERSION_RESOURCES
      then Inl (mk_CsmNotFoundError (Some (''Invalid resource: '' @ resource)) ''NotFoundError'')
      else bind_sum (compatibility_body V body) (\<lambda>params.
           case check_compatibility V (dict_merge [(''resource_id'', PStr resource_id), (''resource'', PStr resource)] params) of
             Inl e \<Rightarrow> Inl (compatibility_error V e)
           | Inr response \<Rightarrow> Inr response))"

text \<open>
  The request on every branch, for a schema that knows the one field \<open>requires\<close>: an answer is the one of the library for the node
  of the path and the versions of the body, and every error is a CSM error with status 400, 404 or 500.
\<close>

theorem version_reply:
  assumes "\<And>v kw. vl_load V v = Inr kw \<Longrightarrow> map fst kw = [''requires'']"
  shows "case version_post V resource resource_id body of
       Inr response \<Rightarrow> resource = ''node'' \<and> (\<exists>v kw release status reason. body = JsonText v \<and> vl_load V v = Inr kw
          \<and> dict_get kw ''requires'' = Some release
          \<and> vl_is_version_compatible V (PStr ''node'') (PStr resource_id) release = Inr (status, reason)
          \<and> response = PDict [(PStr ''node_id'', PStr resource_id), (PStr ''compatible'', status), (PStr ''reason'', reason)])
     | Inl e \<Rightarrow> is_csm CsmNotFoundError e \<or> is_csm InvalidRequest e \<or> is_csm CsmInternalError e"
proof (cases "resource = ''node''")
  case False
  then show ?thesis by (simp add: version_post_def VERSION_RESOURCES_def invalid_request_def mk_error_defs is_subclass_of_def)
next
  case node: True
  show ?thesis
  proof (cases "compatibility_body V body")
    case (Inl e)
    with node show ?thesis
      by (auto simp: version_post_def VERSION_RESOURCES_def compatibility_body_def invalid_request_def mk_error_defs is_subclass_of_def
          split: http_body.splits sum.splits)
  next
    case (Inr kw)
    then obtain v where v: "body = JsonText v" "vl_load V v = Inr kw"
      by (auto simp: compatibility_body_def split: http_body.splits sum.splits)
    from assms [OF v(2)] obtain release where "kw = [(''requires'', release)]" by (cases kw) auto
    with node Inr v show ?thesis
      by (cases "vl_is_version_compatible V (PStr ''node'') (PStr resource_id) release")
        (auto simp: version_post_def VERSION_RESOURCES_def check_compatibility_def body_item_def dict_merge_def
          compatibility_error_def dict_get_default_def invalid_request_def mk_error_defs is_subclass_of_def)
  qed
qed

end
