(* ===== verification/Spec2Isabelle.thy ===== *)
theory Spec2Isabelle
  imports Prelude Errors Retry Permissions Roles Session_Store Sessions Users Users_Correct Login Client
    Api Api_Correct Swagger Session_Timer Pattern Validators User_Views Broadcast Lifecycle
    Cluster Json_Values Health Payloads Rgw S3 Capacity Deployment System_Status Statistics
    Ha Uploads Cli Cli_Agent Activities Versions
begin

text \<open>
  A verification library of the CORTX management service (the Python package \<^verbatim>\<open>csm\<close>) and of the
  browser scripts kept in its repository.

  \<^bold>\<open>The program.\<close> The agent is an \<open>aiohttp\<close> server. A request passes the middlewares of
  \<^verbatim>\<open>csm/core/agent/api.py\<close> (throttling, translation of exceptions, session, permissions) and reaches a
  view of \<^verbatim>\<open>csm/core/controllers\<close>, which validates the body and calls a service of
  \<^verbatim>\<open>csm/core/services\<close>. Users, roles and sessions are the services that decide who may do what; users
  and sessions are kept in a database behind a retry loop, or in memory. The other services forward to
  systems outside: S3 users, buckets and usage to the RADOS gateway, health and cluster operations to HA,
  capacity to the cluster controller, the topology to the configuration store. Beside the requests run the
  task that removes expired sessions and the task that pushes alerts to web sockets. Two scripts run
  in a browser: the documentation page, and the client of the web socket experiment. A command line shell
  logs in to the agent as another client.

  \<^bold>\<open>Theories and code.\<close>
  \<^item> \<open>Prelude\<close>: Python's dictionaries (association lists in insertion order) and strings, results
    \<open>'e + 'a\<close> of stateless code, actions \<open>'s \<Rightarrow> ('e + 'a) \<times> 's\<close> for code with state and exceptions, their
    invariants (\<open>keeps\<close>) and specifications (\<open>spec\<close>), with the collections of rules.
  \<^item> \<open>Errors\<close> (\<^verbatim>\<open>csm/common/errors.py\<close>): the class hierarchy, codes, constructors, the service guard.
  \<^item> \<open>Retry\<close>: the retry loop around database calls (\<^verbatim>\<open>services/users.py\<close>, \<^verbatim>\<open>session_factory.py\<close>) and a
    database with outages, which serves as concrete provider.
  \<^item> \<open>Permissions\<close>, \<open>Roles\<close> (\<^verbatim>\<open>services/permissions.py\<close>, \<^verbatim>\<open>services/roles.py\<close>, \<^verbatim>\<open>schema/roles.json\<close>): permission
    sets as sets of (resource, action) pairs, validation of untyped values, effective permissions.
  \<^item> \<open>Session_Store\<close>, \<open>Sessions\<close>, \<open>Session_Timer\<close> (\<^verbatim>\<open>services/session/session_factory.py\<close>,
    \<^verbatim>\<open>services/sessions.py\<close>, \<^verbatim>\<open>data/models/session.py\<close>): both backends behind one interface, the quota
    manager, its statistics, and the background sweep.
  \<^item> \<open>Users\<close>, \<open>Users_Correct\<close> (\<^verbatim>\<open>services/users.py\<close>, \<^verbatim>\<open>data/models/users.py\<close>): the model and the service, and its
    correctness over every database that keeps the provider's contract.
  \<^item> \<open>Login\<close> (\<^verbatim>\<open>services/sessions.py\<close>, \<^verbatim>\<open>controllers/login.py\<close>): authentication, login, tokens, logout.
  \<^item> \<open>Pattern\<close>, \<open>Validators\<close>, \<open>User_Views\<close> (\<^verbatim>\<open>controllers/validators.py\<close>, \<^verbatim>\<open>controllers/users.py\<close>): regular
    expressions, field validators, and the views of users.
  \<^item> \<open>Api\<close>, \<open>Api_Correct\<close>, \<open>Swagger\<close>, \<open>Lifecycle\<close> (\<^verbatim>\<open>agent/api.py\<close>, \<^verbatim>\<open>controllers/view.py\<close>,
    \<^verbatim>\<open>controllers/permissions.py\<close>, \<^verbatim>\<open>core/routes.py\<close>, \<^verbatim>\<open>templates/swagger-ui/swagger-ui-onload.js\<close>): the
    middlewares and error responses, the documentation page, pushed alerts and shutdown.
  \<^item> \<open>Cluster\<close> (\<^verbatim>\<open>controllers/cluster_management.py\<close>, \<^verbatim>\<open>services/cluster_management.py\<close>, the plugin of the
    same name, \<^verbatim>\<open>csm/common/ha/cluster_management\<close>, \<^verbatim>\<open>csm/common/comm.py\<close>): the shutdown signal from the view
    to the message bus.
  \<^item> \<open>Ha\<close> (\<^verbatim>\<open>csm/common/ha_framework.py\<close>, the node operations of \<^verbatim>\<open>csm/common/ha/cluster_management\<close>): the framework
    behind health and cluster operations, with the validation of arguments and the jobs it starts.
  \<^item> \<open>Json_Values\<close>, \<open>Payloads\<close> (\<^verbatim>\<open>csm/common/utility.py\<close>, \<^verbatim>\<open>csm/common/payload.py\<close>): Python's operations on decoded
    JSON with their exceptions, and payloads addressed by dotted keys.
  \<^item> \<open>Health\<close>, \<open>System_Status\<close> (\<^verbatim>\<open>plugins/cortx/health.py\<close>, \<^verbatim>\<open>services/health.py\<close>, \<^verbatim>\<open>services/system_status.py\<close> and their
    controllers): the resource tree of HA, its flattening and paging; the status of the databases.
  \<^item> \<open>Rgw\<close>, \<open>S3\<close> (\<^verbatim>\<open>plugins/cortx/rgw.py\<close>, \<^verbatim>\<open>data/models/rgw.py\<close>, \<^verbatim>\<open>services/rgw/s3\<close>, \<^verbatim>\<open>controllers/rgw/s3\<close>, the JSON tables under
    \<^verbatim>\<open>schema\<close>): the plugin for the gateway with its table of operations, retry loop, translation of errors
    and suppression of secrets; services, schemas and views of users, keys, capabilities, quotas and
    buckets.
  \<^item> \<open>Capacity\<close>, \<open>Deployment\<close>, \<open>Statistics\<close> (\<^verbatim>\<open>services/storage_capacity.py\<close>, \<^verbatim>\<open>services/query_deployment/topology_factory.py\<close>,
    \<^verbatim>\<open>services/information.py\<close>, \<^verbatim>\<open>common/certificate.py\<close>, \<^verbatim>\<open>services/stats.py\<close> and their controllers): capacity of the
    cluster and usage of S3 users, the deployment topology and its queries, requests for statistics.
  \<^item> \<open>Activities\<close>, \<open>Versions\<close> (\<^verbatim>\<open>services/activities.py\<close>, \<^verbatim>\<open>services/information.py\<close> and their controllers): the guards in front of
    the activity tracker, and the check of version compatibility.
  \<^item> \<open>Uploads\<close> (\<^verbatim>\<open>services/file_transfer.py\<close>, multipart requests of \<^verbatim>\<open>controllers/view.py\<close>): the cache of uploaded files
    over a file system with faults, and the parsing of the parts of a request.
  \<^item> \<open>Cli\<close>, \<open>Cli_Agent\<close> (\<^verbatim>\<open>csm/cli/csm_client.py\<close>, \<^verbatim>\<open>csm/cli/cortxcli.py\<close>): the REST client, the interactive shell with its
    loop and its exits, and the two composed with middlewares, login and sessions of the agent.
  \<^item> \<open>Client\<close>, \<open>Broadcast\<close> (\<^verbatim>\<open>experiments/aio-py/client/client.js\<close>, \<^verbatim>\<open>experiments/aio-py/aio_py.py\<close>): the
    browser client as a state machine, the web socket server, and the two together.

  \<^bold>\<open>How state and effects correspond.\<close> Each manager's attributes are a record; each method is one
  definition that takes the state and returns a result and the new state. An exception is a value of
  \<open>exn\<close> and keeps the state changes made before it. Time and random choices (\<open>now\<close>, session ids, salts)
  are arguments. Code of a request runs without interruption unless a theorem is about concurrency:
  \<open>delete_user\<close> is split at its \<open>await\<close> for the race, the throttler, the pages and the sockets are
  step relations whose steps interleave in any order.

  \<^bold>\<open>Interfaces.\<close> A \<open>locale\<close> states what a client relies on: \<open>permission_algebra\<close> (two implementations of
  union), \<open>session_store\<close> and \<open>reliable_session_store\<close> (in-memory backend; the database backend through
  \<open>session_provider\<close>), \<open>refreshing_store\<close>, \<open>user_provider\<close>, \<open>message_bus\<close>, \<open>marshmallow\<close>,
  \<open>arguments_validator\<close>, \<open>activity_tracker\<close>, \<open>shell_world\<close> (what the shell talks to, interpreted on the agent). All are interpreted on the model's
  definitions.

  \<^bold>\<open>Parameters.\<close> The code outside the repository is an argument, with what the theorems need of it as
  hypotheses: the database provider of \<^verbatim>\<open>cortx.utils\<close> (records \<open>session_db\<close>, \<open>user_db\<close>), \<open>bcrypt\<close>
  (\<open>crypto\<close>), \<open>aiohttp\<close> routing, the configuration store and marshmallow's loading (\<open>api_env\<close>), the
  Unicode character classes (\<open>unicode\<close>), the Swagger bundle (\<open>swagger_globals\<close>), the message bus (\<open>bus_lib\<close>), the network (\<open>broken\<close>),
  the health module of HA (\<open>ha\<close>), the S3 client (\<open>rgw_client\<close>), the loading of schemas (\<open>se_load\<close>), the HTTP client of the capacity service
  (\<open>capacity_http\<close>), configuration and X.509 certificates (\<open>topology_env\<close>), the validator of Consul, the
  provider of statistics (\<open>stats_provider\<close>), the package \<open>ha\<close> (\<open>ha_lib\<close>), the activity
  tracker (\<open>activity_lib\<close>), the comparison of versions (\<open>version_lib\<close>), the operating system (\<open>os_env\<close>), and what the shell
  gets from \<open>aiohttp\<close> and \<^verbatim>\<open>cortx.utils\<close> (\<open>cli_env\<close>).

  \<^bold>\<open>Bounds and fuel.\<close> Most loops are structural recursion. The retry loops count the attempts left. The
  stack of the flattening ends by the weight of the values on it, the dotted keys by their length. The search for an
  endpoint in the configuration is a partial function, with a theorem that says when it returns. The loop of the shell runs over what the user does at the prompt. The rounds of endless background loops are counted by an argument, and the theorems hold for
  every number of rounds or give a sufficient one. The wait of the shutdown may run forever: it is a
  partial function, and its theorem says exactly when it returns. The browser's strings are 16-bit
  words; Python's integers are \<open>int\<close>.

  \<^bold>\<open>What is shown.\<close> Invariants over all operation sequences (session quota and exact statistics, the last
  admin, user quota, throttling, the chat, the files of an upload, the progress
  of activities), safety (login, access control, escalation, account
  creation, cluster shutdown, the privileged S3 user, secret keys, the end of a shell's session), liveness (expired sessions, pushed alerts),
  termination (shutdown, requests to the gateway), type safety of the role manager, refinement (permission sets as
  sets, the page as a connection, payloads as environments of paths), equivalence (IPv4 pattern and dotted quad,
  the stack of the flattening and the preorder traversal), round trips (stored sessions, uploaded files, the token from the login service to the client), the outcome
  of single operations on every branch (pages of health, node operations, topology, metrics, errors of the gateway), and,
  where the code does not do what it means to, that it does not.

  \<^bold>\<open>Not modelled.\<close> Logging; TLS, signals and the creation of the server; documents in files; the older HA framework
  around the command \<^verbatim>\<open>pcs\<close> and the scheduled shutdown through \<^verbatim>\<open>cron\<close>, which run external commands;
  the time series provider of the statistics (\<^verbatim>\<open>csm/common/timeseries.py\<close>), which aggregates in floating point,
  and the metrics passed through the message bus; the conversion of units of the capacity service, which has no
  caller; the example view of file transfer, which is not registered; the setup scripts, which run external
  commands; everything under \<^verbatim>\<open>archive\<close>, which is not part of the program any more; and the vendored minified
  Swagger bundles.
\<close>

end
